(* ===== verification/Prelude.thy ===== *)
theory Prelude
  imports "HOL-Library.Word" "HOL-Library.AList"
begin

text \<open>
  Shared ground of the development: Rust's results and panics as values
  (\<open>outcome\<close>), code that also reads and writes a surrounding world (\<open>eff\<close>),
  pointer-width arithmetic and slicing with the checks Rust makes, little-endian
  byte strings, UTF-8 validity, and hash maps as association lists. The theories of
  the components rest on the lemmas proved here.
\<close>

unbundle bit_operations_syntax

section \<open>Bytes and errors\<close>

type_synonym byte = "8 word"
type_synonym bytes = "byte list"

text \<open>
  A Rust \<open>String\<close> is a byte vector that is valid UTF-8; the model keeps the bytes and
  states validity (\<open>utf8_valid\<close>) where a theorem needs it. \<open>str_lit\<close> gives the
  bytes of an ASCII literal.
\<close>

type_synonym rstring = bytes

definition str_lit :: "string \<Rightarrow> rstring" where
  "str_lit s = map of_char s"

text \<open>
  The errors the code builds. \<open>anyhow::Error\<close> carries a message; each constructor
  below is one place (or one format string) of the source that produces one.
\<close>

datatype werror =
    BufferSizeMismatch nat nat
  | ExceedsPlatformUsize nat
  | ExceedsPlatformIsize int
  | Expected8Bytes nat
  | FromUtf8Error
  | TryFromSliceError
  | InvalidBool byte
  | InvalidResultDiscriminant byte
  | InvalidOptionDiscriminant byte
  | UnexpectedEndOfData nat nat
  | FieldLengthExceedsUsize
  | NotFullyConsumed nat nat
  | PayloadNotFullyConsumed nat nat
  | UnitStructNotEmpty nat
  | UnitVariantNotEmpty nat
  | UnknownVariant rstring
  | UninhabitedEnum rstring
  | EncodeError
  | DecodeError
  | JsonError
  | ChannelClosed
  | SendError
  | RecvError
  | TimeoutElapsed
  | SinkError
  | UnexpectedEof
  | IoError
  | SpawnError
  | AnyhowMsg rstring

datatype panic =
    ArithmeticOverflow
  | SliceOutOfRange
  | CapacityOverflow
  | AllocFailure
  | UnwrapNone
  | UnwrapErr
  | AssertFailed
  | NotYetImplemented

text \<open>What a Rust expression of type \<open>Result<T, anyhow::Error>\<close> does: return, fail or panic.\<close>

datatype 'a outcome = Ok 'a | Err werror | Panic panic

text \<open>The operator \<open>?\<close>: go on with the value, or leave with the error or the panic.\<close>

definition and_then :: "'a outcome \<Rightarrow> ('a \<Rightarrow> 'b outcome) \<Rightarrow> 'b outcome" where
  "and_then r f = (case r of Ok a \<Rightarrow> f a | Err e \<Rightarrow> Err e | Panic p \<Rightarrow> Panic p)"

lemma and_then_simps [simp]:
  "and_then (Ok a) f = f a"
  "and_then (Err e) f = Err e"
  "and_then (Panic p) f = Panic p"
  by (simp_all add: and_then_def)

lemma and_then_eq_Ok: "and_then r f = Ok b \<longleftrightarrow> (\<exists>a. r = Ok a \<and> f a = Ok b)"
  by (cases r) auto

lemma and_then_eq_Panic:
  "and_then r f = Panic p \<longleftrightarrow> r = Panic p \<or> (\<exists>a. r = Ok a \<and> f a = Panic p)"
  by (cases r) auto

definition is_ok :: "'a outcome \<Rightarrow> bool" where
  "is_ok r = (case r of Ok _ \<Rightarrow> True | _ \<Rightarrow> False)"

lemma is_ok_simps [simp]: "is_ok (Ok a)" "\<not> is_ok (Err e)" "\<not> is_ok (Panic p)"
  by (simp_all add: is_ok_def)

section \<open>Code that runs in a world\<close>

text \<open>
  An \<open>async fn\<close> of the serialization layer may talk to the portal through its context
  (publishing an actor, spawning a proxy), so it is a function from the world it starts in
  to its outcome and the world it leaves.
\<close>

type_synonym ('s, 'a) eff = "'s \<Rightarrow> 'a outcome \<times> 's"

definition ret :: "'a \<Rightarrow> ('s, 'a) eff" where
  "ret a = (\<lambda>s. (Ok a, s))"

definition throw :: "werror \<Rightarrow> ('s, 'a) eff" where
  "throw e = (\<lambda>s. (Err e, s))"

definition lift :: "'a outcome \<Rightarrow> ('s, 'a) eff" where
  "lift r = (\<lambda>s. (r, s))"

definition seq :: "('s, 'a) eff \<Rightarrow> ('a \<Rightarrow> ('s, 'b) eff) \<Rightarrow> ('s, 'b) eff" where
  "seq m f = (\<lambda>s. case m s of
       (Ok a, s') \<Rightarrow> f a s' | (Err e, s') \<Rightarrow> (Err e, s') | (Panic p, s') \<Rightarrow> (Panic p, s'))"

lemma ret_apply [simp]: "ret a s = (Ok a, s)"
  by (simp add: ret_def)

lemma throw_apply [simp]: "throw e s = (Err e, s)"
  by (simp add: throw_def)

lemma lift_apply [simp]: "lift r s = (r, s)"
  by (simp add: lift_def)

lemma seq_ret [simp]: "seq (ret a) f = f a"
  by (simp add: seq_def fun_eq_iff)

lemma seq_throw [simp]: "seq (throw e) f = throw e"
  by (simp add: seq_def fun_eq_iff)

lemma seq_lift_simps [simp]:
  "seq (lift (Ok a)) f = f a"
  "seq (lift (Err e)) f = throw e"
  "seq (lift (Panic p)) f = lift (Panic p)"
  by (simp_all add: seq_def fun_eq_iff)

text \<open>The simplifier turns \<open>ret\<close>, \<open>throw\<close> and \<open>lift\<close> into \<open>Pair\<close>; so does \<open>seq\<close> after them.\<close>

lemma seq_Pair [simp]:
  "seq (Pair (Ok a)) f = f a"
  "seq (Pair (Err e)) f = Pair (Err e)"
  "seq (Pair (Panic p)) f = Pair (Panic p)"
  by (simp_all add: seq_def fun_eq_iff)

lemma seq_seq: "seq (seq m f) g = seq m (\<lambda>a. seq (f a) g)"
  by (simp add: seq_def fun_eq_iff split: prod.splits outcome.splits)

lemma seq_eq_Ok:
  "seq m f s = (Ok b, s'') \<longleftrightarrow> (\<exists>a s'. m s = (Ok a, s') \<and> f a s' = (Ok b, s''))"
  by (auto simp: seq_def split: prod.splits outcome.splits)

lemma seq_OkD: "m s = (Ok a, s') \<Longrightarrow> seq m f s = f a s'"
  by (simp add: seq_def)

lemma seq_ErrD: "m s = (Err e, s') \<Longrightarrow> seq m f s = (Err e, s')"
  by (simp add: seq_def)

lemma seq_PanicD: "m s = (Panic p, s') \<Longrightarrow> seq m f s = (Panic p, s')"
  by (simp add: seq_def)

text \<open>\<open>wp m Q s\<close>: run from \<open>s\<close>, the code returns a value, and \<open>Q\<close> holds of it.\<close>

definition wp :: "('s, 'a) eff \<Rightarrow> ('a \<Rightarrow> 's \<Rightarrow> bool) \<Rightarrow> 's \<Rightarrow> bool" where
  "wp m Q s = (case m s of (Ok a, s') \<Rightarrow> Q a s' | _ \<Rightarrow> False)"

lemma wp_ret [simp]: "wp (ret a) Q s = Q a s"
  by (simp add: wp_def)

lemma wp_seq [simp]: "wp (seq m f) Q s = wp m (\<lambda>a. wp (f a) Q) s"
  by (auto simp: wp_def seq_def split: prod.splits outcome.splits)

lemma wp_lift_Ok [simp]: "wp (lift (Ok a)) Q s = Q a s"
  by (simp add: wp_def)

lemma wp_Pair [simp]: "wp (Pair (Ok a)) Q s = Q a s"
  by (simp add: wp_def)

lemma wp_iff: "wp m Q s \<longleftrightarrow> (\<exists>a s'. m s = (Ok a, s') \<and> Q a s')"
  by (auto simp: wp_def split: prod.splits outcome.splits)

text \<open>
  \<open>keeps I le m\<close>: from a world that satisfies \<open>I\<close>, \<open>m\<close> leads to one that
  does too and that is not behind it in the order \<open>le\<close>, whatever the outcome.
\<close>

definition world_order :: "('s \<Rightarrow> 's \<Rightarrow> bool) \<Rightarrow> bool" where
  "world_order le \<longleftrightarrow> (\<forall>s. le s s) \<and> (\<forall>s t u. le s t \<longrightarrow> le t u \<longrightarrow> le s u)"

definition keeps :: "('s \<Rightarrow> bool) \<Rightarrow> ('s \<Rightarrow> 's \<Rightarrow> bool) \<Rightarrow> ('s, 'a) eff \<Rightarrow> bool" where
  "keeps I le m \<longleftrightarrow> (\<forall>s. I s \<longrightarrow> I (snd (m s)) \<and> le s (snd (m s)))"

lemma keepsD: "keeps I le m \<Longrightarrow> I s \<Longrightarrow> m s = (r, s') \<Longrightarrow> I s' \<and> le s s'"
  unfolding keeps_def by (metis snd_conv)

lemma keeps_ret [intro!]: "world_order le \<Longrightarrow> keeps I le (ret a)"
  by (simp add: keeps_def world_order_def)

lemma keeps_throw [intro!]: "world_order le \<Longrightarrow> keeps I le (throw e)"
  by (simp add: keeps_def world_order_def)

lemma keeps_lift [intro!]: "world_order le \<Longrightarrow> keeps I le (lift r)"
  by (simp add: keeps_def world_order_def)

lemma keeps_seq [intro!]:
  assumes le: "world_order le" and m: "keeps I le m" and f: "\<And>a. keeps I le (f a)"
  shows "keeps I le (seq m f)"
  unfolding keeps_def
proof (intro allI impI)
  fix s assume s: "I s"
  obtain q s1 where ms: "m s = (q, s1)" by (cases "m s")
  have 1: "I s1" "le s s1" using keepsD [OF m s ms] by auto
  show "I (snd (seq m f s)) \<and> le s (snd (seq m f s))"
  proof (cases q)
    case (Ok a)
    have "I (snd (f a s1)) \<and> le s1 (snd (f a s1))" using f [of a] 1(1) by (simp add: keeps_def)
    with 1 le show ?thesis by (auto simp: seq_def ms Ok world_order_def)
  qed (use ms 1 in \<open>simp_all add: seq_def\<close>)
qed

lemma keeps_case_prod [intro!]: "keeps I le (f (fst p) (snd p)) \<Longrightarrow> keeps I le (case p of (a, b) \<Rightarrow> f a b)"
  by (simp add: case_prod_beta)

section \<open>Pointer-width integers and slices\<close>

text \<open>
  The platform the code is compiled for: the width of \<open>usize\<close>, whether arithmetic is
  overflow-checked (debug builds) or wraps (release builds), and the largest allocation the
  allocator grants before it aborts the process.
\<close>

record platform =
  usize_bits :: nat
  overflow_checks :: bool
  alloc_limit :: nat

text \<open>
  The source supports pointers of at most 64 bits (its \<open>const_assert!\<close>), and Rust has no
  target with fewer than 16.
\<close>

definition wf_platform :: "platform \<Rightarrow> bool" where
  "wf_platform P \<longleftrightarrow> 16 \<le> usize_bits P \<and> usize_bits P \<le> 64"

definition usize_max :: "platform \<Rightarrow> nat" where
  "usize_max P = 2 ^ usize_bits P - 1"

definition isize_max :: "platform \<Rightarrow> nat" where
  "isize_max P = 2 ^ (usize_bits P - 1) - 1"

text \<open>No Rust allocation or slice is longer than \<open>isize::MAX\<close> bytes.\<close>

definition fits :: "platform \<Rightarrow> 'a list \<Rightarrow> bool" where
  "fits P xs \<longleftrightarrow> length xs \<le> isize_max P"

definition usize_add :: "platform \<Rightarrow> nat \<Rightarrow> nat \<Rightarrow> nat outcome" where
  "usize_add P a b =
     (if a + b \<le> usize_max P then Ok (a + b)
      else if overflow_checks P then Panic ArithmeticOverflow
      else Ok ((a + b) mod 2 ^ usize_bits P))"

definition usize_mul :: "platform \<Rightarrow> nat \<Rightarrow> nat \<Rightarrow> nat outcome" where
  "usize_mul P a b =
     (if a * b \<le> usize_max P then Ok (a * b)
      else if overflow_checks P then Panic ArithmeticOverflow
      else Ok ((a * b) mod 2 ^ usize_bits P))"

text \<open>The cast \<open>as usize\<close> of an unsigned integer keeps its low bits.\<close>

definition as_usize :: "platform \<Rightarrow> nat \<Rightarrow> nat" where
  "as_usize P v = v mod 2 ^ usize_bits P"

text \<open>\<open>Vec::<T>::with_capacity(n)\<close> for an element type of \<open>size_of::<T>() = sz\<close> bytes.\<close>

definition with_capacity :: "platform \<Rightarrow> nat \<Rightarrow> nat \<Rightarrow> unit outcome" where
  "with_capacity P sz n =
     (if n * sz > isize_max P then Panic CapacityOverflow
      else if n * sz > alloc_limit P then Panic AllocFailure
      else Ok ())"

text \<open>The slice expression \<open>&data[a..b]\<close>.\<close>

definition subslice :: "'a list \<Rightarrow> nat \<Rightarrow> nat \<Rightarrow> 'a list outcome" where
  "subslice data a b =
     (if a \<le> b \<and> b \<le> length data then Ok (take (b - a) (drop a data))
      else Panic SliceOutOfRange)"

lemma usize_max_bound: "wf_platform P \<Longrightarrow> usize_max P < 2 ^ 64"
proof -
  assume "wf_platform P"
  then have "(2::nat) ^ usize_bits P \<le> 2 ^ 64"
    unfolding wf_platform_def by (intro power_increasing) auto
  moreover have "(0::nat) < 2 ^ usize_bits P" by simp
  ultimately show ?thesis unfolding usize_max_def by linarith
qed

lemma isize_le_usize: "wf_platform P \<Longrightarrow> isize_max P + isize_max P + 1 = usize_max P"
proof -
  assume "wf_platform P"
  then obtain n where n: "usize_bits P = Suc n"
    unfolding wf_platform_def by (cases "usize_bits P") auto
  have "(1::nat) \<le> 2 ^ n" by simp
  moreover have "(2::nat) ^ Suc n = 2 ^ n + 2 ^ n" by simp
  ultimately show ?thesis
    unfolding isize_max_def usize_max_def n diff_Suc_1 by linarith
qed

lemma usize_add_Ok [simp]: "a + b \<le> usize_max P \<Longrightarrow> usize_add P a b = Ok (a + b)"
  by (simp add: usize_add_def)

lemma fits_usize: "wf_platform P \<Longrightarrow> fits P xs \<Longrightarrow> length xs \<le> usize_max P"
  using isize_le_usize unfolding fits_def by fastforce

lemma fits_u64: "wf_platform P \<Longrightarrow> fits P xs \<Longrightarrow> length xs < 2 ^ 64"
  using fits_usize usize_max_bound le_less_trans by blast

lemma isize_max_ge: "wf_platform P \<Longrightarrow> 32767 \<le> isize_max P"
proof -
  assume "wf_platform P"
  then have "(2::nat) ^ 15 \<le> 2 ^ (usize_bits P - 1)"
    unfolding wf_platform_def by (intro power_increasing) auto
  then show ?thesis unfolding isize_max_def by simp
qed

text \<open>Two common targets: 64 bits, release build; 32 bits, debug build.\<close>

definition host64 :: platform where
  "host64 = \<lparr>usize_bits = 64, overflow_checks = False, alloc_limit = 2 ^ 40\<rparr>"

definition host32 :: platform where
  "host32 = \<lparr>usize_bits = 32, overflow_checks = True, alloc_limit = 2 ^ 30\<rparr>"

lemma wf_host64 [simp, intro]: "wf_platform host64"
  by (simp add: wf_platform_def host64_def)

lemma wf_host32 [simp, intro]: "wf_platform host32"
  by (simp add: wf_platform_def host32_def)

lemma fits_host64: "length xs < 2 ^ 63 \<Longrightarrow> fits host64 xs"
  by (simp add: fits_def isize_max_def host64_def)

lemma fits_host32: "length xs < 2 ^ 31 \<Longrightarrow> fits host32 xs"
  by (simp add: fits_def isize_max_def host32_def)

lemma slice_mid [simp]:
  "a = length pre \<Longrightarrow> b = length pre + length mid \<Longrightarrow> subslice (pre @ mid @ post) a b = Ok mid"
  by (simp add: subslice_def)

lemma slice_OkD: "subslice data a b = Ok xs \<Longrightarrow> a \<le> b \<and> b \<le> length data \<and> length xs = b - a"
  by (auto simp: subslice_def split: if_splits)

section \<open>Little-endian bytes\<close>

fun le_bytes :: "nat \<Rightarrow> nat \<Rightarrow> bytes" where
  "le_bytes 0 v = []"
| "le_bytes (Suc n) v = of_nat v # le_bytes n (v div 256)"

fun le_value :: "bytes \<Rightarrow> nat" where
  "le_value [] = 0"
| "le_value (b # bs) = unat b + 256 * le_value bs"

lemma length_le_bytes [simp]: "length (le_bytes n v) = n"
  by (induction n arbitrary: v) auto

lemma unat_of_nat_byte: "unat (of_nat v :: byte) = v mod 256"
  by (simp add: unat_of_nat)

lemma le_value_le_bytes: "v < 256 ^ n \<Longrightarrow> le_value (le_bytes n v) = v"
proof (induction n arbitrary: v)
  case 0
  then show ?case by simp
next
  case (Suc n)
  from Suc.prems have "v div 256 < 256 ^ n"
    by (simp add: less_mult_imp_div_less mult.commute)
  then have "le_value (le_bytes n (v div 256)) = v div 256"
    by (rule Suc.IH)
  then show ?case by (simp add: unat_of_nat_byte)
qed

lemma le_value_bound: "le_value bs < 256 ^ length bs"
proof (induction bs)
  case Nil
  then show ?case by simp
next
  case (Cons b bs)
  have "unat b < 256" using unsigned_less [of b] by simp
  moreover from Cons.IH have "Suc (le_value bs) \<le> 256 ^ length bs" by simp
  then have "256 * Suc (le_value bs) \<le> 256 * 256 ^ length bs" by (rule mult_le_mono2)
  ultimately show ?case by simp
qed

lemma le_bytes_le_value: "le_bytes (length bs) (le_value bs) = bs"
proof (induction bs)
  case Nil
  then show ?case by simp
next
  case (Cons b bs)
  have b: "unat b < 256" using unsigned_less [of b] by simp
  have "of_nat (unat b + 256 * le_value bs) = b"
  proof -
    have "(of_nat (unat b + 256 * le_value bs) :: byte) = b + 256 * of_nat (le_value bs)"
      by simp
    also have "(256 :: byte) = 0" by simp
    finally show ?thesis by simp
  qed
  with Cons.IH b show ?case by simp
qed

text \<open>\<open>to_le_bytes\<close> and \<open>from_le_bytes\<close> of an integer type whose width is a multiple of 8.\<close>

definition to_le_bytes :: "'n::len word \<Rightarrow> bytes" where
  "to_le_bytes w = le_bytes (LENGTH('n) div 8) (unat w)"

definition from_le_bytes :: "bytes \<Rightarrow> 'n::len word" where
  "from_le_bytes bs = of_nat (le_value bs)"

lemma length_to_le_bytes [simp]: "length (to_le_bytes (w :: 'n::len word)) = LENGTH('n) div 8"
  by (simp add: to_le_bytes_def)

lemma from_to_le_bytes:
  assumes "8 dvd LENGTH('n::len)"
  shows "from_le_bytes (to_le_bytes (w :: 'n word)) = w"
proof -
  have "(256::nat) ^ (LENGTH('n) div 8) = 2 ^ (8 * (LENGTH('n) div 8))"
    by (simp add: power_mult)
  also have "8 * (LENGTH('n) div 8) = LENGTH('n)" using assms by simp
  finally have "unat w < 256 ^ (LENGTH('n) div 8)" using unsigned_less [of w] by simp
  then show ?thesis
    by (simp add: from_le_bytes_def to_le_bytes_def le_value_le_bytes)
qed

lemma to_from_le_bytes:
  assumes "8 dvd LENGTH('n::len)" and "length bs = LENGTH('n) div 8"
  shows "to_le_bytes (from_le_bytes bs :: 'n word) = bs"
proof -
  have "(256::nat) ^ length bs = 2 ^ (8 * (LENGTH('n) div 8))"
    using assms(2) by (simp add: power_mult)
  also have "8 * (LENGTH('n) div 8) = LENGTH('n)" using assms(1) by simp
  finally have "le_value bs < 2 ^ LENGTH('n)" using le_value_bound [of bs] by simp
  then have "unat (from_le_bytes bs :: 'n word) = le_value bs"
    by (simp add: from_le_bytes_def unat_of_nat)
  then show ?thesis
    using le_bytes_le_value [of bs] assms(2) by (simp add: to_le_bytes_def)
qed

text \<open>The length prefix every dynamically sized value carries: \<open>(n as u64).to_le_bytes()\<close>.\<close>

definition len_u64 :: "'a list \<Rightarrow> bytes" where
  "len_u64 xs = to_le_bytes (of_nat (length xs) :: 64 word)"

lemma length_len_u64 [simp]: "length (len_u64 xs) = 8"
  by (simp add: len_u64_def)

lemma le_value_len_u64: "length xs < 2 ^ 64 \<Longrightarrow> le_value (len_u64 xs) = length xs"
proof -
  assume "length xs < 2 ^ 64"
  then have "unat (of_nat (length xs) :: 64 word) = length xs"
    by (simp add: unat_of_nat)
  with \<open>length xs < 2 ^ 64\<close> show ?thesis
    by (simp add: len_u64_def to_le_bytes_def le_value_le_bytes)
qed

section \<open>UTF-8\<close>

definition is_cont :: "byte \<Rightarrow> bool" where
  "is_cont b \<longleftrightarrow> 0x80 \<le> b \<and> b \<le> 0xBF"

text \<open>Well-formed UTF-8 as \<open>core::str::from_utf8\<close> checks it (Unicode, table 3-7).\<close>

fun utf8_valid :: "bytes \<Rightarrow> bool" where
  "utf8_valid [] = True"
| "utf8_valid (b # bs) =
     (if b < 0x80 then utf8_valid bs
      else if 0xC2 \<le> b \<and> b \<le> 0xDF then
        (case bs of c # cs \<Rightarrow> is_cont c \<and> utf8_valid cs | _ \<Rightarrow> False)
      else if 0xE0 \<le> b \<and> b \<le> 0xEF then
        (case bs of c # d # cs \<Rightarrow>
            (if b = 0xE0 then 0xA0 \<le> c \<and> c \<le> 0xBF
             else if b = 0xED then 0x80 \<le> c \<and> c \<le> 0x9F
             else is_cont c) \<and> is_cont d \<and> utf8_valid cs
         | _ \<Rightarrow> False)
      else if 0xF0 \<le> b \<and> b \<le> 0xF4 then
        (case bs of c # d # e # cs \<Rightarrow>
            (if b = 0xF0 then 0x90 \<le> c \<and> c \<le> 0xBF
             else if b = 0xF4 then 0x80 \<le> c \<and> c \<le> 0x8F
             else is_cont c) \<and> is_cont d \<and> is_cont e \<and> utf8_valid cs
         | _ \<Rightarrow> False)
      else False)"

text \<open>\<open>String::from_utf8\<close>.\<close>

definition from_utf8 :: "bytes \<Rightarrow> rstring outcome" where
  "from_utf8 bs = (if utf8_valid bs then Ok bs else Err FromUtf8Error)"

section \<open>Hash maps\<close>

text \<open>
  A \<open>HashMap\<close> is an association list with distinct keys (\<open>hm_ok\<close>), in the order its
  iterator would visit it; the operations are those of the source.
\<close>

type_synonym ('k, 'v) hmap = "('k \<times> 'v) list"

definition hm_ok :: "('k, 'v) hmap \<Rightarrow> bool" where
  "hm_ok m \<longleftrightarrow> distinct (map fst m)"

definition hm_insert :: "'k \<Rightarrow> 'v \<Rightarrow> ('k, 'v) hmap \<Rightarrow> ('k, 'v) hmap" where
  "hm_insert k v m = AList.update k v m"

definition hm_get :: "('k, 'v) hmap \<Rightarrow> 'k \<Rightarrow> 'v option" where
  "hm_get m k = map_of m k"

definition hm_remove :: "'k \<Rightarrow> ('k, 'v) hmap \<Rightarrow> ('k, 'v) hmap" where
  "hm_remove k m = AList.delete k m"

lemma hm_ok_Nil [simp]: "hm_ok []"
  by (simp add: hm_ok_def)

lemma hm_ok_insert [simp]: "hm_ok m \<Longrightarrow> hm_ok (hm_insert k v m)"
  by (simp add: hm_ok_def hm_insert_def AList.distinct_update)

lemma hm_ok_remove [simp]: "hm_ok m \<Longrightarrow> hm_ok (hm_remove k m)"
  by (simp add: hm_ok_def hm_remove_def AList.distinct_delete)

lemma hm_get_Nil [simp]: "hm_get [] k = None"
  by (simp add: hm_get_def)

lemma hm_get_insert: "hm_get (hm_insert k v m) k' = (if k' = k then Some v else hm_get m k')"
  by (simp add: hm_get_def hm_insert_def AList.update_conv')

lemma hm_get_remove: "hm_get (hm_remove k m) k' = (if k' = k then None else hm_get m k')"
  by (simp add: hm_get_def hm_remove_def AList.delete_conv')

lemma hm_get_Some_in: "hm_get m k = Some v \<Longrightarrow> (k, v) \<in> set m"
  by (simp add: hm_get_def map_of_SomeD)

lemma hm_in_get: "hm_ok m \<Longrightarrow> (k, v) \<in> set m \<Longrightarrow> hm_get m k = Some v"
  by (simp add: hm_get_def hm_ok_def)

lemma hm_get_None_iff: "hm_get m k = None \<longleftrightarrow> k \<notin> fst ` set m"
  by (simp add: hm_get_def map_of_eq_None_iff)

lemma set_hm_insert:
  "hm_ok m \<Longrightarrow> set (hm_insert k v m) = insert (k, v) {x \<in> set m. fst x \<noteq> k}"
  unfolding hm_ok_def hm_insert_def by (induction m) force+

lemma set_hm_remove: "set (hm_remove k m) = {x \<in> set m. fst x \<noteq> k}"
  by (auto simp: hm_remove_def AList.delete_eq)

end
