(* ===== verification/Transmat_Util.thy ===== *)
theory Transmat_Util
  imports Prelude
begin

text \<open>
  \<open>transmaterialization/util.rs\<close>: the checked conversions from wire integers to
  platform integers and the two buffer-size checks every \<open>rematerialize\<close> uses, with
  the facts about each on both outcomes.
\<close>

section \<open>The helpers\<close>

definition u64_to_usize :: "platform \<Rightarrow> 64 word \<Rightarrow> nat outcome" where
  "u64_to_usize P value =
     (if unat value \<le> usize_max P then Ok (unat value)
      else Err (ExceedsPlatformUsize (unat value)))"

definition i64_to_isize :: "platform \<Rightarrow> 64 word \<Rightarrow> int outcome" where
  "i64_to_isize P value =
     (if - int (isize_max P) - 1 \<le> sint value \<and> sint value \<le> int (isize_max P)
      then Ok (sint value)
      else Err (ExceedsPlatformIsize (sint value)))"

definition usize_from_u64_le_bytes :: "platform \<Rightarrow> bytes \<Rightarrow> nat outcome" where
  "usize_from_u64_le_bytes P bs =
     (if length bs \<noteq> 8 then Err (Expected8Bytes (length bs))
      else u64_to_usize P (from_le_bytes bs))"

definition require_buffer_size :: "bytes \<Rightarrow> nat \<Rightarrow> unit outcome" where
  "require_buffer_size buffer sz =
     (if length buffer \<noteq> sz then Err (BufferSizeMismatch sz (length buffer)) else Ok ())"

definition require_min_buffer_size :: "bytes \<Rightarrow> nat \<Rightarrow> unit outcome" where
  "require_min_buffer_size buffer sz =
     (if length buffer < sz then Err (BufferSizeMismatch sz (length buffer)) else Ok ())"

section \<open>What they return\<close>

lemma require_buffer_size_Ok [simp]: "require_buffer_size b n = Ok u \<longleftrightarrow> length b = n"
  by (auto simp: require_buffer_size_def)

lemma require_min_buffer_size_Ok [simp]: "require_min_buffer_size b n = Ok u \<longleftrightarrow> n \<le> length b"
  by (auto simp: require_min_buffer_size_def)

lemma require_buffer_size_noPanic [simp]: "require_buffer_size b n \<noteq> Panic p"
  by (simp add: require_buffer_size_def)

lemma require_min_buffer_size_noPanic [simp]: "require_min_buffer_size b n \<noteq> Panic p"
  by (simp add: require_min_buffer_size_def)

lemma require_sizes_eq [simp]:
  "length b = n \<Longrightarrow> require_buffer_size b n = Ok ()"
  "n \<le> length b \<Longrightarrow> require_min_buffer_size b n = Ok ()"
  by simp_all

lemma unat_from_le_bytes_u64: "length bs = 8 \<Longrightarrow> unat (from_le_bytes bs :: 64 word) = le_value bs"
proof -
  assume l: "length bs = 8"
  have "le_value bs < 256 ^ 8" using le_value_bound [of bs] by (simp only: l)
  then show ?thesis by (simp add: from_le_bytes_def unat_of_nat)
qed

lemma usize_from_u64_le_bytes_eq:
  "usize_from_u64_le_bytes P bs =
     (if length bs \<noteq> 8 then Err (Expected8Bytes (length bs))
      else if le_value bs \<le> usize_max P then Ok (le_value bs)
      else Err (ExceedsPlatformUsize (le_value bs)))"
  by (simp add: usize_from_u64_le_bytes_def u64_to_usize_def unat_from_le_bytes_u64)

lemma usize_from_len_u64:
  assumes "wf_platform P" and "length xs \<le> usize_max P"
  shows "usize_from_u64_le_bytes P (len_u64 xs) = Ok (length xs)"
proof -
  have "length xs < 2 ^ 64" using assms usize_max_bound by (meson le_less_trans)
  with assms show ?thesis by (simp add: usize_from_u64_le_bytes_eq le_value_len_u64)
qed

section \<open>Reading one length-prefixed block\<close>

text \<open>
  The block that \<open>Vec\<close>, every tuple and every derived type repeats for one element:
  check for the 8 length bytes, read them, check for the announced bytes, take them. It
  returns the element's bytes and the offset behind them.
\<close>

definition elem_slice :: "platform \<Rightarrow> bytes \<Rightarrow> nat \<Rightarrow> (bytes \<times> nat) outcome" where
  "elem_slice P data offset =
     and_then (usize_add P offset 8) (\<lambda>hdr_end.
     and_then (require_min_buffer_size data hdr_end) (\<lambda>_.
     and_then (subslice data offset hdr_end) (\<lambda>hdr.
     and_then (usize_from_u64_le_bytes P hdr) (\<lambda>len.
     and_then (usize_add P hdr_end len) (\<lambda>elem_end.
     and_then (require_min_buffer_size data elem_end) (\<lambda>_.
     and_then (subslice data hdr_end elem_end) (\<lambda>elem.
     Ok (elem, elem_end))))))))"

lemma elem_slice_Ok:
  assumes "wf_platform P" and "fits P data" and "offset \<le> length data"
    and "drop offset data = len_u64 b @ b @ post"
  shows "elem_slice P data offset = Ok (b, offset + 8 + length b)"
proof -
  define pre where "pre = take offset data"
  have data: "data = pre @ len_u64 b @ b @ post"
    using assms(4) unfolding pre_def by (metis append_take_drop_id)
  have off: "offset = length pre" using assms(3) by (simp add: pre_def)
  have len: "length data \<le> usize_max P" using assms(1,2) by (rule fits_usize)
  have lb: "length b \<le> usize_max P" using len by (simp add: data)
  have s1: "subslice data offset (offset + 8) = Ok (len_u64 b)"
    unfolding data off by (rule slice_mid) simp_all
  have s2: "subslice data (offset + 8) (offset + 8 + length b) = Ok b"
    using slice_mid [of "offset + 8" "pre @ len_u64 b" "offset + 8 + length b" b post]
    by (simp add: data off)
  show ?thesis
    using len usize_from_len_u64 [OF assms(1) lb] s1 s2
    by (simp add: elem_slice_def data off)
qed

lemma elem_slice_OkD:
  assumes "elem_slice P data offset = Ok (elem, end')"
  shows "offset + 8 \<le> end' \<and> end' \<le> length data \<and> length elem \<le> length data"
proof -
  obtain h len hdr where h: "usize_add P offset 8 = Ok h"
    and hdr: "subslice data offset h = Ok hdr" and len: "usize_from_u64_le_bytes P hdr = Ok len"
    and el: "subslice data h end' = Ok elem"
    using assms by (auto simp: elem_slice_def and_then_eq_Ok)
  from len have "length hdr = 8" by (auto simp: usize_from_u64_le_bytes_eq split: if_splits)
  with slice_OkD [OF hdr] slice_OkD [OF el] show ?thesis by auto
qed

text \<open>
  Where the block panics: exactly when 8 length bytes are present, they name a length the
  platform's \<open>usize\<close> can hold, and adding it to the offset overflows. With overflow
  checks the addition panics; without them the end offset wraps and the subslice is out of range.
\<close>

definition hostile_length :: "platform \<Rightarrow> bytes \<Rightarrow> nat \<Rightarrow> bool" where
  "hostile_length P data offset \<longleftrightarrow>
     offset + 8 \<le> length data \<and>
     le_value (take 8 (drop offset data)) \<le> usize_max P \<and>
     usize_max P < offset + 8 + le_value (take 8 (drop offset data))"

lemma elem_slice_Panic_iff:
  assumes "wf_platform P" and "fits P data" and "offset \<le> length data"
  shows "(\<exists>p. elem_slice P data offset = Panic p) \<longleftrightarrow> hostile_length P data offset"
proof -
  have len: "length data \<le> usize_max P" using assms(1,2) by (rule fits_usize)
  have im: "32767 \<le> isize_max P" using assms(1) by (rule isize_max_ge)
  have iu: "isize_max P + isize_max P + 1 = usize_max P" using assms(1) by (rule isize_le_usize)
  have off8: "offset + 8 \<le> usize_max P"
    using assms(2,3) im iu by (simp add: fits_def)
  show ?thesis
  proof (cases "offset + 8 \<le> length data")
    case False
    with off8 show ?thesis
      by (simp add: elem_slice_def hostile_length_def require_min_buffer_size_def)
  next
    case True
    define n where "n = le_value (take 8 (drop offset data))"
    have hdr: "subslice data offset (offset + 8) = Ok (take 8 (drop offset data))"
      using True by (simp add: subslice_def)
    consider (big) "usize_max P < n" | (over) "n \<le> usize_max P" "usize_max P < offset + 8 + n"
      | (fine) "offset + 8 + n \<le> usize_max P" by linarith
    then show ?thesis
    proof cases
      case big
      with True have "usize_from_u64_le_bytes P (take 8 (drop offset data)) = Err (ExceedsPlatformUsize n)"
        by (simp add: usize_from_u64_le_bytes_eq n_def)
      with big True off8 hdr show ?thesis
        by (simp add: elem_slice_def hostile_length_def n_def)
    next
      case over
      have u: "usize_from_u64_le_bytes P (take 8 (drop offset data)) = Ok n"
        using over True by (simp add: usize_from_u64_le_bytes_eq n_def)
      have pw: "(2::nat) ^ usize_bits P = Suc (usize_max P)" by (simp add: usize_max_def)
      have "(offset + 8 + n) mod 2 ^ usize_bits P = offset + 8 + n - 2 ^ usize_bits P"
        using over off8 pw by (simp add: mod_if)
      then have w: "(offset + 8 + n) mod 2 ^ usize_bits P < offset + 8"
        using over pw by simp
      then have "(offset + 8 + n) mod 2 ^ usize_bits P \<le> length data"
        using True by simp
      with w over u True off8 hdr show ?thesis
        by (simp add: elem_slice_def hostile_length_def n_def usize_add_def subslice_def)
    next
      case fine
      have u: "usize_from_u64_le_bytes P (take 8 (drop offset data)) = Ok n"
        using fine True by (simp add: usize_from_u64_le_bytes_eq n_def)
      have "elem_slice P data offset \<noteq> Panic p" for p
        using fine u True off8 hdr
        by (simp add: elem_slice_def require_min_buffer_size_def subslice_def)
      with fine show ?thesis by (simp add: hostile_length_def n_def)
    qed
  qed
qed

end
