(* ===== verification/Transmat_Contract.thy ===== *)
theory Transmat_Contract
  imports Transmat_Util
begin

text \<open>
  The contract of \<open>ContextTransmaterializable\<close> (\<open>transmaterialization/mod.rs\<close>).
  \<open>immaterialize\<close> runs on the sending side, in a world of type \<open>'s\<close>, and gives
  bytes; \<open>rematerialize\<close> runs on the receiving side, in a world of type \<open>'t\<close>,
  and gives a value that must stand for the one sent. For plain data the two values are
  equal; for an \<open>ActorRef\<close> or a reply port the received value is a proxy, so the
  contract speaks of a relation \<open>rel\<close> between the value sent and the value received
  in the two worlds. The locale \<open>transmat\<close> states the contract once; every
  implementation of the trait is shown to meet it, and what holds of all of them (one
  length-prefixed element, sequences of elements) is proved here from the contract alone.
\<close>

section \<open>The trait's two methods\<close>

type_synonym ('s, 'a) immat = "'a \<Rightarrow> ('s, bytes) eff"
type_synonym ('t, 'b) remat = "bytes \<Rightarrow> ('t, 'b) eff"

text \<open>
  The blocks for one element: its bytes behind their length, and back
  (\<open>elem_slice\<close>, then the element's own \<open>rematerialize\<close>).
\<close>

definition immaterialize_elem :: "('s, 'a) immat \<Rightarrow> ('s, 'a) immat" where
  "immaterialize_elem imm v = seq (imm v) (\<lambda>b. ret (len_u64 b @ b))"

definition rematerialize_elem ::
    "platform \<Rightarrow> ('t, 'b) remat \<Rightarrow> bytes \<Rightarrow> nat \<Rightarrow> ('t, 'b \<times> nat) eff" where
  "rematerialize_elem P rem data offset =
     seq (lift (elem_slice P data offset)) (\<lambda>(elem, elem_end).
     seq (rem elem) (\<lambda>v. ret (v, elem_end)))"

text \<open>Two parts of one buffer, written and read one after the other.\<close>

definition write_then :: "('s, 'a) immat \<Rightarrow> ('s, 'b) immat \<Rightarrow> ('s, 'a \<times> 'b) immat" where
  "write_then w1 w2 = (\<lambda>(a, b). seq (w1 a) (\<lambda>x. seq (w2 b) (\<lambda>y. ret (x @ y))))"

definition read_then ::
    "(bytes \<Rightarrow> nat \<Rightarrow> ('t, 'a \<times> nat) eff) \<Rightarrow> (bytes \<Rightarrow> nat \<Rightarrow> ('t, 'b \<times> nat) eff) \<Rightarrow>
     bytes \<Rightarrow> nat \<Rightarrow> ('t, ('a \<times> 'b) \<times> nat) eff" where
  "read_then r1 r2 data offset =
     seq (r1 data offset) (\<lambda>(a, offset). seq (r2 data offset) (\<lambda>(b, offset). ret ((a, b), offset)))"

text \<open>The end of every reader: all of the buffer must have been consumed.\<close>

definition read_all :: "(bytes \<Rightarrow> nat \<Rightarrow> ('t, 'a \<times> nat) eff) \<Rightarrow> ('t, 'a) remat" where
  "read_all r data =
     seq (r data 0) (\<lambda>(v, offset). seq (lift (require_buffer_size data offset)) (\<lambda>_. ret v))"

section \<open>The contract\<close>

text \<open>
  What the two worlds promise: an invariant each, and an order along which they grow
  (actors stay published, proxies stay registered).
\<close>

locale transmat_world =
  fixes P :: platform
    and sinv :: "'s \<Rightarrow> bool" and sle :: "'s \<Rightarrow> 's \<Rightarrow> bool"
    and tinv :: "'t \<Rightarrow> bool" and tle :: "'t \<Rightarrow> 't \<Rightarrow> bool"
  assumes platform_wf: "wf_platform P"
    and sle_order: "world_order sle" and tle_order: "world_order tle"

text \<open>
  The methods keep the invariants and move along the order whatever they return; a value
  that was immaterialized, in a buffer a slice can hold, is rematerialized to a value that
  stands for it; and standing for a value survives the growth of the worlds.
\<close>

locale transmat = transmat_world +
  fixes imm :: "('s, 'a) immat" and rem :: "('t, 'b) remat"
    and good :: "'a \<Rightarrow> bool" and rel :: "'s \<Rightarrow> 't \<Rightarrow> 'a \<Rightarrow> 'b \<Rightarrow> bool"
  assumes imm_keeps: "keeps sinv sle (imm v)"
    and rem_keeps: "keeps tinv tle (rem bs)"
    and delivers: "sinv s \<Longrightarrow> good v \<Longrightarrow> imm v s = (Ok bs, s') \<Longrightarrow> fits P bs \<Longrightarrow> tinv t \<Longrightarrow>
      wp (rem bs) (\<lambda>w t'. rel s' t' v w) t"
    and rel_mono: "sle s s' \<Longrightarrow> tle t t' \<Longrightarrow> rel s t v w \<Longrightarrow> rel s' t' v w"

text \<open>
  The same contract for a part of a buffer: \<open>wr\<close> writes a run of bytes, and
  \<open>rd\<close>, started where that run begins, reads exactly it.
\<close>

locale layout = transmat_world +
  fixes wr :: "('s, 'a) immat" and rd :: "bytes \<Rightarrow> nat \<Rightarrow> ('t, 'b \<times> nat) eff"
    and good :: "'a \<Rightarrow> bool" and rel :: "'s \<Rightarrow> 't \<Rightarrow> 'a \<Rightarrow> 'b \<Rightarrow> bool"
  assumes wr_keeps: "keeps sinv sle (wr v)"
    and rd_keeps: "keeps tinv tle (rd data n)"
    and reads: "sinv s \<Longrightarrow> good v \<Longrightarrow> wr v s = (Ok bs, s') \<Longrightarrow> fits P data \<Longrightarrow>
      n \<le> length data \<Longrightarrow> drop n data = bs @ post \<Longrightarrow> tinv t \<Longrightarrow>
      wp (rd data n) (\<lambda>(w, n') t'. n' = n + length bs \<and> rel s' t' v w) t"
    and lrel_mono: "sle s s' \<Longrightarrow> tle t t' \<Longrightarrow> rel s t v w \<Longrightarrow> rel s' t' v w"

text \<open>Goodness and representation of a pair, from those of its parts.\<close>

definition good_pair :: "('a \<Rightarrow> bool) \<Rightarrow> ('b \<Rightarrow> bool) \<Rightarrow> 'a \<times> 'b \<Rightarrow> bool" where
  "good_pair g1 g2 v \<longleftrightarrow> g1 (fst v) \<and> g2 (snd v)"

definition rel_pair :: "('s \<Rightarrow> 't \<Rightarrow> 'a \<Rightarrow> 'c \<Rightarrow> bool) \<Rightarrow> ('s \<Rightarrow> 't \<Rightarrow> 'b \<Rightarrow> 'd \<Rightarrow> bool) \<Rightarrow>
    's \<Rightarrow> 't \<Rightarrow> 'a \<times> 'b \<Rightarrow> 'c \<times> 'd \<Rightarrow> bool" where
  "rel_pair R1 R2 s t v w \<longleftrightarrow> R1 s t (fst v) (fst w) \<and> R2 s t (snd v) (snd w)"

lemma good_pair_simp [simp]: "good_pair g1 g2 (a, b) \<longleftrightarrow> g1 a \<and> g2 b"
  by (simp add: good_pair_def)

lemma rel_pair_simp [simp]: "rel_pair R1 R2 s t (a, b) (c, d) \<longleftrightarrow> R1 s t a c \<and> R2 s t b d"
  by (simp add: rel_pair_def)

section \<open>One element\<close>

context transmat
begin

lemma imm_elem_keeps: "keeps sinv sle (immaterialize_elem imm v)"
  unfolding immaterialize_elem_def using sle_order imm_keeps by blast

lemma rem_elem_keeps: "keeps tinv tle (rematerialize_elem P rem data n)"
  unfolding rematerialize_elem_def using tle_order rem_keeps by blast

lemma elem_reads:
  assumes "sinv s" and "good v" and "immaterialize_elem imm v s = (Ok bs, s')"
    and "fits P data" and "n \<le> length data" and "drop n data = bs @ post" and "tinv t"
  shows "wp (rematerialize_elem P rem data n) (\<lambda>(w, n') t'. n' = n + length bs \<and> rel s' t' v w) t"
proof -
  obtain b where b: "imm v s = (Ok b, s')" "bs = len_u64 b @ b"
    using assms(3) by (auto simp: immaterialize_elem_def seq_eq_Ok)
  have "length b \<le> length data"
    using arg_cong [OF assms(6), of length] by (simp add: b)
  with assms(4) have "fits P b" by (simp add: fits_def)
  then have w: "wp (rem b) (\<lambda>w t'. rel s' t' v w) t"
    by (rule delivers [OF assms(1,2) b(1) _ assms(7)])
  have "elem_slice P data n = Ok (b, n + 8 + length b)"
    using assms(4-6) by (intro elem_slice_Ok [OF platform_wf]) (simp_all add: b)
  with w show ?thesis
    by (fastforce simp: rematerialize_elem_def b wp_iff seq_eq_Ok add.assoc)
qed

end

sublocale transmat \<subseteq> elem: layout P sinv sle tinv tle
    "immaterialize_elem imm" "rematerialize_elem P rem" good rel
  by unfold_locales (fact imm_elem_keeps rem_elem_keeps elem_reads rel_mono)+

lemma transmat_elem:
  assumes "transmat P sinv sle tinv tle imm rem g R"
  shows "layout P sinv sle tinv tle (immaterialize_elem imm) (rematerialize_elem P rem) g R"
proof (rule layout.intro)
  show "transmat_world P sle tle" using assms by (rule transmat.axioms(1))
  show "layout_axioms P sinv sle tinv tle (immaterialize_elem imm) (rematerialize_elem P rem) g R"
    by (rule layout_axioms.intro)
      (fact transmat.imm_elem_keeps [OF assms] transmat.rem_elem_keeps [OF assms]
        transmat.elem_reads [OF assms] transmat.rel_mono [OF assms])+
qed

section \<open>Closure under sequencing\<close>

lemma layout_then:
  assumes A: "layout P sinv sle tinv tle w1 r1 g1 R1" and B: "layout P sinv sle tinv tle w2 r2 g2 R2"
  shows "layout P sinv sle tinv tle (write_then w1 w2) (read_then r1 r2)
    (good_pair g1 g2) (rel_pair R1 R2)"
  unfolding good_pair_def [abs_def] rel_pair_def [abs_def]
proof (rule layout.intro)
  show W: "transmat_world P sle tle" using A by (rule layout.axioms(1))
  note so = transmat_world.sle_order [OF W] and to = transmat_world.tle_order [OF W]
  show "layout_axioms P sinv sle tinv tle (write_then w1 w2) (read_then r1 r2)
    (\<lambda>v. g1 (fst v) \<and> g2 (snd v)) (\<lambda>s t v w. R1 s t (fst v) (fst w) \<and> R2 s t (snd v) (snd w))"
  proof (rule layout_axioms.intro)
    show "keeps sinv sle (write_then w1 w2 v)" for v
      unfolding write_then_def using so layout.wr_keeps [OF A] layout.wr_keeps [OF B] by blast
    show "keeps tinv tle (read_then r1 r2 data n)" for data n
      unfolding read_then_def using to layout.rd_keeps [OF A] layout.rd_keeps [OF B] by blast
  next
    fix s v bs s' data n post t
    assume s: "sinv s" and g: "g1 (fst v) \<and> g2 (snd v)" and w: "write_then w1 w2 v s = (Ok bs, s')"
      and f: "fits P data" and n: "n \<le> length data" and d: "drop n data = bs @ post" and t: "tinv t"
    obtain x s1 y where x: "w1 (fst v) s = (Ok x, s1)" and y: "w2 (snd v) s1 = (Ok y, s')"
      and bs: "bs = x @ y"
      using w by (auto simp: write_then_def case_prod_beta seq_eq_Ok)
    have s1: "sinv s1" using keepsD [OF layout.wr_keeps [OF A] s x] by simp
    have s2: "sle s1 s'" using keepsD [OF layout.wr_keeps [OF B] s1 y] by simp
    have dx: "drop n data = x @ (y @ post)" using d bs by simp
    have n': "n + length x \<le> length data" using arg_cong [OF dx, of length] n by simp
    have dy: "drop (n + length x) data = y @ post"
      using dx by (metis add.commute append_eq_conv_conj drop_drop)
    obtain a t1 where a: "r1 data n t = (Ok (a, n + length x), t1)" "R1 s1 t1 (fst v) a"
      using layout.reads [OF A s _ x f n dx t] g by (auto simp: wp_iff)
    have t1: "tinv t1" using keepsD [OF layout.rd_keeps [OF A] t a(1)] by simp
    obtain b t2 where b: "r2 data (n + length x) t1 = (Ok (b, n + length x + length y), t2)"
      "R2 s' t2 (snd v) b"
      using layout.reads [OF B s1 _ y f n' dy t1] g by (auto simp: wp_iff)
    have "tle t1 t2" using keepsD [OF layout.rd_keeps [OF B] t1 b(1)] by simp
    then have "R1 s' t2 (fst v) a" using layout.lrel_mono [OF A s2 _ a(2)] by blast
    with a b show "wp (read_then r1 r2 data n) (\<lambda>(w, n') t'. n' = n + length bs \<and>
        R1 s' t' (fst v) (fst w) \<and> R2 s' t' (snd v) (snd w)) t"
      by (simp add: read_then_def wp_def seq_def bs add.assoc)
  qed (use layout.lrel_mono [OF A] layout.lrel_mono [OF B] in blast)
qed

text \<open>A layout that is the whole buffer is an implementation of the trait.\<close>

lemma layout_whole:
  assumes A: "layout P sinv sle tinv tle wr rd g R"
  shows "transmat P sinv sle tinv tle wr (read_all rd) g R"
proof (rule transmat.intro)
  show W: "transmat_world P sle tle" using A by (rule layout.axioms(1))
  note to = transmat_world.tle_order [OF W]
  show "transmat_axioms P sinv sle tinv tle wr (read_all rd) g R"
  proof (rule transmat_axioms.intro)
    show "keeps tinv tle (read_all rd bs)" for bs
      unfolding read_all_def using to layout.rd_keeps [OF A] by blast
  next
    fix s v bs s' t
    assume h: "sinv s" "g v" "wr v s = (Ok bs, s')" and f: "fits P bs" and t: "tinv t"
    have "wp (rd bs 0) (\<lambda>(w, n') t'. n' = 0 + length bs \<and> R s' t' v w) t"
      using layout.reads [OF A h f, of 0 "[]" t] t by simp
    then show "wp (read_all rd bs) (\<lambda>w t'. R s' t' v w) t"
      by (fastforce simp: read_all_def wp_iff seq_eq_Ok)
  qed (use layout.wr_keeps [OF A] layout.lrel_mono [OF A] in blast)+
qed

text \<open>A reader whose end differs from the end of the buffer is refused.\<close>

lemma read_all_leftover:
  assumes "r data 0 t = (Ok (v, n), t')" and "n \<noteq> length data"
  shows "read_all r data t = (Err (BufferSizeMismatch n (length data)), t')"
  using assms by (simp add: read_all_def seq_def require_buffer_size_def)

lemma read_all_OkD:
  "read_all r data t = (Ok v, t') \<Longrightarrow> r data 0 t = (Ok (v, length data), t')"
  by (auto simp: read_all_def seq_eq_Ok)

end
