(* ===== verification/Transmat_Default.thy ===== *)
theory Transmat_Default
  imports Transmat_Contract
begin

text \<open>
  \<open>transmaterialization/default_implementations.rs\<close>: the implementations of the trait
  for vectors, byte vectors, strings, numbers, \<open>bool\<close>, unit, \<open>Result\<close>,
  \<open>Option\<close> and \<open>anyhow::Error\<close>. (The two for \<open>ActorRef\<close> and
  \<open>RpcReplyPort\<close> delegate to the context and stand with it.) Allocations are modelled
  where their size is computed from a count; growth of a buffer by bytes that exist is not.
\<close>

section \<open>The implementations\<close>

subsection \<open>Vectors: a count, then every element behind its length\<close>

fun immaterialize_vec_loop :: "('s, 'a) immat \<Rightarrow> bytes \<Rightarrow> 'a list \<Rightarrow> ('s, bytes) eff" where
  "immaterialize_vec_loop imm buffer [] = ret buffer"
| "immaterialize_vec_loop imm buffer (element # rest) =
     seq (imm element) (\<lambda>element_bytes.
     immaterialize_vec_loop imm (buffer @ len_u64 element_bytes @ element_bytes) rest)"

definition immaterialize_vec :: "platform \<Rightarrow> ('s, 'a) immat \<Rightarrow> ('s, 'a list) immat" where
  "immaterialize_vec P imm v =
     seq (lift (and_then (usize_mul P (length v) 8) (\<lambda>n.
                and_then (usize_add P 8 n) (\<lambda>capacity.
                with_capacity P 1 capacity)))) (\<lambda>_.
     immaterialize_vec_loop imm (len_u64 v) v)"

function rematerialize_vec_loop ::
    "platform \<Rightarrow> ('t, 'b) remat \<Rightarrow> bytes \<Rightarrow> nat \<Rightarrow> 'b list \<Rightarrow> ('t, 'b list \<times> nat) eff" where
  "rematerialize_vec_loop P rem data offset buffer =
     (if offset < length data then
        (case elem_slice P data offset of
           Err e \<Rightarrow> throw e
         | Panic p \<Rightarrow> lift (Panic p)
         | Ok (element_data, elem_end) \<Rightarrow>
             seq (rem element_data) (\<lambda>v.
             rematerialize_vec_loop P rem data elem_end (buffer @ [v])))
      else ret (buffer, offset))"
  by pat_completeness auto
termination
  by (relation "measure (\<lambda>(P, rem, data, offset, buffer). length data - offset)")
    (auto dest!: elem_slice_OkD)

declare rematerialize_vec_loop.simps [simp del]

text \<open>\<open>sz\<close> is \<open>size_of::<T>()\<close>, the element's size in the receiver's memory.\<close>

definition rematerialize_vec :: "platform \<Rightarrow> nat \<Rightarrow> ('t, 'b) remat \<Rightarrow> ('t, 'b list) remat" where
  "rematerialize_vec P sz rem data =
     seq (lift (require_min_buffer_size data 8)) (\<lambda>_.
     seq (lift (subslice data 0 8)) (\<lambda>header.
     seq (lift (usize_from_u64_le_bytes P header)) (\<lambda>count.
     seq (lift (with_capacity P sz count)) (\<lambda>_.
     seq (rematerialize_vec_loop P rem data 8 []) (\<lambda>(buffer, offset).
     seq (lift (require_buffer_size data offset)) (\<lambda>_.
     ret buffer))))))"

subsection \<open>Byte vectors and strings\<close>

definition immaterialize_vec_u8 :: "('s, bytes) immat" where
  "immaterialize_vec_u8 v = ret (len_u64 v @ v)"

definition rematerialize_vec_u8 :: "platform \<Rightarrow> ('t, bytes) remat" where
  "rematerialize_vec_u8 P data = lift
     (and_then (require_min_buffer_size data 8) (\<lambda>_.
      and_then (subslice data 0 8) (\<lambda>header.
      and_then (usize_from_u64_le_bytes P header) (\<lambda>len.
      and_then (usize_add P 8 len) (\<lambda>total.
      and_then (require_buffer_size data total) (\<lambda>_.
      subslice data 8 total))))))"

definition immaterialize_string :: "('s, rstring) immat" where
  "immaterialize_string v = ret (len_u64 v @ v)"

definition rematerialize_string :: "platform \<Rightarrow> ('t, rstring) remat" where
  "rematerialize_string P data = lift
     (and_then (require_min_buffer_size data 8) (\<lambda>_.
      and_then (subslice data 0 8) (\<lambda>header.
      and_then (usize_from_u64_le_bytes P header) (\<lambda>len.
      and_then (usize_add P 8 len) (\<lambda>total.
      and_then (require_buffer_size data total) (\<lambda>_.
      and_then (subslice data 8 total) (\<lambda>string_data.
      from_utf8 string_data)))))))"

subsection \<open>Numbers\<close>

text \<open>
  Integers of a fixed width and floats are their bits; a signed integer and a float have
  the same bytes as the word with their bits.
\<close>

definition immaterialize_le_bytes :: "('s, 'n::len word) immat" where
  "immaterialize_le_bytes v = ret (to_le_bytes v)"

definition rematerialize_le_bytes :: "('t, 'n::len word) remat" where
  "rematerialize_le_bytes data = lift
     (and_then (require_buffer_size data (LENGTH('n) div 8)) (\<lambda>_.
      and_then (subslice data 0 (LENGTH('n) div 8)) (\<lambda>bs.
      Ok (from_le_bytes bs))))"

definition immaterialize_usize :: "('s, nat) immat" where
  "immaterialize_usize v = ret (to_le_bytes (of_nat v :: 64 word))"

definition rematerialize_usize :: "platform \<Rightarrow> ('t, nat) remat" where
  "rematerialize_usize P data = lift
     (and_then (require_buffer_size data 8) (\<lambda>_.
      and_then (subslice data 0 8) (\<lambda>bs.
      u64_to_usize P (from_le_bytes bs))))"

definition immaterialize_isize :: "('s, int) immat" where
  "immaterialize_isize v = ret (to_le_bytes (of_int v :: 64 word))"

definition rematerialize_isize :: "platform \<Rightarrow> ('t, int) remat" where
  "rematerialize_isize P data = lift
     (and_then (require_buffer_size data 8) (\<lambda>_.
      and_then (subslice data 0 8) (\<lambda>bs.
      i64_to_isize P (from_le_bytes bs))))"

subsection \<open>Booleans and unit\<close>

definition immaterialize_bool :: "('s, bool) immat" where
  "immaterialize_bool v = ret (if v then [1] else [0])"

definition rematerialize_bool :: "('t, bool) remat" where
  "rematerialize_bool data = lift
     (and_then (require_buffer_size data 1) (\<lambda>_.
      let b = data ! 0 in
      if b = 0 then Ok False
      else if b = 1 then Ok True
      else Err (InvalidBool b)))"

definition immaterialize_unit :: "('s, unit) immat" where
  "immaterialize_unit v = ret []"

definition rematerialize_unit :: "('t, unit) remat" where
  "rematerialize_unit data = lift (require_buffer_size data 0)"

subsection \<open>\<open>Result\<close> and \<open>Option\<close>\<close>

datatype ('a, 'e) rust_result = ROk 'a | RErr 'e

fun immaterialize_result ::
    "('s, 'a) immat \<Rightarrow> ('s, 'e) immat \<Rightarrow> ('s, ('a, 'e) rust_result) immat" where
  "immaterialize_result immT immE (ROk val) =
     seq (immT val) (\<lambda>value_bytes. ret ([0] @ len_u64 value_bytes @ value_bytes))"
| "immaterialize_result immT immE (RErr err) =
     seq (immE err) (\<lambda>err_bytes. ret ([1] @ len_u64 err_bytes @ err_bytes))"

text \<open>
  The bytes behind a length at a fixed offset, up to the end of the buffer: here the length
  is cast with \<open>as usize\<close>, not converted with a check.
\<close>

definition inner_slice :: "platform \<Rightarrow> bytes \<Rightarrow> bytes outcome" where
  "inner_slice P data =
     and_then (subslice data 1 9) (\<lambda>header.
     let len = as_usize P (unat (from_le_bytes header :: 64 word)) in
     and_then (usize_add P 9 len) (\<lambda>total.
     and_then (require_min_buffer_size data total) (\<lambda>_.
     and_then (subslice data 9 total) (\<lambda>inner_data.
     and_then (require_buffer_size data total) (\<lambda>_.
     Ok inner_data)))))"

definition rematerialize_result ::
    "platform \<Rightarrow> ('t, 'a) remat \<Rightarrow> ('t, 'e) remat \<Rightarrow> ('t, ('a, 'e) rust_result) remat" where
  "rematerialize_result P remT remE data =
     seq (lift (require_min_buffer_size data 9)) (\<lambda>_.
     let discriminant = data ! 0 in
     seq (lift (inner_slice P data)) (\<lambda>inner_data.
     if discriminant = 0 then seq (remT inner_data) (\<lambda>val. ret (ROk val))
     else if discriminant = 1 then seq (remE inner_data) (\<lambda>err_val. ret (RErr err_val))
     else throw (InvalidResultDiscriminant discriminant)))"

fun immaterialize_option :: "('s, 'a) immat \<Rightarrow> ('s, 'a option) immat" where
  "immaterialize_option imm (Some val) =
     seq (imm val) (\<lambda>value_bytes. ret ([1] @ len_u64 value_bytes @ value_bytes))"
| "immaterialize_option imm None = ret [0]"

definition rematerialize_option :: "platform \<Rightarrow> ('t, 'b) remat \<Rightarrow> ('t, 'b option) remat" where
  "rematerialize_option P rem data =
     seq (lift (require_min_buffer_size data 1)) (\<lambda>_.
     let discriminant = data ! 0 in
     if discriminant = 0 then
       seq (lift (require_buffer_size data 1)) (\<lambda>_. ret None)
     else if discriminant = 1 then
       seq (lift (require_min_buffer_size data 9)) (\<lambda>_.
       seq (lift (inner_slice P data)) (\<lambda>inner_data.
       seq (rem inner_data) (\<lambda>val. ret (Some val))))
     else throw (InvalidOptionDiscriminant discriminant))"

subsection \<open>\<open>anyhow::Error\<close>: its message as a string\<close>

text \<open>\<open>display\<close> stands for the \<open>Display\<close> implementation of the error.\<close>

definition immaterialize_anyhow :: "(werror \<Rightarrow> rstring) \<Rightarrow> ('s, werror) immat" where
  "immaterialize_anyhow display e = immaterialize_string (display e)"

definition rematerialize_anyhow :: "platform \<Rightarrow> ('t, werror) remat" where
  "rematerialize_anyhow P data =
     seq (rematerialize_string P data) (\<lambda>error_message. ret (AnyhowMsg error_message))"

end
