(* ===== verification/Wire.thy ===== *)
theory Wire
  imports Transmat_Default
begin

text \<open>
  The identifiers and the messages two portals exchange (\<open>portal.rs\<close>,
  \<open>nexus.rs\<close>, \<open>conduit/mod.rs\<close>), and their serialization
  (\<open>internal_serializations.rs\<close>). The encoders themselves are the crates
  \<open>bincode\<close> and \<open>serde_json\<close>: they are arguments of the model, and
  \<open>bincode_law\<close> and \<open>json_law\<close> name what the code relies on.
\<close>

section \<open>Identifiers\<close>

datatype local_portal_id = LocalPortalId "128 word"
datatype conduit_id = ConduitID "128 word"
datatype opaque_actor_id = OpaqueActorId "128 word"

text \<open>\<open>RemoteActorId\<close>; the field \<open>id\<close> of the source is \<open>opaque_id\<close> here.\<close>

record remote_actor_id =
  connection_key :: conduit_id
  side :: local_portal_id
  opaque_id :: opaque_actor_id

text \<open>
  A ractor \<open>ActorCell\<close> is known to this code by its \<open>ActorId\<close> alone; a reply port
  (one end of a oneshot channel) by a number.
\<close>

type_synonym actor_id = nat
type_synonym port = nat
type_synonym message_id = "64 word"

section \<open>Messages on the wire\<close>

datatype actor_request_error = ActorNotFound | TransmissionError

definition anyhow_of_request_error :: "actor_request_error \<Rightarrow> werror" where
  "anyhow_of_request_error err = (case err of
       ActorNotFound \<Rightarrow> AnyhowMsg (str_lit ''Actor not found'')
     | TransmissionError \<Rightarrow> AnyhowMsg (str_lit ''Transmission error''))"

datatype cross_portal_message =
    RequestActorByName message_id rstring
  | ResponseActorByName message_id "(remote_actor_id, actor_request_error) rust_result"
  | ResponseActorById message_id "(remote_actor_id, actor_request_error) rust_result"
  | SendMessage remote_actor_id bytes
  | ActorExited remote_actor_id

datatype conduit_message =
    CmHandshake rstring
  | CmContent bytes
  | CmClose "rstring option"

record introduction =
  channel_id_contribution :: bytes
  version :: rstring
  info_text :: rstring
  this_side_id :: local_portal_id

section \<open>Serialization of internal messages\<close>

text \<open>
  \<open>enc\<close> is \<open>bincode::encode_to_vec\<close> and \<open>dec\<close> is
  \<open>bincode::decode_from_slice\<close>, which also returns the number of bytes it read.
\<close>

definition simple_immaterialize :: "('m \<Rightarrow> bytes outcome) \<Rightarrow> 'm \<Rightarrow> bytes outcome" where
  "simple_immaterialize enc m = and_then (enc m) (\<lambda>bs. Ok bs)"

definition simple_rematerialize :: "(bytes \<Rightarrow> ('m \<times> nat) outcome) \<Rightarrow> bytes \<Rightarrow> 'm outcome" where
  "simple_rematerialize dec data =
     and_then (dec data) (\<lambda>(msg, consumed).
     and_then (require_buffer_size data consumed) (\<lambda>_.
     Ok msg))"

text \<open>What is encoded is decoded from the start of a buffer, and the count read is its length.\<close>

definition bincode_law :: "('m \<Rightarrow> bytes outcome) \<Rightarrow> (bytes \<Rightarrow> ('m \<times> nat) outcome) \<Rightarrow> bool" where
  "bincode_law enc dec \<longleftrightarrow>
     (\<forall>m bs rest. enc m = Ok bs \<longrightarrow> dec (bs @ rest) = Ok (m, length bs))"

definition json_law :: "('m \<Rightarrow> rstring outcome) \<Rightarrow> (rstring \<Rightarrow> 'm outcome) \<Rightarrow> bool" where
  "json_law enc dec \<longleftrightarrow> (\<forall>m t. enc m = Ok t \<longrightarrow> dec t = Ok m)"

lemma simple_roundtrip:
  assumes "bincode_law enc dec" and "simple_immaterialize enc m = Ok bs"
  shows "simple_rematerialize dec bs = Ok m"
proof -
  have "enc m = Ok bs" using assms(2) by (auto simp: simple_immaterialize_def and_then_eq_Ok)
  then have "dec (bs @ []) = Ok (m, length bs)"
    using assms(1) unfolding bincode_law_def by blast
  then show ?thesis by (simp add: simple_rematerialize_def)
qed

lemma simple_trailing:
  assumes "bincode_law enc dec" and "simple_immaterialize enc m = Ok bs" and "rest \<noteq> []"
  shows "simple_rematerialize dec (bs @ rest) =
    Err (BufferSizeMismatch (length bs) (length bs + length rest))"
proof -
  have "enc m = Ok bs" using assms(2) by (auto simp: simple_immaterialize_def and_then_eq_Ok)
  then have "dec (bs @ rest) = Ok (m, length bs)"
    using assms(1) unfolding bincode_law_def by blast
  with assms(3) show ?thesis by (simp add: simple_rematerialize_def require_buffer_size_def)
qed

end
