(* ===== verification/Portal.thy ===== *)
theory Portal
  imports Wire
begin

text \<open>
  \<open>portal.rs\<close>: the portal actor. Its state is a record, each arm of \<open>handle\<close> is a
  definition, and \<open>handle\<close> dispatches as the source does. What the portal does to its
  surroundings (messages into the sink, replies, stops, spawned tasks, calls of a stored
  rematerializer) is recorded in order in the field \<open>outs\<close>. What the surroundings
  answer during one call is the argument \<open>env\<close>.

  Type variables: \<open>'rm\<close> a stored rematerializer (\<open>BoxedRematerializer\<close>), \<open>'f\<close>
  a message waiting to be immaterialized (\<open>TransmitMessageF\<close>).
\<close>

section \<open>State and messages\<close>

datatype conduit_state = Opening introduction | Open conduit_id

definition is_open :: "conduit_state \<Rightarrow> bool" where
  "is_open c = (case c of Opening _ \<Rightarrow> False | Open _ \<Rightarrow> True)"

lemma is_open_simps [simp]: "\<not> is_open (Opening i)" "is_open (Open c)"
  by (simp_all add: is_open_def)

datatype reply =
    RUnit
  | RPublished remote_actor_id
  | RNamedPublished "remote_actor_id option"
  | RQuery "(remote_actor_id, werror) rust_result"

datatype ('rm, 'f) portal_output =
    SinkSend conduit_message
  | Reply port reply
  | StopSelf
  | StopActor actor_id
  | SpawnExitWatch actor_id
  | SpawnImmaterialize remote_actor_id 'f
  | Rematerialize 'rm actor_id bytes

record portal_args =
  peer_identifier :: rstring
  local_id :: local_portal_id
  default_rpc_port_timeout :: nat

record ('rm, 'f) portal_state =
  args :: portal_args
  channel_state :: conduit_state
  published_actors :: "(opaque_actor_id, actor_id \<times> 'rm) hmap"
  proxies_for_remote_actors :: "(remote_actor_id, actor_id) hmap"
  named_actors :: "(rstring, opaque_actor_id) hmap"
  next_request_id :: message_id
  open_requests :: "(message_id, port) hmap"
  waiting_for_handshake :: "port list"
  outs :: "('rm, 'f) portal_output list"

datatype ('rm, 'f) portal_message =
    Handshake rstring
  | Content bytes
  | Close
  | ImmaterializeMessage remote_actor_id 'f
  | TransmitMessage remote_actor_id bytes
  | PublishNamedActor rstring actor_id 'rm "port option"
  | PublishActor actor_id 'rm "port option"
  | RegisterProxyForRemoteActor remote_actor_id actor_id
  | QueryNamedRemoteActor rstring port
  | WaitForHandshake port
  | LocalActorExited actor_id

text \<open>
  One call's surroundings: the build, the random UUID drawn, whether the sink takes and
  flushes a message, which reply ports still have a receiver, what running a rematerializer
  returns, what the nexus answers to \<open>QueryNamedActor\<close>, and the two encoders.
\<close>

record 'rm env =
  platform_of :: platform
  fresh_uuid :: "128 word"
  sink_send_ok :: bool
  sink_flush_ok :: bool
  port_open :: "port \<Rightarrow> bool"
  run_rm :: "'rm \<Rightarrow> actor_id \<Rightarrow> bytes \<Rightarrow> unit outcome"
  nexus_query :: "rstring \<Rightarrow> (actor_id \<times> 'rm) option outcome"
  cpm_enc :: "cross_portal_message \<Rightarrow> bytes outcome"
  cpm_dec :: "bytes \<Rightarrow> (cross_portal_message \<times> nat) outcome"
  json_dec :: "rstring \<Rightarrow> introduction outcome"

type_synonym ('rm, 'f, 'a) portal_eff = "(('rm, 'f) portal_state, 'a) eff"

section \<open>Effects\<close>

definition emit :: "('rm, 'f) portal_output \<Rightarrow> ('rm, 'f, unit) portal_eff" where
  "emit x = (\<lambda>st. (Ok (), st\<lparr>outs := outs st @ [x]\<rparr>))"

definition update :: "(('rm, 'f) portal_state \<Rightarrow> ('rm, 'f) portal_state) \<Rightarrow> ('rm, 'f, unit) portal_eff" where
  "update f = (\<lambda>st. (Ok (), f st))"

text \<open>\<open>sender.send(m).await?; sender.flush().await?\<close>\<close>

definition sink_send :: "'rm env \<Rightarrow> conduit_message \<Rightarrow> ('rm, 'f, unit) portal_eff" where
  "sink_send E m =
     (if \<not> sink_send_ok E then throw SinkError
      else seq (emit (SinkSend m)) (\<lambda>_.
           if sink_flush_ok E then ret () else throw SinkError))"

text \<open>\<open>port.send(r)?\<close>: fails when the receiver is gone.\<close>

definition reply_send :: "'rm env \<Rightarrow> port \<Rightarrow> reply \<Rightarrow> ('rm, 'f, unit) portal_eff" where
  "reply_send E p r = (if port_open E p then emit (Reply p r) else throw ChannelClosed)"

text \<open>\<open>let _ = port.send(r)\<close>: a failure is ignored.\<close>

definition reply_ignore :: "'rm env \<Rightarrow> reply \<Rightarrow> port \<Rightarrow> ('rm, 'f) portal_state \<Rightarrow> ('rm, 'f) portal_state" where
  "reply_ignore E r p st = (if port_open E p then st\<lparr>outs := outs st @ [Reply p r]\<rparr> else st)"

definition send_cross_message ::
    "'rm env \<Rightarrow> cross_portal_message \<Rightarrow> ('rm, 'f, unit) portal_eff" where
  "send_cross_message E msg =
     seq (lift (simple_immaterialize (cpm_enc E) msg)) (\<lambda>bytes.
     sink_send E (CmContent bytes))"

section \<open>Start\<close>

definition motivational_messages :: "rstring list" where
  "motivational_messages = map str_lit
     [''Lookin' good!'', ''Beep Boop'', ''It's a beautiful day'',
      ''Did you know: Koalas have fingerprints so similar to humans that they've occasionally confused crime scene investigators.'',
      ''Gentoo penguins propose to their mates with a pebble.'']"

text \<open>
  \<open>contribution\<close> is the UUID drawn, \<open>pick\<close> the random index below 5, \<open>json_enc\<close>
  is \<open>serde_json::to_string_pretty\<close>.
\<close>

definition pre_start ::
    "'rm env \<Rightarrow> (introduction \<Rightarrow> rstring outcome) \<Rightarrow> bytes \<Rightarrow> nat \<Rightarrow> portal_args \<Rightarrow>
     ('rm, 'f) portal_state outcome" where
  "pre_start E json_enc contribution pick args0 =
     (let intro = \<lparr>channel_id_contribution = contribution, version = str_lit ''0.1'',
                   info_text = motivational_messages ! pick, this_side_id = local_id args0\<rparr>
      in and_then (json_enc intro) (\<lambda>text.
         if sink_send_ok E \<and> sink_flush_ok E then
           Ok \<lparr>args = args0, channel_state = Opening intro,
               published_actors = [], proxies_for_remote_actors = [], named_actors = [],
               next_request_id = 1, open_requests = [], waiting_for_handshake = [],
               outs = [SinkSend (CmHandshake text)]\<rparr>
         else Err SinkError))"

section \<open>Handlers\<close>

definition xor_arrays :: "bytes \<Rightarrow> bytes \<Rightarrow> bytes" where
  "xor_arrays a b = map2 (XOR) a b"

definition find_published ::
    "actor_id \<Rightarrow> (opaque_actor_id, actor_id \<times> 'rm) hmap \<Rightarrow> opaque_actor_id option" where
  "find_published a m = map_option fst (find (\<lambda>(k, (v, _)). v = a) m)"

definition publish_actor :: "'rm env \<Rightarrow> actor_id \<Rightarrow> 'rm \<Rightarrow> ('rm, 'f, opaque_actor_id) portal_eff" where
  "publish_actor E actor_cell receiver = (\<lambda>st.
     case find_published actor_cell (published_actors st) of
       Some k \<Rightarrow> (Ok k, st)
     | None \<Rightarrow>
         (let new_id = OpaqueActorId (fresh_uuid E) in
          (Ok new_id,
           st\<lparr>published_actors := hm_insert new_id (actor_cell, receiver) (published_actors st),
              outs := outs st @ [SpawnExitWatch actor_cell]\<rparr>)))"

definition handle_handshake :: "'rm env \<Rightarrow> rstring \<Rightarrow> ('rm, 'f, unit) portal_eff" where
  "handle_handshake E text = (\<lambda>st.
     case channel_state st of
       Opening self_introduction \<Rightarrow>
         seq (lift (json_dec E text)) (\<lambda>remote_introduction.
         update (\<lambda>st.
           fold (reply_ignore E RUnit) (waiting_for_handshake st)
             (st\<lparr>channel_state := Open (ConduitID (from_le_bytes (xor_arrays
                  (channel_id_contribution self_introduction)
                  (channel_id_contribution remote_introduction)))),
                 waiting_for_handshake := []\<rparr>))) st
     | Open _ \<Rightarrow> emit StopSelf st)"

definition remote_id_of :: "conduit_id \<Rightarrow> ('rm, 'f) portal_state \<Rightarrow> opaque_actor_id \<Rightarrow> remote_actor_id" where
  "remote_id_of channel_id st opaque =
     \<lparr>connection_key = channel_id, side = local_id (args st), opaque_id = opaque\<rparr>"

definition lookup_named ::
    "'rm env \<Rightarrow> conduit_id \<Rightarrow> rstring \<Rightarrow>
     ('rm, 'f, (remote_actor_id, actor_request_error) rust_result) portal_eff" where
  "lookup_named E channel_id name = (\<lambda>st.
     case hm_get (named_actors st) name of
       Some opaque \<Rightarrow> ret (ROk (remote_id_of channel_id st opaque)) st
     | None \<Rightarrow>
         seq (lift (nexus_query E name)) (\<lambda>actor_published_on_nexus.
         case actor_published_on_nexus of
           Some (actor_cell, receiver) \<Rightarrow>
             seq (publish_actor E actor_cell receiver) (\<lambda>opaque.
             (\<lambda>st. ret (ROk (remote_id_of channel_id st opaque)) st))
         | None \<Rightarrow> ret (RErr ActorNotFound)) st)"

definition handle_request_by_name ::
    "'rm env \<Rightarrow> conduit_id \<Rightarrow> message_id \<Rightarrow> rstring \<Rightarrow> ('rm, 'f, unit) portal_eff" where
  "handle_request_by_name E channel_id i name =
     seq (lookup_named E channel_id name) (\<lambda>response.
     send_cross_message E (ResponseActorByName i response))"

definition handle_response ::
    "'rm env \<Rightarrow> message_id \<Rightarrow> (remote_actor_id, actor_request_error) rust_result \<Rightarrow>
     ('rm, 'f, unit) portal_eff" where
  "handle_response E i response = (\<lambda>st.
     case hm_get (open_requests st) i of
       Some reply_port \<Rightarrow>
         (let mapped = (case response of ROk r \<Rightarrow> ROk r | RErr e \<Rightarrow> RErr (anyhow_of_request_error e))
          in reply_send E reply_port (RQuery mapped)
               (st\<lparr>open_requests := hm_remove i (open_requests st)\<rparr>))
     | None \<Rightarrow> (Ok (), st))"

definition handle_send_message ::
    "'rm env \<Rightarrow> remote_actor_id \<Rightarrow> bytes \<Rightarrow> ('rm, 'f, unit) portal_eff" where
  "handle_send_message E target_id data = (\<lambda>st.
     case hm_get (published_actors st) (opaque_id target_id) of
       Some (local_actor_cell, receiver) \<Rightarrow>
         seq (emit (Rematerialize receiver local_actor_cell data)) (\<lambda>_.
         lift (run_rm E receiver local_actor_cell data)) st
     | None \<Rightarrow> (Ok (), st))"

definition handle_actor_exited :: "remote_actor_id \<Rightarrow> ('rm, 'f, unit) portal_eff" where
  "handle_actor_exited remote_actor_id = (\<lambda>st.
     case hm_get (proxies_for_remote_actors st) remote_actor_id of
       Some actor_cell \<Rightarrow>
         emit (StopActor actor_cell)
           (st\<lparr>proxies_for_remote_actors :=
                 hm_remove remote_actor_id (proxies_for_remote_actors st)\<rparr>)
     | None \<Rightarrow> (Ok (), st))"

definition handle_cross_message ::
    "'rm env \<Rightarrow> conduit_id \<Rightarrow> cross_portal_message \<Rightarrow> ('rm, 'f, unit) portal_eff" where
  "handle_cross_message E channel_id msg = (case msg of
       RequestActorByName i name \<Rightarrow> handle_request_by_name E channel_id i name
     | ResponseActorByName i response \<Rightarrow> handle_response E i response
     | ResponseActorById i response \<Rightarrow> handle_response E i response
     | SendMessage target_id data \<Rightarrow> handle_send_message E target_id data
     | ActorExited remote_actor_id \<Rightarrow> handle_actor_exited remote_actor_id)"

definition handle_content :: "'rm env \<Rightarrow> bytes \<Rightarrow> ('rm, 'f, unit) portal_eff" where
  "handle_content E data = (\<lambda>st.
     case channel_state st of
       Opening _ \<Rightarrow> emit StopSelf st
     | Open channel_id \<Rightarrow>
         seq (lift (simple_rematerialize (cpm_dec E) data)) (\<lambda>msg.
         handle_cross_message E channel_id msg) st)"

definition handle_close :: "('rm, 'f, unit) portal_eff" where
  "handle_close = emit StopSelf"

definition handle_wait_for_handshake :: "'rm env \<Rightarrow> port \<Rightarrow> ('rm, 'f, unit) portal_eff" where
  "handle_wait_for_handshake E p = (\<lambda>st.
     case channel_state st of
       Opening _ \<Rightarrow> (Ok (), st\<lparr>waiting_for_handshake := waiting_for_handshake st @ [p]\<rparr>)
     | Open _ \<Rightarrow> reply_send E p RUnit st)"

definition handle_publish_named_actor ::
    "'rm env \<Rightarrow> rstring \<Rightarrow> actor_id \<Rightarrow> 'rm \<Rightarrow> port option \<Rightarrow> ('rm, 'f, unit) portal_eff" where
  "handle_publish_named_actor E name actor_cell receiver rpc =
     seq (publish_actor E actor_cell receiver) (\<lambda>opaque.
     seq (update (\<lambda>st. st\<lparr>named_actors := hm_insert name opaque (named_actors st)\<rparr>)) (\<lambda>_.
     case rpc of
       None \<Rightarrow> ret ()
     | Some p \<Rightarrow> (\<lambda>st. case channel_state st of
           Open channel_id \<Rightarrow>
             reply_send E p (RNamedPublished (Some (remote_id_of channel_id st opaque))) st
         | Opening _ \<Rightarrow> reply_send E p (RNamedPublished None) st)))"

definition handle_publish_actor ::
    "'rm env \<Rightarrow> actor_id \<Rightarrow> 'rm \<Rightarrow> port option \<Rightarrow> ('rm, 'f, unit) portal_eff" where
  "handle_publish_actor E actor_cell receiver rpc = (\<lambda>st.
     if rpc \<noteq> None \<and> \<not> is_open (channel_state st) then (Ok (), st)
     else
       seq (publish_actor E actor_cell receiver) (\<lambda>opaque.
       case rpc of
         None \<Rightarrow> ret ()
       | Some p \<Rightarrow> (\<lambda>st. case channel_state st of
             Open channel_id \<Rightarrow> reply_send E p (RPublished (remote_id_of channel_id st opaque)) st
           | Opening _ \<Rightarrow> (Ok (), st))) st)"

text \<open>\<open>next_request_id += 1\<close> at its width of 64 bits.\<close>

definition u64_succ :: "platform \<Rightarrow> message_id \<Rightarrow> message_id outcome" where
  "u64_succ P n = (if n = - 1 \<and> overflow_checks P then Panic ArithmeticOverflow else Ok (n + 1))"

definition handle_query_named_remote_actor ::
    "'rm env \<Rightarrow> rstring \<Rightarrow> port \<Rightarrow> ('rm, 'f, unit) portal_eff" where
  "handle_query_named_remote_actor E name rpc = (\<lambda>st.
     case channel_state st of
       Opening _ \<Rightarrow> (Ok (), st)
     | Open _ \<Rightarrow>
         (let request_id = next_request_id st in
          seq (lift (u64_succ (platform_of E) request_id)) (\<lambda>next_id.
          seq (update (\<lambda>st. st\<lparr>next_request_id := next_id,
                 open_requests := hm_insert request_id rpc (open_requests st)\<rparr>)) (\<lambda>_.
          send_cross_message E (RequestActorByName request_id name))) st))"

definition handle_immaterialize_message :: "remote_actor_id \<Rightarrow> 'f \<Rightarrow> ('rm, 'f, unit) portal_eff" where
  "handle_immaterialize_message target msg_f = (\<lambda>st.
     case channel_state st of
       Opening _ \<Rightarrow> (Ok (), st)
     | Open _ \<Rightarrow> emit (SpawnImmaterialize target msg_f) st)"

definition handle_transmit_message ::
    "'rm env \<Rightarrow> remote_actor_id \<Rightarrow> bytes \<Rightarrow> ('rm, 'f, unit) portal_eff" where
  "handle_transmit_message E target bytes = (\<lambda>st.
     case channel_state st of
       Opening _ \<Rightarrow> (Ok (), st)
     | Open _ \<Rightarrow> send_cross_message E (SendMessage target bytes) st)"

definition handle_register_proxy :: "remote_actor_id \<Rightarrow> actor_id \<Rightarrow> ('rm, 'f, unit) portal_eff" where
  "handle_register_proxy remote_actor_id actor_cell = (\<lambda>st.
     case channel_state st of
       Opening _ \<Rightarrow> (Ok (), st)
     | Open _ \<Rightarrow>
         (Ok (), st\<lparr>proxies_for_remote_actors :=
            hm_insert remote_actor_id actor_cell (proxies_for_remote_actors st)\<rparr>))"

definition handle_local_actor_exited :: "'rm env \<Rightarrow> actor_id \<Rightarrow> ('rm, 'f, unit) portal_eff" where
  "handle_local_actor_exited E a = (\<lambda>st.
     case channel_state st of
       Opening _ \<Rightarrow> (Ok (), st)
     | Open channel_id \<Rightarrow>
         (case find_published a (published_actors st) of
            None \<Rightarrow> (Ok (), st)
          | Some k \<Rightarrow> send_cross_message E (ActorExited (remote_id_of channel_id st k)) st))"

definition handle :: "'rm env \<Rightarrow> ('rm, 'f) portal_message \<Rightarrow> ('rm, 'f, unit) portal_eff" where
  "handle E message = (case message of
       Handshake text \<Rightarrow> handle_handshake E text
     | Content data \<Rightarrow> handle_content E data
     | Close \<Rightarrow> handle_close
     | WaitForHandshake p \<Rightarrow> handle_wait_for_handshake E p
     | PublishNamedActor name a rm rpc \<Rightarrow> handle_publish_named_actor E name a rm rpc
     | PublishActor a rm rpc \<Rightarrow> handle_publish_actor E a rm rpc
     | QueryNamedRemoteActor name p \<Rightarrow> handle_query_named_remote_actor E name p
     | ImmaterializeMessage target msg_f \<Rightarrow> handle_immaterialize_message target msg_f
     | TransmitMessage target data \<Rightarrow> handle_transmit_message E target data
     | RegisterProxyForRemoteActor rid a \<Rightarrow> handle_register_proxy rid a
     | LocalActorExited a \<Rightarrow> handle_local_actor_exited E a)"

section \<open>Running\<close>

text \<open>
  The actor runtime hands the messages over one at a time. A call that returns an error or
  panics ends the actor, and so does a stop it asked for: it handles no further message.
  \<open>portal_reach st alive\<close>: the actor can be in \<open>st\<close>, and still takes messages.
  The fields of the surroundings are free in every step, but for the UUID, which is new,
  and the count of requests, which stays below \<open>2 ^ 64\<close>.
\<close>

definition running :: "('rm, 'f) portal_state \<Rightarrow> bool" where
  "running st \<longleftrightarrow> StopSelf \<notin> set (outs st)"

definition uuid_new :: "'rm env \<Rightarrow> ('rm, 'f) portal_state \<Rightarrow> bool" where
  "uuid_new E st \<longleftrightarrow> OpaqueActorId (fresh_uuid E) \<notin> fst ` set (published_actors st)"

definition ids_left :: "'rm env \<Rightarrow> ('rm, 'f) portal_state \<Rightarrow> bool" where
  "ids_left E st \<longleftrightarrow> overflow_checks (platform_of E) \<or> next_request_id st \<noteq> - 1"

inductive portal_reach :: "('rm, 'f) portal_state \<Rightarrow> bool \<Rightarrow> bool" where
  start: "pre_start E json_enc contribution pick args0 = Ok st \<Longrightarrow> portal_reach st True"
| step: "portal_reach st True \<Longrightarrow> uuid_new E st \<Longrightarrow> ids_left E st \<Longrightarrow>
    handle E m st = (r, st') \<Longrightarrow> portal_reach st' (r = Ok () \<and> running st')"

inductive_cases portal_reachE: "portal_reach st alive"

end
