(* ===== verification/Portal_Inv.thy ===== *)
theory Portal_Inv
  imports Portal "HOL-Library.Sublist"
begin

text \<open>
  The invariant of the portal actor and its order in time: what every call of \<open>handle\<close>
  keeps (\<open>portal_inv\<close>), and what can only grow (\<open>portal_le\<close>). One lemma per
  handler, then the invariant of every reachable state.
\<close>

section \<open>The invariant\<close>

definition sent :: "('rm, 'f) portal_output list \<Rightarrow> conduit_message list" where
  "sent os = concat (map (\<lambda>x. case x of SinkSend m \<Rightarrow> [m] | _ \<Rightarrow> []) os)"

definition watched :: "('rm, 'f) portal_output list \<Rightarrow> actor_id list" where
  "watched os = concat (map (\<lambda>x. case x of SpawnExitWatch a \<Rightarrow> [a] | _ \<Rightarrow> []) os)"

lemma sent_simps [simp]:
  "sent [] = []"
  "sent (os @ os') = sent os @ sent os'"
  "sent (SinkSend m # os) = m # sent os"
  "sent (Reply p r # os) = sent os"
  "sent (StopSelf # os) = sent os"
  "sent (StopActor a # os) = sent os"
  "sent (SpawnExitWatch a # os) = sent os"
  "sent (SpawnImmaterialize t f # os) = sent os"
  "sent (Rematerialize rm a d # os) = sent os"
  by (simp_all add: sent_def)

lemma watched_simps [simp]:
  "watched [] = []"
  "watched (os @ os') = watched os @ watched os'"
  "watched (SinkSend m # os) = watched os"
  "watched (Reply p r # os) = watched os"
  "watched (StopSelf # os) = watched os"
  "watched (StopActor a # os) = watched os"
  "watched (SpawnExitWatch a # os) = a # watched os"
  "watched (SpawnImmaterialize t f # os) = watched os"
  "watched (Rematerialize rm a d # os) = watched os"
  by (simp_all add: watched_def)

text \<open>The four tables are maps, and an actor is published under one id only.\<close>

definition inv_maps :: "('rm, 'f) portal_state \<Rightarrow> bool" where
  "inv_maps st \<longleftrightarrow> hm_ok (published_actors st) \<and> hm_ok (proxies_for_remote_actors st) \<and>
     hm_ok (named_actors st) \<and> hm_ok (open_requests st) \<and>
     distinct (map (fst \<circ> snd) (published_actors st))"

text \<open>A name stands for a published actor.\<close>

definition inv_named :: "('rm, 'f) portal_state \<Rightarrow> bool" where
  "inv_named st \<longleftrightarrow> snd ` set (named_actors st) \<subseteq> fst ` set (published_actors st)"

text \<open>No request is open under an id not yet handed out.\<close>

definition inv_requests :: "('rm, 'f) portal_state \<Rightarrow> bool" where
  "inv_requests st \<longleftrightarrow> (\<forall>(i, p) \<in> set (open_requests st). i < next_request_id st)"

text \<open>What a portal that still waits for the handshake cannot have, and what an open one cannot.\<close>

definition inv_phase :: "('rm, 'f) portal_state \<Rightarrow> bool" where
  "inv_phase st \<longleftrightarrow> (if is_open (channel_state st) then waiting_for_handshake st = []
     else proxies_for_remote_actors st = [] \<and> open_requests st = [] \<and> next_request_id st = 1)"

text \<open>The first message sent is the handshake; content follows, and only from an open portal.\<close>

definition is_content :: "conduit_message \<Rightarrow> bool" where
  "is_content m = (case m of CmContent _ \<Rightarrow> True | _ \<Rightarrow> False)"

definition is_handshake :: "conduit_message \<Rightarrow> bool" where
  "is_handshake m = (case m of CmHandshake _ \<Rightarrow> True | _ \<Rightarrow> False)"

lemma is_content_simps [simp]:
  "is_content (CmContent b)" "\<not> is_content (CmHandshake t)" "\<not> is_content (CmClose r)"
  "is_handshake (CmHandshake t)" "\<not> is_handshake (CmContent b)" "\<not> is_handshake (CmClose r)"
  by (simp_all add: is_content_def is_handshake_def)

definition inv_wire :: "('rm, 'f) portal_state \<Rightarrow> bool" where
  "inv_wire st \<longleftrightarrow> sent (outs st) \<noteq> [] \<and> is_handshake (hd (sent (outs st))) \<and>
     list_all is_content (tl (sent (outs st))) \<and>
     (is_open (channel_state st) \<or> tl (sent (outs st)) = [])"

text \<open>The exits watched are those of the published actors, one watch each.\<close>

definition inv_watch :: "('rm, 'f) portal_state \<Rightarrow> bool" where
  "inv_watch st \<longleftrightarrow> watched (outs st) = map (fst \<circ> snd) (published_actors st)"

text \<open>A message was only ever delivered to a published actor, by its own rematerializer.\<close>

definition inv_capability :: "('rm, 'f) portal_state \<Rightarrow> bool" where
  "inv_capability st \<longleftrightarrow>
     (\<forall>rm a d. Rematerialize rm a d \<in> set (outs st) \<longrightarrow> (a, rm) \<in> snd ` set (published_actors st))"

definition portal_inv :: "('rm, 'f) portal_state \<Rightarrow> bool" where
  "portal_inv st \<longleftrightarrow> inv_maps st \<and> inv_named st \<and> inv_requests st \<and> inv_phase st \<and>
     inv_wire st \<and> inv_watch st \<and> inv_capability st"

lemmas inv_defs = inv_maps_def inv_named_def inv_requests_def inv_phase_def inv_wire_def
  inv_watch_def inv_capability_def

text \<open>What only grows.\<close>

definition portal_le :: "('rm, 'f) portal_state \<Rightarrow> ('rm, 'f) portal_state \<Rightarrow> bool" where
  "portal_le st st' \<longleftrightarrow> args st' = args st \<and> prefix (outs st) (outs st') \<and>
     (\<forall>c. channel_state st = Open c \<longrightarrow> channel_state st' = Open c) \<and>
     set (published_actors st) \<subseteq> set (published_actors st') \<and>
     next_request_id st \<le> next_request_id st'"

lemma portal_le_refl [simp, intro]: "portal_le st st"
  by (simp add: portal_le_def)

lemma portal_le_trans [trans]: "portal_le a b \<Longrightarrow> portal_le b c \<Longrightarrow> portal_le a c"
  unfolding portal_le_def by (auto intro: prefix_order.trans)

lemma world_order_portal_le: "world_order portal_le"
  unfolding world_order_def using portal_le_trans by blast

section \<open>The steps the handlers are made of\<close>

text \<open>The states of a portal that is open on channel \<open>c\<close>.\<close>

definition open_inv :: "conduit_id \<Rightarrow> ('rm, 'f) portal_state \<Rightarrow> bool" where
  "open_inv c st \<longleftrightarrow> portal_inv st \<and> channel_state st = Open c"

lemma portal_inv_out:
  assumes "portal_inv st"
    and "case x of SinkSend m \<Rightarrow> is_open (channel_state st) \<and> is_content m
      | SpawnExitWatch _ \<Rightarrow> False
      | Rematerialize rm a d \<Rightarrow> (a, rm) \<in> snd ` set (published_actors st) | _ \<Rightarrow> True"
  shows "portal_inv (st\<lparr>outs := outs st @ [x]\<rparr>)"
  using assms by (cases x) (auto simp: portal_inv_def inv_defs)

lemma portal_le_out [simp, intro]: "portal_le st (st\<lparr>outs := outs st @ xs\<rparr>)"
  by (simp add: portal_le_def)

lemma reply_send_keeps [intro!]: "keeps (open_inv c) portal_le (reply_send E p r)"
  by (auto simp: keeps_def reply_send_def emit_def open_inv_def intro: portal_inv_out)

lemma sink_send_keeps [intro!]: "keeps (open_inv c) portal_le (sink_send E (CmContent b))"
  by (auto simp: keeps_def sink_send_def seq_def emit_def open_inv_def intro: portal_inv_out)

lemma send_cross_message_keeps [intro!]: "keeps (open_inv c) portal_le (send_cross_message E m)"
  unfolding send_cross_message_def
  by (intro keeps_seq keeps_lift world_order_portal_le sink_send_keeps)

text \<open>Publishing.\<close>

lemma find_published_None: "find_published a m = None \<longleftrightarrow> a \<notin> fst ` snd ` set m"
  by (force simp: find_published_def find_None_iff)

lemma find_published_SomeD: "find_published a m = Some k \<Longrightarrow> \<exists>rm. (k, a, rm) \<in> set m"
  by (auto simp: find_published_def find_Some_iff in_set_conv_nth) (metis nth_mem)

lemma find_published_iff:
  assumes "distinct (map (fst \<circ> snd) m)"
  shows "find_published a m = Some k \<longleftrightarrow> (\<exists>rm. (k, a, rm) \<in> set m)"
proof
  assume "\<exists>rm. (k, a, rm) \<in> set m"
  then obtain rm where k: "(k, a, rm) \<in> set m" ..
  then have "find_published a m \<noteq> None" unfolding find_published_None by force
  then obtain k' rm' where k': "find_published a m = Some k'" "(k', a, rm') \<in> set m"
    using find_published_SomeD by fastforce
  have "inj_on (fst \<circ> snd) (set m)" using assms by (simp add: distinct_map)
  from inj_onD[OF this _ k'(2) k] have "(k', a, rm') = (k, a, rm)" by simp
  with k' show "find_published a m = Some k" by simp
qed (rule find_published_SomeD)

lemma hm_insert_new: "k \<notin> fst ` set m \<Longrightarrow> hm_insert k v m = m @ [(k, v)]"
  unfolding hm_insert_def by (induction m) auto

lemma publish_actor_cases:
  "publish_actor E a rm st =
    (case find_published a (published_actors st) of Some k \<Rightarrow> (Ok k, st)
     | None \<Rightarrow> (Ok (OpaqueActorId (fresh_uuid E)),
         st\<lparr>published_actors := hm_insert (OpaqueActorId (fresh_uuid E)) (a, rm) (published_actors st),
            outs := outs st @ [SpawnExitWatch a]\<rparr>))"
  by (simp add: publish_actor_def Let_def split: option.split)

lemma portal_inv_publish:
  assumes inv: "portal_inv st" and new: "k \<notin> fst ` set (published_actors st)"
    and a: "a \<notin> fst ` snd ` set (published_actors st)"
  shows "portal_inv (st\<lparr>published_actors := hm_insert k (a, rm) (published_actors st),
    outs := outs st @ [SpawnExitWatch a]\<rparr>)"
proof -
  from a have a': "a \<notin> (fst \<circ> snd) ` set (published_actors st)" by (simp add: image_comp)
  show ?thesis
    using inv new a' unfolding portal_inv_def inv_defs hm_insert_new[OF new]
    by (auto simp: hm_ok_def)
qed

lemma publish_actor_run:
  assumes "portal_inv st" and "uuid_new E st" and "publish_actor E a rm st = (r, st')"
  shows "portal_inv st'" and "portal_le st st'" and "channel_state st' = channel_state st"
    and "args st' = args st" and "named_actors st' = named_actors st"
    and "\<exists>k rm'. r = Ok k \<and> (k, a, rm') \<in> set (published_actors st')"
proof -
  show "portal_inv st'" "portal_le st st'" "channel_state st' = channel_state st"
    "args st' = args st" "named_actors st' = named_actors st"
    using assms portal_inv_publish[of st] unfolding publish_actor_cases
    by (auto simp: find_published_None portal_le_def uuid_new_def hm_insert_new split: option.splits)
  show "\<exists>k rm'. r = Ok k \<and> (k, a, rm') \<in> set (published_actors st')"
    using assms find_published_SomeD[of a "published_actors st"] unfolding publish_actor_cases
    by (auto simp: uuid_new_def hm_insert_new split: option.splits)
qed

section \<open>Every handler keeps the invariant\<close>

text \<open>\<open>portal_step m E st\<close>: the call \<open>m\<close> leads from \<open>st\<close> on, invariant kept.\<close>

definition portal_step :: "('rm, 'f, 'a) portal_eff \<Rightarrow> ('rm, 'f) portal_state \<Rightarrow> bool" where
  "portal_step m st \<longleftrightarrow> portal_inv (snd (m st)) \<and> portal_le st (snd (m st))"

lemma portal_step_pair [simp]:
  "m st = (r, st') \<Longrightarrow> portal_step m st \<longleftrightarrow> portal_inv st' \<and> portal_le st st'"
  by (simp add: portal_step_def)

lemma portal_step_keeps:
  "keeps (open_inv c) portal_le m \<Longrightarrow> portal_inv st \<Longrightarrow> channel_state st = Open c \<Longrightarrow> portal_step m st"
  unfolding keeps_def portal_step_def open_inv_def by blast

lemma portal_step_seq:
  assumes "m st = (Ok a, st')" and "portal_inv st'" and "portal_le st st'" and "portal_step (f a) st'"
  shows "portal_step (seq m f) st"
  using assms portal_le_trans unfolding portal_step_def by (auto simp: seq_OkD)

lemma portal_step_refl [simp]: "portal_inv st \<Longrightarrow> m st = (r, st) \<Longrightarrow> portal_step m st"
  by simp

lemma portal_step_out:
  assumes "portal_inv st" and "m st = (r, st\<lparr>outs := outs st @ [x]\<rparr>)"
    and "case x of SinkSend m \<Rightarrow> is_open (channel_state st) \<and> is_content m
      | SpawnExitWatch _ \<Rightarrow> False
      | Rematerialize rm a d \<Rightarrow> (a, rm) \<in> snd ` set (published_actors st) | _ \<Rightarrow> True"
  shows "portal_step m st"
  using assms portal_inv_out by auto

text \<open>The handshake answers the waiting ports one after the other.\<close>

lemma fold_reply_ignore:
  "fold (reply_ignore E r) ps st =
     st\<lparr>outs := outs st @ map (\<lambda>p. Reply p r) (filter (port_open E) ps)\<rparr>"
  by (induction ps arbitrary: st) (simp_all add: reply_ignore_def)

lemma handle_handshake_Opening:
  assumes "channel_state st = Opening i" and "json_dec E text = Ok i'"
  shows "handle_handshake E text st = (Ok (),
    st\<lparr>channel_state := Open (ConduitID (from_le_bytes (xor_arrays
         (channel_id_contribution i) (channel_id_contribution i')))),
       waiting_for_handshake := [],
       outs := outs st @ map (\<lambda>p. Reply p RUnit) (filter (port_open E) (waiting_for_handshake st))\<rparr>)"
  using assms by (simp add: handle_handshake_def update_def fold_reply_ignore)

lemma sent_replies [simp]: "sent (map (\<lambda>p. Reply p r) ps) = []"
  by (induction ps) simp_all

lemma watched_replies [simp]: "watched (map (\<lambda>p. Reply p r) ps) = []"
  by (induction ps) simp_all

lemma handle_handshake_step:
  assumes inv: "portal_inv st"
  shows "portal_step (handle_handshake E text) st"
proof (cases "channel_state st")
  case (Open c)
  then show ?thesis
    using inv by (intro portal_step_out[where x = StopSelf]) (auto simp: handle_handshake_def emit_def)
next
  case (Opening i)
  show ?thesis
  proof (cases "json_dec E text")
    case (Ok i')
    show ?thesis
      using inv Opening unfolding portal_step_def handle_handshake_Opening[OF Opening Ok]
      by (auto simp: portal_inv_def inv_defs portal_le_def simp del: split_paired_Ex) blast
  qed (use inv Opening in \<open>auto simp: handle_handshake_def\<close>)
qed

lemma lookup_named_run:
  assumes inv: "portal_inv st" and c: "channel_state st = Open c" and new: "uuid_new E st"
    and run: "lookup_named E c name st = (r, st')"
  shows "portal_inv st' \<and> portal_le st st' \<and> channel_state st' = Open c"
proof -
  consider "st' = st"
    | a rm q where "publish_actor E a rm st = (q, st')"
  proof (cases "hm_get (named_actors st) name")
    case (Some k)
    then show ?thesis using run that(1) by (simp add: lookup_named_def)
  next
    case None
    consider (no) e where "nexus_query E name = Err e" | (bad) p where "nexus_query E name = Panic p"
      | (absent) "nexus_query E name = Ok None" | (found) a rm where "nexus_query E name = Ok (Some (a, rm))"
      by (metis outcome.exhaust option.exhaust surj_pair)
    then show ?thesis
    proof cases
      case found
      then show ?thesis
        using run None that(2)[of a rm] publish_actor_cases[of E a rm st]
        by (auto simp: lookup_named_def seq_def split: option.splits)
    qed (use run None that(1) in \<open>auto simp: lookup_named_def\<close>)
  qed
  then show ?thesis
    using inv c publish_actor_run[OF inv new] by cases auto
qed

lemma handle_request_step:
  assumes inv: "portal_inv st" and c: "channel_state st = Open c" and new: "uuid_new E st"
  shows "portal_step (handle_request_by_name E c i name) st"
proof -
  obtain r st' where run: "lookup_named E c name st = (r, st')" by fastforce
  note st' = lookup_named_run[OF inv c new run]
  show ?thesis
  proof (cases r)
    case (Ok v)
    from st' have "portal_step (send_cross_message E (ResponseActorByName i v)) st'"
      using portal_step_keeps[OF send_cross_message_keeps] by blast
    then show ?thesis
      unfolding handle_request_by_name_def using run[unfolded Ok] st' by (auto intro: portal_step_seq)
  qed (use run st' in \<open>auto simp: handle_request_by_name_def seq_ErrD seq_PanicD\<close>)
qed

lemma handle_response_step:
  assumes "portal_inv st" and "channel_state st = Open c"
  shows "portal_step (handle_response E i response) st"
proof (cases "hm_get (open_requests st) i")
  case (Some p)
  let ?st = "st\<lparr>open_requests := hm_remove i (open_requests st)\<rparr>"
  have 1: "portal_inv ?st" "portal_le st ?st"
    using assms by (auto simp: portal_inv_def inv_defs portal_le_def set_hm_remove)
  have 2: "portal_step (reply_send E p r) ?st" for r
    using portal_step_keeps[OF reply_send_keeps] 1 assms by force
  show ?thesis
    using 1 2 Some portal_le_trans by (fastforce simp: portal_step_def handle_response_def Let_def)
qed (use assms in \<open>simp add: handle_response_def\<close>)

lemma handle_send_message_step:
  assumes inv: "portal_inv st" and "channel_state st = Open c"
  shows "portal_step (handle_send_message E target data) st"
proof (cases "hm_get (published_actors st) (opaque_id target)")
  case (Some x)
  obtain a rm where x: "x = (a, rm)" by fastforce
  have "(a, rm) \<in> snd ` set (published_actors st)"
    using hm_get_Some_in[OF Some] x by force
  then show ?thesis
    using inv x Some
    by (intro portal_step_out[where x = "Rematerialize rm a data"])
      (auto simp: handle_send_message_def emit_def seq_def)
qed (use assms in \<open>simp add: handle_send_message_def\<close>)

lemma handle_actor_exited_step:
  assumes inv: "portal_inv st" and c: "channel_state st = Open c"
  shows "portal_step (handle_actor_exited rid) st"
proof (cases "hm_get (proxies_for_remote_actors st) rid")
  case (Some a)
  let ?st = "st\<lparr>proxies_for_remote_actors := hm_remove rid (proxies_for_remote_actors st)\<rparr>"
  have 1: "portal_inv ?st" "portal_le st ?st"
    using assms by (auto simp: portal_inv_def inv_defs portal_le_def)
  then show ?thesis
    using Some portal_inv_out[OF 1(1), of "StopActor a"] portal_le_trans[OF 1(2) portal_le_out]
    by (auto simp: portal_step_def handle_actor_exited_def emit_def)
qed (use assms in \<open>simp add: handle_actor_exited_def\<close>)

lemmas handle_cross_steps = handle_request_step handle_response_step handle_send_message_step
  handle_actor_exited_step

lemma handle_content_step:
  assumes inv: "portal_inv st" and new: "uuid_new E st"
  shows "portal_step (handle_content E data) st"
proof (cases "channel_state st")
  case (Open c)
  have cross: "portal_step (handle_cross_message E c m) st" for m
    using handle_cross_steps assms Open
    by (cases m) (auto simp: handle_cross_message_def)
  show ?thesis
    using cross inv Open
    by (cases "simple_rematerialize (cpm_dec E) data") (auto simp: handle_content_def portal_step_def)
qed (use inv portal_inv_out[of st StopSelf] in \<open>auto simp: handle_content_def emit_def portal_step_def\<close>)

lemma handle_close_step: "portal_inv st \<Longrightarrow> portal_step handle_close st"
  using portal_inv_out[of st StopSelf] by (simp add: handle_close_def portal_step_def emit_def)

lemma reply_send_step: "portal_inv st \<Longrightarrow> portal_step (reply_send E p r) st"
  using portal_inv_out[of st "Reply p r"] by (simp add: reply_send_def portal_step_def emit_def)

lemma handle_wait_step:
  assumes inv: "portal_inv st"
  shows "portal_step (handle_wait_for_handshake E p) st"
proof (cases "channel_state st")
  case (Open c)
  then show ?thesis using reply_send_step[OF inv] by (simp add: handle_wait_for_handshake_def portal_step_def)
next
  case (Opening i)
  then show ?thesis
    using inv by (simp add: handle_wait_for_handshake_def portal_step_def portal_inv_def inv_defs portal_le_def)
qed

lemma handle_publish_named_step:
  assumes inv: "portal_inv st" and new: "uuid_new E st"
  shows "portal_step (handle_publish_named_actor E name a rm rpc) st"
proof -
  obtain r st1 where run: "publish_actor E a rm st = (r, st1)" by fastforce
  note pub = publish_actor_run[OF inv new run]
  from pub(6) obtain k rm' where k: "r = Ok k" "(k, a, rm') \<in> set (published_actors st1)" by blast
  let ?st = "st1\<lparr>named_actors := hm_insert name k (named_actors st1)\<rparr>"
  have "hm_ok (named_actors st1)" using pub(1) by (simp add: portal_inv_def inv_maps_def)
  moreover have "k \<in> fst ` set (published_actors st1)" using k(2) by force
  ultimately have "inv_named ?st" "inv_maps ?st"
    using pub(1) by (auto simp: portal_inv_def inv_named_def inv_maps_def set_hm_insert image_subset_iff)
  then have 1: "portal_inv ?st" "portal_le st1 ?st"
    using pub(1) unfolding portal_inv_def inv_defs portal_le_def by simp_all
  have "portal_step (case rpc of None \<Rightarrow> ret () | Some p \<Rightarrow> (\<lambda>st. case channel_state st of
           Open c \<Rightarrow> reply_send E p (RNamedPublished (Some (remote_id_of c st k))) st
         | Opening _ \<Rightarrow> reply_send E p (RNamedPublished None) st)) ?st"
    using reply_send_step[OF 1(1)] 1(1)
    by (auto simp: portal_step_def split: option.split conduit_state.split)
  then have "portal_step (seq (update (\<lambda>st. st\<lparr>named_actors := hm_insert name k (named_actors st)\<rparr>))
      (\<lambda>_. case rpc of None \<Rightarrow> ret () | Some p \<Rightarrow> (\<lambda>st. case channel_state st of
           Open c \<Rightarrow> reply_send E p (RNamedPublished (Some (remote_id_of c st k))) st
         | Opening _ \<Rightarrow> reply_send E p (RNamedPublished None) st))) st1"
    by (rule portal_step_seq[rotated 3]) (use 1 in \<open>simp_all add: update_def\<close>)
  then show ?thesis
    unfolding handle_publish_named_actor_def
    by (rule portal_step_seq[rotated 3]) (use run k pub in simp_all)
qed

lemma handle_publish_step:
  assumes inv: "portal_inv st" and new: "uuid_new E st"
  shows "portal_step (handle_publish_actor E a rm rpc) st"
proof (cases "rpc \<noteq> None \<and> \<not> is_open (channel_state st)")
  case False
  obtain r st1 where run: "publish_actor E a rm st = (r, st1)" by fastforce
  note pub = publish_actor_run[OF inv new run]
  from pub(6) obtain k where k: "r = Ok k" by blast
  have "portal_step (case rpc of None \<Rightarrow> ret () | Some p \<Rightarrow> (\<lambda>st. case channel_state st of
           Open c \<Rightarrow> reply_send E p (RPublished (remote_id_of c st k)) st
         | Opening _ \<Rightarrow> (Ok (), st))) st1"
    using reply_send_step[OF pub(1)] pub(1)
    by (auto simp: portal_step_def split: option.split conduit_state.split)
  then have "portal_step (seq (publish_actor E a rm) (\<lambda>k. case rpc of None \<Rightarrow> ret () | Some p \<Rightarrow> (\<lambda>st.
      case channel_state st of
           Open c \<Rightarrow> reply_send E p (RPublished (remote_id_of c st k)) st
         | Opening _ \<Rightarrow> (Ok (), st)))) st"
    by (rule portal_step_seq[rotated 3]) (use run k pub in simp_all)
  then show ?thesis using False by (auto simp: portal_step_def handle_publish_actor_def)
qed (use inv in \<open>simp add: handle_publish_actor_def portal_step_def\<close>)

lemma word_less_succ: "n \<noteq> - 1 \<Longrightarrow> n < n + 1" for n :: "64 word"
  using unatSuc[of n] by (simp add: word_less_nat_alt add.commute eq_neg_iff_add_eq_0)

lemma u64_succ_Ok: "u64_succ P n = Ok m \<Longrightarrow> overflow_checks P \<or> n \<noteq> - 1 \<Longrightarrow> n < m \<and> m = n + 1"
  using word_less_succ[of n] by (auto simp: u64_succ_def split: if_splits)

lemma handle_query_step:
  assumes inv: "portal_inv st" and ids: "ids_left E st"
  shows "portal_step (handle_query_named_remote_actor E name rpc) st"
proof (cases "channel_state st")
  case (Open c)
  show ?thesis
  proof (cases "u64_succ (platform_of E) (next_request_id st)")
    case (Ok n)
    have n: "next_request_id st < n" using u64_succ_Ok[OF Ok] ids by (auto simp: ids_left_def)
    let ?st = "st\<lparr>next_request_id := n, open_requests := hm_insert (next_request_id st) rpc (open_requests st)\<rparr>"
    have "hm_ok (open_requests st)" using inv by (simp add: portal_inv_def inv_maps_def)
    then have 1: "portal_inv ?st" "portal_le st ?st"
      using inv n Open
      by (auto simp: portal_inv_def inv_defs portal_le_def set_hm_insert intro: less_trans)
    have "portal_step (send_cross_message E (RequestActorByName (next_request_id st) name)) ?st"
      using portal_step_keeps[OF send_cross_message_keeps 1(1)] Open by simp
    then show ?thesis
      using portal_le_trans[OF 1(2)] Open Ok
      by (auto simp: portal_step_def handle_query_named_remote_actor_def Let_def seq_def update_def)
  qed (use inv Open in \<open>auto simp: portal_step_def handle_query_named_remote_actor_def Let_def\<close>)
qed (use inv in \<open>simp add: handle_query_named_remote_actor_def portal_step_def\<close>)

lemma handle_immaterialize_step:
  "portal_inv st \<Longrightarrow> portal_step (handle_immaterialize_message target f) st"
  using portal_inv_out[of st "SpawnImmaterialize target f"]
  by (cases "channel_state st") (auto simp: handle_immaterialize_message_def portal_step_def emit_def)

lemma handle_transmit_step: "portal_inv st \<Longrightarrow> portal_step (handle_transmit_message E target data) st"
  using portal_step_keeps[OF send_cross_message_keeps, of st]
  by (cases "channel_state st") (auto simp: handle_transmit_message_def portal_step_def)

lemma handle_register_step: "portal_inv st \<Longrightarrow> portal_step (handle_register_proxy rid a) st"
  by (cases "channel_state st")
    (auto simp: handle_register_proxy_def portal_step_def portal_inv_def inv_defs portal_le_def)

lemma handle_exited_step: "portal_inv st \<Longrightarrow> portal_step (handle_local_actor_exited E a) st"
  using portal_step_keeps[OF send_cross_message_keeps, of st]
  by (cases "channel_state st")
    (auto simp: handle_local_actor_exited_def portal_step_def split: option.split)

lemmas handler_steps = handle_handshake_step handle_content_step handle_close_step handle_wait_step
  handle_publish_named_step handle_publish_step handle_query_step handle_immaterialize_step
  handle_transmit_step handle_register_step handle_exited_step

theorem handle_step:
  "portal_inv st \<Longrightarrow> uuid_new E st \<Longrightarrow> ids_left E st \<Longrightarrow> portal_step (handle E m) st"
  unfolding handle_def by (cases m) (simp_all add: handler_steps)

lemma handle_run:
  assumes "handle E m st = (r, st')" and "portal_inv st" and "uuid_new E st" and "ids_left E st"
  shows "portal_inv st'" and "portal_le st st'"
  using handle_step[OF assms(2-4), of m] assms(1) by (simp_all add: portal_step_def)

lemma pre_start_Ok:
  "pre_start E json_enc contribution pick args0 = Ok st \<longleftrightarrow>
    sink_send_ok E \<and> sink_flush_ok E \<and>
    (\<exists>t. json_enc \<lparr>channel_id_contribution = contribution, version = str_lit ''0.1'',
           info_text = motivational_messages ! pick, this_side_id = local_id args0\<rparr> = Ok t \<and>
       st = \<lparr>args = args0, channel_state = Opening \<lparr>channel_id_contribution = contribution,
           version = str_lit ''0.1'', info_text = motivational_messages ! pick,
           this_side_id = local_id args0\<rparr>,
         published_actors = [], proxies_for_remote_actors = [], named_actors = [],
         next_request_id = 1, open_requests = [], waiting_for_handshake = [],
         outs = [SinkSend (CmHandshake t)]\<rparr>)"
  unfolding pre_start_def by (auto simp: and_then_eq_Ok Let_def)

lemma pre_start_inv: "pre_start E json_enc contribution pick args0 = Ok st \<Longrightarrow> portal_inv st"
  by (auto simp: pre_start_Ok portal_inv_def inv_defs)

theorem portal_reach_inv: "portal_reach st alive \<Longrightarrow> portal_inv st"
proof (induction rule: portal_reach.induct)
  case (step st E m r st')
  then show ?case using handle_step[of st E m] by simp
qed (rule pre_start_inv)

lemma portal_reach_running: "portal_reach st True \<Longrightarrow> running st"
  by (erule portal_reachE) (auto simp: pre_start_Ok running_def)

lemma sent_shape:
  assumes "portal_reach st alive"
  shows "\<exists>text datas. sent (outs st) = CmHandshake text # map CmContent datas \<and>
    (is_open (channel_state st) \<or> datas = [])"
proof -
  have w: "inv_wire st" using portal_reach_inv[OF assms] by (simp add: portal_inv_def)
  then obtain m ms where ms: "sent (outs st) = m # ms" by (auto simp: inv_wire_def neq_Nil_conv)
  have "\<exists>datas. ms = map CmContent datas" if "list_all is_content ms" for ms
    using that
  proof (induction ms)
    case (Cons x ms)
    then obtain datas b where "ms = map CmContent datas" "x = CmContent b"
      by (auto simp: is_content_def split: conduit_message.splits)
    then show ?case by (intro exI[of _ "b # datas"]) simp
  qed simp
  moreover have "list_all is_content ms" "is_handshake m" "is_open (channel_state st) \<or> ms = []"
    using w ms by (simp_all add: inv_wire_def)
  moreover from \<open>is_handshake m\<close> obtain t where "m = CmHandshake t"
    by (auto simp: is_handshake_def split: conduit_message.splits)
  ultimately show ?thesis using ms by fastforce
qed

end
