(* ===== verification/Conduit.thy ===== *)
theory Conduit
  imports Portal
begin

text \<open>
  \<open>conduit/mod.rs\<close>: the loop that takes the messages of a transport to the portal
  actor. A transport's stream is the list of the items it yields before it ends; whether
  the portal's mailbox still takes the \<open>n\<close>-th message is the argument \<open>takes\<close>.
  The loop's result is what it put into the mailbox, in order.
\<close>

section \<open>The receive loop\<close>

definition cast_close :: "(nat \<Rightarrow> bool) \<Rightarrow> nat \<Rightarrow> ('rm, 'f) portal_message list" where
  "cast_close takes n = (if takes n then [Close] else [])"

fun receive_loop ::
    "(nat \<Rightarrow> bool) \<Rightarrow> nat \<Rightarrow> conduit_message outcome list \<Rightarrow> ('rm, 'f) portal_message list" where
  "receive_loop takes n [] = cast_close takes n"
| "receive_loop takes n (msg # receiver) = (case msg of
     Ok (CmHandshake text) \<Rightarrow>
       if takes n then Handshake text # receive_loop takes (n + 1) receiver
       else cast_close takes (n + 1)
   | Ok (CmContent data) \<Rightarrow>
       if takes n then Content data # receive_loop takes (n + 1) receiver
       else cast_close takes (n + 1)
   | Ok (CmClose close_frame) \<Rightarrow> cast_close takes n
   | Err e \<Rightarrow> cast_close takes n
   | Panic p \<Rightarrow> [])"

text \<open>What a message of the transport is to the portal.\<close>

definition portal_message_of :: "conduit_message \<Rightarrow> ('rm, 'f) portal_message" where
  "portal_message_of m = (case m of
     CmHandshake text \<Rightarrow> Handshake text | CmContent data \<Rightarrow> Content data | CmClose r \<Rightarrow> Close)"

definition is_close :: "conduit_message \<Rightarrow> bool" where
  "is_close m = (case m of CmClose _ \<Rightarrow> True | _ \<Rightarrow> False)"

lemma portal_message_of_simps [simp]:
  "portal_message_of (CmHandshake t) = Handshake t"
  "portal_message_of (CmContent d) = Content d"
  "portal_message_of (CmClose r) = Close"
  "\<not> is_close (CmHandshake t)" "\<not> is_close (CmContent d)" "is_close (CmClose r)"
  by (simp_all add: portal_message_of_def is_close_def)

text \<open>The items up to the first error, panic or close frame.\<close>

fun live_prefix :: "conduit_message outcome list \<Rightarrow> conduit_message list" where
  "live_prefix [] = []"
| "live_prefix (r # rs) = (case r of Ok m \<Rightarrow> if is_close m then [] else m # live_prefix rs | _ \<Rightarrow> [])"

definition no_panic :: "'a outcome list \<Rightarrow> bool" where
  "no_panic rs \<longleftrightarrow> list_all (\<lambda>r. case r of Panic _ \<Rightarrow> False | _ \<Rightarrow> True) rs"

lemma no_panic_simps [simp]:
  "no_panic []" "no_panic (Ok a # rs) = no_panic rs" "no_panic (Err e # rs) = no_panic rs"
  "\<not> no_panic (Panic p # rs)" "no_panic (rs @ rs') = (no_panic rs \<and> no_panic rs')"
  by (simp_all add: no_panic_def)

lemma no_panic_map_Ok [simp]: "no_panic (map Ok ms)"
  by (induction ms) simp_all

lemma live_prefix_append:
  "list_all (\<lambda>m. \<not> is_close m) ms \<Longrightarrow> live_prefix (map Ok ms @ rs) = ms @ live_prefix rs"
  by (induction ms) simp_all

text \<open>A mailbox that takes everything gets the live prefix in order, and then one close.\<close>

lemma receive_loop_eq:
  assumes "\<And>k. n \<le> k \<Longrightarrow> takes k" and "no_panic rs"
  shows "receive_loop takes n rs = map portal_message_of (live_prefix rs) @ [Close]"
  using assms
proof (induction takes n rs rule: receive_loop.induct)
  case (2 takes n msg receiver)
  show ?case
  proof (cases msg)
    case (Ok m)
    then show ?thesis using 2 by (cases m) (simp_all add: cast_close_def)
  qed (use 2 in \<open>simp_all add: cast_close_def\<close>)
qed (simp add: cast_close_def)

text \<open>Whatever the mailbox does, what it gets is a first part of that, and at most one close.\<close>

lemma receive_loop_part:
  "\<exists>k xs. (receive_loop takes n rs :: ('rm, 'f) portal_message list) = map portal_message_of (take k (live_prefix rs)) @ xs \<and>
     (xs = [] \<or> xs = [Close])"
proof (induction takes n rs rule: receive_loop.induct)
  case (1 takes n)
  show ?case by (simp add: cast_close_def)
next
  case (2 takes n msg receiver)
  have stop: ?case if "(receive_loop takes n (msg # receiver) :: ('rm, 'f) portal_message list) = cast_close takes n'" for n'
    unfolding that by (rule exI[of _ 0], rule exI[of _ "cast_close takes n'"]) (simp add: cast_close_def)
  have go: ?case
    if loop: "(receive_loop takes n (msg # receiver) :: ('rm, 'f) portal_message list) =
        portal_message_of m # receive_loop takes (n + 1) receiver"
      and msg: "msg = Ok m" "\<not> is_close m"
      and ih: "\<exists>k xs. (receive_loop takes (n + 1) receiver :: ('rm, 'f) portal_message list) =
        map portal_message_of (take k (live_prefix receiver)) @ xs \<and> (xs = [] \<or> xs = [Close])" for m
  proof -
    from ih obtain k xs where "(receive_loop takes (n + 1) receiver :: ('rm, 'f) portal_message list) =
        map portal_message_of (take k (live_prefix receiver)) @ xs" "xs = [] \<or> xs = [Close]" by blast
    with loop msg show ?thesis by (intro exI[of _ "Suc k"] exI[of _ xs]) simp
  qed
  show ?case
  proof (cases msg)
    case (Ok m)
    show ?thesis
    proof (cases m)
      case (CmHandshake t)
      with Ok 2(1) stop[of "n + 1"] go[of m] show ?thesis by (cases "takes n") auto
    next
      case (CmContent d)
      with Ok 2(2) stop[of "n + 1"] go[of m] show ?thesis by (cases "takes n") auto
    qed (use Ok stop[of n] in simp)
  next
    case (Err e)
    with stop[of n] show ?thesis by simp
  next
    case (Panic p)
    then show ?thesis by (intro exI[of _ 0] exI[of _ "[]"]) simp
  qed
qed

section \<open>Creating the portal\<close>

text \<open>
  \<open>from_sink_source\<close>: the nexus is asked for a portal (\<open>connected\<close> is its answer);
  on success the receive loop is spawned for it.
\<close>


definition from_sink_source ::
    "(rstring \<Rightarrow> actor_id outcome) \<Rightarrow> rstring \<Rightarrow> 'src \<Rightarrow>
     actor_id outcome \<times> (rstring \<times> 'src \<times> actor_id) list" where
  "from_sink_source connected portal_identifier source =
     (case connected portal_identifier of
        Ok portal_actor \<Rightarrow> (Ok portal_actor, [(portal_identifier, source, portal_actor)])
      | Err e \<Rightarrow> (Err e, [])
      | Panic p \<Rightarrow> (Panic p, []))"

end
