(* ===== verification/Link.thy ===== *)
theory Link
  imports Portal_Inv Conduit
begin

text \<open>
  Two portals joined by a conduit that delivers in order. Each end handles the messages
  the other end put into its sink, one after the other, interleaved with any messages of
  its own side; the ends run independently. What is shown: the ends agree on the channel
  id, and neither ever runs into one of the guards against a misbehaving peer.
\<close>

section \<open>Calls that leave the phase alone\<close>

text \<open>\<open>calm c st\<close>: the channel is in state \<open>c\<close> and the portal has not asked to stop.\<close>

definition calm :: "conduit_state \<Rightarrow> ('rm, 'f) portal_state \<Rightarrow> bool" where
  "calm c st \<longleftrightarrow> channel_state st = c \<and> running st"

abbreviation stays :: "conduit_state \<Rightarrow> ('rm, 'f, 'a) portal_eff \<Rightarrow> bool" where
  "stays c m \<equiv> keeps (calm c) (\<lambda>_ _. True) m"

lemma world_order_trivial [intro!]: "world_order (\<lambda>_ _. True)"
  by (simp add: world_order_def)

lemma calm_out [simp]: "calm c (st\<lparr>outs := outs st @ [x]\<rparr>) \<longleftrightarrow> calm c st \<and> x \<noteq> StopSelf"
  by (auto simp: calm_def running_def)

lemma staysI: "(\<And>st. calm c st \<Longrightarrow> calm c (snd (m st))) \<Longrightarrow> stays c m"
  by (simp add: keeps_def)

lemma staysD: "stays c m \<Longrightarrow> calm c st \<Longrightarrow> calm c (snd (m st))"
  by (simp add: keeps_def)

lemma stays_emit [intro!]: "x \<noteq> StopSelf \<Longrightarrow> stays c (emit x)"
  by (rule staysI) (simp add: emit_def)

lemma stays_update: "(\<And>st. calm c st \<Longrightarrow> calm c (f st)) \<Longrightarrow> stays c (update f)"
  by (rule staysI) (simp add: update_def)

lemma stays_sink [intro!]: "stays c (sink_send E m)"
  unfolding sink_send_def by (auto simp del: ret_apply throw_apply)

lemma stays_reply [intro!]: "stays c (reply_send E p r)"
  unfolding reply_send_def by (auto simp del: ret_apply throw_apply)

lemma stays_send [intro!]: "stays c (send_cross_message E m)"
  unfolding send_cross_message_def by auto

lemma stays_publish [intro!]: "stays c (publish_actor E a rm)"
  by (rule staysI) (auto simp: publish_actor_cases calm_def running_def split: option.split)

lemma stays_lookup [intro!]: "stays c (lookup_named E ch name)"
proof (rule staysI)
  fix st :: "('a, 'b) portal_state"
  assume c: "calm c st"
  show "calm c (snd (lookup_named E ch name st))"
  proof (cases "hm_get (named_actors st) name")
    case None
    have "stays c (seq (publish_actor E a rm) (\<lambda>opaque st. ret (ROk (remote_id_of ch st opaque)) st))"
      for a and rm :: 'a
      by (rule keeps_seq) (auto intro: staysI)
    from staysD[OF this c] c None show ?thesis
      by (cases "nexus_query E name")
        (auto simp: lookup_named_def simp del: ret_apply split: option.split, simp add: ret_def)
  qed (use c in \<open>simp add: lookup_named_def\<close>)
qed

lemma stays_at: "stays c m \<Longrightarrow> calm c st \<Longrightarrow> calm c (snd (m st))"
  by (rule staysD)

text \<open>The messages of a portal's own side; the others come out of its conduit.\<close>

definition own_side :: "('rm, 'f) portal_message \<Rightarrow> bool" where
  "own_side m = (case m of Handshake _ \<Rightarrow> False | Content _ \<Rightarrow> False | _ \<Rightarrow> True)"

lemma stays_cross: "calm c st \<Longrightarrow> calm c (snd (handle_cross_message E ch m st))"
proof -
  assume c: "calm c st"
  have 1: "stays c (handle_request_by_name E ch i name)" for i name
    unfolding handle_request_by_name_def by auto
  show ?thesis
  proof (cases m)
    case (RequestActorByName i name)
    then show ?thesis using staysD[OF 1 c] by (simp add: handle_cross_message_def)
  next
    case (SendMessage t d)
    have "stays c (seq (emit (Rematerialize rm a d)) (\<lambda>_. lift r))" for rm a and r :: "unit outcome"
      by (rule keeps_seq) (auto intro: staysI)
    from staysD[OF this c] SendMessage c show ?thesis
      by (auto simp: handle_cross_message_def handle_send_message_def simp del: lift_apply split: option.split)
  qed (use c in \<open>auto simp: handle_cross_message_def handle_response_def handle_actor_exited_def
        calm_def running_def emit_def reply_send_def Let_def split: option.split\<close>)
qed

lemma stays_own_side:
  assumes c: "calm c st" and m: "own_side m" "m \<noteq> Close"
  shows "calm c (snd (handle E m st))"
proof -
  have send: "calm c (snd (send_cross_message E x st))" for x by (rule staysD[OF stays_send c])
  have reply: "calm c (snd (reply_send E p r st))" for p r by (rule staysD[OF stays_reply c])
  show ?thesis
  proof (cases m)
    case (PublishNamedActor name a rm rpc)
    have "stays c (handle_publish_named_actor E name a rm rpc)"
      unfolding handle_publish_named_actor_def
    proof (intro keeps_seq stays_publish stays_update world_order_trivial)
      fix k and u :: unit
      show "stays c (case rpc of None \<Rightarrow> ret () | Some p \<Rightarrow> (\<lambda>st. case channel_state st of
           Open ch \<Rightarrow> reply_send E p (RNamedPublished (Some (remote_id_of ch st k))) st
         | Opening _ \<Rightarrow> reply_send E p (RNamedPublished None) st))"
        using staysD[OF stays_reply]
        by (intro staysI) (auto split: option.split conduit_state.split)
    qed (simp add: calm_def running_def)
    from staysD[OF this c] PublishNamedActor show ?thesis by (simp add: handle_def)
  next
    case (PublishActor a rm rpc)
    have "stays c (seq (publish_actor E a rm) (\<lambda>k. case rpc of None \<Rightarrow> ret () | Some p \<Rightarrow> (\<lambda>st.
       case channel_state st of
             Open ch \<Rightarrow> reply_send E p (RPublished (remote_id_of ch st k)) st
           | Opening _ \<Rightarrow> (Ok (), st))))"
    proof (intro keeps_seq stays_publish world_order_trivial)
      fix k
      show "stays c (case rpc of None \<Rightarrow> ret () | Some p \<Rightarrow> (\<lambda>st. case channel_state st of
             Open ch \<Rightarrow> reply_send E p (RPublished (remote_id_of ch st k)) st
           | Opening _ \<Rightarrow> (Ok (), st)))"
        using staysD[OF stays_reply]
        by (intro staysI) (auto split: option.split conduit_state.split)
    qed
    from staysD[OF this c] PublishActor c show ?thesis
      by (simp add: handle_def handle_publish_actor_def)
  next
    case (QueryNamedRemoteActor name p)
    have "stays c (seq (lift (u64_succ (platform_of E) n)) (\<lambda>next_id.
          seq (update (\<lambda>st. st\<lparr>next_request_id := next_id,
                 open_requests := hm_insert n p (open_requests st)\<rparr>)) (\<lambda>_.
          send_cross_message E (RequestActorByName n name))))" for n
      by (intro keeps_seq keeps_lift stays_send stays_update world_order_trivial)
        (simp add: calm_def running_def)
    from staysD[OF this c] QueryNamedRemoteActor c show ?thesis
      by (auto simp: handle_def handle_query_named_remote_actor_def Let_def split: conduit_state.split)
  qed (use c m send reply in \<open>auto simp: handle_def own_side_def handle_wait_for_handshake_def
        handle_immaterialize_message_def handle_transmit_message_def handle_register_proxy_def
        handle_local_actor_exited_def emit_def calm_def running_def
        split: conduit_state.splits option.splits\<close>)
qed

section \<open>The system\<close>

text \<open>
  One end: its portal, whether it still takes messages, how many of the peer's messages it
  has taken, and whether a \<open>Close\<close> has reached it.
\<close>

record ('rm, 'f) endpoint =
  portal :: "('rm, 'f) portal_state"
  taking :: bool
  taken :: nat
  closed :: bool

inductive move ::
    "(rstring \<Rightarrow> introduction outcome) \<Rightarrow> ('rm, 'f) portal_state \<Rightarrow>
     ('rm, 'f) endpoint \<Rightarrow> ('rm, 'f) endpoint \<Rightarrow> bool" for jd peer where
  receive: "taking A \<Longrightarrow> taken A < length (sent (outs peer)) \<Longrightarrow>
    uuid_new E (portal A) \<Longrightarrow> ids_left E (portal A) \<Longrightarrow> json_dec E = jd \<Longrightarrow>
    handle E (portal_message_of (sent (outs peer) ! taken A)) (portal A) = (r, st') \<Longrightarrow>
    move jd peer A (A\<lparr>portal := st', taking := (r = Ok () \<and> running st'), taken := taken A + 1\<rparr>)"
| own: "taking A \<Longrightarrow> own_side m \<Longrightarrow>
    uuid_new E (portal A) \<Longrightarrow> ids_left E (portal A) \<Longrightarrow> json_dec E = jd \<Longrightarrow>
    handle E m (portal A) = (r, st') \<Longrightarrow>
    move jd peer A (A\<lparr>portal := st', taking := (r = Ok () \<and> running st'), closed := closed A \<or> m = Close\<rparr>)"

text \<open>The two introductions, as \<open>pre_start\<close> makes them, are arguments: they never change.\<close>

definition introduction_of :: "bytes \<Rightarrow> nat \<Rightarrow> portal_args \<Rightarrow> introduction" where
  "introduction_of contribution pick args0 =
     \<lparr>channel_id_contribution = contribution, version = str_lit ''0.1'',
      info_text = motivational_messages ! pick, this_side_id = local_id args0\<rparr>"

definition fresh_end :: "('rm, 'f) portal_state \<Rightarrow> ('rm, 'f) endpoint" where
  "fresh_end st = \<lparr>portal = st, taking = True, taken = 0, closed = False\<rparr>"

inductive link_reach ::
    "(introduction \<Rightarrow> rstring outcome) \<Rightarrow> (rstring \<Rightarrow> introduction outcome) \<Rightarrow>
     introduction \<Rightarrow> introduction \<Rightarrow> ('rm, 'f) endpoint \<Rightarrow> ('rm, 'f) endpoint \<Rightarrow> bool"
  for je jd where
  start: "pre_start E je c p a = Ok l \<Longrightarrow> pre_start E' je c' p' a' = Ok r \<Longrightarrow>
    link_reach je jd (introduction_of c p a) (introduction_of c' p' a') (fresh_end l) (fresh_end r)"
| left: "link_reach je jd il ir L R \<Longrightarrow> move jd (portal R) L L' \<Longrightarrow> link_reach je jd il ir L' R"
| right: "link_reach je jd il ir L R \<Longrightarrow> move jd (portal L) R R' \<Longrightarrow> link_reach je jd il ir L R'"

section \<open>Agreement\<close>

definition channel_of :: "introduction \<Rightarrow> introduction \<Rightarrow> conduit_id" where
  "channel_of self other = ConduitID (from_le_bytes (xor_arrays
     (channel_id_contribution self) (channel_id_contribution other)))"

lemma xor_arrays_commute: "xor_arrays a b = xor_arrays b a"
  unfolding xor_arrays_def
  by (rule nth_equalityI) (auto simp: xor.commute)

lemma channel_of_commute: "channel_of i j = channel_of j i"
  by (simp add: channel_of_def xor_arrays_commute)

text \<open>What holds of an end with introduction \<open>i\<close> whose peer has introduction \<open>j\<close>.\<close>

definition end_inv ::
    "(introduction \<Rightarrow> rstring outcome) \<Rightarrow> introduction \<Rightarrow> introduction \<Rightarrow> ('rm, 'f) endpoint \<Rightarrow> bool" where
  "end_inv je i j A \<longleftrightarrow> portal_inv (portal A) \<and>
     (\<exists>t. je i = Ok t \<and> hd (sent (outs (portal A))) = CmHandshake t) \<and>
     channel_state (portal A) = (if taken A = 0 then Opening i else Open (channel_of i j)) \<and>
     (closed A \<or> running (portal A)) \<and> (taking A \<longrightarrow> running (portal A))"

lemma sent_hd_stable:
  assumes "portal_inv st" and "portal_le st st'"
  shows "hd (sent (outs st')) = hd (sent (outs st))"
proof -
  from assms(2) obtain xs where "outs st' = outs st @ xs" by (auto simp: portal_le_def prefix_def)
  moreover have "sent (outs st) \<noteq> []" using assms(1) by (simp add: portal_inv_def inv_wire_def)
  ultimately show ?thesis by simp
qed

text \<open>The first message is the handshake, and only the first.\<close>

lemma sent_nth:
  assumes "portal_inv st" and "k < length (sent (outs st))"
  shows "k = 0 \<Longrightarrow> sent (outs st) ! k = hd (sent (outs st))"
    and "0 < k \<Longrightarrow> \<exists>b. sent (outs st) ! k = CmContent b"
proof -
  show "k = 0 \<Longrightarrow> sent (outs st) ! k = hd (sent (outs st))"
    using assms(2) by (cases "sent (outs st)") auto
  assume "0 < k"
  then have "sent (outs st) ! k \<in> set (tl (sent (outs st)))"
    using assms(2) by (cases "sent (outs st)"; cases k) auto
  then have "is_content (sent (outs st) ! k)"
    using assms(1) by (auto simp: portal_inv_def inv_wire_def list_all_iff)
  then show "\<exists>b. sent (outs st) ! k = CmContent b"
    by (auto simp: is_content_def split: conduit_message.splits)
qed

lemma move_inv:
  assumes law: "json_law je jd" and A: "end_inv je i j A" and B: "end_inv je j i B"
    and mv: "move jd (portal B) A A'"
  shows "end_inv je i j A'"
  using mv
proof cases
  case (receive E r st')
  have step: "portal_inv st'" "portal_le (portal A) st'"
    using handle_run receive A unfolding end_inv_def by blast+
  have run: "running (portal A)" using A receive by (simp add: end_inv_def)
  from B obtain t where t: "je j = Ok t" "hd (sent (outs (portal B))) = CmHandshake t"
    by (auto simp: end_inv_def)
  have B_inv: "portal_inv (portal B)" using B by (simp add: end_inv_def)
  have "channel_state st' = Open (channel_of i j) \<and> running st'"
  proof (cases "taken A = 0")
    case True
    then have "sent (outs (portal B)) ! taken A = CmHandshake t"
      using sent_nth(1)[OF B_inv] receive(3) t by simp
    moreover have "json_dec E t = Ok j" using law t receive by (simp add: json_law_def)
    moreover have "channel_state (portal A) = Opening i" using A True by (simp add: end_inv_def)
    ultimately show ?thesis
      using receive run
      by (auto simp: handle_def handle_handshake_Opening channel_of_def running_def)
  next
    case False
    then obtain b where b: "sent (outs (portal B)) ! taken A = CmContent b"
      using sent_nth(2)[OF B_inv] receive by auto
    have c: "channel_state (portal A) = Open (channel_of i j)" using A False by (simp add: end_inv_def)
    then have "calm (Open (channel_of i j)) (portal A)" using run by (simp add: calm_def)
    then have "calm (Open (channel_of i j)) (snd (handle_content E b (portal A)))"
      using stays_cross c
      by (cases "simple_rematerialize (cpm_dec E) b") (auto simp: handle_content_def)
    then show ?thesis using receive b by (simp add: handle_def calm_def)
  qed
  then show ?thesis
    using receive A step sent_hd_stable[of "portal A" st'] by (auto simp: end_inv_def)
next
  case (own m E r st')
  have step: "portal_inv st'" "portal_le (portal A) st'"
    using handle_run own A unfolding end_inv_def by blast+
  have run: "running (portal A)" using A own by (simp add: end_inv_def)
  have "channel_state st' = channel_state (portal A) \<and> (m = Close \<or> running st')"
  proof (cases "m = Close")
    case True
    then show ?thesis using own by (auto simp: handle_def handle_close_def emit_def)
  next
    case False
    have "calm (channel_state (portal A)) (portal A)" using run by (simp add: calm_def)
    from stays_own_side[OF this own(3) False, of E] show ?thesis using own by (simp add: calm_def)
  qed
  then show ?thesis
    using own A step sent_hd_stable[of "portal A" st'] by (auto simp: end_inv_def)
qed

lemma pre_start_end:
  assumes "pre_start E je c p a = Ok st"
  shows "end_inv je (introduction_of c p a) j (fresh_end st)"
  using assms pre_start_inv[OF assms]
  by (auto simp: pre_start_Ok end_inv_def fresh_end_def introduction_of_def running_def)

lemma link_inv:
  assumes "json_law je jd" and "link_reach je jd i j L R"
  shows "end_inv je i j L \<and> end_inv je j i R"
  using assms(2)
proof induction
  case (left il ir L R L')
  then show ?case using move_inv[OF assms(1)] by blast
next
  case (right il ir L R R')
  then show ?case using move_inv[OF assms(1)] by blast
qed (simp add: pre_start_end)

end
