(* ===== verification/Portal_Correct.thy ===== *)
theory Portal_Correct
  imports Portal_Inv
begin

text \<open>
  What each handler of the portal does, branch by branch: publishing, lookup by name and
  its fallback to the nexus, the requests and their responses, delivery, exits, and the
  errors that end the portal.
\<close>

section \<open>Surroundings that work\<close>

text \<open>A sink that takes messages, an encoder that returns, and both ends on one codec.\<close>

definition working :: "'rm env \<Rightarrow> bool" where
  "working E \<longleftrightarrow> sink_send_ok E \<and> sink_flush_ok E \<and> bincode_law (cpm_enc E) (cpm_dec E) \<and>
     (\<forall>m. is_ok (cpm_enc E m))"

definition encoded :: "'rm env \<Rightarrow> cross_portal_message \<Rightarrow> bytes" where
  "encoded E m = (case cpm_enc E m of Ok bs \<Rightarrow> bs | _ \<Rightarrow> [])"

lemma working_enc: "working E \<Longrightarrow> cpm_enc E m = Ok (encoded E m)"
  unfolding working_def encoded_def is_ok_def by (metis outcome.case outcome.exhaust)

lemma send_cross_message_working:
  "working E \<Longrightarrow> send_cross_message E m st =
     (Ok (), st\<lparr>outs := outs st @ [SinkSend (CmContent (encoded E m))]\<rparr>)"
  by (simp add: send_cross_message_def simple_immaterialize_def working_enc sink_send_def
      working_def emit_def seq_def)

lemma decoded_working: "working E \<Longrightarrow> simple_rematerialize (cpm_dec E) (encoded E m) = Ok m"
  by (rule simple_roundtrip[of "cpm_enc E"])
    (simp_all add: working_def simple_immaterialize_def working_enc)

text \<open>What the peer encoded is handled as the message it was.\<close>

lemma handle_content_working:
  assumes "working E" and "channel_state st = Open c"
  shows "handle E (Content (encoded E m)) st = handle_cross_message E c m st"
  using assms by (simp add: handle_def handle_content_def decoded_working)

section \<open>Publishing\<close>

lemma publish_actor_published:
  assumes "portal_inv st" and "(k, a, rm') \<in> set (published_actors st)"
  shows "publish_actor E a rm st = (Ok k, st)"
proof -
  have "distinct (map (fst \<circ> snd) (published_actors st))"
    using assms(1) by (simp add: portal_inv_def inv_maps_def)
  from find_published_iff[OF this] assms(2) have "find_published a (published_actors st) = Some k" by blast
  then show ?thesis by (simp add: publish_actor_cases)
qed

lemma publish_actor_new:
  assumes "a \<notin> fst ` snd ` set (published_actors st)" and "uuid_new E st"
  shows "publish_actor E a rm st = (Ok (OpaqueActorId (fresh_uuid E)),
    st\<lparr>published_actors := published_actors st @ [(OpaqueActorId (fresh_uuid E), a, rm)],
       outs := outs st @ [SpawnExitWatch a]\<rparr>)"
  using assms find_published_None[of a "published_actors st"]
  by (simp add: publish_actor_cases uuid_new_def hm_insert_new)

lemma published_get:
  "portal_inv st \<Longrightarrow> hm_get (published_actors st) k = Some v \<longleftrightarrow> (k, v) \<in> set (published_actors st)"
  unfolding portal_inv_def inv_maps_def using hm_in_get hm_get_Some_in by metis

text \<open>After publishing under a name, the name stands for the actor.\<close>

lemma publish_named_effect:
  assumes inv: "portal_inv st" and new: "uuid_new E st"
    and run: "handle E (PublishNamedActor name a rm None) st = (r, st')"
  shows "r = Ok () \<and> channel_state st' = channel_state st \<and> args st' = args st \<and>
    (\<exists>k rm'. hm_get (named_actors st') name = Some k \<and> hm_get (published_actors st') k = Some (a, rm')) \<and>
    (\<forall>n. n \<noteq> name \<longrightarrow> hm_get (named_actors st') n = hm_get (named_actors st) n)"
proof -
  obtain q st1 where pub: "publish_actor E a rm st = (q, st1)" by fastforce
  note facts = publish_actor_run[OF inv new pub]
  from facts(6) obtain k rm' where k: "q = Ok k" "(k, a, rm') \<in> set (published_actors st1)" by blast
  have "hm_get (published_actors st1) k = Some (a, rm')"
    using published_get[OF facts(1)] k(2) by blast
  then show ?thesis
    using run pub k facts
    by (auto simp: handle_def handle_publish_named_actor_def update_def hm_get_insert seq_def)
qed

section \<open>Requests by name\<close>

definition answer_of ::
    "conduit_id \<Rightarrow> ('rm, 'f) portal_state \<Rightarrow> opaque_actor_id \<Rightarrow> message_id \<Rightarrow> cross_portal_message" where
  "answer_of c st k i = ResponseActorByName i (ROk (remote_id_of c st k))"

lemma request_named:
  assumes "working E" and "hm_get (named_actors st) name = Some k"
  shows "handle_cross_message E c (RequestActorByName i name) st =
    (Ok (), st\<lparr>outs := outs st @ [SinkSend (CmContent (encoded E (answer_of c st k i)))]\<rparr>)"
  using assms
  by (simp add: handle_cross_message_def handle_request_by_name_def lookup_named_def seq_def
      send_cross_message_working answer_of_def)

lemma request_unknown:
  assumes "working E" and "hm_get (named_actors st) name = None" and "nexus_query E name = Ok None"
  shows "handle_cross_message E c (RequestActorByName i name) st =
    (Ok (), st\<lparr>outs := outs st @
       [SinkSend (CmContent (encoded E (ResponseActorByName i (RErr ActorNotFound))))]\<rparr>)"
  using assms
  by (simp add: handle_cross_message_def handle_request_by_name_def lookup_named_def seq_def
      send_cross_message_working)

text \<open>An actor known to the nexus only is published on the way.\<close>

lemma request_nexus:
  assumes "working E" and "hm_get (named_actors st) name = None"
    and "nexus_query E name = Ok (Some (a, rm))" and pub: "publish_actor E a rm st = (Ok k, st1)"
  shows "handle_cross_message E c (RequestActorByName i name) st =
    (Ok (), st1\<lparr>outs := outs st1 @ [SinkSend (CmContent (encoded E (answer_of c st1 k i)))]\<rparr>)"
  using assms
  by (simp add: handle_cross_message_def handle_request_by_name_def lookup_named_def seq_def
      send_cross_message_working answer_of_def)

lemma query_effect:
  assumes "working E" and "channel_state st = Open c" and "next_request_id st \<noteq> - 1"
  shows "handle E (QueryNamedRemoteActor name p) st =
    (Ok (), st\<lparr>next_request_id := next_request_id st + 1,
       open_requests := hm_insert (next_request_id st) p (open_requests st),
       outs := outs st @ [SinkSend (CmContent (encoded E (RequestActorByName (next_request_id st) name)))]\<rparr>)"
  using assms
  by (simp add: handle_def handle_query_named_remote_actor_def Let_def u64_succ_def update_def
      send_cross_message_working seq_def)

lemma response_effect:
  assumes "hm_get (open_requests st) i = Some p" and "port_open E p"
  shows "handle_cross_message E c (ResponseActorByName i (ROk rid)) st =
    (Ok (), st\<lparr>open_requests := hm_remove i (open_requests st),
       outs := outs st @ [Reply p (RQuery (ROk rid))]\<rparr>)"
  using assms by (simp add: handle_cross_message_def handle_response_def reply_send_def emit_def)

lemma response_unknown:
  "hm_get (open_requests st) i = None \<Longrightarrow>
   handle_cross_message E c (ResponseActorByName i resp) st = (Ok (), st)"
  by (simp add: handle_cross_message_def handle_response_def)

section \<open>Delivery\<close>

lemma transmit_effect:
  assumes "working E" and "channel_state st = Open c"
  shows "handle E (TransmitMessage rid data) st =
    (Ok (), st\<lparr>outs := outs st @ [SinkSend (CmContent (encoded E (SendMessage rid data)))]\<rparr>)"
  using assms by (simp add: handle_def handle_transmit_message_def send_cross_message_working)

lemma send_message_effect:
  assumes "hm_get (published_actors st) (opaque_id rid) = Some (a, rm)"
  shows "handle_cross_message E c (SendMessage rid data) st =
    (run_rm E rm a data, st\<lparr>outs := outs st @ [Rematerialize rm a data]\<rparr>)"
  using assms by (simp add: handle_cross_message_def handle_send_message_def emit_def seq_def)

lemma send_message_unpublished:
  "hm_get (published_actors st) (opaque_id rid) = None \<Longrightarrow>
   handle_cross_message E c (SendMessage rid data) st = (Ok (), st)"
  by (simp add: handle_cross_message_def handle_send_message_def)

section \<open>Exits\<close>

lemma exited_effect:
  assumes "working E" and "channel_state st = Open c" and inv: "portal_inv st"
    and "(k, a, rm) \<in> set (published_actors st)"
  shows "handle E (LocalActorExited a) st =
    (Ok (), st\<lparr>outs := outs st @ [SinkSend (CmContent (encoded E (ActorExited (remote_id_of c st k))))]\<rparr>)"
proof -
  have "distinct (map (fst \<circ> snd) (published_actors st))"
    using inv by (simp add: portal_inv_def inv_maps_def)
  from find_published_iff[OF this] assms(4) have "find_published a (published_actors st) = Some k" by blast
  then show ?thesis
    using assms by (simp add: handle_def handle_local_actor_exited_def send_cross_message_working)
qed

lemma actor_exited_effect:
  assumes "hm_get (proxies_for_remote_actors st) rid = Some a"
  shows "handle_cross_message E c (ActorExited rid) st =
    (Ok (), st\<lparr>proxies_for_remote_actors := hm_remove rid (proxies_for_remote_actors st),
       outs := outs st @ [StopActor a]\<rparr>)"
  using assms by (simp add: handle_cross_message_def handle_actor_exited_def emit_def)

lemma register_effect:
  assumes "channel_state st = Open c"
  shows "handle E (RegisterProxyForRemoteActor rid a) st =
    (Ok (), st\<lparr>proxies_for_remote_actors := hm_insert rid a (proxies_for_remote_actors st)\<rparr>)"
  using assms by (simp add: handle_def handle_register_proxy_def)

end
