(* ===== verification/Nexus.thy ===== *)
theory Nexus
  imports Portal_Correct
begin

text \<open>
  \<open>nexus.rs\<close>: the actor that owns the portals of a process and the names published to
  all of them. As in the model of the portal, what it does to its surroundings is recorded
  in order (\<open>nexus_outs\<close>), and what they answer is an argument (\<open>nexus_env\<close>).
\<close>

section \<open>State and messages\<close>

text \<open>The sink of a connection is known by a handle.\<close>

type_synonym conduit_sink = nat

datatype 'rm nexus_output =
    SpawnPortal portal_args actor_id
  | NotifyConnected actor_id rstring actor_id
  | ReplyPortal port actor_id
  | ReplyAllPortals port "actor_id list"
  | ReplyNamed port "(actor_id \<times> 'rm) option"

record 'rm nexus_state =
  on_client_connected :: "actor_id option"
  portals :: "(actor_id, rstring \<times> actor_id) hmap"
  nexus_named_actors :: "(rstring, actor_id \<times> 'rm) hmap"
  nexus_outs :: "'rm nexus_output list"

datatype 'rm nexus_message =
    Connected rstring conduit_sink port
  | GetAllPortals port
  | NexusPublishNamedActor rstring actor_id 'rm
  | QueryNamedActor rstring port

datatype supervision_event = ActorTerminated actor_id | ActorFailed actor_id werror | OtherEvent

text \<open>
  \<open>spawn_portal\<close> is \<open>Actor::spawn_linked\<close> of a portal, which returns after the
  portal's \<open>pre_start\<close> has; \<open>random_id\<close> is \<open>rand::random()\<close>.
\<close>

record nexus_env =
  random_id :: "128 word"
  spawn_portal :: "portal_args \<Rightarrow> conduit_sink \<Rightarrow> actor_id outcome"
  callback_alive :: "actor_id \<Rightarrow> bool"
  nexus_port_open :: "port \<Rightarrow> bool"

type_synonym ('rm, 'a) nexus_eff = "('rm nexus_state, 'a) eff"

section \<open>Handlers\<close>

definition nexus_pre_start :: "actor_id option \<Rightarrow> 'rm nexus_state outcome" where
  "nexus_pre_start callback =
     Ok \<lparr>on_client_connected = callback, portals = [], nexus_named_actors = [], nexus_outs = []\<rparr>"

definition nexus_emit :: "'rm nexus_output \<Rightarrow> ('rm, unit) nexus_eff" where
  "nexus_emit x = (\<lambda>st. (Ok (), st\<lparr>nexus_outs := nexus_outs st @ [x]\<rparr>))"

definition nexus_reply :: "nexus_env \<Rightarrow> port \<Rightarrow> 'rm nexus_output \<Rightarrow> ('rm, unit) nexus_eff" where
  "nexus_reply E p x = (if nexus_port_open E p then nexus_emit x else throw ChannelClosed)"

definition handle_connected ::
    "nexus_env \<Rightarrow> rstring \<Rightarrow> conduit_sink \<Rightarrow> port \<Rightarrow> ('rm, unit) nexus_eff" where
  "handle_connected E ident ws_stream reply =
     (let portal_args = \<lparr>peer_identifier = ident, local_id = LocalPortalId (random_id E),
                         default_rpc_port_timeout = 120\<rparr>
      in seq (lift (spawn_portal E portal_args ws_stream)) (\<lambda>actor_ref.
         seq (nexus_emit (SpawnPortal portal_args actor_ref)) (\<lambda>_.
         seq (\<lambda>st. (Ok (), st\<lparr>portals := hm_insert actor_ref (ident, actor_ref) (portals st)\<rparr>)) (\<lambda>_.
         seq (\<lambda>st. case on_client_connected st of
                None \<Rightarrow> (Ok (), st)
              | Some callback \<Rightarrow>
                  (if callback_alive E callback
                   then nexus_emit (NotifyConnected callback ident actor_ref) st
                   else throw SendError st)) (\<lambda>_.
         nexus_reply E reply (ReplyPortal reply actor_ref))))))"

definition handle_get_all_portals :: "nexus_env \<Rightarrow> port \<Rightarrow> ('rm, unit) nexus_eff" where
  "handle_get_all_portals E reply = (\<lambda>st.
     nexus_reply E reply (ReplyAllPortals reply (map (\<lambda>(_, _, a). a) (portals st))) st)"

definition handle_nexus_publish :: "rstring \<Rightarrow> actor_id \<Rightarrow> 'rm \<Rightarrow> ('rm, unit) nexus_eff" where
  "handle_nexus_publish name actor_ref receiver = (\<lambda>st.
     let existing = find (\<lambda>(s, _). s = name) (nexus_named_actors st);
         store = (Ok (), st\<lparr>nexus_named_actors :=
                    hm_insert name (actor_ref, receiver) (nexus_named_actors st)\<rparr>)
     in case existing of
          Some (_, (existing_actor, _)) \<Rightarrow> (if existing_actor \<noteq> actor_ref then store else (Ok (), st))
        | None \<Rightarrow> store)"

definition handle_query_named_actor :: "nexus_env \<Rightarrow> rstring \<Rightarrow> port \<Rightarrow> ('rm, unit) nexus_eff" where
  "handle_query_named_actor E name reply = (\<lambda>st.
     nexus_reply E reply (ReplyNamed reply (hm_get (nexus_named_actors st) name)) st)"

definition nexus_handle :: "nexus_env \<Rightarrow> 'rm nexus_message \<Rightarrow> ('rm, unit) nexus_eff" where
  "nexus_handle E message = (case message of
       Connected ident ws_stream reply \<Rightarrow> handle_connected E ident ws_stream reply
     | GetAllPortals reply \<Rightarrow> handle_get_all_portals E reply
     | NexusPublishNamedActor name a rm \<Rightarrow> handle_nexus_publish name a rm
     | QueryNamedActor name reply \<Rightarrow> handle_query_named_actor E name reply)"

definition nexus_supervise :: "supervision_event \<Rightarrow> ('rm, unit) nexus_eff" where
  "nexus_supervise event = (\<lambda>st. (Ok (), case event of
       ActorTerminated a \<Rightarrow> st\<lparr>portals := hm_remove a (portals st)\<rparr>
     | ActorFailed a err \<Rightarrow> st\<lparr>portals := hm_remove a (portals st)\<rparr>
     | OtherEvent \<Rightarrow> st))"

section \<open>Running\<close>

text \<open>
  \<open>nexus_reach st live alive\<close>: the nexus can be in \<open>st\<close> when \<open>live\<close> are the
  portals it has spawned and that have not ended, and still takes messages if \<open>alive\<close>.
  A spawned actor has a new id.
\<close>

definition ended :: "supervision_event \<Rightarrow> actor_id set" where
  "ended event = (case event of ActorTerminated a \<Rightarrow> {a} | ActorFailed a _ \<Rightarrow> {a} | OtherEvent \<Rightarrow> {})"

definition spawned :: "'rm nexus_output list \<Rightarrow> actor_id set" where
  "spawned os = {a. \<exists>args0. SpawnPortal args0 a \<in> set os}"

lemma spawned_simps [simp]:
  "spawned [] = {}"
  "spawned (os @ os') = spawned os \<union> spawned os'"
  "spawned (SpawnPortal g a # os) = insert a (spawned os)"
  "spawned (NotifyConnected c i a # os) = spawned os"
  "spawned (ReplyPortal p a # os) = spawned os"
  "spawned (ReplyAllPortals p as # os) = spawned os"
  "spawned (ReplyNamed p x # os) = spawned os"
  by (auto simp: spawned_def)

definition spawns_new :: "nexus_env \<Rightarrow> 'rm nexus_state \<Rightarrow> bool" where
  "spawns_new E st \<longleftrightarrow> (\<forall>g s a. spawn_portal E g s = Ok a \<longrightarrow> a \<notin> spawned (nexus_outs st))"

inductive nexus_reach :: "'rm nexus_state \<Rightarrow> actor_id set \<Rightarrow> bool \<Rightarrow> bool" where
  start: "nexus_pre_start cb = Ok st \<Longrightarrow> nexus_reach st {} True"
| message: "nexus_reach st live True \<Longrightarrow> spawns_new E st \<Longrightarrow> nexus_handle E m st = (r, st') \<Longrightarrow>
    nexus_reach st' (live \<union> (spawned (nexus_outs st') - spawned (nexus_outs st))) (r = Ok ())"
| event: "nexus_reach st live True \<Longrightarrow> nexus_supervise ev st = (r, st') \<Longrightarrow>
    nexus_reach st' (live - ended ev) (r = Ok ())"

section \<open>The invariant\<close>

definition nexus_inv :: "'rm nexus_state \<Rightarrow> actor_id set \<Rightarrow> bool" where
  "nexus_inv st live \<longleftrightarrow> hm_ok (portals st) \<and> hm_ok (nexus_named_actors st) \<and>
     (\<forall>(k, n, a) \<in> set (portals st). a = k) \<and> fst ` set (portals st) = live \<and>
     live \<subseteq> spawned (nexus_outs st)"

lemma nexus_inv_out:
  "nexus_inv st live \<Longrightarrow> spawned [x] = {} \<Longrightarrow>
   nexus_inv (st\<lparr>nexus_outs := nexus_outs st @ [x]\<rparr>) live"
  by (auto simp: nexus_inv_def)

lemma nexus_reply_run:
  assumes "nexus_inv st live" and "spawned [x] = {}" and "nexus_reply E p x st = (r, st')"
  shows "nexus_inv st' live \<and> spawned (nexus_outs st') = spawned (nexus_outs st)"
proof (cases "nexus_port_open E p")
  case True
  then have "st' = st\<lparr>nexus_outs := nexus_outs st @ [x]\<rparr>"
    using assms(3) by (simp add: nexus_reply_def nexus_emit_def)
  then show ?thesis using nexus_inv_out[OF assms(1,2)] assms(2) by simp
qed (use assms in \<open>simp add: nexus_reply_def\<close>)

definition portal_args_of :: "nexus_env \<Rightarrow> rstring \<Rightarrow> portal_args" where
  "portal_args_of E ident = \<lparr>peer_identifier = ident, local_id = LocalPortalId (random_id E),
     default_rpc_port_timeout = 120\<rparr>"

definition with_portal :: "portal_args \<Rightarrow> rstring \<Rightarrow> actor_id \<Rightarrow> 'rm nexus_state \<Rightarrow> 'rm nexus_state" where
  "with_portal g ident a st = st\<lparr>nexus_outs := nexus_outs st @ [SpawnPortal g a],
     portals := hm_insert a (ident, a) (portals st)\<rparr>"

lemma handle_connected_cases:
  "handle_connected E ident s p st = (case spawn_portal E (portal_args_of E ident) s of
       Ok a \<Rightarrow>
         (let st1 = with_portal (portal_args_of E ident) ident a st in
          case on_client_connected st of
            None \<Rightarrow> nexus_reply E p (ReplyPortal p a) st1
          | Some cb \<Rightarrow>
              (if callback_alive E cb then
                 nexus_reply E p (ReplyPortal p a)
                   (st1\<lparr>nexus_outs := nexus_outs st1 @ [NotifyConnected cb ident a]\<rparr>)
               else (Err SendError, st1)))
     | Err e \<Rightarrow> (Err e, st) | Panic q \<Rightarrow> (Panic q, st))"
  by (simp add: handle_connected_def Let_def portal_args_of_def with_portal_def nexus_emit_def seq_def
      split: outcome.split option.split)

lemma nexus_inv_with_portal:
  assumes "nexus_inv st live" and "a \<notin> spawned (nexus_outs st)"
  shows "nexus_inv (with_portal g ident a st) (insert a live)"
  using assms by (auto simp: nexus_inv_def with_portal_def set_hm_insert rev_image_eqI)

lemma handle_connected_run:
  assumes inv: "nexus_inv st live" and new: "spawns_new E st"
    and run: "handle_connected E ident s p st = (r, st')"
  shows "nexus_inv st' (live \<union> (spawned (nexus_outs st') - spawned (nexus_outs st)))"
proof (cases "spawn_portal E (portal_args_of E ident) s")
  case (Ok a)
  let ?st = "with_portal (portal_args_of E ident) ident a st"
  let ?cb = "\<lambda>cb. ?st\<lparr>nexus_outs := nexus_outs ?st @ [NotifyConnected cb ident a]\<rparr>"
  have a: "a \<notin> spawned (nexus_outs st)" using new Ok by (simp add: spawns_new_def)
  note 1 = nexus_inv_with_portal[OF inv a, of "portal_args_of E ident" ident]
  have sp: "spawned (nexus_outs ?st) = insert a (spawned (nexus_outs st))"
    by (simp add: with_portal_def)
  have 2: "nexus_inv (?cb cb) (insert a live)" for cb by (rule nexus_inv_out[OF 1]) simp
  have "nexus_inv st' (insert a live) \<and> spawned (nexus_outs st') = insert a (spawned (nexus_outs st))"
  proof (cases "on_client_connected st")
    case None
    then show ?thesis using run Ok nexus_reply_run[OF 1, of "ReplyPortal p a" E p r st'] sp
      by (simp add: handle_connected_cases Let_def)
  next
    case (Some cb)
    show ?thesis
    proof (cases "callback_alive E cb")
      case True
      then show ?thesis using run Ok Some nexus_reply_run[OF 2[of cb], of "ReplyPortal p a" E p r st'] sp
        by (simp add: handle_connected_cases Let_def)
    qed (use run Ok Some 1 sp in \<open>simp add: handle_connected_cases Let_def\<close>)
  qed
  moreover have "live \<subseteq> spawned (nexus_outs st)" using inv by (simp add: nexus_inv_def)
  ultimately show ?thesis using a by (simp add: insert_Diff_if)
qed (use run inv in \<open>simp_all add: handle_connected_cases\<close>)

lemma handle_nexus_publish_eq:
  "handle_nexus_publish name a rm st =
     (Ok (), if \<exists>rm'. hm_get (nexus_named_actors st) name = Some (a, rm') then st
             else st\<lparr>nexus_named_actors := hm_insert name (a, rm) (nexus_named_actors st)\<rparr>)"
proof -
  have "find (\<lambda>(s, _). s = name) m = map_option (\<lambda>v. (name, v)) (hm_get m name)"
    for m :: "(rstring \<times> actor_id \<times> 'a) list"
    by (induction m) (auto simp: hm_get_def)
  then show ?thesis
    by (cases "hm_get (nexus_named_actors st) name") (auto simp: handle_nexus_publish_def Let_def)
qed

lemma nexus_handle_run:
  assumes inv: "nexus_inv st live" and new: "spawns_new E st" and run: "nexus_handle E m st = (r, st')"
  shows "nexus_inv st' (live \<union> (spawned (nexus_outs st') - spawned (nexus_outs st)))"
proof (cases m)
  case (Connected ident s p)
  then show ?thesis using handle_connected_run[OF inv new] run by (simp add: nexus_handle_def)
next
  case (NexusPublishNamedActor name a rm)
  then have "nexus_inv st' live \<and> nexus_outs st' = nexus_outs st"
    using run inv by (auto simp: nexus_handle_def handle_nexus_publish_eq nexus_inv_def split: if_splits)
  then show ?thesis by simp
next
  case (GetAllPortals p)
  then show ?thesis
    using nexus_reply_run[OF inv _ run[unfolded nexus_handle_def GetAllPortals nexus_message.case
      handle_get_all_portals_def]] by simp
next
  case (QueryNamedActor name p)
  then show ?thesis
    using nexus_reply_run[OF inv _ run[unfolded nexus_handle_def QueryNamedActor nexus_message.case
      handle_query_named_actor_def]] by simp
qed

lemma nexus_supervise_run:
  assumes "nexus_inv st live" and "nexus_supervise ev st = (r, st')"
  shows "nexus_inv st' (live - ended ev)"
  using assms
  by (auto simp: nexus_supervise_def nexus_inv_def ended_def set_hm_remove split: supervision_event.splits)

lemma nexus_reach_inv: "nexus_reach st live alive \<Longrightarrow> nexus_inv st live"
proof (induction rule: nexus_reach.induct)
  case (start cb st)
  then show ?case by (auto simp: nexus_pre_start_def nexus_inv_def)
next
  case (message st live E m r st')
  then show ?case using nexus_handle_run by blast
next
  case (event st live ev r st')
  then show ?case using nexus_supervise_run by blast
qed

end
