(* ===== verification/Transmat_Tuple.thy ===== *)
theory Transmat_Tuple
  imports Transmat_Contract
begin

text \<open>
  \<open>transmaterialization/default_impl_tupl.rs\<close>: the implementations for tuples of 1 to
  12 elements. Every element is written behind its length and read back in order
  (\<open>immaterialize_elem\<close>, \<open>rematerialize_elem\<close>); the whole buffer must be
  consumed (\<open>read_all\<close>). A Rust tuple \<open>(a, b, c)\<close> is the HOL tuple, so the
  1-tuple is its element. One lemma per arity shows that the contract of the elements gives
  the contract of the tuple; the equations at the end spell two arities out statement by
  statement.
\<close>

section \<open>The implementations\<close>

definition immaterialize_tuple1 ::
   "('s, 'a0) immat \<Rightarrow> ('s, 'a0) immat" where
  "immaterialize_tuple1 i0 =
     immaterialize_elem i0"

definition rematerialize_tuple1 ::
   "platform \<Rightarrow> ('t, 'a0) remat \<Rightarrow> ('t, 'a0) remat" where
  "rematerialize_tuple1 P r0 = read_all
     (rematerialize_elem P r0)"

definition immaterialize_tuple2 ::
   "('s, 'a0) immat \<Rightarrow> ('s, 'a1) immat \<Rightarrow> ('s, 'a0 \<times> 'a1) immat" where
  "immaterialize_tuple2 i0 i1 =
     write_then (immaterialize_elem i0)
     (immaterialize_elem i1)"

definition rematerialize_tuple2 ::
   "platform \<Rightarrow> ('t, 'a0) remat \<Rightarrow> ('t, 'a1) remat \<Rightarrow>
    ('t, 'a0 \<times> 'a1) remat" where
  "rematerialize_tuple2 P r0 r1 = read_all
     (read_then (rematerialize_elem P r0)
     (rematerialize_elem P r1))"

definition immaterialize_tuple3 ::
   "('s, 'a0) immat \<Rightarrow> ('s, 'a1) immat \<Rightarrow> ('s, 'a2) immat \<Rightarrow>
    ('s, 'a0 \<times> 'a1 \<times> 'a2) immat" where
  "immaterialize_tuple3 i0 i1 i2 =
     write_then (immaterialize_elem i0)
     (write_then (immaterialize_elem i1)
     (immaterialize_elem i2))"

definition rematerialize_tuple3 ::
   "platform \<Rightarrow> ('t, 'a0) remat \<Rightarrow> ('t, 'a1) remat \<Rightarrow>
    ('t, 'a2) remat \<Rightarrow> ('t, 'a0 \<times> 'a1 \<times> 'a2) remat" where
  "rematerialize_tuple3 P r0 r1 r2 = read_all
     (read_then (rematerialize_elem P r0)
     (read_then (rematerialize_elem P r1)
     (rematerialize_elem P r2)))"

definition immaterialize_tuple4 ::
   "('s, 'a0) immat \<Rightarrow> ('s, 'a1) immat \<Rightarrow> ('s, 'a2) immat \<Rightarrow>
    ('s, 'a3) immat \<Rightarrow> ('s, 'a0 \<times> 'a1 \<times> 'a2 \<times> 'a3) immat" where
  "immaterialize_tuple4 i0 i1 i2 i3 =
     write_then (immaterialize_elem i0)
     (write_then (immaterialize_elem i1)
     (write_then (immaterialize_elem i2)
     (immaterialize_elem i3)))"

definition rematerialize_tuple4 ::
   "platform \<Rightarrow> ('t, 'a0) remat \<Rightarrow> ('t, 'a1) remat \<Rightarrow>
    ('t, 'a2) remat \<Rightarrow> ('t, 'a3) remat \<Rightarrow>
    ('t, 'a0 \<times> 'a1 \<times> 'a2 \<times> 'a3) remat" where
  "rematerialize_tuple4 P r0 r1 r2 r3 = read_all
     (read_then (rematerialize_elem P r0)
     (read_then (rematerialize_elem P r1)
     (read_then (rematerialize_elem P r2)
     (rematerialize_elem P r3))))"

definition immaterialize_tuple5 ::
   "('s, 'a0) immat \<Rightarrow> ('s, 'a1) immat \<Rightarrow> ('s, 'a2) immat \<Rightarrow>
    ('s, 'a3) immat \<Rightarrow> ('s, 'a4) immat \<Rightarrow>
    ('s, 'a0 \<times> 'a1 \<times> 'a2 \<times> 'a3 \<times> 'a4) immat" where
  "immaterialize_tuple5 i0 i1 i2 i3 i4 =
     write_then (immaterialize_elem i0)
     (write_then (immaterialize_elem i1)
     (write_then (immaterialize_elem i2)
     (write_then (immaterialize_elem i3)
     (immaterialize_elem i4))))"

definition rematerialize_tuple5 ::
   "platform \<Rightarrow> ('t, 'a0) remat \<Rightarrow> ('t, 'a1) remat \<Rightarrow>
    ('t, 'a2) remat \<Rightarrow> ('t, 'a3) remat \<Rightarrow> ('t, 'a4) remat \<Rightarrow>
    ('t, 'a0 \<times> 'a1 \<times> 'a2 \<times> 'a3 \<times> 'a4) remat" where
  "rematerialize_tuple5 P r0 r1 r2 r3 r4 = read_all
     (read_then (rematerialize_elem P r0)
     (read_then (rematerialize_elem P r1)
     (read_then (rematerialize_elem P r2)
     (read_then (rematerialize_elem P r3)
     (rematerialize_elem P r4)))))"

definition immaterialize_tuple6 ::
   "('s, 'a0) immat \<Rightarrow> ('s, 'a1) immat \<Rightarrow> ('s, 'a2) immat \<Rightarrow>
    ('s, 'a3) immat \<Rightarrow> ('s, 'a4) immat \<Rightarrow> ('s, 'a5) immat \<Rightarrow>
    ('s, 'a0 \<times> 'a1 \<times> 'a2 \<times> 'a3 \<times> 'a4 \<times> 'a5) immat" where
  "immaterialize_tuple6 i0 i1 i2 i3 i4 i5 =
     write_then (immaterialize_elem i0)
     (write_then (immaterialize_elem i1)
     (write_then (immaterialize_elem i2)
     (write_then (immaterialize_elem i3)
     (write_then (immaterialize_elem i4)
     (immaterialize_elem i5)))))"

definition rematerialize_tuple6 ::
   "platform \<Rightarrow> ('t, 'a0) remat \<Rightarrow> ('t, 'a1) remat \<Rightarrow>
    ('t, 'a2) remat \<Rightarrow> ('t, 'a3) remat \<Rightarrow> ('t, 'a4) remat \<Rightarrow>
    ('t, 'a5) remat \<Rightarrow>
    ('t, 'a0 \<times> 'a1 \<times> 'a2 \<times> 'a3 \<times> 'a4 \<times> 'a5) remat" where
  "rematerialize_tuple6 P r0 r1 r2 r3 r4 r5 = read_all
     (read_then (rematerialize_elem P r0)
     (read_then (rematerialize_elem P r1)
     (read_then (rematerialize_elem P r2)
     (read_then (rematerialize_elem P r3)
     (read_then (rematerialize_elem P r4)
     (rematerialize_elem P r5))))))"

definition immaterialize_tuple7 ::
   "('s, 'a0) immat \<Rightarrow> ('s, 'a1) immat \<Rightarrow> ('s, 'a2) immat \<Rightarrow>
    ('s, 'a3) immat \<Rightarrow> ('s, 'a4) immat \<Rightarrow> ('s, 'a5) immat \<Rightarrow>
    ('s, 'a6) immat \<Rightarrow>
    ('s, 'a0 \<times> 'a1 \<times> 'a2 \<times> 'a3 \<times> 'a4 \<times> 'a5 \<times> 'a6) immat" where
  "immaterialize_tuple7 i0 i1 i2 i3 i4 i5 i6 =
     write_then (immaterialize_elem i0)
     (write_then (immaterialize_elem i1)
     (write_then (immaterialize_elem i2)
     (write_then (immaterialize_elem i3)
     (write_then (immaterialize_elem i4)
     (write_then (immaterialize_elem i5)
     (immaterialize_elem i6))))))"

definition rematerialize_tuple7 ::
   "platform \<Rightarrow> ('t, 'a0) remat \<Rightarrow> ('t, 'a1) remat \<Rightarrow>
    ('t, 'a2) remat \<Rightarrow> ('t, 'a3) remat \<Rightarrow> ('t, 'a4) remat \<Rightarrow>
    ('t, 'a5) remat \<Rightarrow> ('t, 'a6) remat \<Rightarrow>
    ('t, 'a0 \<times> 'a1 \<times> 'a2 \<times> 'a3 \<times> 'a4 \<times> 'a5 \<times> 'a6) remat" where
  "rematerialize_tuple7 P r0 r1 r2 r3 r4 r5 r6 = read_all
     (read_then (rematerialize_elem P r0)
     (read_then (rematerialize_elem P r1)
     (read_then (rematerialize_elem P r2)
     (read_then (rematerialize_elem P r3)
     (read_then (rematerialize_elem P r4)
     (read_then (rematerialize_elem P r5)
     (rematerialize_elem P r6)))))))"

definition immaterialize_tuple8 ::
   "('s, 'a0) immat \<Rightarrow> ('s, 'a1) immat \<Rightarrow> ('s, 'a2) immat \<Rightarrow>
    ('s, 'a3) immat \<Rightarrow> ('s, 'a4) immat \<Rightarrow> ('s, 'a5) immat \<Rightarrow>
    ('s, 'a6) immat \<Rightarrow> ('s, 'a7) immat \<Rightarrow>
    ('s, 'a0 \<times> 'a1 \<times> 'a2 \<times> 'a3 \<times> 'a4 \<times> 'a5 \<times> 'a6 \<times> 'a7) immat" where
  "immaterialize_tuple8 i0 i1 i2 i3 i4 i5 i6 i7 =
     write_then (immaterialize_elem i0)
     (write_then (immaterialize_elem i1)
     (write_then (immaterialize_elem i2)
     (write_then (immaterialize_elem i3)
     (write_then (immaterialize_elem i4)
     (write_then (immaterialize_elem i5)
     (write_then (immaterialize_elem i6)
     (immaterialize_elem i7)))))))"

definition rematerialize_tuple8 ::
   "platform \<Rightarrow> ('t, 'a0) remat \<Rightarrow> ('t, 'a1) remat \<Rightarrow>
    ('t, 'a2) remat \<Rightarrow> ('t, 'a3) remat \<Rightarrow> ('t, 'a4) remat \<Rightarrow>
    ('t, 'a5) remat \<Rightarrow> ('t, 'a6) remat \<Rightarrow> ('t, 'a7) remat \<Rightarrow>
    ('t, 'a0 \<times> 'a1 \<times> 'a2 \<times> 'a3 \<times> 'a4 \<times> 'a5 \<times> 'a6 \<times> 'a7) remat" where
  "rematerialize_tuple8 P r0 r1 r2 r3 r4 r5 r6 r7 = read_all
     (read_then (rematerialize_elem P r0)
     (read_then (rematerialize_elem P r1)
     (read_then (rematerialize_elem P r2)
     (read_then (rematerialize_elem P r3)
     (read_then (rematerialize_elem P r4)
     (read_then (rematerialize_elem P r5)
     (read_then (rematerialize_elem P r6)
     (rematerialize_elem P r7))))))))"

definition immaterialize_tuple9 ::
   "('s, 'a0) immat \<Rightarrow> ('s, 'a1) immat \<Rightarrow> ('s, 'a2) immat \<Rightarrow>
    ('s, 'a3) immat \<Rightarrow> ('s, 'a4) immat \<Rightarrow> ('s, 'a5) immat \<Rightarrow>
    ('s, 'a6) immat \<Rightarrow> ('s, 'a7) immat \<Rightarrow> ('s, 'a8) immat \<Rightarrow>
    ('s, 'a0 \<times> 'a1 \<times> 'a2 \<times> 'a3 \<times> 'a4 \<times> 'a5 \<times> 'a6 \<times> 'a7 \<times> 'a8) immat" where
  "immaterialize_tuple9 i0 i1 i2 i3 i4 i5 i6 i7 i8 =
     write_then (immaterialize_elem i0)
     (write_then (immaterialize_elem i1)
     (write_then (immaterialize_elem i2)
     (write_then (immaterialize_elem i3)
     (write_then (immaterialize_elem i4)
     (write_then (immaterialize_elem i5)
     (write_then (immaterialize_elem i6)
     (write_then (immaterialize_elem i7)
     (immaterialize_elem i8))))))))"

definition rematerialize_tuple9 ::
   "platform \<Rightarrow> ('t, 'a0) remat \<Rightarrow> ('t, 'a1) remat \<Rightarrow>
    ('t, 'a2) remat \<Rightarrow> ('t, 'a3) remat \<Rightarrow> ('t, 'a4) remat \<Rightarrow>
    ('t, 'a5) remat \<Rightarrow> ('t, 'a6) remat \<Rightarrow> ('t, 'a7) remat \<Rightarrow>
    ('t, 'a8) remat \<Rightarrow>
    ('t, 'a0 \<times> 'a1 \<times> 'a2 \<times> 'a3 \<times> 'a4 \<times> 'a5 \<times> 'a6 \<times> 'a7 \<times> 'a8) remat" where
  "rematerialize_tuple9 P r0 r1 r2 r3 r4 r5 r6 r7 r8 = read_all
     (read_then (rematerialize_elem P r0)
     (read_then (rematerialize_elem P r1)
     (read_then (rematerialize_elem P r2)
     (read_then (rematerialize_elem P r3)
     (read_then (rematerialize_elem P r4)
     (read_then (rematerialize_elem P r5)
     (read_then (rematerialize_elem P r6)
     (read_then (rematerialize_elem P r7)
     (rematerialize_elem P r8)))))))))"

definition immaterialize_tuple10 ::
   "('s, 'a0) immat \<Rightarrow> ('s, 'a1) immat \<Rightarrow> ('s, 'a2) immat \<Rightarrow>
    ('s, 'a3) immat \<Rightarrow> ('s, 'a4) immat \<Rightarrow> ('s, 'a5) immat \<Rightarrow>
    ('s, 'a6) immat \<Rightarrow> ('s, 'a7) immat \<Rightarrow> ('s, 'a8) immat \<Rightarrow>
    ('s, 'a9) immat \<Rightarrow>
    ('s, 'a0 \<times> 'a1 \<times> 'a2 \<times> 'a3 \<times> 'a4 \<times> 'a5 \<times> 'a6 \<times> 'a7 \<times> 'a8 \<times> 'a9) immat" where
  "immaterialize_tuple10 i0 i1 i2 i3 i4 i5 i6 i7 i8 i9 =
     write_then (immaterialize_elem i0)
     (write_then (immaterialize_elem i1)
     (write_then (immaterialize_elem i2)
     (write_then (immaterialize_elem i3)
     (write_then (immaterialize_elem i4)
     (write_then (immaterialize_elem i5)
     (write_then (immaterialize_elem i6)
     (write_then (immaterialize_elem i7)
     (write_then (immaterialize_elem i8)
     (immaterialize_elem i9)))))))))"

definition rematerialize_tuple10 ::
   "platform \<Rightarrow> ('t, 'a0) remat \<Rightarrow> ('t, 'a1) remat \<Rightarrow>
    ('t, 'a2) remat \<Rightarrow> ('t, 'a3) remat \<Rightarrow> ('t, 'a4) remat \<Rightarrow>
    ('t, 'a5) remat \<Rightarrow> ('t, 'a6) remat \<Rightarrow> ('t, 'a7) remat \<Rightarrow>
    ('t, 'a8) remat \<Rightarrow> ('t, 'a9) remat \<Rightarrow>
    ('t, 'a0 \<times> 'a1 \<times> 'a2 \<times> 'a3 \<times> 'a4 \<times> 'a5 \<times> 'a6 \<times> 'a7 \<times> 'a8 \<times> 'a9) remat" where
  "rematerialize_tuple10 P r0 r1 r2 r3 r4 r5 r6 r7 r8 r9 = read_all
     (read_then (rematerialize_elem P r0)
     (read_then (rematerialize_elem P r1)
     (read_then (rematerialize_elem P r2)
     (read_then (rematerialize_elem P r3)
     (read_then (rematerialize_elem P r4)
     (read_then (rematerialize_elem P r5)
     (read_then (rematerialize_elem P r6)
     (read_then (rematerialize_elem P r7)
     (read_then (rematerialize_elem P r8)
     (rematerialize_elem P r9))))))))))"

definition immaterialize_tuple11 ::
   "('s, 'a0) immat \<Rightarrow> ('s, 'a1) immat \<Rightarrow> ('s, 'a2) immat \<Rightarrow>
    ('s, 'a3) immat \<Rightarrow> ('s, 'a4) immat \<Rightarrow> ('s, 'a5) immat \<Rightarrow>
    ('s, 'a6) immat \<Rightarrow> ('s, 'a7) immat \<Rightarrow> ('s, 'a8) immat \<Rightarrow>
    ('s, 'a9) immat \<Rightarrow> ('s, 'a10) immat \<Rightarrow>
    ('s, 'a0 \<times> 'a1 \<times> 'a2 \<times> 'a3 \<times> 'a4 \<times> 'a5 \<times> 'a6 \<times> 'a7 \<times> 'a8 \<times> 'a9 \<times> 'a10) immat" where
  "immaterialize_tuple11 i0 i1 i2 i3 i4 i5 i6 i7 i8 i9 i10 =
     write_then (immaterialize_elem i0)
     (write_then (immaterialize_elem i1)
     (write_then (immaterialize_elem i2)
     (write_then (immaterialize_elem i3)
     (write_then (immaterialize_elem i4)
     (write_then (immaterialize_elem i5)
     (write_then (immaterialize_elem i6)
     (write_then (immaterialize_elem i7)
     (write_then (immaterialize_elem i8)
     (write_then (immaterialize_elem i9)
     (immaterialize_elem i10))))))))))"

definition rematerialize_tuple11 ::
   "platform \<Rightarrow> ('t, 'a0) remat \<Rightarrow> ('t, 'a1) remat \<Rightarrow>
    ('t, 'a2) remat \<Rightarrow> ('t, 'a3) remat \<Rightarrow> ('t, 'a4) remat \<Rightarrow>
    ('t, 'a5) remat \<Rightarrow> ('t, 'a6) remat \<Rightarrow> ('t, 'a7) remat \<Rightarrow>
    ('t, 'a8) remat \<Rightarrow> ('t, 'a9) remat \<Rightarrow> ('t, 'a10) remat \<Rightarrow>
    ('t, 'a0 \<times> 'a1 \<times> 'a2 \<times> 'a3 \<times> 'a4 \<times> 'a5 \<times> 'a6 \<times> 'a7 \<times> 'a8 \<times> 'a9 \<times> 'a10) remat" where
  "rematerialize_tuple11 P r0 r1 r2 r3 r4 r5 r6 r7 r8 r9 r10 = read_all
     (read_then (rematerialize_elem P r0)
     (read_then (rematerialize_elem P r1)
     (read_then (rematerialize_elem P r2)
     (read_then (rematerialize_elem P r3)
     (read_then (rematerialize_elem P r4)
     (read_then (rematerialize_elem P r5)
     (read_then (rematerialize_elem P r6)
     (read_then (rematerialize_elem P r7)
     (read_then (rematerialize_elem P r8)
     (read_then (rematerialize_elem P r9)
     (rematerialize_elem P r10)))))))))))"

definition immaterialize_tuple12 ::
   "('s, 'a0) immat \<Rightarrow> ('s, 'a1) immat \<Rightarrow> ('s, 'a2) immat \<Rightarrow>
    ('s, 'a3) immat \<Rightarrow> ('s, 'a4) immat \<Rightarrow> ('s, 'a5) immat \<Rightarrow>
    ('s, 'a6) immat \<Rightarrow> ('s, 'a7) immat \<Rightarrow> ('s, 'a8) immat \<Rightarrow>
    ('s, 'a9) immat \<Rightarrow> ('s, 'a10) immat \<Rightarrow> ('s, 'a11) immat \<Rightarrow>
    ('s, 'a0 \<times> 'a1 \<times> 'a2 \<times> 'a3 \<times> 'a4 \<times> 'a5 \<times> 'a6 \<times> 'a7 \<times> 'a8 \<times> 'a9 \<times> 'a10 \<times> 'a11) immat" where
  "immaterialize_tuple12 i0 i1 i2 i3 i4 i5 i6 i7 i8 i9 i10 i11 =
     write_then (immaterialize_elem i0)
     (write_then (immaterialize_elem i1)
     (write_then (immaterialize_elem i2)
     (write_then (immaterialize_elem i3)
     (write_then (immaterialize_elem i4)
     (write_then (immaterialize_elem i5)
     (write_then (immaterialize_elem i6)
     (write_then (immaterialize_elem i7)
     (write_then (immaterialize_elem i8)
     (write_then (immaterialize_elem i9)
     (write_then (immaterialize_elem i10)
     (immaterialize_elem i11)))))))))))"

definition rematerialize_tuple12 ::
   "platform \<Rightarrow> ('t, 'a0) remat \<Rightarrow> ('t, 'a1) remat \<Rightarrow>
    ('t, 'a2) remat \<Rightarrow> ('t, 'a3) remat \<Rightarrow> ('t, 'a4) remat \<Rightarrow>
    ('t, 'a5) remat \<Rightarrow> ('t, 'a6) remat \<Rightarrow> ('t, 'a7) remat \<Rightarrow>
    ('t, 'a8) remat \<Rightarrow> ('t, 'a9) remat \<Rightarrow> ('t, 'a10) remat \<Rightarrow>
    ('t, 'a11) remat \<Rightarrow>
    ('t, 'a0 \<times> 'a1 \<times> 'a2 \<times> 'a3 \<times> 'a4 \<times> 'a5 \<times> 'a6 \<times> 'a7 \<times> 'a8 \<times> 'a9 \<times> 'a10 \<times> 'a11) remat" where
  "rematerialize_tuple12 P r0 r1 r2 r3 r4 r5 r6 r7 r8 r9 r10 r11 = read_all
     (read_then (rematerialize_elem P r0)
     (read_then (rematerialize_elem P r1)
     (read_then (rematerialize_elem P r2)
     (read_then (rematerialize_elem P r3)
     (read_then (rematerialize_elem P r4)
     (read_then (rematerialize_elem P r5)
     (read_then (rematerialize_elem P r6)
     (read_then (rematerialize_elem P r7)
     (read_then (rematerialize_elem P r8)
     (read_then (rematerialize_elem P r9)
     (read_then (rematerialize_elem P r10)
     (rematerialize_elem P r11))))))))))))"

lemmas tuple_defs =
  immaterialize_tuple1_def rematerialize_tuple1_def
  immaterialize_tuple2_def rematerialize_tuple2_def
  immaterialize_tuple3_def rematerialize_tuple3_def
  immaterialize_tuple4_def rematerialize_tuple4_def
  immaterialize_tuple5_def rematerialize_tuple5_def
  immaterialize_tuple6_def rematerialize_tuple6_def
  immaterialize_tuple7_def rematerialize_tuple7_def
  immaterialize_tuple8_def rematerialize_tuple8_def
  immaterialize_tuple9_def rematerialize_tuple9_def
  immaterialize_tuple10_def rematerialize_tuple10_def
  immaterialize_tuple11_def rematerialize_tuple11_def
  immaterialize_tuple12_def rematerialize_tuple12_def

section \<open>Every arity keeps the contract\<close>

lemmas tuple_intros = layout_whole layout_then transmat_elem

lemma transmat_tuple1:
  assumes "transmat P sinv sle tinv tle i0 r0 g0 R0"
  shows "transmat P sinv sle tinv tle (immaterialize_tuple1 i0)
    (rematerialize_tuple1 P r0)
    g0
    R0"
  unfolding tuple_defs by (intro tuple_intros assms)

lemma transmat_tuple2:
  assumes "transmat P sinv sle tinv tle i0 r0 g0 R0"
    and "transmat P sinv sle tinv tle i1 r1 g1 R1"
  shows "transmat P sinv sle tinv tle (immaterialize_tuple2 i0 i1)
    (rematerialize_tuple2 P r0 r1)
    (good_pair g0 g1)
    (rel_pair R0 R1)"
  unfolding tuple_defs by (intro tuple_intros assms)

lemma transmat_tuple3:
  assumes "transmat P sinv sle tinv tle i0 r0 g0 R0"
    and "transmat P sinv sle tinv tle i1 r1 g1 R1"
    and "transmat P sinv sle tinv tle i2 r2 g2 R2"
  shows "transmat P sinv sle tinv tle (immaterialize_tuple3 i0 i1 i2)
    (rematerialize_tuple3 P r0 r1 r2)
    (good_pair g0 (good_pair g1 g2))
    (rel_pair R0 (rel_pair R1 R2))"
  unfolding tuple_defs by (intro tuple_intros assms)

lemma transmat_tuple4:
  assumes "transmat P sinv sle tinv tle i0 r0 g0 R0"
    and "transmat P sinv sle tinv tle i1 r1 g1 R1"
    and "transmat P sinv sle tinv tle i2 r2 g2 R2"
    and "transmat P sinv sle tinv tle i3 r3 g3 R3"
  shows "transmat P sinv sle tinv tle (immaterialize_tuple4 i0 i1 i2 i3)
    (rematerialize_tuple4 P r0 r1 r2 r3)
    (good_pair g0 (good_pair g1 (good_pair g2 g3)))
    (rel_pair R0 (rel_pair R1 (rel_pair R2 R3)))"
  unfolding tuple_defs by (intro tuple_intros assms)

lemma transmat_tuple5:
  assumes "transmat P sinv sle tinv tle i0 r0 g0 R0"
    and "transmat P sinv sle tinv tle i1 r1 g1 R1"
    and "transmat P sinv sle tinv tle i2 r2 g2 R2"
    and "transmat P sinv sle tinv tle i3 r3 g3 R3"
    and "transmat P sinv sle tinv tle i4 r4 g4 R4"
  shows "transmat P sinv sle tinv tle (immaterialize_tuple5 i0 i1 i2 i3 i4)
    (rematerialize_tuple5 P r0 r1 r2 r3 r4)
    (good_pair g0 (good_pair g1 (good_pair g2 (good_pair g3 g4))))
    (rel_pair R0 (rel_pair R1 (rel_pair R2 (rel_pair R3 R4))))"
  unfolding tuple_defs by (intro tuple_intros assms)

lemma transmat_tuple6:
  assumes "transmat P sinv sle tinv tle i0 r0 g0 R0"
    and "transmat P sinv sle tinv tle i1 r1 g1 R1"
    and "transmat P sinv sle tinv tle i2 r2 g2 R2"
    and "transmat P sinv sle tinv tle i3 r3 g3 R3"
    and "transmat P sinv sle tinv tle i4 r4 g4 R4"
    and "transmat P sinv sle tinv tle i5 r5 g5 R5"
  shows "transmat P sinv sle tinv tle (immaterialize_tuple6 i0 i1 i2 i3 i4 i5)
    (rematerialize_tuple6 P r0 r1 r2 r3 r4 r5)
    (good_pair g0 (good_pair g1 (good_pair g2 (good_pair g3 (good_pair g4 g5)))))
    (rel_pair R0 (rel_pair R1 (rel_pair R2 (rel_pair R3 (rel_pair R4 R5)))))"
  unfolding tuple_defs by (intro tuple_intros assms)

lemma transmat_tuple7:
  assumes "transmat P sinv sle tinv tle i0 r0 g0 R0"
    and "transmat P sinv sle tinv tle i1 r1 g1 R1"
    and "transmat P sinv sle tinv tle i2 r2 g2 R2"
    and "transmat P sinv sle tinv tle i3 r3 g3 R3"
    and "transmat P sinv sle tinv tle i4 r4 g4 R4"
    and "transmat P sinv sle tinv tle i5 r5 g5 R5"
    and "transmat P sinv sle tinv tle i6 r6 g6 R6"
  shows "transmat P sinv sle tinv tle (immaterialize_tuple7 i0 i1 i2 i3 i4 i5 i6)
    (rematerialize_tuple7 P r0 r1 r2 r3 r4 r5 r6)
    (good_pair g0 (good_pair g1 (good_pair g2 (good_pair g3 (good_pair g4 (good_pair g5 g6))))))
    (rel_pair R0 (rel_pair R1 (rel_pair R2 (rel_pair R3 (rel_pair R4 (rel_pair R5 R6))))))"
  unfolding tuple_defs by (intro tuple_intros assms)

lemma transmat_tuple8:
  assumes "transmat P sinv sle tinv tle i0 r0 g0 R0"
    and "transmat P sinv sle tinv tle i1 r1 g1 R1"
    and "transmat P sinv sle tinv tle i2 r2 g2 R2"
    and "transmat P sinv sle tinv tle i3 r3 g3 R3"
    and "transmat P sinv sle tinv tle i4 r4 g4 R4"
    and "transmat P sinv sle tinv tle i5 r5 g5 R5"
    and "transmat P sinv sle tinv tle i6 r6 g6 R6"
    and "transmat P sinv sle tinv tle i7 r7 g7 R7"
  shows "transmat P sinv sle tinv tle (immaterialize_tuple8 i0 i1 i2 i3 i4 i5 i6 i7)
    (rematerialize_tuple8 P r0 r1 r2 r3 r4 r5 r6 r7)
    (good_pair g0 (good_pair g1 (good_pair g2 (good_pair g3 (good_pair g4 (good_pair g5 (good_pair g6 g7)))))))
    (rel_pair R0 (rel_pair R1 (rel_pair R2 (rel_pair R3 (rel_pair R4 (rel_pair R5 (rel_pair R6 R7)))))))"
  unfolding tuple_defs by (intro tuple_intros assms)

lemma transmat_tuple9:
  assumes "transmat P sinv sle tinv tle i0 r0 g0 R0"
    and "transmat P sinv sle tinv tle i1 r1 g1 R1"
    and "transmat P sinv sle tinv tle i2 r2 g2 R2"
    and "transmat P sinv sle tinv tle i3 r3 g3 R3"
    and "transmat P sinv sle tinv tle i4 r4 g4 R4"
    and "transmat P sinv sle tinv tle i5 r5 g5 R5"
    and "transmat P sinv sle tinv tle i6 r6 g6 R6"
    and "transmat P sinv sle tinv tle i7 r7 g7 R7"
    and "transmat P sinv sle tinv tle i8 r8 g8 R8"
  shows "transmat P sinv sle tinv tle (immaterialize_tuple9 i0 i1 i2 i3 i4 i5 i6 i7 i8)
    (rematerialize_tuple9 P r0 r1 r2 r3 r4 r5 r6 r7 r8)
    (good_pair g0 (good_pair g1 (good_pair g2 (good_pair g3 (good_pair g4 (good_pair g5 (good_pair g6 (good_pair g7 g8))))))))
    (rel_pair R0 (rel_pair R1 (rel_pair R2 (rel_pair R3 (rel_pair R4 (rel_pair R5 (rel_pair R6 (rel_pair R7 R8))))))))"
  unfolding tuple_defs by (intro tuple_intros assms)

lemma transmat_tuple10:
  assumes "transmat P sinv sle tinv tle i0 r0 g0 R0"
    and "transmat P sinv sle tinv tle i1 r1 g1 R1"
    and "transmat P sinv sle tinv tle i2 r2 g2 R2"
    and "transmat P sinv sle tinv tle i3 r3 g3 R3"
    and "transmat P sinv sle tinv tle i4 r4 g4 R4"
    and "transmat P sinv sle tinv tle i5 r5 g5 R5"
    and "transmat P sinv sle tinv tle i6 r6 g6 R6"
    and "transmat P sinv sle tinv tle i7 r7 g7 R7"
    and "transmat P sinv sle tinv tle i8 r8 g8 R8"
    and "transmat P sinv sle tinv tle i9 r9 g9 R9"
  shows "transmat P sinv sle tinv tle (immaterialize_tuple10 i0 i1 i2 i3 i4 i5 i6 i7 i8 i9)
    (rematerialize_tuple10 P r0 r1 r2 r3 r4 r5 r6 r7 r8 r9)
    (good_pair g0 (good_pair g1 (good_pair g2 (good_pair g3 (good_pair g4 (good_pair g5 (good_pair g6 (good_pair g7 (good_pair g8 g9)))))))))
    (rel_pair R0 (rel_pair R1 (rel_pair R2 (rel_pair R3 (rel_pair R4 (rel_pair R5 (rel_pair R6 (rel_pair R7 (rel_pair R8 R9)))))))))"
  unfolding tuple_defs by (intro tuple_intros assms)

lemma transmat_tuple11:
  assumes "transmat P sinv sle tinv tle i0 r0 g0 R0"
    and "transmat P sinv sle tinv tle i1 r1 g1 R1"
    and "transmat P sinv sle tinv tle i2 r2 g2 R2"
    and "transmat P sinv sle tinv tle i3 r3 g3 R3"
    and "transmat P sinv sle tinv tle i4 r4 g4 R4"
    and "transmat P sinv sle tinv tle i5 r5 g5 R5"
    and "transmat P sinv sle tinv tle i6 r6 g6 R6"
    and "transmat P sinv sle tinv tle i7 r7 g7 R7"
    and "transmat P sinv sle tinv tle i8 r8 g8 R8"
    and "transmat P sinv sle tinv tle i9 r9 g9 R9"
    and "transmat P sinv sle tinv tle i10 r10 g10 R10"
  shows "transmat P sinv sle tinv tle (immaterialize_tuple11 i0 i1 i2 i3 i4 i5 i6 i7 i8 i9 i10)
    (rematerialize_tuple11 P r0 r1 r2 r3 r4 r5 r6 r7 r8 r9 r10)
    (good_pair g0 (good_pair g1 (good_pair g2 (good_pair g3 (good_pair g4 (good_pair g5 (good_pair g6 (good_pair g7 (good_pair g8 (good_pair g9 g10))))))))))
    (rel_pair R0 (rel_pair R1 (rel_pair R2 (rel_pair R3 (rel_pair R4 (rel_pair R5 (rel_pair R6 (rel_pair R7 (rel_pair R8 (rel_pair R9 R10))))))))))"
  unfolding tuple_defs by (intro tuple_intros assms)

lemma transmat_tuple12:
  assumes "transmat P sinv sle tinv tle i0 r0 g0 R0"
    and "transmat P sinv sle tinv tle i1 r1 g1 R1"
    and "transmat P sinv sle tinv tle i2 r2 g2 R2"
    and "transmat P sinv sle tinv tle i3 r3 g3 R3"
    and "transmat P sinv sle tinv tle i4 r4 g4 R4"
    and "transmat P sinv sle tinv tle i5 r5 g5 R5"
    and "transmat P sinv sle tinv tle i6 r6 g6 R6"
    and "transmat P sinv sle tinv tle i7 r7 g7 R7"
    and "transmat P sinv sle tinv tle i8 r8 g8 R8"
    and "transmat P sinv sle tinv tle i9 r9 g9 R9"
    and "transmat P sinv sle tinv tle i10 r10 g10 R10"
    and "transmat P sinv sle tinv tle i11 r11 g11 R11"
  shows "transmat P sinv sle tinv tle (immaterialize_tuple12 i0 i1 i2 i3 i4 i5 i6 i7 i8 i9 i10 i11)
    (rematerialize_tuple12 P r0 r1 r2 r3 r4 r5 r6 r7 r8 r9 r10 r11)
    (good_pair g0 (good_pair g1 (good_pair g2 (good_pair g3 (good_pair g4 (good_pair g5 (good_pair g6 (good_pair g7 (good_pair g8 (good_pair g9 (good_pair g10 g11)))))))))))
    (rel_pair R0 (rel_pair R1 (rel_pair R2 (rel_pair R3 (rel_pair R4 (rel_pair R5 (rel_pair R6 (rel_pair R7 (rel_pair R8 (rel_pair R9 (rel_pair R10 R11)))))))))))"
  unfolding tuple_defs by (intro tuple_intros assms)

section \<open>The blocks of the source, spelled out\<close>

lemma immaterialize_tuple2_eq:
  "immaterialize_tuple2 i0 i1 (a, b) =
     seq (i0 a) (\<lambda>elem0_bytes.
     seq (i1 b) (\<lambda>elem1_bytes.
     ret ((len_u64 elem0_bytes @ elem0_bytes) @ (len_u64 elem1_bytes @ elem1_bytes))))"
  by (simp add: immaterialize_tuple2_def write_then_def immaterialize_elem_def seq_seq del: ret_apply)

lemma rematerialize_tuple3_eq:
  "rematerialize_tuple3 P r0 r1 r2 data =
     seq (rematerialize_elem P r0 data 0) (\<lambda>(elem0, offset).
     seq (rematerialize_elem P r1 data offset) (\<lambda>(elem1, offset).
     seq (rematerialize_elem P r2 data offset) (\<lambda>(elem2, offset).
     seq (lift (require_buffer_size data offset)) (\<lambda>_.
     ret (elem0, elem1, elem2)))))"
  by (simp add: rematerialize_tuple3_def read_all_def read_then_def seq_seq split_def
      del: ret_apply)

end
