(* ===== verification/Transmat_Default_Correct.thy ===== *)
theory Transmat_Default_Correct
  imports Transmat_Default Transmat_Tuple
begin

text \<open>
  The implementations of \<open>default_implementations.rs\<close> meet the contract of
  \<open>Transmat_Contract\<close>: plain data comes back equal, containers come back related
  element by element.
\<close>

section \<open>Plain data\<close>

definition rel_eq :: "'s \<Rightarrow> 't \<Rightarrow> 'a \<Rightarrow> 'a \<Rightarrow> bool" where
  "rel_eq s t v w \<longleftrightarrow> v = w"

lemma rel_eq_simp [simp]: "rel_eq s t v w \<longleftrightarrow> v = w"
  by (simp add: rel_eq_def)

text \<open>An implementation that touches no world needs only a round trip on bytes.\<close>

lemma transmat_pure:
  assumes W: "transmat_world P sle tle"
    and i: "\<And>v. imm v = ret (enc v)" and r: "\<And>bs. \<exists>q. rem bs = lift q"
    and rt: "\<And>v t. good v \<Longrightarrow> fits P (enc v) \<Longrightarrow> rem (enc v) t = (Ok v, t)"
  shows "transmat P sinv sle tinv tle imm rem good rel_eq"
proof (rule transmat.intro [OF W], rule transmat_axioms.intro)
  note so = transmat_world.sle_order [OF W] and to = transmat_world.tle_order [OF W]
  show "keeps sinv sle (imm v)" for v unfolding i using so by (rule keeps_ret)
  show "keeps tinv tle (rem bs)" for bs using r [of bs] to by auto
next
  fix s v bs s' t
  assume "good v" and "imm v s = (Ok bs, s')" and "fits P bs"
  then show "wp (rem bs) (\<lambda>w t'. rel_eq s' t' v w) t" using rt [of v t] by (auto simp: i wp_iff)
qed simp

lemma len_prefixed:
  assumes "wf_platform P" and "fits P (len_u64 v @ v)"
  shows "usize_from_u64_le_bytes P (len_u64 v) = Ok (length v)"
    and "usize_add P 8 (length v) = Ok (8 + length v)"
    and "subslice (len_u64 v @ v) 0 8 = Ok (len_u64 v)"
    and "subslice (len_u64 v @ v) 8 (8 + length v) = Ok v"
proof -
  have l: "8 + length v \<le> usize_max P" using fits_usize [OF assms] by simp
  then show "usize_from_u64_le_bytes P (len_u64 v) = Ok (length v)"
    by (intro usize_from_len_u64 [OF assms(1)]) simp
  show "usize_add P 8 (length v) = Ok (8 + length v)" using l by simp
  show "subslice (len_u64 v @ v) 0 8 = Ok (len_u64 v)" by (simp add: subslice_def)
  show "subslice (len_u64 v @ v) 8 (8 + length v) = Ok v" by (simp add: subslice_def)
qed

lemma transmat_vec_u8:
  assumes W: "transmat_world P sle tle"
  shows "transmat P sinv sle tinv tle immaterialize_vec_u8 (rematerialize_vec_u8 P) (\<lambda>_. True) rel_eq"
proof (rule transmat_pure [OF W])
  show "immaterialize_vec_u8 v = ret (len_u64 v @ v)" for v by (simp add: immaterialize_vec_u8_def)
qed (auto simp: rematerialize_vec_u8_def len_prefixed [OF transmat_world.platform_wf [OF W]])

lemma transmat_string:
  assumes W: "transmat_world P sle tle"
  shows "transmat P sinv sle tinv tle immaterialize_string (rematerialize_string P) utf8_valid rel_eq"
proof (rule transmat_pure [OF W])
  show "immaterialize_string v = ret (len_u64 v @ v)" for v by (simp add: immaterialize_string_def)
qed (auto simp: rematerialize_string_def from_utf8_def
      len_prefixed [OF transmat_world.platform_wf [OF W]])

lemma transmat_le_bytes:
  assumes W: "transmat_world P sle tle" and d: "8 dvd LENGTH('n::len)"
  shows "transmat P sinv sle tinv tle (immaterialize_le_bytes :: ('s, 'n word) immat)
    (rematerialize_le_bytes :: ('t, 'n word) remat) (\<lambda>_. True) rel_eq"
proof (rule transmat_pure [OF W])
  show "immaterialize_le_bytes v = ret (to_le_bytes v)" for v :: "'n word"
    by (simp add: immaterialize_le_bytes_def)
qed (auto simp: rematerialize_le_bytes_def subslice_def from_to_le_bytes [OF d])

lemma transmat_usize:
  assumes W: "transmat_world P sle tle"
  shows "transmat P sinv sle tinv (tle :: 't \<Rightarrow> 't \<Rightarrow> bool) immaterialize_usize (rematerialize_usize P)
    (\<lambda>v. v \<le> usize_max P) rel_eq"
proof (rule transmat_pure [OF W])
  show "immaterialize_usize v = ret (to_le_bytes (of_nat v :: 64 word))" for v
    by (simp add: immaterialize_usize_def)
next
  fix v and t :: 't assume v: "v \<le> usize_max P"
  with usize_max_bound [OF transmat_world.platform_wf [OF W]]
  have "unat (of_nat v :: 64 word) = v" by (simp add: unat_of_nat)
  with v show "rematerialize_usize P (to_le_bytes (of_nat v :: 64 word)) t = (Ok v, t)"
    by (simp add: rematerialize_usize_def subslice_def from_to_le_bytes u64_to_usize_def)
qed (auto simp: rematerialize_usize_def)

lemma isize_sint:
  assumes "wf_platform P" and "- int (isize_max P) - 1 \<le> v" and "v \<le> int (isize_max P)"
  shows "sint (of_int v :: 64 word) = v"
proof -
  have "isize_max P \<le> 2 ^ 63 - 1"
    using assms(1) unfolding wf_platform_def isize_max_def
    by (intro diff_le_mono power_increasing) auto
  then have "int (isize_max P) \<le> int (2 ^ 63 - 1)" by (simp only: of_nat_le_iff)
  then have "int (isize_max P) \<le> 2 ^ 63 - 1" by simp
  then have "- (2 ^ (LENGTH(64) - 1)) \<le> v \<and> v < 2 ^ (LENGTH(64) - 1)"
    using assms(2,3) by simp
  then show ?thesis
    by (simp add: signed_of_int signed_take_bit_int_eq_self)
qed

lemma transmat_isize:
  assumes W: "transmat_world P sle tle"
  shows "transmat P sinv sle tinv (tle :: 't \<Rightarrow> 't \<Rightarrow> bool) immaterialize_isize (rematerialize_isize P)
    (\<lambda>v. - int (isize_max P) - 1 \<le> v \<and> v \<le> int (isize_max P)) rel_eq"
proof (rule transmat_pure [OF W])
  show "immaterialize_isize v = ret (to_le_bytes (of_int v :: 64 word))" for v
    by (simp add: immaterialize_isize_def)
next
  fix v and t :: 't assume v: "- int (isize_max P) - 1 \<le> v \<and> v \<le> int (isize_max P)"
  with isize_sint [OF transmat_world.platform_wf [OF W]]
  have "sint (of_int v :: 64 word) = v" by blast
  with v show "rematerialize_isize P (to_le_bytes (of_int v :: 64 word)) t = (Ok v, t)"
    by (simp add: rematerialize_isize_def subslice_def from_to_le_bytes i64_to_isize_def)
qed (auto simp: rematerialize_isize_def)

lemma transmat_bool:
  assumes W: "transmat_world P sle tle"
  shows "transmat P sinv sle tinv tle immaterialize_bool rematerialize_bool (\<lambda>_. True) rel_eq"
proof (rule transmat_pure [OF W])
  show "immaterialize_bool v = ret (if v then [1] else [0])" for v
    by (simp add: immaterialize_bool_def)
qed (auto simp: rematerialize_bool_def)

lemma transmat_unit:
  assumes W: "transmat_world P sle tle"
  shows "transmat P sinv sle tinv tle immaterialize_unit rematerialize_unit (\<lambda>_. True) rel_eq"
proof (rule transmat_pure [OF W])
  show "immaterialize_unit v = ret []" for v by (simp add: immaterialize_unit_def)
qed (auto simp: rematerialize_unit_def)

definition rel_anyhow :: "(werror \<Rightarrow> rstring) \<Rightarrow> 's \<Rightarrow> 't \<Rightarrow> werror \<Rightarrow> werror \<Rightarrow> bool" where
  "rel_anyhow display s t e e' \<longleftrightarrow> e' = AnyhowMsg (display e)"

lemma transmat_anyhow:
  assumes W: "transmat_world P sle tle"
  shows "transmat P sinv sle tinv tle (immaterialize_anyhow display) (rematerialize_anyhow P)
    (\<lambda>e. utf8_valid (display e)) (rel_anyhow display)"
proof (rule transmat.intro [OF W], rule transmat_axioms.intro)
  note T = transmat_string [OF W, of sinv tinv]
  note to = transmat_world.tle_order [OF W]
  show "keeps sinv sle (immaterialize_anyhow display v)" for v
    unfolding immaterialize_anyhow_def by (rule transmat.imm_keeps [OF T])
  show "keeps tinv tle (rematerialize_anyhow P bs)" for bs
    unfolding rematerialize_anyhow_def using to transmat.rem_keeps [OF T] by blast
next
  note T = transmat_string [OF W, of sinv tinv]
  fix s v bs s' t
  assume "sinv s" "utf8_valid (display v)" "immaterialize_anyhow display v s = (Ok bs, s')"
    "fits P bs" "tinv t"
  then have "wp (rematerialize_string P bs) (\<lambda>w t'. rel_eq s' t' (display v) w) t"
    unfolding immaterialize_anyhow_def by (rule transmat.delivers [OF T])
  then show "wp (rematerialize_anyhow P bs) (\<lambda>w t'. rel_anyhow display s' t' v w) t"
    by (auto simp: rematerialize_anyhow_def rel_anyhow_def wp_iff seq_eq_Ok)
qed (simp add: rel_anyhow_def)

section \<open>Vectors\<close>

text \<open>
  A vector can be received when its elements can and the receiver can allocate room for the
  announced number of them.
\<close>

definition good_vec :: "platform \<Rightarrow> nat \<Rightarrow> ('a \<Rightarrow> bool) \<Rightarrow> 'a list \<Rightarrow> bool" where
  "good_vec P sz g v \<longleftrightarrow> list_all g v \<and> with_capacity P sz (length v) = Ok ()"

definition rel_vec :: "('s \<Rightarrow> 't \<Rightarrow> 'a \<Rightarrow> 'b \<Rightarrow> bool) \<Rightarrow> 's \<Rightarrow> 't \<Rightarrow> 'a list \<Rightarrow> 'b list \<Rightarrow> bool" where
  "rel_vec R s t v w \<longleftrightarrow> list_all2 (R s t) v w"

lemma vec_loop_buffer:
  "immaterialize_vec_loop imm buffer xs = seq (immaterialize_vec_loop imm [] xs) (\<lambda>c. ret (buffer @ c))"
proof (induction xs arbitrary: buffer)
  case Nil
  show ?case by (simp del: ret_apply)
next
  case (Cons x xs)
  show ?case
    unfolding immaterialize_vec_loop.simps
    by (subst Cons.IH, subst (2) Cons.IH) (simp add: seq_seq del: ret_apply)
qed

lemma vec_loop_Cons:
  "immaterialize_vec_loop imm [] (x # xs) =
     seq (immaterialize_elem imm x) (\<lambda>a. seq (immaterialize_vec_loop imm [] xs) (\<lambda>b. ret (a @ b)))"
  unfolding immaterialize_vec_loop.simps immaterialize_elem_def
  by (subst vec_loop_buffer) (simp add: seq_seq del: ret_apply)

lemma vec_loop_length:
  "immaterialize_vec_loop imm [] xs s = (Ok bs, s') \<Longrightarrow> 8 * length xs \<le> length bs"
proof (induction xs arbitrary: s bs)
  case (Cons x xs)
  then show ?case
    by (fastforce simp: vec_loop_Cons immaterialize_elem_def seq_eq_Ok
        simp del: immaterialize_vec_loop.simps)
qed simp

text \<open>One turn of the reading loop is one element.\<close>

lemma rematerialize_vec_loop_step:
  "offset < length data \<Longrightarrow> rematerialize_vec_loop P rem data offset buffer =
     seq (rematerialize_elem P rem data offset) (\<lambda>(v, offset).
       rematerialize_vec_loop P rem data offset (buffer @ [v]))"
  by (subst rematerialize_vec_loop.simps)
    (auto simp: rematerialize_elem_def seq_seq simp del: ret_apply split: outcome.splits)

lemma rematerialize_vec_loop_done:
  "length data \<le> offset \<Longrightarrow> rematerialize_vec_loop P rem data offset buffer = ret (buffer, offset)"
  by (subst rematerialize_vec_loop.simps) simp

lemma vec_rem_loop_keeps:
  "world_order le \<Longrightarrow> (\<And>bs. keeps I le (rem bs)) \<Longrightarrow>
   keeps I le (rematerialize_vec_loop P rem data n buffer)"
proof (induction P rem data n buffer rule: rematerialize_vec_loop.induct)
  case (1 P rem data n buffer)
  then show ?case
    by (subst rematerialize_vec_loop.simps)
      (auto split: outcome.splits simp del: ret_apply throw_apply lift_apply)
qed

context transmat
begin

lemma vec_imm_keeps: "keeps sinv sle (immaterialize_vec_loop imm buffer xs)"
proof (induction xs arbitrary: buffer)
  case Nil
  show ?case using sle_order by (simp only: immaterialize_vec_loop.simps keeps_ret)
next
  case (Cons x xs)
  then show ?case
    unfolding immaterialize_vec_loop.simps using sle_order imm_keeps by blast
qed

lemma vec_rem_keeps: "keeps tinv tle (rematerialize_vec_loop P rem data n buffer)"
  using tle_order rem_keeps by (rule vec_rem_loop_keeps)

lemma vec_loop_reads:
  assumes "sinv s" and "list_all good xs" and "immaterialize_vec_loop imm [] xs s = (Ok bs, s')"
    and "fits P data" and "n \<le> length data" and "drop n data = bs" and "tinv t"
  shows "wp (rematerialize_vec_loop P rem data n buffer)
    (\<lambda>(ws, n') t'. n' = length data \<and> (\<exists>ws'. ws = buffer @ ws' \<and> list_all2 (rel s' t') xs ws')) t"
  using assms
proof (induction xs arbitrary: s bs n t buffer)
  case Nil
  then have "n = length data" by simp
  then show ?case by (simp add: rematerialize_vec_loop_done)
next
  case (Cons x xs)
  obtain a s1 b where a: "immaterialize_elem imm x s = (Ok a, s1)"
    and b: "immaterialize_vec_loop imm [] xs s1 = (Ok b, s')" and bs: "bs = a @ b"
    using Cons.prems(3) by (auto simp: vec_loop_Cons seq_eq_Ok simp del: immaterialize_vec_loop.simps)
  have s1: "sinv s1" using keepsD [OF imm_elem_keeps Cons.prems(1) a] by simp
  have s2: "sle s1 s'" using keepsD [OF vec_imm_keeps s1 b] by simp
  have d: "drop n data = a @ b" using Cons.prems(6) bs by simp
  have la: "8 \<le> length a" using a by (auto simp: immaterialize_elem_def seq_eq_Ok)
  have n': "n + length a \<le> length data" using arg_cong [OF d, of length] Cons.prems(5) by simp
  have db: "drop (n + length a) data = b"
    using d by (metis add.commute append_eq_conv_conj drop_drop)
  obtain w t1 where w: "rematerialize_elem P rem data n t = (Ok (w, n + length a), t1)" "rel s1 t1 x w"
    using elem_reads [OF Cons.prems(1) _ a Cons.prems(4,5) d Cons.prems(7)] Cons.prems(2)
    by (auto simp: wp_iff)
  have t1: "tinv t1" using keepsD [OF rem_elem_keeps Cons.prems(7) w(1)] by simp
  obtain ws t2 where ws: "rematerialize_vec_loop P rem data (n + length a) (buffer @ [w]) t1 =
      (Ok ((buffer @ [w]) @ ws, length data), t2)" "list_all2 (rel s' t2) xs ws"
    using Cons.IH [OF s1 _ b Cons.prems(4) n' db t1, of "buffer @ [w]"] Cons.prems(2)
    by (auto simp: wp_iff)
  have "tle t1 t2" using keepsD [OF vec_rem_keeps t1 ws(1)] by simp
  then have "rel s' t2 x w" using rel_mono s2 w(2) by blast
  with ws w n' la show ?case
    by (auto simp: rematerialize_vec_loop_step wp_iff seq_eq_Ok)
qed

lemma vec_delivers:
  assumes "sinv s" and g: "good_vec P sz good v" and i: "immaterialize_vec Ps imm v s = (Ok bs, s')"
    and f: "fits P bs" and "tinv t"
  shows "wp (rematerialize_vec P sz rem bs) (\<lambda>w t'. rel_vec rel s' t' v w) t"
proof -
  have "immaterialize_vec_loop imm (len_u64 v) v s = (Ok bs, s')"
    using i by (auto simp: immaterialize_vec_def seq_eq_Ok)
  then obtain c where c: "immaterialize_vec_loop imm [] v s = (Ok c, s')" "bs = len_u64 v @ c"
    by (subst (asm) vec_loop_buffer) (auto simp: seq_eq_Ok)
  have "8 * length v \<le> length bs" using vec_loop_length [OF c(1)] c(2) by simp
  with fits_usize [OF platform_wf f] have lv: "length v \<le> usize_max P" by simp
  have "wp (rematerialize_vec_loop P rem bs 8 [])
      (\<lambda>(ws, n') t'. n' = length bs \<and> (\<exists>ws'. ws = [] @ ws' \<and> list_all2 (rel s' t') v ws')) t"
    using g c(2) by (intro vec_loop_reads [OF assms(1) _ c(1) f _ _ assms(5)])
      (simp_all add: good_vec_def)
  with c(2) lv g show ?thesis
    by (fastforce simp: rematerialize_vec_def good_vec_def rel_vec_def subslice_def
        usize_from_len_u64 [OF platform_wf] wp_iff seq_eq_Ok)
qed

end

lemma transmat_vec:
  assumes T: "transmat P sinv sle tinv tle imm rem g R"
  shows "transmat P sinv sle tinv tle (immaterialize_vec Ps imm) (rematerialize_vec P sz rem)
    (good_vec P sz g) (rel_vec R)"
proof (rule transmat.intro)
  show W: "transmat_world P sle tle" using T by (rule transmat.axioms(1))
  note so = transmat_world.sle_order [OF W] and to = transmat_world.tle_order [OF W]
  show "transmat_axioms P sinv sle tinv tle (immaterialize_vec Ps imm) (rematerialize_vec P sz rem)
    (good_vec P sz g) (rel_vec R)"
  proof (rule transmat_axioms.intro)
    show "keeps sinv sle (immaterialize_vec Ps imm v)" for v
      unfolding immaterialize_vec_def using so transmat.vec_imm_keeps [OF T] by blast
    show "keeps tinv tle (rematerialize_vec P sz rem bs)" for bs
      unfolding rematerialize_vec_def using to transmat.vec_rem_keeps [OF T] by blast
  next
    fix s v bs s' t
    assume "sinv s" "good_vec P sz g v" "immaterialize_vec Ps imm v s = (Ok bs, s')"
      "fits P bs" "tinv t"
    then show "wp (rematerialize_vec P sz rem bs) (\<lambda>w t'. rel_vec R s' t' v w) t"
      by (rule transmat.vec_delivers [OF T])
  next
    fix s s' t t' v w
    assume "sle s s'" "tle t t'" "rel_vec R s t v w"
    then show "rel_vec R s' t' v w"
      unfolding rel_vec_def by (auto elim!: list_all2_mono intro: transmat.rel_mono [OF T])
  qed
qed

section \<open>\<open>Option\<close> and \<open>Result\<close>\<close>

lemma inner_slice_Ok:
  assumes "wf_platform P" and "fits P (d # len_u64 b @ b)"
  shows "inner_slice P (d # len_u64 b @ b) = Ok b"
proof -
  have l: "9 + length b \<le> usize_max P" using fits_usize [OF assms] by simp
  then have l64: "length b < 2 ^ 64"
    using usize_max_bound [OF assms(1)] by linarith
  have pw: "(2::nat) ^ usize_bits P = Suc (usize_max P)" by (simp add: usize_max_def)
  have u: "unat (from_le_bytes (len_u64 b) :: 64 word) = length b"
    by (simp add: unat_from_le_bytes_u64 le_value_len_u64 [OF l64])
  have a: "as_usize P (length b) = length b" using l pw by (simp add: as_usize_def)
  have s1: "subslice (d # len_u64 b @ b) 1 9 = Ok (len_u64 b)" by (simp add: subslice_def)
  have s2: "subslice (d # len_u64 b @ b) 9 (9 + length b) = Ok b" by (simp add: subslice_def)
  show ?thesis using l by (simp add: inner_slice_def s1 [unfolded One_nat_def] s2 u a)
qed

lemma inner_fits: "fits P (d # len_u64 b @ b) \<Longrightarrow> fits P b"
  by (simp add: fits_def)

definition rel_option :: "('s \<Rightarrow> 't \<Rightarrow> 'a \<Rightarrow> 'b \<Rightarrow> bool) \<Rightarrow> 's \<Rightarrow> 't \<Rightarrow> 'a option \<Rightarrow> 'b option \<Rightarrow> bool"
  where "rel_option R s t v w = Option.rel_option (R s t) v w"

fun good_result :: "('a \<Rightarrow> bool) \<Rightarrow> ('e \<Rightarrow> bool) \<Rightarrow> ('a, 'e) rust_result \<Rightarrow> bool" where
  "good_result gT gE (ROk a) = gT a"
| "good_result gT gE (RErr e) = gE e"

definition rel_result :: "('s \<Rightarrow> 't \<Rightarrow> 'a \<Rightarrow> 'c \<Rightarrow> bool) \<Rightarrow> ('s \<Rightarrow> 't \<Rightarrow> 'e \<Rightarrow> 'f \<Rightarrow> bool) \<Rightarrow> 's \<Rightarrow> 't \<Rightarrow>
    ('a, 'e) rust_result \<Rightarrow> ('c, 'f) rust_result \<Rightarrow> bool" where
  "rel_result RT RE s t = rel_rust_result (RT s t) (RE s t)"

lemma option_delivers:
  assumes T: "transmat P sinv sle tinv tle imm rem g R"
    and s: "sinv s" and g: "pred_option g v" and i: "immaterialize_option imm v s = (Ok bs, s')"
    and f: "fits P bs" and t: "tinv t"
  shows "wp (rematerialize_option P rem bs) (\<lambda>w t'. rel_option R s' t' v w) t"
proof (cases v)
  case None
  with i show ?thesis by (auto simp: rematerialize_option_def rel_option_def)
next
  case (Some a)
  with i obtain b where b: "imm a s = (Ok b, s')" and bs: "bs = 1 # len_u64 b @ b"
    by (auto simp: seq_eq_Ok)
  have wf: "wf_platform P" using T [THEN transmat.axioms(1)] by (rule transmat_world.platform_wf)
  have "wp (rem b) (\<lambda>w t'. R s' t' a w) t"
    using g f bs by (intro transmat.delivers [OF T s _ b _ t]) (auto simp: Some intro: inner_fits)
  then show ?thesis
    using inner_slice_Ok [OF wf f [unfolded bs]]
    by (fastforce simp: rematerialize_option_def bs Some rel_option_def wp_iff seq_eq_Ok)
qed

lemma transmat_option:
  assumes T: "transmat P sinv sle tinv tle imm rem g R"
  shows "transmat P sinv sle tinv tle (immaterialize_option imm) (rematerialize_option P rem)
    (pred_option g) (rel_option R)"
proof (rule transmat.intro)
  show W: "transmat_world P sle tle" using T by (rule transmat.axioms(1))
  note so = transmat_world.sle_order [OF W] and to = transmat_world.tle_order [OF W]
  show "transmat_axioms P sinv sle tinv tle (immaterialize_option imm) (rematerialize_option P rem)
    (pred_option g) (rel_option R)"
  proof (rule transmat_axioms.intro)
    show "keeps sinv sle (immaterialize_option imm v)" for v
      by (cases v)
        (use so transmat.imm_keeps [OF T] in \<open>auto simp del: ret_apply\<close>)
    show "keeps tinv tle (rematerialize_option P rem bs)" for bs
      unfolding rematerialize_option_def Let_def
      using to transmat.rem_keeps [OF T] by (auto simp del: ret_apply throw_apply lift_apply)
    show "rel_option R s' t' v w" if "sle s s'" "tle t t'" "rel_option R s t v w" for s s' t t' v w
      using that unfolding rel_option_def
      by (auto elim!: option.rel_mono_strong intro: transmat.rel_mono [OF T])
  qed (rule option_delivers [OF T])
qed

lemma result_delivers:
  assumes T: "transmat P sinv sle tinv tle immT remT gT RT"
    and E: "transmat P sinv sle tinv tle immE remE gE RE"
    and s: "sinv s" and g: "good_result gT gE v"
    and i: "immaterialize_result immT immE v s = (Ok bs, s')"
    and f: "fits P bs" and t: "tinv t"
  shows "wp (rematerialize_result P remT remE bs) (\<lambda>w t'. rel_result RT RE s' t' v w) t"
proof -
  have wf: "wf_platform P" using T [THEN transmat.axioms(1)] by (rule transmat_world.platform_wf)
  show ?thesis
  proof (cases v)
    case (ROk a)
    with i obtain b where b: "immT a s = (Ok b, s')" and bs: "bs = 0 # len_u64 b @ b"
      by (auto simp: seq_eq_Ok)
    have "wp (remT b) (\<lambda>w t'. RT s' t' a w) t"
      using g f bs by (intro transmat.delivers [OF T s _ b _ t]) (auto simp: ROk intro: inner_fits)
    then show ?thesis
      using inner_slice_Ok [OF wf f [unfolded bs]]
      by (fastforce simp: rematerialize_result_def bs ROk rel_result_def wp_iff seq_eq_Ok)
  next
    case (RErr e)
    with i obtain b where b: "immE e s = (Ok b, s')" and bs: "bs = 1 # len_u64 b @ b"
      by (auto simp: seq_eq_Ok)
    have "wp (remE b) (\<lambda>w t'. RE s' t' e w) t"
      using g f bs by (intro transmat.delivers [OF E s _ b _ t]) (auto simp: RErr intro: inner_fits)
    then show ?thesis
      using inner_slice_Ok [OF wf f [unfolded bs]]
      by (fastforce simp: rematerialize_result_def bs RErr rel_result_def wp_iff seq_eq_Ok)
  qed
qed

lemma transmat_result:
  assumes T: "transmat P sinv sle tinv tle immT remT gT RT"
    and E: "transmat P sinv sle tinv tle immE remE gE RE"
  shows "transmat P sinv sle tinv tle (immaterialize_result immT immE)
    (rematerialize_result P remT remE) (good_result gT gE) (rel_result RT RE)"
proof (rule transmat.intro)
  show W: "transmat_world P sle tle" using T by (rule transmat.axioms(1))
  note so = transmat_world.sle_order [OF W] and to = transmat_world.tle_order [OF W]
  show "transmat_axioms P sinv sle tinv tle (immaterialize_result immT immE)
    (rematerialize_result P remT remE) (good_result gT gE) (rel_result RT RE)"
  proof (rule transmat_axioms.intro)
    show "keeps sinv sle (immaterialize_result immT immE v)" for v
      by (cases v)
        (use so transmat.imm_keeps [OF T] transmat.imm_keeps [OF E] in \<open>auto simp del: ret_apply\<close>)
    show "keeps tinv tle (rematerialize_result P remT remE bs)" for bs
      unfolding rematerialize_result_def Let_def
      using to transmat.rem_keeps [OF T] transmat.rem_keeps [OF E]
      by (auto simp del: ret_apply throw_apply lift_apply)
    show "rel_result RT RE s' t' v w" if "sle s s'" "tle t t'" "rel_result RT RE s t v w"
      for s s' t t' v w
      using that unfolding rel_result_def
      by (auto elim!: rust_result.rel_mono_strong
          intro: transmat.rel_mono [OF T] transmat.rel_mono [OF E])
  qed (rule result_delivers [OF T E])
qed

end
