(* ===== verification/Context.thy ===== *)
theory Context
  imports Portal_Correct Transmat_Default_Correct Conduit
begin

text \<open>
  \<open>transmaterialization/mod.rs\<close>, \<open>transmaterialization/rpc_proxy.rs\<close> and the
  \<open>Portal\<close> interface of \<open>portal.rs\<close>: references to actors and reply ports on their
  way through a portal. The world of this code is a \<open>node\<close>: the portal with its mailbox,
  and the actors, ports and tasks that exist around it.
\<close>

section \<open>The node\<close>

text \<open>
  \<open>uuids\<close> are the values the UUID generator will draw. A proxy actor forwards what it
  gets to the remote actor beside it in \<open>proxies\<close>; an \<open>RpcProxyActor\<close> holds the reply
  port beside it in \<open>rpc_actors\<close>; a task forwards what is sent to a port to the actor
  beside it in \<open>forwards\<close>; \<open>kill_timers\<close> are the calls of \<open>kill_after\<close>.
\<close>

record ('rm, 'f) node =
  portal_of :: "('rm, 'f) portal_state"
  uuids :: "128 word list"
  taking_messages :: bool
  mailbox :: "('rm, 'f) portal_message list"
  next_actor :: actor_id
  next_port :: port
  proxies :: "(actor_id \<times> remote_actor_id) list"
  rpc_actors :: "(actor_id \<times> port) list"
  kill_timers :: "(nat \<times> actor_id) list"
  forwards :: "(port \<times> actor_id) list"

type_synonym ('rm, 'f, 'a) node_eff = "(('rm, 'f) node, 'a) eff"

text \<open>A reply port with its optional timeout, in milliseconds.\<close>

record reply_port =
  rp_port :: port
  rp_timeout :: "nat option"

section \<open>Talking to the portal\<close>

definition send_to_portal :: "('rm, 'f) portal_message \<Rightarrow> ('rm, 'f, unit) node_eff" where
  "send_to_portal m = (\<lambda>n.
     if taking_messages n then (Ok (), n\<lparr>mailbox := mailbox n @ [m]\<rparr>) else (Err SendError, n))"

text \<open>The reply to port \<open>p\<close> among what a call put out.\<close>

fun reply_to :: "port \<Rightarrow> ('rm, 'f) portal_output list \<Rightarrow> reply option" where
  "reply_to p [] = None"
| "reply_to p (Reply q r # os) = (if q = p then Some r else reply_to p os)"
| "reply_to p (_ # os) = reply_to p os"

text \<open>
  \<open>connection.ask(|rpc| PublishActor(cell, receiver, Some(rpc)), None)\<close>: the asker waits,
  so its port is open when the portal gets to the message; a portal that drops the port
  without a reply, or fails, leaves the asker with an error. A UUID is drawn where
  \<open>publish_actor\<close> needs one.
\<close>

definition ask_publish_actor :: "'rm env \<Rightarrow> actor_id \<Rightarrow> 'rm \<Rightarrow> ('rm, 'f, remote_actor_id) node_eff" where
  "ask_publish_actor E cell receiver = (\<lambda>n.
     case uuids n of
       [] \<Rightarrow> (Err RecvError, n)
     | u # us \<Rightarrow>
         (let st = portal_of n; rpc = next_port n;
              (r, st') = handle (E\<lparr>fresh_uuid := u, port_open := (\<lambda>_. True)\<rparr>) (PublishActor cell receiver (Some rpc)) st;
              n' = n\<lparr>portal_of := st', next_port := rpc + 1,
                     uuids := (if published_actors st' = published_actors st then u # us else us)\<rparr>
          in case reply_to rpc (drop (length (outs st)) (outs st')) of
               Some (RPublished rid) \<Rightarrow> (Ok rid, n')
             | _ \<Rightarrow> (Err RecvError, n')))"

section \<open>Proxies for remote actors\<close>

text \<open>
  \<open>instantiate_proxy_for_remote_actor\<close>: a new actor, linked to the portal, and a message
  that registers it.
\<close>

definition instantiate_proxy :: "remote_actor_id \<Rightarrow> ('rm, 'f, actor_id) node_eff" where
  "instantiate_proxy rid =
     seq (\<lambda>n. (Ok (next_actor n), n\<lparr>next_actor := next_actor n + 1, proxies := (next_actor n, rid) # proxies n\<rparr>))
       (\<lambda>proxy.
     seq (send_to_portal (RegisterProxyForRemoteActor rid proxy)) (\<lambda>_.
     ret proxy))"

text \<open>What the proxy does with the messages it receives, one after the other.\<close>

fun proxy_loop :: "remote_actor_id \<Rightarrow> ('m \<Rightarrow> 'f) \<Rightarrow> 'm list \<Rightarrow> ('rm, 'f) portal_message list" where
  "proxy_loop rid mk_f [] = []"
| "proxy_loop rid mk_f (msg # rx) = ImmaterializeMessage rid (mk_f msg) # proxy_loop rid mk_f rx"

text \<open>The task spawned for \<open>ImmaterializeMessage\<close>: the message's bytes go back to the portal.\<close>

definition immaterialize_task :: "remote_actor_id \<Rightarrow> bytes outcome \<Rightarrow> ('rm, 'f) portal_message list" where
  "immaterialize_task target result = (case result of Ok bytes \<Rightarrow> [TransmitMessage target bytes] | _ \<Rightarrow> [])"

section \<open>Publishing and waiting, from outside\<close>

definition publish_named_actor :: "rstring \<Rightarrow> actor_id \<Rightarrow> 'rm \<Rightarrow> ('rm, 'f, unit) node_eff" where
  "publish_named_actor name actor_ref receiver =
     send_to_portal (PublishNamedActor name actor_ref receiver None)"

text \<open>\<open>ask\<close> of \<open>util/ask.rs\<close>: the message is sent at once; then the reply is awaited, or the timeout.\<close>

datatype 'a awaited = Replied 'a | PortDropped | TimedOut

definition ask :: "(port \<Rightarrow> ('rm, 'f) portal_message) \<Rightarrow> nat option \<Rightarrow> 'a awaited \<Rightarrow> ('rm, 'f, 'a) node_eff" where
  "ask msg_builder timeout_option rx =
     seq (\<lambda>n. (Ok (next_port n), n\<lparr>next_port := next_port n + 1\<rparr>)) (\<lambda>port.
     seq (send_to_portal (msg_builder port)) (\<lambda>_.
     case rx of
       Replied a \<Rightarrow> ret a
     | PortDropped \<Rightarrow> throw RecvError
     | TimedOut \<Rightarrow> (case timeout_option of Some _ \<Rightarrow> throw TimeoutElapsed | None \<Rightarrow> throw RecvError)))"

text \<open>\<open>ask\<close> on any actor, \<open>takes\<close>: does it take messages? The result, and what was sent.\<close>

definition ask_actor :: "bool \<Rightarrow> (port \<Rightarrow> 'm) \<Rightarrow> port \<Rightarrow> 'a awaited \<Rightarrow> 'a outcome \<times> 'm list" where
  "ask_actor takes mk rpc rx =
     (if takes then (case rx of Replied a \<Rightarrow> Ok a | _ \<Rightarrow> Err RecvError, [mk rpc]) else (Err SendError, []))"

text \<open>
  \<open>ask_then\<close>: the same, but a task waits for the reply and calls back. The result is
  what the callback was called with; the task awaits the receiver alone, so that a timeout
  that elapses does not end the wait.
\<close>

definition ask_then :: "(port \<Rightarrow> ('rm, 'f) portal_message) \<Rightarrow> nat option \<Rightarrow> 'a awaited \<Rightarrow> ('rm, 'f, 'a outcome list) node_eff" where
  "ask_then msg_builder timeout_option rx =
     seq (\<lambda>n. (Ok (next_port n), n\<lparr>next_port := next_port n + 1\<rparr>)) (\<lambda>port.
     seq (send_to_portal (msg_builder port)) (\<lambda>_.
     ret (case rx of
         Replied a \<Rightarrow> [Ok a]
       | PortDropped \<Rightarrow> [Err (AnyhowMsg (str_lit ''Failed to receive message from RpcReplyPort''))]
       | TimedOut \<Rightarrow> [])))"

text \<open>
  The two agree on a reply; but where \<open>ask\<close> fails after its timeout, \<open>ask_then\<close> never
  calls back, whatever timeout it was given.
\<close>

lemma ask_then_no_timeout:
  assumes "taking_messages n"
  shows "fst (ask mk (Some d) (Replied a) n) = Ok a \<and> fst (ask_then mk (Some d) (Replied a) n) = Ok [Ok a] \<and>
    fst (ask mk (Some d) TimedOut n) = Err TimeoutElapsed \<and>
    fst (ask_then mk (Some d) (TimedOut :: 'a awaited) n) = Ok [] \<and>
    snd (ask_then mk (Some d) rx n) = snd (ask mk (Some d) rx n)"
  using assms by (cases rx) (simp_all add: ask_def ask_then_def send_to_portal_def seq_def)

definition wait_for_opened :: "nat \<Rightarrow> unit awaited \<Rightarrow> ('rm, 'f, unit) node_eff" where
  "wait_for_opened timeout rx = ask WaitForHandshake (Some timeout) rx"

section \<open>Actor references\<close>

text \<open>\<open>rid_enc\<close> and \<open>rid_dec\<close> are bincode at the type \<open>RemoteActorId\<close>.\<close>

definition immaterialize_actor_ref ::
    "'rm env \<Rightarrow> (remote_actor_id \<Rightarrow> bytes outcome) \<Rightarrow> 'rm \<Rightarrow> actor_id \<Rightarrow> ('rm, 'f, bytes) node_eff" where
  "immaterialize_actor_ref E rid_enc receiver actor_ref =
     seq (ask_publish_actor E actor_ref receiver) (\<lambda>published_id.
     lift (simple_immaterialize rid_enc published_id))"

definition rematerialize_actor_ref ::
    "(bytes \<Rightarrow> (remote_actor_id \<times> nat) outcome) \<Rightarrow> bytes \<Rightarrow> ('rm, 'f, actor_id) node_eff" where
  "rematerialize_actor_ref rid_dec buffer =
     seq (lift (simple_rematerialize rid_dec buffer)) (\<lambda>remote_actor_id.
     instantiate_proxy remote_actor_id)"

section \<open>Reply ports\<close>

record proxied_rpc_reply_port =
  timeout_ms :: "nat option"
  remote_actor_id :: remote_actor_id

definition spawn_rpc_proxy :: "port \<Rightarrow> ('rm, 'f, actor_id) node_eff" where
  "spawn_rpc_proxy p = (\<lambda>n. (Ok (next_actor n),
     n\<lparr>next_actor := next_actor n + 1, rpc_actors := (next_actor n, p) # rpc_actors n\<rparr>))"

definition kill_after :: "nat \<Rightarrow> actor_id \<Rightarrow> ('rm, 'f, unit) node_eff" where
  "kill_after timeout a = (\<lambda>n. (Ok (), n\<lparr>kill_timers := (timeout, a) # kill_timers n\<rparr>))"

definition immaterialize_replychannel ::
    "'rm env \<Rightarrow> (proxied_rpc_reply_port \<Rightarrow> bytes outcome) \<Rightarrow> nat \<Rightarrow> 'rm \<Rightarrow> reply_port \<Rightarrow> ('rm, 'f, bytes) node_eff" where
  "immaterialize_replychannel E rpc_enc default_timeout receiver rpc =
     (let timeout = (case rp_timeout rpc of Some t \<Rightarrow> t | None \<Rightarrow> default_timeout) in
      seq (spawn_rpc_proxy (rp_port rpc)) (\<lambda>local_actor.
      seq (kill_after timeout local_actor) (\<lambda>_.
      seq (ask_publish_actor E local_actor receiver) (\<lambda>published_id.
      lift (simple_immaterialize rpc_enc
        \<lparr>timeout_ms = Some timeout, remote_actor_id = published_id\<rparr>)))))"

text \<open>\<open>ms as u64\<close> keeps the low 64 bits.\<close>

definition u64_of :: "nat \<Rightarrow> nat" where
  "u64_of ms = ms mod 2 ^ 64"

definition rpc_reply_port_from_actor_ref :: "actor_id \<Rightarrow> nat option \<Rightarrow> ('rm, 'f, reply_port) node_eff" where
  "rpc_reply_port_from_actor_ref actor_ref timeout = (\<lambda>n.
     (Ok \<lparr>rp_port = next_port n, rp_timeout = timeout\<rparr>,
      n\<lparr>next_port := next_port n + 1, forwards := (next_port n, actor_ref) # forwards n\<rparr>))"

definition rematerialize_replychannel ::
    "(bytes \<Rightarrow> (proxied_rpc_reply_port \<times> nat) outcome) \<Rightarrow> bytes \<Rightarrow> ('rm, 'f, reply_port) node_eff" where
  "rematerialize_replychannel rpc_dec buffer =
     seq (lift (simple_rematerialize rpc_dec buffer)) (\<lambda>structured.
     let timeout = map_option u64_of (timeout_ms structured) in
     seq (instantiate_proxy (remote_actor_id structured)) (\<lambda>actor_ref.
     rpc_reply_port_from_actor_ref actor_ref timeout))"

section \<open>The actor behind a reply port\<close>

text \<open>
  \<open>RpcProxyActor\<close>: the first message's data goes to the port, whose receiver may be gone;
  then, and for any further message, the actor leaves its supervisor and stops.
\<close>

record rpc_proxy_state =
  rpc_reply_port :: "port option"

datatype 'a rpc_output = PortSend port 'a | Unlink | RpcStop

definition rpc_proxy_pre_start :: "port \<Rightarrow> rpc_proxy_state" where
  "rpc_proxy_pre_start p = \<lparr>rpc_reply_port = Some p\<rparr>"

definition rpc_proxy_handle ::
    "(port \<Rightarrow> bool) \<Rightarrow> bool \<Rightarrow> 'a \<Rightarrow> rpc_proxy_state \<Rightarrow> rpc_proxy_state \<times> 'a rpc_output list" where
  "rpc_proxy_handle open_port supervised data st =
     (\<lparr>rpc_reply_port = None\<rparr>,
      (case rpc_reply_port st of
         Some rrp \<Rightarrow> (if open_port rrp then [PortSend rrp data] else []) | None \<Rightarrow> []) @
      (if supervised then [Unlink] else []) @ [RpcStop])"

text \<open>
  The task behind a rebuilt port: what is sent to the port goes to the proxy actor, and
  \<open>unwrap\<close> panics if that actor no longer takes messages.
\<close>

definition forward_task :: "bool \<Rightarrow> 'a option \<Rightarrow> 'a option outcome" where
  "forward_task proxy_takes rx = (case rx of
     Some msg \<Rightarrow> (if proxy_takes then Ok (Some msg) else Panic UnwrapErr)
   | None \<Rightarrow> Ok None)"

section \<open>Messages for published actors\<close>

text \<open>\<open>MsgRematerializerImpl::rematerialize\<close>: decode the message, then send it to the actor.\<close>

definition msg_rematerialize ::
    "('t, 'm) remat \<Rightarrow> (actor_id \<Rightarrow> bool) \<Rightarrow> actor_id \<Rightarrow> bytes \<Rightarrow> ('t, actor_id \<times> 'm) eff" where
  "msg_rematerialize rem takes actor data =
     seq (rem data) (\<lambda>msg.
     if takes actor then ret (actor, msg) else throw SendError)"

section \<open>The proxies for \<open>serde\<close> and \<open>bincode\<close>\<close>

definition serde_immaterialize :: "('a \<Rightarrow> bytes outcome) \<Rightarrow> 'a \<Rightarrow> bytes outcome" where
  "serde_immaterialize to_vec data = and_then (to_vec data) (\<lambda>json. Ok json)"

definition serde_rematerialize :: "(bytes \<Rightarrow> 'a outcome) \<Rightarrow> bytes \<Rightarrow> 'a outcome" where
  "serde_rematerialize from_slice data = and_then (from_slice data) (\<lambda>deserialized. Ok deserialized)"

definition bincode_immaterialize :: "('a \<Rightarrow> bytes outcome) \<Rightarrow> 'a \<Rightarrow> bytes outcome" where
  "bincode_immaterialize enc data = and_then (enc data) (\<lambda>bytes. Ok bytes)"

definition bincode_rematerialize :: "(bytes \<Rightarrow> ('a \<times> nat) outcome) \<Rightarrow> bytes \<Rightarrow> 'a outcome" where
  "bincode_rematerialize dec data =
     and_then (dec data) (\<lambda>(deserialized, consumed).
     if consumed = length data then Ok deserialized else Panic AssertFailed)"

end
