(* ===== verification/Context_Correct.thy ===== *)
theory Context_Correct
  imports Context
begin

text \<open>
  References keep the contract of the trait: the actor a received \<open>ActorRef\<close> names is a
  proxy whose target is the published id of the actor that was sent, and a received reply
  port leads to the one that was sent.
\<close>

section \<open>The invariant and the order of nodes\<close>

definition node_inv :: "('rm, 'f) node \<Rightarrow> bool" where
  "node_inv n \<longleftrightarrow> portal_inv (portal_of n) \<and> taking_messages n \<and> distinct (uuids n) \<and>
     OpaqueActorId ` set (uuids n) \<inter> fst ` set (published_actors (portal_of n)) = {}"

definition node_le :: "('rm, 'f) node \<Rightarrow> ('rm, 'f) node \<Rightarrow> bool" where
  "node_le n n' \<longleftrightarrow> portal_le (portal_of n) (portal_of n') \<and> prefix (mailbox n) (mailbox n') \<and>
     set (proxies n) \<subseteq> set (proxies n') \<and> set (rpc_actors n) \<subseteq> set (rpc_actors n') \<and>
     set (forwards n) \<subseteq> set (forwards n') \<and> set (kill_timers n) \<subseteq> set (kill_timers n')"

lemma node_le_refl [simp, intro]: "node_le n n"
  by (simp add: node_le_def)

lemma node_le_trans: "node_le a b \<Longrightarrow> node_le b c \<Longrightarrow> node_le a c"
  unfolding node_le_def using portal_le_trans by (auto intro: prefix_order.trans)

lemma world_order_node_le [intro!]: "world_order node_le"
  unfolding world_order_def using node_le_trans by blast

lemma node_keepsI:
  "(\<And>n. node_inv n \<Longrightarrow> node_inv (snd (m n)) \<and> node_le n (snd (m n))) \<Longrightarrow> keeps node_inv node_le m"
  by (simp add: keeps_def)

section \<open>Asking the portal to publish\<close>

lemma publish_actor_open:
  assumes "channel_state st = Open c" and "publish_actor E a rm st = (Ok k, st1)" and "port_open E p"
    and "channel_state st1 = Open c"
  shows "handle E (PublishActor a rm (Some p)) st =
    (Ok (), st1\<lparr>outs := outs st1 @ [Reply p (RPublished (remote_id_of c st1 k))]\<rparr>)"
  using assms by (simp add: handle_def handle_publish_actor_def seq_OkD reply_send_def emit_def)

lemma publish_actor_shape:
  assumes "publish_actor E a rm st = (Ok k, st1)" and "uuid_new E st"
  shows "published_actors st1 = published_actors st \<and> st1 = st \<or>
    k = OpaqueActorId (fresh_uuid E) \<and>
    published_actors st1 = published_actors st @ [(k, a, rm)] \<and> outs st1 = outs st @ [SpawnExitWatch a]"
  using assms unfolding publish_actor_cases
  by (auto simp: uuid_new_def hm_insert_new split: option.splits)

lemma reply_to_watch [simp]:
  "reply_to p (SpawnExitWatch a # os) = reply_to p os"
  by simp

definition asked :: "'rm env \<Rightarrow> 128 word \<Rightarrow> 'rm env" where
  "asked E u = E\<lparr>fresh_uuid := u, port_open := (\<lambda>_. True)\<rparr>"

lemma ask_publish_run:
  assumes inv: "node_inv n" and run: "ask_publish_actor E a rm n = (r, n')"
  shows "node_inv n'" and "node_le n n'"
    and "r = Ok rid \<Longrightarrow> \<exists>c k rm'. channel_state (portal_of n') = Open c \<and>
      (k, a, rm') \<in> set (published_actors (portal_of n')) \<and> rid = remote_id_of c (portal_of n') k"
    and "proxies n' = proxies n \<and> rpc_actors n' = rpc_actors n \<and> forwards n' = forwards n \<and> kill_timers n' = kill_timers n"
proof -
  have "node_inv n' \<and> node_le n n' \<and> (\<forall>rid. r = Ok rid \<longrightarrow> (\<exists>c k rm'. channel_state (portal_of n') = Open c \<and>
      (k, a, rm') \<in> set (published_actors (portal_of n')) \<and> rid = remote_id_of c (portal_of n') k)) \<and>
      proxies n' = proxies n \<and> rpc_actors n' = rpc_actors n \<and> forwards n' = forwards n \<and> kill_timers n' = kill_timers n"
  proof (cases "uuids n")
    case Nil
    then show ?thesis using run inv by (auto simp: ask_publish_actor_def)
  next
    case (Cons u us)
    let ?st = "portal_of n" and ?p = "next_port n"
    define E' where "E' = asked E u"
    have inv': "portal_inv ?st" and new: "uuid_new E' ?st"
      using inv Cons by (auto simp: node_inv_def uuid_new_def E'_def asked_def)
    show ?thesis
    proof (cases "channel_state ?st")
      case (Opening i)
      then have "r = Err RecvError" "n' = n\<lparr>next_port := ?p + 1\<rparr>"
        using run Cons by (auto simp: ask_publish_actor_def handle_def handle_publish_actor_def Let_def)
      then show ?thesis using inv by (auto simp: node_inv_def node_le_def)
    next
      case (Open c)
      obtain q st1 where pub: "publish_actor E' a rm ?st = (q, st1)" by fastforce
      note facts = publish_actor_run[OF inv' new pub]
      from facts(6) obtain k rm' where k: "q = Ok k" "(k, a, rm') \<in> set (published_actors st1)" by blast
      let ?st' = "st1\<lparr>outs := outs st1 @ [Reply ?p (RPublished (remote_id_of c st1 k))]\<rparr>"
      have c1: "channel_state st1 = Open c" using facts(3) Open by simp
      have h: "handle E' (PublishActor a rm (Some ?p)) ?st = (Ok (), ?st')"
        by (rule publish_actor_open[OF Open pub[unfolded k(1)] _ c1]) (simp add: E'_def asked_def)
      note shape = publish_actor_shape[OF pub[unfolded k(1)] new]
      then have rep: "reply_to ?p (drop (length (outs ?st)) (outs ?st')) = Some (RPublished (remote_id_of c st1 k))"
        by auto
      have r: "r = Ok (remote_id_of c st1 k)"
        and n': "n' = n\<lparr>portal_of := ?st', next_port := ?p + 1,
          uuids := (if published_actors st1 = published_actors ?st then u # us else us)\<rparr>"
        using run Cons h[unfolded E'_def asked_def] rep by (auto simp: ask_publish_actor_def Let_def)
      have st': "portal_inv ?st'" "portal_le ?st ?st'"
        using portal_inv_out[OF facts(1), of "Reply ?p (RPublished (remote_id_of c st1 k))"]
          portal_le_trans[OF facts(2) portal_le_out] by auto
      have "node_inv n'"
      proof -
        define K where "K = fst ` set (published_actors ?st)"
        have K: "distinct (u # us)" "OpaqueActorId ` set (u # us) \<inter> K = {}" "taking_messages n"
          using inv Cons by (simp_all add: node_inv_def K_def)
        then have us: "OpaqueActorId ` set us \<inter> insert (OpaqueActorId u) K = {}" by auto
        show ?thesis
          using shape
        proof (elim disjE conjE)
          assume "published_actors st1 = published_actors ?st"
          with K st'(1) show ?thesis by (simp add: n' node_inv_def flip: K_def)
        next
          assume "published_actors st1 = published_actors ?st @ [(k, a, rm)]" "k = OpaqueActorId (fresh_uuid E')"
          with K st'(1) us
          show ?thesis by (simp add: n' node_inv_def E'_def asked_def flip: K_def)
        qed
      qed
      moreover have "node_le n n'" using st'(2) by (simp add: n' node_le_def)
      moreover have "\<exists>c k rm'. channel_state (portal_of n') = Open c \<and>
          (k, a, rm') \<in> set (published_actors (portal_of n')) \<and> rid = remote_id_of c (portal_of n') k"
        if "r = Ok rid" for rid
        using that r k(2) c1 by (auto simp: n' remote_id_of_def)
      ultimately show ?thesis by (simp add: n')
    qed
  qed
  then show "node_inv n'" and "node_le n n'"
    and "r = Ok rid \<Longrightarrow> \<exists>c k rm'. channel_state (portal_of n') = Open c \<and>
      (k, a, rm') \<in> set (published_actors (portal_of n')) \<and> rid = remote_id_of c (portal_of n') k"
    and "proxies n' = proxies n \<and> rpc_actors n' = rpc_actors n \<and> forwards n' = forwards n \<and> kill_timers n' = kill_timers n"
    by blast+
qed

lemma ask_publish_keeps [intro!]: "keeps node_inv node_le (ask_publish_actor E a rm)"
proof (rule node_keepsI)
  fix n :: "('a, 'b) node"
  assume n: "node_inv n"
  obtain r n' where run: "ask_publish_actor E a rm n = (r, n')" by fastforce
  show "node_inv (snd (ask_publish_actor E a rm n)) \<and> node_le n (snd (ask_publish_actor E a rm n))"
    using ask_publish_run(1,2)[OF n run] run by simp
qed

section \<open>Proxies\<close>

lemma instantiate_proxy_run:
  assumes "node_inv n"
  shows "instantiate_proxy rid n = (Ok (next_actor n),
    n\<lparr>next_actor := next_actor n + 1, proxies := (next_actor n, rid) # proxies n,
      mailbox := mailbox n @ [RegisterProxyForRemoteActor rid (next_actor n)]\<rparr>)"
  using assms by (simp add: instantiate_proxy_def send_to_portal_def seq_def node_inv_def)

lemma instantiate_proxy_keeps [intro!]: "keeps node_inv node_le (instantiate_proxy rid)"
  by (rule node_keepsI) (auto simp: instantiate_proxy_run node_inv_def node_le_def)

text \<open>\<open>published_as n a rid\<close>: on this node, \<open>rid\<close> is the id under which \<open>a\<close> is published.\<close>

definition published_as :: "('rm, 'f) node \<Rightarrow> actor_id \<Rightarrow> remote_actor_id \<Rightarrow> bool" where
  "published_as n a rid \<longleftrightarrow> (\<exists>c k rm. channel_state (portal_of n) = Open c \<and>
     (k, a, rm) \<in> set (published_actors (portal_of n)) \<and> rid = remote_id_of c (portal_of n) k)"

lemma published_as_mono: "node_le n n' \<Longrightarrow> published_as n a rid \<Longrightarrow> published_as n' a rid"
  unfolding node_le_def portal_le_def published_as_def remote_id_of_def by fastforce

definition rel_actor_ref :: "('rm, 'f) node \<Rightarrow> ('rm, 'f) node \<Rightarrow> actor_id \<Rightarrow> actor_id \<Rightarrow> bool" where
  "rel_actor_ref n n' a proxy \<longleftrightarrow> (\<exists>rid. published_as n a rid \<and> (proxy, rid) \<in> set (proxies n'))"

lemma rel_actor_ref_mono:
  "node_le s s' \<Longrightarrow> node_le t t' \<Longrightarrow> rel_actor_ref s t v w \<Longrightarrow> rel_actor_ref s' t' v w"
  using published_as_mono[of s s'] by (force simp: rel_actor_ref_def node_le_def)

lemma transmat_actor_ref:
  assumes "wf_platform P" and law: "bincode_law enc dec"
  shows "transmat P node_inv node_le node_inv node_le
    (immaterialize_actor_ref E enc receiver) (rematerialize_actor_ref dec) (\<lambda>_. True) rel_actor_ref"
proof unfold_locales
  show "wf_platform P" by fact
  show "keeps node_inv node_le (immaterialize_actor_ref E enc receiver v)" for v
    unfolding immaterialize_actor_ref_def by (auto simp del: lift_apply)
  show "keeps node_inv node_le (rematerialize_actor_ref dec bs)" for bs
    unfolding rematerialize_actor_ref_def by (auto simp del: lift_apply)
  fix s :: "('a, 'b) node" and v bs s' and t :: "('a, 'b) node"
  assume s: "node_inv s" and w: "immaterialize_actor_ref E enc receiver v s = (Ok bs, s')" and t: "node_inv t"
  then obtain rid where ask: "ask_publish_actor E v receiver s = (Ok rid, s')"
    and bs: "simple_immaterialize enc rid = Ok bs"
    by (auto simp: immaterialize_actor_ref_def seq_eq_Ok)
  have "published_as s' v rid"
    using ask_publish_run(3)[OF s ask refl] by (simp add: published_as_def)
  moreover have "simple_rematerialize dec bs = Ok rid" by (rule simple_roundtrip[OF law bs])
  ultimately show "wp (rematerialize_actor_ref dec bs) (\<lambda>w t'. rel_actor_ref s' t' v w) t"
    by (auto simp: rematerialize_actor_ref_def wp_iff instantiate_proxy_run[OF t] rel_actor_ref_def)
qed (auto intro: rel_actor_ref_mono)

section \<open>Reply ports\<close>

text \<open>
  The received port forwards to a proxy, whose target is the published id of the actor that
  holds the port that was sent; its timeout is the one sent with, and the actor is killed
  after that time.
\<close>

definition rel_reply_port ::
    "nat \<Rightarrow> ('rm, 'f) node \<Rightarrow> ('rm, 'f) node \<Rightarrow> reply_port \<Rightarrow> reply_port \<Rightarrow> bool" where
  "rel_reply_port dflt n n' v w \<longleftrightarrow>
     (\<exists>a rid proxy t. (a, rp_port v) \<in> set (rpc_actors n) \<and> published_as n a rid \<and>
        (t, a) \<in> set (kill_timers n) \<and> t = (case rp_timeout v of Some t \<Rightarrow> t | None \<Rightarrow> dflt) \<and>
        (proxy, rid) \<in> set (proxies n') \<and> (rp_port w, proxy) \<in> set (forwards n') \<and>
        rp_timeout w = Some (u64_of t))"

lemma rel_reply_port_mono:
  assumes "node_le s s'" and "node_le t t'" and "rel_reply_port d s t v w"
  shows "rel_reply_port d s' t' v w"
proof -
  from assms(3) obtain a rid proxy tm where
    "(a, rp_port v) \<in> set (rpc_actors s)" "published_as s a rid" "(tm, a) \<in> set (kill_timers s)"
    "tm = (case rp_timeout v of Some t \<Rightarrow> t | None \<Rightarrow> d)" "(proxy, rid) \<in> set (proxies t)"
    "(rp_port w, proxy) \<in> set (forwards t)" "rp_timeout w = Some (u64_of tm)"
    unfolding rel_reply_port_def by blast
  moreover have "published_as s' a rid" by (rule published_as_mono[OF assms(1)]) fact
  ultimately show ?thesis
    using assms(1,2) unfolding rel_reply_port_def node_le_def by blast
qed

lemma spawn_rpc_proxy_keeps [intro!]: "keeps node_inv node_le (spawn_rpc_proxy p)"
  by (rule node_keepsI) (auto simp: spawn_rpc_proxy_def node_inv_def node_le_def)

lemma kill_after_keeps [intro!]: "keeps node_inv node_le (kill_after t a)"
  by (rule node_keepsI) (auto simp: kill_after_def node_inv_def node_le_def)

lemma reply_port_from_keeps [intro!]: "keeps node_inv node_le (rpc_reply_port_from_actor_ref a t)"
  by (rule node_keepsI) (auto simp: rpc_reply_port_from_actor_ref_def node_inv_def node_le_def)

lemma transmat_replychannel:
  assumes "wf_platform P" and law: "bincode_law enc dec"
  shows "transmat P node_inv node_le node_inv node_le
    (immaterialize_replychannel E enc dflt receiver) (rematerialize_replychannel dec)
    (\<lambda>_. True) (rel_reply_port dflt)"
proof unfold_locales
  show "wf_platform P" by fact
  show "keeps node_inv node_le (immaterialize_replychannel E enc dflt receiver v)" for v
    unfolding immaterialize_replychannel_def Let_def by (auto simp del: lift_apply)
  show "keeps node_inv node_le (rematerialize_replychannel dec bs)" for bs
    unfolding rematerialize_replychannel_def Let_def by (auto simp del: lift_apply)
  fix s :: "('a, 'b) node" and v bs s' and t :: "('a, 'b) node"
  assume s: "node_inv s" and w: "immaterialize_replychannel E enc dflt receiver v s = (Ok bs, s')"
    and t: "node_inv t"
  define tm where "tm = (case rp_timeout v of Some t \<Rightarrow> t | None \<Rightarrow> dflt)"
  let ?a = "next_actor s"
  let ?s1 = "s\<lparr>next_actor := ?a + 1, rpc_actors := (?a, rp_port v) # rpc_actors s,
    kill_timers := (tm, ?a) # kill_timers s\<rparr>"
  obtain rid where ask: "ask_publish_actor E ?a receiver ?s1 = (Ok rid, s')"
    and bs: "simple_immaterialize enc \<lparr>timeout_ms = Some tm, remote_actor_id = rid\<rparr> = Ok bs"
    using w by (auto simp: immaterialize_replychannel_def spawn_rpc_proxy_def kill_after_def seq_eq_Ok
        Let_def tm_def[symmetric])
  have s1: "node_inv ?s1" using s by (simp add: node_inv_def)
  have "published_as s' ?a rid" using ask_publish_run(3)[OF s1 ask refl] by (simp add: published_as_def)
  moreover have "(?a, rp_port v) \<in> set (rpc_actors s')" "(tm, ?a) \<in> set (kill_timers s')"
    using ask_publish_run(4)[OF s1 ask] by simp_all
  moreover have "simple_rematerialize dec bs = Ok \<lparr>timeout_ms = Some tm, remote_actor_id = rid\<rparr>"
    by (rule simple_roundtrip[OF law bs])
  ultimately show "wp (rematerialize_replychannel dec bs) (\<lambda>w t'. rel_reply_port dflt s' t' v w) t"
    by (auto simp: rematerialize_replychannel_def wp_iff instantiate_proxy_run[OF t] rel_reply_port_def
        rpc_reply_port_from_actor_ref_def Let_def tm_def seq_def)
qed (auto intro: rel_reply_port_mono)

section \<open>The proxy's loop\<close>

lemma proxy_loop_eq: "proxy_loop rid mk_f ms = map (\<lambda>m. ImmaterializeMessage rid (mk_f m)) ms"
  by (induction ms) simp_all

end
