(* ===== verification/Sample_Codec.thy ===== *)
theory Sample_Codec
  imports Context
begin

text \<open>
  A concrete codec for the messages between portals. The real ones are the crates
  \<open>bincode\<close> and \<open>serde_json\<close>, which the model takes as arguments; this one shows that
  what the theorems ask of them (\<open>bincode_law\<close>, \<open>json_law\<close>) can hold, and lets the
  theorems be applied to concrete runs.
\<close>

section \<open>Parsers that return the rest\<close>

type_synonym 'a parser = "bytes \<Rightarrow> ('a \<times> bytes) option"

definition parses :: "('a \<Rightarrow> bytes) \<Rightarrow> 'a parser \<Rightarrow> bool" where
  "parses enc p \<longleftrightarrow> (\<forall>x rest. p (enc x @ rest) = Some (x, rest))"

lemma parsesD: "parses enc p \<Longrightarrow> p (enc x @ rest) = Some (x, rest)"
  by (simp add: parses_def)

fun enc_bytes :: "bytes \<Rightarrow> bytes" where
  "enc_bytes [] = [0]"
| "enc_bytes (b # bs) = 1 # b # enc_bytes bs"

fun dec_bytes :: "bytes parser" where
  "dec_bytes (t # rest) =
     (if t = 0 then Some ([], rest)
      else case rest of [] \<Rightarrow> None
         | b # rest' \<Rightarrow> (case dec_bytes rest' of None \<Rightarrow> None | Some (bs, r) \<Rightarrow> Some (b # bs, r)))"
| "dec_bytes [] = None"

definition dec_word :: "'n::len word parser" where
  "dec_word bs = (let n = LENGTH('n) div 8 in
     if length bs < n then None else Some (from_le_bytes (take n bs), drop n bs))"

lemma parses_bytes: "dec_bytes (enc_bytes bs @ rest) = Some (bs, rest)"
  by (induction bs) simp_all

lemma parses_word:
  "8 dvd LENGTH('n::len) \<Longrightarrow> dec_word (to_le_bytes (w :: 'n word) @ rest) = Some (w, rest)"
  by (simp add: dec_word_def from_to_le_bytes)

section \<open>Remote actor ids and messages\<close>

definition enc_rid :: "remote_actor_id \<Rightarrow> bytes" where
  "enc_rid r = (case connection_key r of ConduitID c \<Rightarrow> case side r of LocalPortalId l \<Rightarrow>
     case opaque_id r of OpaqueActorId k \<Rightarrow> to_le_bytes c @ to_le_bytes l @ to_le_bytes k)"

definition dec_rid :: "remote_actor_id parser" where
  "dec_rid bs = (case dec_word bs of None \<Rightarrow> None | Some (c, r1) \<Rightarrow>
     case dec_word r1 of None \<Rightarrow> None | Some (l, r2) \<Rightarrow>
     case dec_word r2 of None \<Rightarrow> None | Some (k, r3) \<Rightarrow>
       Some (\<lparr>connection_key = ConduitID c, side = LocalPortalId l, opaque_id = OpaqueActorId k\<rparr>, r3))"

lemma parses_rid: "dec_rid (enc_rid r @ rest) = Some (r, rest)"
  by (cases r) (simp add: enc_rid_def dec_rid_def parses_word
      split: conduit_id.split local_portal_id.split opaque_actor_id.split)

lemma length_enc_bytes [simp]: "length (enc_bytes bs) = 2 * length bs + 1"
  by (induction bs) simp_all

lemma length_enc_rid [simp]: "length (enc_rid r) = 48"
  by (simp add: enc_rid_def split: conduit_id.split local_portal_id.split opaque_actor_id.split)

definition enc_resp :: "(remote_actor_id, actor_request_error) rust_result \<Rightarrow> bytes" where
  "enc_resp r = (case r of ROk rid \<Rightarrow> 0 # enc_rid rid
     | RErr ActorNotFound \<Rightarrow> [1] | RErr TransmissionError \<Rightarrow> [2])"

definition dec_resp :: "(remote_actor_id, actor_request_error) rust_result parser" where
  "dec_resp bs = (case bs of [] \<Rightarrow> None | t # r \<Rightarrow>
     if t = 0 then map_option (\<lambda>(rid, r'). (ROk rid, r')) (dec_rid r)
     else if t = 1 then Some (RErr ActorNotFound, r) else Some (RErr TransmissionError, r))"

lemma parses_resp: "dec_resp (enc_resp x @ rest) = Some (x, rest)"
  by (simp add: enc_resp_def dec_resp_def parses_rid split: rust_result.split actor_request_error.split)

definition enc_cpm :: "cross_portal_message \<Rightarrow> bytes" where
  "enc_cpm m = (case m of
     RequestActorByName i n \<Rightarrow> 0 # to_le_bytes i @ enc_bytes n
   | ResponseActorByName i r \<Rightarrow> 1 # to_le_bytes i @ enc_resp r
   | ResponseActorById i r \<Rightarrow> 2 # to_le_bytes i @ enc_resp r
   | SendMessage rid d \<Rightarrow> 3 # enc_rid rid @ enc_bytes d
   | ActorExited rid \<Rightarrow> 4 # enc_rid rid)"

definition pair_parser :: "'a parser \<Rightarrow> 'b parser \<Rightarrow> ('a \<Rightarrow> 'b \<Rightarrow> 'c) \<Rightarrow> 'c parser" where
  "pair_parser p q f bs = (case p bs of None \<Rightarrow> None | Some (a, r) \<Rightarrow>
     case q r of None \<Rightarrow> None | Some (b, r') \<Rightarrow> Some (f a b, r'))"

definition dec_cpm :: "cross_portal_message parser" where
  "dec_cpm bs = (case bs of [] \<Rightarrow> None | t # r \<Rightarrow>
     if t = 0 then pair_parser dec_word dec_bytes RequestActorByName r
     else if t = 1 then pair_parser dec_word dec_resp ResponseActorByName r
     else if t = 2 then pair_parser dec_word dec_resp ResponseActorById r
     else if t = 3 then pair_parser dec_rid dec_bytes SendMessage r
     else map_option (\<lambda>(rid, r'). (ActorExited rid, r')) (dec_rid r))"

lemma parses_cpm: "dec_cpm (enc_cpm m @ rest) = Some (m, rest)"
  by (cases m) (simp_all add: enc_cpm_def dec_cpm_def pair_parser_def parses_word parses_bytes
      parses_rid parses_resp)

section \<open>Introductions\<close>

definition enc_intro :: "introduction \<Rightarrow> rstring" where
  "enc_intro i = (case this_side_id i of LocalPortalId l \<Rightarrow>
     enc_bytes (channel_id_contribution i) @ enc_bytes (version i) @ enc_bytes (info_text i) @ to_le_bytes l)"

definition dec_intro :: "introduction parser" where
  "dec_intro bs = (case dec_bytes bs of None \<Rightarrow> None | Some (c, r1) \<Rightarrow>
     case dec_bytes r1 of None \<Rightarrow> None | Some (v, r2) \<Rightarrow>
     case dec_bytes r2 of None \<Rightarrow> None | Some (t, r3) \<Rightarrow>
     case dec_word r3 of None \<Rightarrow> None | Some (l, r4) \<Rightarrow>
       Some (\<lparr>channel_id_contribution = c, version = v, info_text = t, this_side_id = LocalPortalId l\<rparr>, r4))"

lemma parses_intro: "dec_intro (enc_intro i @ rest) = Some (i, rest)"
  by (cases i) (simp add: enc_intro_def dec_intro_def parses_word parses_bytes split: local_portal_id.split)

section \<open>As the model takes them\<close>

definition sample_enc :: "('a \<Rightarrow> bytes) \<Rightarrow> 'a \<Rightarrow> bytes outcome" where
  "sample_enc enc x = Ok (enc x)"

definition sample_dec :: "'a parser \<Rightarrow> bytes \<Rightarrow> ('a \<times> nat) outcome" where
  "sample_dec p bs = (case p bs of None \<Rightarrow> Err DecodeError | Some (x, r) \<Rightarrow> Ok (x, length bs - length r))"

definition sample_json_dec :: "'a parser \<Rightarrow> rstring \<Rightarrow> 'a outcome" where
  "sample_json_dec p t = (case p t of Some (x, []) \<Rightarrow> Ok x | _ \<Rightarrow> Err JsonError)"

lemma sample_law: "(\<And>x rest. p (enc x @ rest) = Some (x, rest)) \<Longrightarrow> bincode_law (sample_enc enc) (sample_dec p)"
  by (auto simp: bincode_law_def sample_enc_def sample_dec_def)

lemma sample_json_law:
  assumes "\<And>x rest. p (enc x @ rest) = Some (x, rest)"
  shows "json_law (sample_enc enc) (sample_json_dec p)"
  using assms[of _ "[]"] by (simp add: json_law_def sample_enc_def sample_json_dec_def)

lemma sample_cpm_law: "bincode_law (sample_enc enc_cpm) (sample_dec dec_cpm)"
  by (rule sample_law) (rule parses_cpm)

lemma sample_rid_law: "bincode_law (sample_enc enc_rid) (sample_dec dec_rid)"
  by (rule sample_law) (rule parses_rid)

lemma sample_intro_law: "json_law (sample_enc enc_intro) (sample_json_dec dec_intro)"
  by (rule sample_json_law) (rule parses_intro)

text \<open>Reply ports: the optional timeout in unary, then the id.\<close>

definition enc_proxied :: "proxied_rpc_reply_port \<Rightarrow> bytes" where
  "enc_proxied r = (case timeout_ms r of None \<Rightarrow> 0 # enc_rid (remote_actor_id r)
     | Some n \<Rightarrow> 1 # enc_bytes (replicate n 0) @ enc_rid (remote_actor_id r))"

definition dec_proxied :: "proxied_rpc_reply_port parser" where
  "dec_proxied bs = (case bs of [] \<Rightarrow> None | t # r \<Rightarrow>
     if t = 0 then map_option (\<lambda>(rid, r'). (\<lparr>timeout_ms = None, remote_actor_id = rid\<rparr>, r')) (dec_rid r)
     else pair_parser dec_bytes dec_rid (\<lambda>n rid. \<lparr>timeout_ms = Some (length n), remote_actor_id = rid\<rparr>) r)"

lemma sample_proxied_law: "bincode_law (sample_enc enc_proxied) (sample_dec dec_proxied)"
proof (rule sample_law)
  show "dec_proxied (enc_proxied r @ rest) = Some (r, rest)" for r rest
    by (cases r) (simp add: enc_proxied_def dec_proxied_def pair_parser_def parses_rid parses_bytes split: option.split)
qed

section \<open>A working environment\<close>

definition sample_env :: "128 word \<Rightarrow> 'rm env" where
  "sample_env u = \<lparr>platform_of = \<lparr>usize_bits = 64, overflow_checks = False, alloc_limit = 2 ^ 40\<rparr>,
     fresh_uuid = u, sink_send_ok = True, sink_flush_ok = True, port_open = (\<lambda>_. True),
     run_rm = (\<lambda>_ _ _. Ok ()), nexus_query = (\<lambda>_. Ok None),
     cpm_enc = sample_enc enc_cpm, cpm_dec = sample_dec dec_cpm, json_dec = sample_json_dec dec_intro\<rparr>"

lemma sample_env_sel [simp]:
  "sink_send_ok (sample_env u)" "sink_flush_ok (sample_env u)" "port_open (sample_env u) p"
  "fresh_uuid (sample_env u) = u" "nexus_query (sample_env u) n = Ok None"
  "run_rm (sample_env u) rm a d = Ok ()" "cpm_enc (sample_env u) = sample_enc enc_cpm"
  "cpm_dec (sample_env u) = sample_dec dec_cpm" "json_dec (sample_env u) = sample_json_dec dec_intro"
  by (simp_all add: sample_env_def)

end
