(* ===== verification/Portal_Props.thy ===== *)
theory Portal_Props
  imports Link Nexus Context_Correct Sample_Codec
begin

text \<open>
  The properties of portals, of pairs of portals and of the nexus, each with a concrete
  instance where it has hypotheses.
\<close>

section \<open>Concrete portals\<close>

definition sample_args :: "128 word \<Rightarrow> portal_args" where
  "sample_args l = \<lparr>peer_identifier = str_lit ''peer'', local_id = LocalPortalId l, default_rpc_port_timeout = 120\<rparr>"

definition sample_start :: "128 word \<Rightarrow> bytes \<Rightarrow> (nat, nat) portal_state" where
  "sample_start l contribution = \<lparr>args = sample_args l,
     channel_state = Opening (introduction_of contribution 1 (sample_args l)),
     published_actors = [], proxies_for_remote_actors = [], named_actors = [],
     next_request_id = 1, open_requests = [], waiting_for_handshake = [],
     outs = [SinkSend (CmHandshake (enc_intro (introduction_of contribution 1 (sample_args l))))]\<rparr>"

lemma sample_start_run:
  "pre_start (sample_env u :: nat env) (sample_enc enc_intro) contribution 1 (sample_args l) = Ok (sample_start l contribution)"
  by (simp add: pre_start_Ok sample_start_def introduction_of_def sample_enc_def)

lemma sample_start_reach: "portal_reach (sample_start l contribution) True"
  by (rule portal_reach.start[OF sample_start_run[of 0]])

text \<open>A portal that is open on channel 3, with one actor published and one more proxied.\<close>

definition sample_open :: "128 word \<Rightarrow> (nat, nat) portal_state" where
  "sample_open l = (sample_start l [])\<lparr>channel_state := Open (ConduitID 3)\<rparr>"

lemma sample_open_inv: "portal_inv (sample_open l)"
  by (simp add: sample_open_def sample_start_def portal_inv_def inv_defs)

lemma sample_working: "working (sample_env u)"
  by (simp add: working_def sample_cpm_law sample_enc_def)

lemma sample_uuid_new: "uuid_new (sample_env u) (sample_open l)"
  by (simp add: uuid_new_def sample_open_def sample_start_def)

section \<open>Two portals\<close>

text \<open>
  C1: Two portals joined by a conduit that delivers in order agree on the channel. In every
  state the pair can reach, an end that has taken a message from its peer is open, and when
  both have, both are open on the same channel id, the exclusive or of the two
  contributions.
\<close>

theorem link_agreement:
  assumes "json_law je jd" and "link_reach je jd i j L R"
  shows "channel_state (portal L) = (if taken L = 0 then Opening i else Open (channel_of i j)) \<and>
    channel_state (portal R) = (if taken R = 0 then Opening j else Open (channel_of i j))"
  using link_inv[OF assms] channel_of_commute[of j i] by (simp add: end_inv_def)

lemma sample_link_start:
  "link_reach (sample_enc enc_intro) (sample_json_dec dec_intro)
     (introduction_of [1] 1 (sample_args 5)) (introduction_of [2] 1 (sample_args 6))
     (fresh_end (sample_start 5 [1])) (fresh_end (sample_start 6 [2]))"
  by (rule link_reach.start[OF sample_start_run[of 0] sample_start_run[of 0]])

text \<open>The left end takes the right end's handshake.\<close>

definition sample_left :: "(nat, nat) endpoint" where
  "sample_left = \<lparr>portal = (sample_start 5 [1])\<lparr>channel_state := Open (ConduitID 3)\<rparr>,
     taking = True, taken = 1, closed = False\<rparr>"

lemma sample_channel:
  "channel_of (introduction_of [1] 1 (sample_args 5)) (introduction_of [2] 1 (sample_args 6)) = ConduitID 3"
  by (simp add: channel_of_def introduction_of_def xor_arrays_def from_le_bytes_def)

lemma sample_link_step:
  "link_reach (sample_enc enc_intro) (sample_json_dec dec_intro)
     (introduction_of [1] 1 (sample_args 5)) (introduction_of [2] 1 (sample_args 6))
     sample_left (fresh_end (sample_start 6 [2]))"
proof (rule link_reach.left[OF sample_link_start])
  let ?A = "fresh_end (sample_start 5 [1])" and ?B = "portal (fresh_end (sample_start 6 [2]))"
  let ?t = "enc_intro (introduction_of [2] 1 (sample_args 6))"
  have "sample_json_dec dec_intro ?t = Ok (introduction_of [2] 1 (sample_args 6))"
    using parses_intro[of _ "[]"] by (simp add: sample_json_dec_def)
  then have h: "handle_handshake (sample_env 0) ?t (sample_start 5 [1]) =
      (Ok (), (sample_start 5 [1])\<lparr>channel_state := Open (ConduitID 3)\<rparr>)"
    using sample_channel
    by (subst handle_handshake_Opening[of _ "introduction_of [1] 1 (sample_args 5)"])
      (simp_all add: sample_start_def channel_of_def)
  have "move (sample_json_dec dec_intro) ?B ?A (?A\<lparr>portal := (sample_start 5 [1])\<lparr>channel_state := Open (ConduitID 3)\<rparr>,
      taking := (Ok () = Ok () \<and> running ((sample_start 5 [1])\<lparr>channel_state := Open (ConduitID 3)\<rparr>)),
      taken := taken ?A + 1\<rparr>)"
    by (rule move.receive[where E = "sample_env 0" and r = "Ok ()"])
      (use h in \<open>simp_all add: fresh_end_def sample_start_def handle_def uuid_new_def ids_left_def\<close>)
  then show "move (sample_json_dec dec_intro) ?B ?A sample_left"
    by (simp add: sample_left_def fresh_end_def sample_start_def running_def)
qed

theorem link_agreement_witness:
  "channel_state (portal sample_left) = Open (ConduitID 3) \<and>
   channel_state (portal (fresh_end (sample_start 6 [2]))) = Opening (introduction_of [2] 1 (sample_args 6))"
  using link_agreement[OF sample_intro_law sample_link_step] sample_channel
  by (simp add: sample_left_def fresh_end_def)

text \<open>
  C2: Two portals that both run this code never trip the guards against a misbehaving peer:
  in every reachable state of the pair, an end asks to stop only after a \<open>Close\<close> has
  reached it. So no content message arrives before the handshake, and no second handshake.
\<close>

theorem link_no_violation:
  assumes "json_law je jd" and "link_reach je jd i j L R"
  shows "(StopSelf \<in> set (outs (portal L)) \<longrightarrow> closed L) \<and> (StopSelf \<in> set (outs (portal R)) \<longrightarrow> closed R)"
  using link_inv[OF assms] by (auto simp: end_inv_def running_def)

theorem link_no_violation_witness:
  "\<not> closed sample_left \<and> StopSelf \<notin> set (outs (portal sample_left))"
  using link_no_violation[OF sample_intro_law sample_link_step] by (simp add: sample_left_def sample_start_def)

text \<open>
  C3: The path of a message, from a name to the actor. One side publishes an actor under a
  name; the other looks the name up and gets the actor's id on its reply port; a message
  transmitted to that id is handed to the published actor, with the very bytes that were
  sent. Each call's only output is the message shown.
\<close>

theorem named_delivery:
  assumes "working EL" and "working ER" and codec: "cpm_enc ER = cpm_enc EL" "cpm_dec ER = cpm_dec EL"
    and L: "channel_state L = Open c" and R: "channel_state R = Open c"
    and inv: "portal_inv R" "uuid_new ER R" and p: "port_open EL p" and i: "next_request_id L \<noteq> - 1"
  shows "\<exists>R1 L1 R2 L2 L3 R3 b1 b2 b3 rid rm'.
    handle ER (PublishNamedActor name a rm None) R = (Ok (), R1) \<and>
    handle EL (QueryNamedRemoteActor name p) L = (Ok (), L1) \<and> outs L1 = outs L @ [SinkSend (CmContent b1)] \<and>
    handle ER (Content b1) R1 = (Ok (), R2) \<and> outs R2 = outs R1 @ [SinkSend (CmContent b2)] \<and>
    handle EL (Content b2) L1 = (Ok (), L2) \<and> outs L2 = outs L1 @ [Reply p (RQuery (ROk rid))] \<and>
    handle EL (TransmitMessage rid data) L2 = (Ok (), L3) \<and> outs L3 = outs L2 @ [SinkSend (CmContent b3)] \<and>
    handle ER (Content b3) R2 = (run_rm ER rm' a data, R3) \<and> outs R3 = outs R2 @ [Rematerialize rm' a data]"
proof -
  obtain r R1 where pub: "handle ER (PublishNamedActor name a rm None) R = (r, R1)" by fastforce
  from publish_named_effect[OF inv pub] obtain k rm' where r: "r = Ok ()"
    and R1: "channel_state R1 = Open c" "hm_get (named_actors R1) name = Some k"
      "hm_get (published_actors R1) k = Some (a, rm')" using R by auto
  let ?i = "next_request_id L" and ?rid = "remote_id_of c R1 k"
  let ?b1 = "encoded EL (RequestActorByName ?i name)" and ?b2 = "encoded EL (answer_of c R1 k ?i)"
  let ?b3 = "encoded EL (SendMessage ?rid data)"
  have enc: "encoded ER m = encoded EL m" for m using codec by (simp add: encoded_def)
  define L1 where "L1 = L\<lparr>next_request_id := ?i + 1, open_requests := hm_insert ?i p (open_requests L),
    outs := outs L @ [SinkSend (CmContent ?b1)]\<rparr>"
  have q: "handle EL (QueryNamedRemoteActor name p) L = (Ok (), L1)"
    using query_effect[OF assms(1) L i] by (simp add: L1_def)
  define R2 where "R2 = R1\<lparr>outs := outs R1 @ [SinkSend (CmContent ?b2)]\<rparr>"
  have a1: "handle ER (Content ?b1) R1 = (Ok (), R2)"
    using handle_content_working[OF assms(2) R1(1)] request_named[OF assms(2) R1(2)]
    by (simp add: enc R2_def)
  define L2 where "L2 = L1\<lparr>open_requests := hm_remove ?i (open_requests L1),
    outs := outs L1 @ [Reply p (RQuery (ROk ?rid))]\<rparr>"
  have a2: "handle EL (Content ?b2) L1 = (Ok (), L2)"
    using handle_content_working[OF assms(1), of L1 c] response_effect[of L1 ?i p EL c ?rid] p L
    by (simp add: L1_def L2_def answer_of_def hm_get_insert)
  define L3 where "L3 = L2\<lparr>outs := outs L2 @ [SinkSend (CmContent ?b3)]\<rparr>"
  have a3: "handle EL (TransmitMessage ?rid data) L2 = (Ok (), L3)"
    using transmit_effect[OF assms(1), of L2 c] L by (simp add: L1_def L2_def L3_def)
  define R3 where "R3 = R2\<lparr>outs := outs R2 @ [Rematerialize rm' a data]\<rparr>"
  have a4: "handle ER (Content ?b3) R2 = (run_rm ER rm' a data, R3)"
    using handle_content_working[OF assms(2), of R2 c] send_message_effect[of R2 ?rid a rm' ER c data] R1
    by (simp add: enc R2_def R3_def remote_id_of_def)
  show ?thesis
    by (intro exI conjI) (rule pub[unfolded r] q a1 a2 a3 a4 | simp add: L1_def R2_def L2_def L3_def R3_def)+
qed

theorem named_delivery_witness:
  "\<exists>R1 L1 R2 L2 L3 R3 b1 b2 b3 rid rm'.
    handle (sample_env 9) (PublishNamedActor (str_lit ''echo'') 7 (0::nat) None) (sample_open 6) = (Ok (), R1) \<and>
    handle (sample_env 8) (QueryNamedRemoteActor (str_lit ''echo'') 2) (sample_open 5) = (Ok (), L1) \<and>
      outs L1 = outs (sample_open 5) @ [SinkSend (CmContent b1)] \<and>
    handle (sample_env 9) (Content b1) R1 = (Ok (), R2) \<and> outs R2 = outs R1 @ [SinkSend (CmContent b2)] \<and>
    handle (sample_env 8) (Content b2) L1 = (Ok (), L2) \<and> outs L2 = outs L1 @ [Reply 2 (RQuery (ROk rid))] \<and>
    handle (sample_env 8) (TransmitMessage rid [1, 2]) L2 = (Ok (), L3) \<and> outs L3 = outs L2 @ [SinkSend (CmContent b3)] \<and>
    handle (sample_env 9) (Content b3) R2 = (run_rm (sample_env 9) rm' 7 [1, 2], R3) \<and>
      outs R3 = outs R2 @ [Rematerialize rm' 7 [1, 2]]"
  by (rule named_delivery[OF sample_working sample_working _ _ _ _ sample_open_inv sample_uuid_new, where c = "ConduitID 3"])
    (simp_all add: sample_open_def sample_start_def)

section \<open>References through a portal\<close>

text \<open>A node whose portal is open, with two UUIDs to come.\<close>

definition sample_node :: "128 word \<Rightarrow> (nat, nat) node" where
  "sample_node l = \<lparr>portal_of = sample_open l, uuids = [21, 22], taking_messages = True, mailbox = [],
     next_actor = 100, next_port = 200, proxies = [], rpc_actors = [], kill_timers = [], forwards = []\<rparr>"

lemma sample_node_inv: "node_inv (sample_node l)"
  using sample_open_inv[of l]
  by (auto simp: node_inv_def sample_node_def sample_open_def sample_start_def)

lemma sample_node_ask:
  "ask_publish_actor (sample_env 0) a rm (sample_node l) =
     (Ok \<lparr>connection_key = ConduitID 3, side = LocalPortalId l, opaque_id = OpaqueActorId 21\<rparr>,
      (sample_node l)\<lparr>portal_of := (sample_open l)\<lparr>published_actors := [(OpaqueActorId 21, a, rm)],
          outs := outs (sample_open l) @ [SpawnExitWatch a, Reply 200 (RPublished
            \<lparr>connection_key = ConduitID 3, side = LocalPortalId l, opaque_id = OpaqueActorId 21\<rparr>)]\<rparr>,
        next_port := 201, uuids := [22]\<rparr>)"
  by (simp add: ask_publish_actor_def sample_node_def sample_open_def sample_start_def handle_def
      handle_publish_actor_def publish_actor_def find_published_def hm_insert_def seq_def
      reply_send_def emit_def remote_id_of_def sample_args_def Let_def)

text \<open>
  C4: An actor reference survives the trip. When an \<open>ActorRef\<close> is immaterialized on one
  node and the bytes are rematerialized on another, the second node gets a new proxy actor;
  its target is an id under which the first node's portal delivers to the very actor
  that was sent, whatever the message; and every message the proxy receives asks its
  portal to send to that id.
\<close>

theorem actor_ref_delivery:
  assumes "bincode_law enc dec" and s: "node_inv s" and t: "node_inv t"
    and imm: "immaterialize_actor_ref E enc receiver a s = (Ok bs, s')"
  shows "\<exists>proxy rid t' c rm. rematerialize_actor_ref dec bs t = (Ok proxy, t') \<and>
    proxy = next_actor t \<and> (proxy, rid) \<in> set (proxies t') \<and>
    RegisterProxyForRemoteActor rid proxy \<in> set (mailbox t') \<and>
    channel_state (portal_of s') = Open c \<and>
    (\<forall>E' data. handle_cross_message E' c (SendMessage rid data) (portal_of s') =
      (run_rm E' rm a data, (portal_of s')\<lparr>outs := outs (portal_of s') @ [Rematerialize rm a data]\<rparr>)) \<and>
    (\<forall>mk_f ms. proxy_loop rid mk_f ms = map (\<lambda>m. ImmaterializeMessage rid (mk_f m)) ms)"
proof -
  obtain rid where ask: "ask_publish_actor E a receiver s = (Ok rid, s')"
    and bs: "simple_immaterialize enc rid = Ok bs"
    using imm by (auto simp: immaterialize_actor_ref_def seq_eq_Ok)
  from ask_publish_run(3)[OF s ask refl] obtain c k rm where c: "channel_state (portal_of s') = Open c"
    and k: "(k, a, rm) \<in> set (published_actors (portal_of s'))" and rid: "rid = remote_id_of c (portal_of s') k"
    by blast
  have "portal_inv (portal_of s')" using ask_publish_run(1)[OF s ask] by (simp add: node_inv_def)
  from published_get[OF this, of k "(a, rm)"] k
  have "hm_get (published_actors (portal_of s')) (opaque_id rid) = Some (a, rm)"
    by (simp add: rid remote_id_of_def)
  note send = send_message_effect[OF this]
  have "simple_rematerialize dec bs = Ok rid" by (rule simple_roundtrip[OF assms(1) bs])
  then have "rematerialize_actor_ref dec bs t = instantiate_proxy rid t"
    by (simp add: rematerialize_actor_ref_def)
  then show ?thesis
    using instantiate_proxy_run[OF t] c send 
    by (intro exI conjI) (auto simp: proxy_loop_eq)
qed

theorem actor_ref_delivery_witness:
  "\<exists>bs s' proxy rid t' c rm.
    immaterialize_actor_ref (sample_env 0) (sample_enc enc_rid) 0 7 (sample_node 5) = (Ok bs, s') \<and>
    rematerialize_actor_ref (sample_dec dec_rid) bs (sample_node 6) = (Ok proxy, t') \<and>
    proxy = next_actor (sample_node 6) \<and> (proxy, rid) \<in> set (proxies t') \<and>
    RegisterProxyForRemoteActor rid proxy \<in> set (mailbox t') \<and>
    channel_state (portal_of s') = Open c \<and>
    (\<forall>E' data. handle_cross_message E' c (SendMessage rid data) (portal_of s') =
      (run_rm E' rm 7 data, (portal_of s')\<lparr>outs := outs (portal_of s') @ [Rematerialize rm 7 data]\<rparr>)) \<and>
    (\<forall>mk_f ms. proxy_loop rid mk_f ms = map (\<lambda>m. ImmaterializeMessage rid (mk_f m)) ms)"
proof -
  obtain bs s' where run: "immaterialize_actor_ref (sample_env 0) (sample_enc enc_rid) 0 7 (sample_node 5) = (Ok bs, s')"
    by (simp add: immaterialize_actor_ref_def seq_def sample_node_ask simple_immaterialize_def sample_enc_def)
  from actor_ref_delivery[OF sample_rid_law sample_node_inv sample_node_inv run, of 6] run
  show ?thesis by blast
qed

text \<open>
  C8: A reply port survives the trip. The port rebuilt on the receiving node forwards to a
  proxy whose target is the published id of an \<open>RpcProxyActor\<close> on the sending node that
  holds the port that was sent. It carries the sender's timeout (the configured one if the
  port had none), and after that time the \<open>RpcProxyActor\<close> is killed.
\<close>

theorem reply_port_delivery:
  assumes "wf_platform P" and "bincode_law enc dec" and "node_inv s" and "node_inv t"
    and "immaterialize_replychannel E enc dflt receiver v s = (Ok bs, s')" and "fits P bs"
  shows "wp (rematerialize_replychannel dec bs) (\<lambda>w t'. rel_reply_port dflt s' t' v w) t"
  by (rule transmat.delivers[OF transmat_replychannel[OF assms(1,2)] assms(3) TrueI assms(5,6,4)])

definition sample_rid :: remote_actor_id where
  "sample_rid = \<lparr>connection_key = ConduitID 3, side = LocalPortalId 5, opaque_id = OpaqueActorId 21\<rparr>"

lemma sample_replychannel:
  "\<exists>s'. immaterialize_replychannel (sample_env 0) (sample_enc enc_proxied) 3 0
      \<lparr>rp_port = 40, rp_timeout = None\<rparr> (sample_node 5) =
    (Ok (enc_proxied \<lparr>timeout_ms = Some 3, remote_actor_id = sample_rid\<rparr>), s')"
  by (simp add: immaterialize_replychannel_def spawn_rpc_proxy_def kill_after_def seq_def Let_def
      ask_publish_actor_def sample_node_def sample_open_def sample_start_def handle_def
      handle_publish_actor_def publish_actor_def find_published_def hm_insert_def
      reply_send_def emit_def remote_id_of_def sample_args_def simple_immaterialize_def sample_enc_def
      sample_rid_def)

theorem reply_port_delivery_witness:
  "\<exists>s'. wp (rematerialize_replychannel (sample_dec dec_proxied)
      (enc_proxied \<lparr>timeout_ms = Some 3, remote_actor_id = sample_rid\<rparr>))
    (\<lambda>w t'. rel_reply_port 3 s' t' \<lparr>rp_port = 40, rp_timeout = None\<rparr> w) (sample_node 6)"
proof -
  obtain s' where run: "immaterialize_replychannel (sample_env 0) (sample_enc enc_proxied) 3 0
      \<lparr>rp_port = 40, rp_timeout = None\<rparr> (sample_node 5) =
    (Ok (enc_proxied \<lparr>timeout_ms = Some 3, remote_actor_id = sample_rid\<rparr>), s')"
    using sample_replychannel by blast
  have "fits host64 (enc_proxied \<lparr>timeout_ms = Some 3, remote_actor_id = sample_rid\<rparr>)"
    by (simp add: enc_proxied_def fits_host64)
  from reply_port_delivery[OF wf_host64 sample_proxied_law sample_node_inv sample_node_inv run this]
  show ?thesis by blast
qed

text \<open>
  A reply port is answered at most once. Whatever is sent to the \<open>RpcProxyActor\<close>
  afterwards, only the first message's data reaches the port, and every message makes the
  actor stop.
\<close>

theorem rpc_proxy_once:
  "let (st1, os1) = rpc_proxy_handle open1 linked1 d1 (rpc_proxy_pre_start p);
       (st2, os2) = rpc_proxy_handle open2 linked2 d2 st1
   in (\<forall>q d. PortSend q d \<in> set os1 \<longleftrightarrow> open1 p \<and> q = p \<and> d = d1) \<and>
      (\<forall>q d. PortSend q d \<notin> set os2) \<and> last os1 = RpcStop \<and> last os2 = RpcStop \<and>
      (Unlink \<in> set os1 \<longleftrightarrow> linked1)"
  by (auto simp: rpc_proxy_handle_def rpc_proxy_pre_start_def)

section \<open>One portal\<close>

text \<open>
  C5: Isolation. In every reachable state of a portal, each message it ever handed on went
  to an actor published on this portal, through the rematerializer stored with it: a peer
  reaches nothing that was not published here.
\<close>

theorem portal_isolation:
  assumes "portal_reach st alive" and "Rematerialize rm a data \<in> set (outs st)"
  shows "\<exists>k. hm_get (published_actors st) k = Some (a, rm)"
proof -
  have inv: "portal_inv st" by (rule portal_reach_inv[OF assms(1)])
  then obtain k where "(k, a, rm) \<in> set (published_actors st)"
    using assms(2) by (force simp: portal_inv_def inv_capability_def)
  then show ?thesis using published_get[OF inv] by blast
qed

text \<open>A reachable portal with an actor published, and a message delivered to it.\<close>

definition sample_published :: "(nat, nat) portal_state" where
  "sample_published = (sample_start 5 [1])\<lparr>published_actors := [(OpaqueActorId 21, 7, 0)],
     outs := outs (sample_start 5 [1]) @ [SpawnExitWatch 7]\<rparr>"

lemma sample_published_reach: "portal_reach sample_published True"
proof -
  have "handle (sample_env 21) (PublishActor 7 0 None) (sample_start 5 [1]) = (Ok (), sample_published)"
    by (simp add: handle_def handle_publish_actor_def publish_actor_def find_published_def hm_insert_def
        sample_published_def sample_start_def seq_def Let_def)
  from portal_reach.step[OF sample_start_reach _ _ this]
  show ?thesis by (simp add: uuid_new_def ids_left_def sample_env_def sample_start_def sample_published_def running_def)
qed

definition sample_published_open :: "(nat, nat) portal_state" where
  "sample_published_open = sample_published\<lparr>channel_state := Open (ConduitID 3)\<rparr>"

lemma sample_published_open_reach: "portal_reach sample_published_open True"
proof -
  let ?t = "enc_intro (introduction_of [2] 1 (sample_args 6))"
  have "sample_json_dec dec_intro ?t = Ok (introduction_of [2] 1 (sample_args 6))"
    using parses_intro[of _ "[]"] by (simp add: sample_json_dec_def)
  then have "handle (sample_env 22) (Handshake ?t) sample_published = (Ok (), sample_published_open)"
    using sample_channel unfolding handle_def portal_message.case
    by (subst handle_handshake_Opening[of _ "introduction_of [1] 1 (sample_args 5)"])
      (simp_all add: sample_published_def sample_start_def channel_of_def sample_published_open_def)
  from portal_reach.step[OF sample_published_reach _ _ this]
  show ?thesis
    by (simp add: uuid_new_def ids_left_def sample_env_def sample_start_def sample_published_def
        sample_published_open_def running_def)
qed

definition sample_delivered :: "(nat, nat) portal_state" where
  "sample_delivered = sample_published_open\<lparr>outs := outs sample_published_open @ [Rematerialize 0 7 [1, 2]]\<rparr>"

lemma sample_delivered_reach: "portal_reach sample_delivered True"
proof -
  have c: "channel_state sample_published_open = Open (ConduitID 3)"
    by (simp add: sample_published_open_def)
  have k: "hm_get (published_actors sample_published_open) (opaque_id sample_rid) = Some (7, 0)"
    by (simp add: sample_published_open_def sample_published_def sample_rid_def hm_get_def)
  have "handle (sample_env 22) (Content (encoded (sample_env 22 :: nat env) (SendMessage sample_rid [1, 2]))) sample_published_open =
      handle_cross_message (sample_env 22) (ConduitID 3) (SendMessage sample_rid [1, 2]) sample_published_open"
    by (rule handle_content_working[OF sample_working c])
  also have "\<dots> = (Ok (), sample_delivered)"
    unfolding send_message_effect[OF k] by (simp add: sample_delivered_def)
  finally have "handle (sample_env 22) (Content (encoded (sample_env 22 :: nat env) (SendMessage sample_rid [1, 2]))) sample_published_open =
      (Ok (), sample_delivered)" .
  from portal_reach.step[OF sample_published_open_reach _ _ this]
  show ?thesis
    by (simp add: uuid_new_def ids_left_def sample_env_def sample_start_def sample_published_def
        sample_published_open_def sample_delivered_def running_def)
qed

theorem portal_isolation_witness:
  "\<exists>k. hm_get (published_actors sample_delivered) k = Some (7, 0)"
  by (rule portal_isolation[OF sample_delivered_reach, where data = "[1, 2]"]) (simp add: sample_delivered_def)

text \<open>
  What a portal sends. In every reachable state it has sent exactly one handshake, as
  its first message, and then content messages only, none before it was open; it never
  sends a close.
\<close>

theorem portal_wire:
  assumes "portal_reach st alive"
  shows "\<exists>text datas. sent (outs st) = CmHandshake text # map CmContent datas \<and>
    (is_open (channel_state st) \<or> datas = [])"
  by (rule sent_shape[OF assms])

theorem portal_wire_witness:
  "\<exists>text datas. sent (outs sample_delivered) = CmHandshake text # map CmContent datas \<and>
    (is_open (channel_state sample_delivered) \<or> datas = [])"
  by (rule portal_wire[OF sample_delivered_reach])

text \<open>
  C7: The tables of a portal agree. In every reachable state, a name stands for a published
  actor, no actor is published twice, no request is open under an id that has not been
  given out, the exits watched are those of the published actors, and a portal that still
  waits for its handshake has no proxies and no open requests, and an open one no one
  waiting.
\<close>

theorem portal_tables:
  assumes "portal_reach st alive"
  shows "(\<forall>name k. hm_get (named_actors st) name = Some k \<longrightarrow> (\<exists>v. hm_get (published_actors st) k = Some v)) \<and>
    (\<forall>k k' a rm rm'. hm_get (published_actors st) k = Some (a, rm) \<longrightarrow>
       hm_get (published_actors st) k' = Some (a, rm') \<longrightarrow> k = k' \<and> rm = rm') \<and>
    (\<forall>i p. hm_get (open_requests st) i = Some p \<longrightarrow> i < next_request_id st) \<and>
    watched (outs st) = map (fst \<circ> snd) (published_actors st) \<and>
    (if is_open (channel_state st) then waiting_for_handshake st = []
     else proxies_for_remote_actors st = [] \<and> open_requests st = [])"
proof -
  have inv: "portal_inv st" by (rule portal_reach_inv[OF assms])
  note parts = inv[unfolded portal_inv_def]
  have "\<exists>v. hm_get (published_actors st) k = Some v" if "hm_get (named_actors st) name = Some k" for name k
  proof -
    have "k \<in> fst ` set (published_actors st)"
      using parts hm_get_Some_in[OF that] by (force simp: inv_named_def)
    then show ?thesis using published_get[OF inv] by fastforce
  qed
  moreover have "k = k' \<and> rm = rm'" if "hm_get (published_actors st) k = Some (a, rm)"
    "hm_get (published_actors st) k' = Some (a, rm')" for k k' a rm rm'
  proof -
    have "inj_on (fst \<circ> snd) (set (published_actors st))"
      using parts by (simp add: inv_maps_def distinct_map)
    from inj_onD[OF this _ hm_get_Some_in[OF that(1)] hm_get_Some_in[OF that(2)]]
    show ?thesis by simp
  qed
  moreover have "i < next_request_id st" if "hm_get (open_requests st) i = Some p" for i p
    using parts hm_get_Some_in[OF that] by (auto simp: inv_requests_def)
  ultimately show ?thesis using parts by (simp add: inv_watch_def inv_phase_def)
qed

theorem portal_tables_witness:
  "watched (outs sample_delivered) = [7] \<and> waiting_for_handshake sample_delivered = []"
  using portal_tables[OF sample_delivered_reach]
  by (simp add: sample_delivered_def sample_published_open_def sample_published_def sample_start_def)

text \<open>
  A call only adds. Whatever message a live, reachable portal handles, the id of an
  open channel stays what it is, no published actor is withdrawn or changed, what was sent
  and answered before stays at the front of what is, and request ids do not go back.
\<close>

theorem portal_monotone:
  assumes "portal_reach st True" and "uuid_new E st" and "ids_left E st" and "handle E m st = (r, st')"
  shows "args st' = args st \<and> prefix (outs st) (outs st') \<and>
    (\<forall>c. channel_state st = Open c \<longrightarrow> channel_state st' = Open c) \<and>
    (\<forall>k v. hm_get (published_actors st) k = Some v \<longrightarrow> hm_get (published_actors st') k = Some v) \<and>
    next_request_id st \<le> next_request_id st'"
proof -
  have inv: "portal_inv st" by (rule portal_reach_inv[OF assms(1)])
  note run = handle_run[OF assms(4) inv assms(2,3)]
  have "hm_get (published_actors st') k = Some v" if "hm_get (published_actors st) k = Some v" for k v
    using that run published_get[OF inv] published_get[OF run(1)] by (auto simp: portal_le_def)
  then show ?thesis using run(2) by (simp add: portal_le_def)
qed

theorem portal_monotone_witness:
  "\<exists>r st'. handle (sample_env 30) Close sample_delivered = (r, st') \<and>
     channel_state st' = Open (ConduitID 3) \<and> hm_get (published_actors st') (OpaqueActorId 21) = Some (7, 0)"
proof -
  have u: "uuid_new (sample_env 30) sample_delivered" "ids_left (sample_env 30) sample_delivered"
    by (simp_all add: uuid_new_def ids_left_def sample_delivered_def sample_published_open_def
        sample_published_def sample_start_def)
  obtain r st' where run: "handle (sample_env 30) Close sample_delivered = (r, st')" by fastforce
  have "channel_state sample_delivered = Open (ConduitID 3)"
    "hm_get (published_actors sample_delivered) (OpaqueActorId 21) = Some (7, 0)"
    by (simp_all add: sample_delivered_def sample_published_open_def sample_published_def hm_get_def)
  with portal_monotone[OF sample_delivered_reach u run] run show ?thesis by blast
qed

text \<open>
  The guards against a misbehaving peer. A content message before the handshake and a
  handshake after it are not looked at: the portal asks to stop, and nothing else changes.
\<close>

theorem phase_guards:
  "handle E (Content data) (st\<lparr>channel_state := Opening i\<rparr>) =
     (Ok (), st\<lparr>channel_state := Opening i, outs := outs st @ [StopSelf]\<rparr>) \<and>
   handle E (Handshake text) (st\<lparr>channel_state := Open c\<rparr>) =
     (Ok (), st\<lparr>channel_state := Open c, outs := outs st @ [StopSelf]\<rparr>)"
  by (simp add: handle_def handle_content_def handle_handshake_def emit_def)

text \<open>Several messages, one after the other, up to the first error.\<close>

fun handle_all :: "'rm env \<Rightarrow> ('rm, 'f) portal_message list \<Rightarrow> ('rm, 'f, unit) portal_eff" where
  "handle_all E [] = ret ()"
| "handle_all E (m # ms) = seq (handle E m) (\<lambda>_. handle_all E ms)"

lemma handle_all_wait:
  "channel_state st = Opening i \<Longrightarrow> handle_all E (map WaitForHandshake ps @ ms) st =
     handle_all E ms (st\<lparr>waiting_for_handshake := waiting_for_handshake st @ ps\<rparr>)"
proof (induction ps arbitrary: st)
  case Nil
  have "st = st\<lparr>waiting_for_handshake := waiting_for_handshake st @ []\<rparr>" by simp
  then show ?case by simp
qed (simp add: handle_def handle_wait_for_handshake_def seq_def)

text \<open>
  Waiting for the handshake. All who asked to wait before the handshake are answered by
  it, each once, in the order they asked, those whose ports have closed aside; then no one
  waits, and the channel's id is the exclusive or of the two contributions.
\<close>

theorem waiters_answered:
  assumes "channel_state st = Opening i" and "waiting_for_handshake st = []" and "json_dec E text = Ok j"
  shows "handle_all E (map WaitForHandshake ps @ [Handshake text]) st =
    (Ok (), st\<lparr>channel_state := Open (channel_of i j),
       outs := outs st @ map (\<lambda>p. Reply p RUnit) (filter (port_open E) ps)\<rparr>)"
proof -
  let ?st = "st\<lparr>waiting_for_handshake := ps\<rparr>"
  have "handle E (Handshake text) ?st = (Ok (), ?st\<lparr>channel_state := Open (channel_of i j),
      waiting_for_handshake := [], outs := outs st @ map (\<lambda>p. Reply p RUnit) (filter (port_open E) ps)\<rparr>)"
    using assms handle_handshake_Opening[of ?st i E "text" j] by (simp add: handle_def channel_of_def)
  then show ?thesis
    using assms handle_all_wait[OF assms(1), of E ps "[Handshake text]"] by (simp add: seq_def)
qed

theorem waiters_answered_witness:
  "outs (snd (handle_all (sample_env 0) (map WaitForHandshake [4, 9] @
      [Handshake (enc_intro (introduction_of [2] 1 (sample_args 6)))]) (sample_start 5 [1]))) =
   outs (sample_start 5 [1]) @ [Reply 4 RUnit, Reply 9 RUnit]"
proof -
  have "json_dec (sample_env 0) (enc_intro (introduction_of [2] 1 (sample_args 6))) =
      Ok (introduction_of [2] 1 (sample_args 6))"
    using parses_intro[of _ "[]"] by (simp add: sample_json_dec_def)
  from waiters_answered[OF _ _ this, of "sample_start 5 [1]" "introduction_of [1] 1 (sample_args 5)" "[4, 9]"]
  show ?thesis by (simp add: sample_start_def)
qed

section \<open>Requests\<close>

text \<open>
  A question by name gets its own id and its own answer. In a live, reachable, open
  portal the id used is not that of any open request; the port is stored under it and the
  other requests are untouched. The response with that id goes to that port and closes the
  request, so a second response with the same id does nothing.
\<close>

theorem request_response:
  assumes reach: "portal_reach st True" and c: "channel_state st = Open c"
    and E: "working E" and i: "next_request_id st \<noteq> - 1" and p: "port_open E p"
  shows "hm_get (open_requests st) (next_request_id st) = None \<and>
    (\<exists>st1 st2. handle E (QueryNamedRemoteActor name p) st = (Ok (), st1) \<and>
      outs st1 = outs st @ [SinkSend (CmContent (encoded E (RequestActorByName (next_request_id st) name)))] \<and>
      (\<forall>k. k \<noteq> next_request_id st \<longrightarrow> hm_get (open_requests st1) k = hm_get (open_requests st) k) \<and>
      handle E (Content (encoded E (ResponseActorByName (next_request_id st) (ROk rid)))) st1 = (Ok (), st2) \<and>
      outs st2 = outs st1 @ [Reply p (RQuery (ROk rid))] \<and>
      handle E (Content (encoded E (ResponseActorByName (next_request_id st) resp))) st2 = (Ok (), st2))"
proof -
  let ?i = "next_request_id st"
  have "inv_requests st" using portal_reach_inv[OF reach] by (simp add: portal_inv_def)
  then have "?i \<notin> fst ` set (open_requests st)" by (force simp: inv_requests_def)
  then have none: "hm_get (open_requests st) ?i = None" by (simp add: hm_get_None_iff)
  obtain st1 where st1: "handle E (QueryNamedRemoteActor name p) st = (Ok (), st1)"
    "st1 = st\<lparr>next_request_id := ?i + 1, open_requests := hm_insert ?i p (open_requests st),
       outs := outs st @ [SinkSend (CmContent (encoded E (RequestActorByName ?i name)))]\<rparr>"
    using query_effect[OF E c i] by blast
  define st2 where "st2 = st1\<lparr>open_requests := hm_remove ?i (open_requests st1),
    outs := outs st1 @ [Reply p (RQuery (ROk rid))]\<rparr>"
  have c1: "channel_state st1 = Open c" "channel_state st2 = Open c" using c by (simp_all add: st1 st2_def)
  have r1: "handle E (Content (encoded E (ResponseActorByName ?i (ROk rid)))) st1 = (Ok (), st2)"
    using response_effect[of st1 ?i p E c rid] p handle_content_working[OF E c1(1)]
    by (simp add: st1 st2_def hm_get_insert)
  have r2: "handle E (Content (encoded E (ResponseActorByName ?i resp))) st2 = (Ok (), st2)"
    using response_unknown[of st2 ?i E c resp] handle_content_working[OF E c1(2)]
    by (simp add: st2_def hm_get_remove)
  show ?thesis
    using none st1(1) r1 r2 by (intro conjI exI) (auto simp: st1(2) st2_def hm_get_insert)
qed

theorem request_response_witness:
  "hm_get (open_requests sample_delivered) (next_request_id sample_delivered) = None"
  using request_response[OF sample_delivered_reach _ sample_working, of "ConduitID 3" 2]
  by (simp add: sample_delivered_def sample_published_open_def sample_published_def sample_start_def)

text \<open>
  A late answer ends the portal. When the response to a request arrives after the asker
  has given up (its port is closed), handling it fails, and with it the portal: the
  portal's own handshake arm ignores a closed port, this one does not.
\<close>

theorem late_response_ends_portal:
  assumes "portal_reach st True" and "working E" and "channel_state st = Open c" and "uuid_new E st" and "ids_left E st"
    and "hm_get (open_requests st) i = Some p" and "\<not> port_open E p"
  shows "\<exists>st'. handle E (Content (encoded E (ResponseActorByName i resp))) st = (Err ChannelClosed, st') \<and>
    portal_reach st' False"
proof -
  have h: "handle E (Content (encoded E (ResponseActorByName i resp))) st =
      (Err ChannelClosed, st\<lparr>open_requests := hm_remove i (open_requests st)\<rparr>)"
    using assms handle_content_working[OF assms(2,3)]
    by (simp add: handle_cross_message_def handle_response_def reply_send_def)
  from portal_reach.step[OF assms(1,4,5) h] h show ?thesis by auto
qed

definition deaf_env :: "128 word \<Rightarrow> nat env" where
  "deaf_env u = (sample_env u)\<lparr>port_open := (\<lambda>_. False)\<rparr>"

lemma deaf_working: "working (deaf_env u)"
  using sample_working[of u] by (simp add: deaf_env_def working_def)

definition sample_asked :: "(nat, nat) portal_state" where
  "sample_asked = sample_delivered\<lparr>next_request_id := 2, open_requests := [(1, 2)],
     outs := outs sample_delivered @
       [SinkSend (CmContent (encoded (sample_env 30 :: nat env) (RequestActorByName 1 (str_lit ''x''))))]\<rparr>"

lemma sample_delivered_sel [simp]:
  "channel_state sample_delivered = Open (ConduitID 3)"
  "published_actors sample_delivered = [(OpaqueActorId 21, 7, 0)]"
  "next_request_id sample_delivered = 1" "open_requests sample_delivered = []"
  "proxies_for_remote_actors sample_delivered = []" "named_actors sample_delivered = []"
  "StopSelf \<notin> set (outs sample_delivered)"
  by (simp_all add: sample_delivered_def sample_published_open_def sample_published_def sample_start_def)

lemma sample_asked_sel [simp]:
  "channel_state sample_asked = Open (ConduitID 3)"
  "published_actors sample_asked = [(OpaqueActorId 21, 7, 0)]"
  "next_request_id sample_asked = 2" "open_requests sample_asked = [(1, 2)]"
  by (simp_all add: sample_asked_def)

lemma sample_asked_reach: "portal_reach sample_asked True"
proof -
  have "handle (sample_env 30) (QueryNamedRemoteActor (str_lit ''x'') 2) sample_delivered = (Ok (), sample_asked)"
    using query_effect[OF sample_working[of 30], of sample_delivered "ConduitID 3" "str_lit ''x''" 2]
    by (simp add: sample_asked_def hm_insert_def)
  from portal_reach.step[OF sample_delivered_reach _ _ this] show ?thesis
    by (simp add: uuid_new_def ids_left_def running_def sample_asked_def)
qed

theorem late_response_ends_portal_witness:
  "\<exists>st'. handle (deaf_env 31) (Content (encoded (deaf_env 31) (ResponseActorByName 1 (RErr ActorNotFound)))) sample_asked =
      (Err ChannelClosed, st') \<and> portal_reach st' False"
  by (rule late_response_ends_portal[OF sample_asked_reach deaf_working, where c = "ConduitID 3" and p = 2])
    (simp_all add: deaf_env_def uuid_new_def ids_left_def hm_get_def)

section \<open>Exits\<close>

text \<open>
  C9: An exit is passed on. When a published actor of an open portal exits, the portal
  sends its id; the peer that gets this message stops the proxy it has for that id and
  forgets it, so that the message has no effect a second time.
\<close>

theorem exit_stops_proxy:
  assumes "working E" and "working F" and codec: "cpm_enc F = cpm_enc E"
    and A: "portal_inv A" "channel_state A = Open c" and B: "channel_state B = Open c"
    and k: "hm_get (published_actors A) k = Some (a, rm)"
    and proxy: "hm_get (proxies_for_remote_actors B) (remote_id_of c A k) = Some p"
  shows "\<exists>A1 B1 b. handle E (LocalActorExited a) A = (Ok (), A1) \<and> outs A1 = outs A @ [SinkSend (CmContent b)] \<and>
    handle F (Content b) B = (Ok (), B1) \<and> outs B1 = outs B @ [StopActor p] \<and>
    hm_get (proxies_for_remote_actors B1) (remote_id_of c A k) = None \<and>
    handle F (Content b) B1 = (Ok (), B1)"
proof -
  let ?rid = "remote_id_of c A k" and ?b = "encoded F (ActorExited (remote_id_of c A k))"
  have enc: "encoded E m = encoded F m" for m using codec by (simp add: encoded_def)
  have "(k, a, rm) \<in> set (published_actors A)" using hm_get_Some_in[OF k] .
  from exited_effect[OF assms(1) A(2,1) this]
  have 1: "handle E (LocalActorExited a) A = (Ok (), A\<lparr>outs := outs A @ [SinkSend (CmContent ?b)]\<rparr>)"
    by (simp add: enc)
  define B1 where "B1 = B\<lparr>proxies_for_remote_actors := hm_remove ?rid (proxies_for_remote_actors B),
    outs := outs B @ [StopActor p]\<rparr>"
  have 2: "handle F (Content ?b) B = (Ok (), B1)"
    using handle_content_working[OF assms(2) B] actor_exited_effect[OF proxy] by (simp add: B1_def)
  have "channel_state B1 = Open c" using B by (simp add: B1_def)
  from handle_content_working[OF assms(2) this]
  have 3: "handle F (Content ?b) B1 = (Ok (), B1)"
    by (simp add: handle_cross_message_def handle_actor_exited_def B1_def hm_get_remove)
  show ?thesis
    by (rule exI[of _ "A\<lparr>outs := outs A @ [SinkSend (CmContent ?b)]\<rparr>"], rule exI[of _ B1], rule exI[of _ ?b])
      (use 1 2 3 in \<open>simp add: B1_def hm_get_remove\<close>)
qed

theorem exit_stops_proxy_witness:
  "\<exists>A1 B1 b. handle (sample_env 0) (LocalActorExited 7) sample_delivered = (Ok (), A1) \<and>
    outs A1 = outs sample_delivered @ [SinkSend (CmContent b)] \<and>
    handle (sample_env 0) (Content b) ((sample_open 6)\<lparr>proxies_for_remote_actors := [(sample_rid, 50)]\<rparr>) = (Ok (), B1) \<and>
    outs B1 = outs (sample_open 6) @ [StopActor 50]"
proof -
  have rid: "remote_id_of (ConduitID 3) sample_delivered (OpaqueActorId 21) = sample_rid"
    by (simp add: remote_id_of_def sample_rid_def sample_delivered_def sample_published_open_def
        sample_published_def sample_start_def sample_args_def)
  have inv: "portal_inv sample_delivered" by (rule portal_reach_inv[OF sample_delivered_reach])
  have "hm_get (published_actors sample_delivered) (OpaqueActorId 21) = Some (7, 0)" by (simp add: hm_get_def)
  from exit_stops_proxy[OF sample_working sample_working _ inv _ _ this,
      of 0 0 "ConduitID 3" "(sample_open 6)\<lparr>proxies_for_remote_actors := [(sample_rid, 50)]\<rparr>" 50] rid
  show ?thesis by (fastforce simp: hm_get_def sample_open_def)
qed

text \<open>
  A second proxy hides the first. When a second proxy is registered for the same remote
  actor (it was referred to twice), the portal keeps only the second: the exit of the remote
  actor stops that one, and no exit message stops the first any more.
\<close>

theorem second_proxy_hides_first:
  fixes st :: "('rm, 'f) portal_state"
  assumes "working E" and "channel_state st = Open c"
  shows "\<exists>st1 st2. handle_all E [RegisterProxyForRemoteActor rid p1, RegisterProxyForRemoteActor rid p2] st = (Ok (), st1) \<and>
    handle E (Content (encoded E (ActorExited rid))) st1 = (Ok (), st2) \<and>
    outs st2 = outs st @ [StopActor p2] \<and>
    handle E (Content (encoded E (ActorExited rid))) st2 = (Ok (), st2)"
proof -
  define st1 :: "('rm, 'f) portal_state" where
    "st1 = st\<lparr>proxies_for_remote_actors := hm_insert rid p2 (hm_insert rid p1 (proxies_for_remote_actors st))\<rparr>"
  define st2 :: "('rm, 'f) portal_state" where
    "st2 = st1\<lparr>proxies_for_remote_actors := hm_remove rid (proxies_for_remote_actors st1), outs := outs st1 @ [StopActor p2]\<rparr>"
  have c: "channel_state st1 = Open c" "channel_state st2 = Open c" using assms by (simp_all add: st1_def st2_def)
  have 1: "handle_all E [RegisterProxyForRemoteActor rid p1, RegisterProxyForRemoteActor rid p2] st = (Ok (), st1)"
    using assms(2) by (simp add: register_effect[where c = c] seq_def st1_def)
  have "hm_get (proxies_for_remote_actors st1) rid = Some p2" by (simp add: st1_def hm_get_insert)
  from actor_exited_effect[OF this] handle_content_working[OF assms(1) c(1)]
  have 2: "handle E (Content (encoded E (ActorExited rid))) st1 = (Ok (), st2)" by (simp add: st2_def)
  have 3: "handle E (Content (encoded E (ActorExited rid))) st2 = (Ok (), st2)"
    using handle_content_working[OF assms(1) c(2)]
    by (simp add: handle_cross_message_def handle_actor_exited_def st2_def hm_get_remove)
  show ?thesis using 1 2 3 by (intro exI[of _ st1] exI[of _ st2]) (simp add: st1_def st2_def)
qed

theorem second_proxy_hides_first_witness:
  "\<exists>st1 st2. handle_all (sample_env 0) [RegisterProxyForRemoteActor sample_rid 50, RegisterProxyForRemoteActor sample_rid 51]
      (sample_open 6) = (Ok (), st1) \<and>
    handle (sample_env 0) (Content (encoded (sample_env 0 :: nat env) (ActorExited sample_rid))) st1 = (Ok (), st2) \<and>
    outs st2 = outs (sample_open 6) @ [StopActor 51] \<and>
    handle (sample_env 0) (Content (encoded (sample_env 0 :: nat env) (ActorExited sample_rid))) st2 = (Ok (), st2)"
  by (rule second_proxy_hides_first[OF sample_working, where c = "ConduitID 3"]) (simp add: sample_open_def)

text \<open>
  An exit before the handshake is lost. The notice is dropped without a trace, the actor
  stays published, and publishing it again starts no second watch: the peer is never told.
\<close>

theorem early_exit_lost:
  assumes "portal_inv st" and "channel_state st = Opening i" and "hm_get (published_actors st) k = Some (a, rm)"
  shows "handle E (LocalActorExited a) st = (Ok (), st) \<and> handle E (PublishActor a rm' None) st = (Ok (), st)"
proof
  show "handle E (LocalActorExited a) st = (Ok (), st)"
    using assms(2) by (simp add: handle_def handle_local_actor_exited_def)
  have "(k, a, rm) \<in> set (published_actors st)" using hm_get_Some_in[OF assms(3)] .
  from publish_actor_published[OF assms(1) this]
  show "handle E (PublishActor a rm' None) st = (Ok (), st)"
    by (simp add: handle_def handle_publish_actor_def seq_def)
qed

theorem early_exit_lost_witness:
  "handle (sample_env 0) (LocalActorExited 7) sample_published = (Ok (), sample_published) \<and>
   handle (sample_env 0) (PublishActor 7 1 None) sample_published = (Ok (), sample_published)"
  by (rule early_exit_lost[OF portal_reach_inv[OF sample_published_reach],
        where k = "OpaqueActorId 21" and rm = 0 and i = "introduction_of [1] 1 (sample_args 5)"])
    (simp_all add: sample_published_def sample_start_def hm_get_def)

text \<open>
  C40: A message for an actor that has exited ends the portal. The exit leaves the actor in
  the table of published actors, so a message the peer still sends to it is handed to its
  rematerializer; the error of sending to an actor that is gone is returned from the call,
  and the portal ends with it.
\<close>

theorem message_to_exited_ends_portal:
  assumes reach: "portal_reach st True" and E: "working E" and c: "channel_state st = Open c"
    and new: "uuid_new E st" "ids_left E st"
    and k: "hm_get (published_actors st) (opaque_id rid) = Some (a, rm)"
    and gone: "run_rm E rm a data = Err SendError"
  shows "\<exists>st1 st2. handle E (LocalActorExited a) st = (Ok (), st1) \<and>
    handle E (Content (encoded E (SendMessage rid data))) st1 = (Err SendError, st2) \<and>
    portal_reach st2 False"
proof -
  have inv: "portal_inv st" by (rule portal_reach_inv[OF reach])
  have mem: "(opaque_id rid, a, rm) \<in> set (published_actors st)" using hm_get_Some_in[OF k] .
  let ?b = "encoded E (ActorExited (remote_id_of c st (opaque_id rid)))"
  define st1 where "st1 = st\<lparr>outs := outs st @ [SinkSend (CmContent ?b)]\<rparr>"
  have 1: "handle E (LocalActorExited a) st = (Ok (), st1)"
    using exited_effect[OF E c inv mem] by (simp add: st1_def)
  have "calm (Open c) (snd (handle E (LocalActorExited a) st))" if "running st"
    by (rule stays_own_side) (use c that in \<open>auto simp: calm_def own_side_def\<close>)
  moreover have "running st" by (rule portal_reach_running[OF reach])
  ultimately have run1: "running st1" using 1 by (simp add: calm_def)
  have r1: "portal_reach st1 True" using portal_reach.step[OF reach new 1] run1 by simp
  have c1: "channel_state st1 = Open c" using c by (simp add: st1_def)
  have "hm_get (published_actors st1) (opaque_id rid) = Some (a, rm)" using k by (simp add: st1_def)
  from send_message_effect[OF this, of E c data] gone handle_content_working[OF E c1]
  obtain st2 where 2: "handle E (Content (encoded E (SendMessage rid data))) st1 = (Err SendError, st2)" by simp
  have new1: "uuid_new E st1" "ids_left E st1" using new by (simp_all add: uuid_new_def ids_left_def st1_def)
  have "portal_reach st2 False" using portal_reach.step[OF r1 new1 2] by simp
  with 1 2 show ?thesis by blast
qed

definition gone_env :: "nat env" where
  "gone_env = (sample_env 30)\<lparr>run_rm := (\<lambda>_ _ _. Err SendError)\<rparr>"

theorem message_to_exited_ends_portal_witness:
  "\<exists>st1 st2. handle gone_env (LocalActorExited 7) sample_delivered = (Ok (), st1) \<and>
    handle gone_env (Content (encoded gone_env (SendMessage sample_rid [1]))) st1 = (Err SendError, st2) \<and>
    portal_reach st2 False"
proof -
  have "working gone_env" using sample_working[of 30] by (simp add: gone_env_def working_def)
  then show ?thesis
    by (rule message_to_exited_ends_portal[OF sample_delivered_reach, where c = "ConduitID 3" and rm = 0])
      (simp_all add: gone_env_def uuid_new_def ids_left_def sample_rid_def hm_get_def)
qed

end
