(* ===== verification/Nexus_Props.thy ===== *)
theory Nexus_Props
  imports Portal_Props
begin

text \<open>
  The properties of the nexus: its table of portals, the names published on it, and what a
  connection that fails does to it.
\<close>

section \<open>A concrete nexus\<close>

definition sample_nexus_env :: "actor_id outcome \<Rightarrow> nexus_env" where
  "sample_nexus_env spawned_as = \<lparr>random_id = 17, spawn_portal = (\<lambda>_ _. spawned_as),
     callback_alive = (\<lambda>_. True), nexus_port_open = (\<lambda>_. True)\<rparr>"

definition sample_nexus :: "nat nexus_state" where
  "sample_nexus = \<lparr>on_client_connected = None, portals = [], nexus_named_actors = [], nexus_outs = []\<rparr>"

definition sample_connected :: "nat nexus_state" where
  "sample_connected = \<lparr>on_client_connected = None, portals = [(60, (str_lit ''a'', 60))], nexus_named_actors = [],
     nexus_outs = [SpawnPortal (portal_args_of (sample_nexus_env (Ok 60)) (str_lit ''a'')) 60, ReplyPortal 2 60]\<rparr>"

lemma sample_nexus_reach: "nexus_reach sample_nexus {} True"
  by (rule nexus_reach.start) (simp add: nexus_pre_start_def sample_nexus_def)

lemma sample_connected_reach: "nexus_reach sample_connected {60} True"
proof -
  have "nexus_handle (sample_nexus_env (Ok 60)) (Connected (str_lit ''a'') 0 2) sample_nexus = (Ok (), sample_connected)"
    by (simp add: nexus_handle_def handle_connected_cases sample_nexus_env_def sample_nexus_def sample_connected_def
        with_portal_def nexus_reply_def nexus_emit_def hm_insert_def Let_def)
  from nexus_reach.message[OF sample_nexus_reach _ this]
  show ?thesis by (simp add: spawns_new_def sample_nexus_def sample_connected_def)
qed

section \<open>Portals\<close>

text \<open>
  The nexus knows its portals. In every reachable state, the reply to
  \<open>GetAllPortals\<close> lists, each once, exactly the portals the nexus has spawned and whose
  end it has not been told of.
\<close>

theorem nexus_lists_live_portals:
  assumes "nexus_reach st live alive" and "nexus_port_open E p"
  shows "\<exists>as. nexus_handle E (GetAllPortals p) st = (Ok (), st\<lparr>nexus_outs := nexus_outs st @ [ReplyAllPortals p as]\<rparr>) \<and>
    distinct as \<and> set as = live"
proof -
  have inv: "nexus_inv st live" by (rule nexus_reach_inv[OF assms(1)])
  let ?as = "map (\<lambda>(_, _, a). a) (portals st)"
  have eq: "?as = map fst (portals st)" using inv by (auto simp: nexus_inv_def)
  have "distinct ?as" "set ?as = live" unfolding eq using inv by (simp_all add: nexus_inv_def hm_ok_def)
  then show ?thesis
    using assms(2) by (intro exI[of _ ?as])
      (simp add: nexus_handle_def handle_get_all_portals_def nexus_reply_def nexus_emit_def)
qed

theorem nexus_lists_live_portals_witness:
  "\<exists>as. nexus_handle (sample_nexus_env (Ok 60)) (GetAllPortals 3) sample_connected =
      (Ok (), sample_connected\<lparr>nexus_outs := nexus_outs sample_connected @ [ReplyAllPortals 3 as]\<rparr>) \<and>
    distinct as \<and> set as = {60}"
  by (rule nexus_lists_live_portals[OF sample_connected_reach]) (simp add: sample_nexus_env_def)

text \<open>
  A connection that fails takes the nexus down. If spawning the portal fails, as it does
  when the peer goes away before the handshake is written, handling the connection fails;
  the nexus, which owns all portals, takes no further message.
\<close>

theorem failed_connection_ends_nexus:
  assumes "nexus_reach st live True" and "spawns_new E st"
    and "spawn_portal E (portal_args_of E ident) s = Err e"
  shows "nexus_handle E (Connected ident s p) st = (Err e, st) \<and> nexus_reach st live False"
proof -
  have h: "nexus_handle E (Connected ident s p) st = (Err e, st)"
    using assms(3) by (simp add: nexus_handle_def handle_connected_cases)
  from nexus_reach.message[OF assms(1,2) h] h show ?thesis by simp
qed

theorem failed_connection_ends_nexus_witness:
  "nexus_handle (sample_nexus_env (Err SinkError)) (Connected (str_lit ''b'') 1 2) sample_connected =
     (Err SinkError, sample_connected) \<and> nexus_reach sample_connected {60} False"
  by (rule failed_connection_ends_nexus[OF sample_connected_reach])
    (simp_all add: spawns_new_def sample_nexus_env_def)

section \<open>Names\<close>

text \<open>
  Publishing on the nexus. After \<open>PublishNamedActor\<close> the name is answered with the
  actor published last under it, the other names and the portals are as before, and
  publishing the same actor again changes nothing.
\<close>

theorem nexus_publish_then_query:
  "\<exists>st' rm'. nexus_handle E (NexusPublishNamedActor name a rm) st = (Ok (), st') \<and>
    hm_get (nexus_named_actors st') name = Some (a, rm') \<and>
    (rm' = rm \<or> hm_get (nexus_named_actors st) name = Some (a, rm')) \<and>
    (\<forall>n. n \<noteq> name \<longrightarrow> hm_get (nexus_named_actors st') n = hm_get (nexus_named_actors st) n) \<and>
    portals st' = portals st \<and>
    nexus_handle E (NexusPublishNamedActor name a rm) st' = (Ok (), st') \<and>
    (nexus_port_open E p \<longrightarrow> nexus_handle E (QueryNamedActor name p) st' =
      (Ok (), st'\<lparr>nexus_outs := nexus_outs st' @ [ReplyNamed p (Some (a, rm'))]\<rparr>))"
proof -
  obtain st' where run: "nexus_handle E (NexusPublishNamedActor name a rm) st = (Ok (), st')"
    by (simp add: nexus_handle_def handle_nexus_publish_eq)
  then have st': "\<exists>rm'. hm_get (nexus_named_actors st') name = Some (a, rm') \<and>
      (rm' = rm \<or> hm_get (nexus_named_actors st) name = Some (a, rm'))"
    "\<forall>n. n \<noteq> name \<longrightarrow> hm_get (nexus_named_actors st') n = hm_get (nexus_named_actors st) n" "portals st' = portals st"
    by (auto simp: nexus_handle_def handle_nexus_publish_eq hm_get_insert split: if_splits)
  then obtain rm' where rm': "hm_get (nexus_named_actors st') name = Some (a, rm')"
    "rm' = rm \<or> hm_get (nexus_named_actors st) name = Some (a, rm')" by blast
  have "nexus_handle E (NexusPublishNamedActor name a rm) st' = (Ok (), st')"
    using rm'(1) by (simp add: nexus_handle_def handle_nexus_publish_eq)
  moreover have "nexus_port_open E p \<longrightarrow> nexus_handle E (QueryNamedActor name p) st' =
      (Ok (), st'\<lparr>nexus_outs := nexus_outs st' @ [ReplyNamed p (Some (a, rm'))]\<rparr>)"
    using rm'(1) by (simp add: nexus_handle_def handle_query_named_actor_def nexus_reply_def nexus_emit_def)
  ultimately show ?thesis using run st' rm' by (intro exI[of _ st'] exI[of _ rm']) blast
qed

theorem nexus_publish_then_query_witness:
  "\<exists>st' rm'. nexus_handle (sample_nexus_env (Ok 60)) (NexusPublishNamedActor (str_lit ''n'') 9 (1::nat)) sample_nexus = (Ok (), st') \<and>
    nexus_handle (sample_nexus_env (Ok 60)) (QueryNamedActor (str_lit ''n'') 4) st' =
      (Ok (), st'\<lparr>nexus_outs := nexus_outs st' @ [ReplyNamed 4 (Some (9, rm'))]\<rparr>)"
proof -
  have "nexus_port_open (sample_nexus_env (Ok 60)) 4" by (simp add: sample_nexus_env_def)
  then show ?thesis using nexus_publish_then_query[of "sample_nexus_env (Ok 60)" "str_lit ''n''" 9 1 sample_nexus 4] by blast
qed

text \<open>
  C10: Names published on the nexus are found through every portal. When a portal asked for a
  name has none of its own under it, and the nexus has answered the portal's query with an
  actor, the actor is published on the portal on the way, and the answer sent to the peer
  carries its id.
\<close>

theorem nexus_name_found_through_portal:
  assumes "working E" and "portal_inv st" and "uuid_new E st" and "channel_state st = Open c"
    and "hm_get (named_actors st) name = None"
    and asked: "nexus_handle N (QueryNamedActor name q) nx = (Ok (), nx')"
      "nexus_outs nx' = nexus_outs nx @ [ReplyNamed q answer]" "nexus_query E name = Ok answer"
    and known: "hm_get (nexus_named_actors nx) name = Some (a, rm)"
  shows "\<exists>st' rid rm'. handle E (Content (encoded E (RequestActorByName i name))) st = (Ok (), st') \<and>
    last (outs st') = SinkSend (CmContent (encoded E (ResponseActorByName i (ROk rid)))) \<and>
    hm_get (published_actors st') (opaque_id rid) = Some (a, rm')"
proof -
  have "answer = Some (a, rm)"
    using asked(1,2) known
    by (auto simp: nexus_handle_def handle_query_named_actor_def nexus_reply_def nexus_emit_def split: if_splits)
  then have nq: "nexus_query E name = Ok (Some (a, rm))" using asked(3) by simp
  obtain r st1 where pub: "publish_actor E a rm st = (r, st1)" by fastforce
  note facts = publish_actor_run[OF assms(2,3) pub]
  from facts(6) obtain k rm' where k: "r = Ok k" "(k, a, rm') \<in> set (published_actors st1)" by blast
  from request_nexus[OF assms(1,5) nq pub[unfolded k(1)], of c i] handle_content_working[OF assms(1,4)]
  have "handle E (Content (encoded E (RequestActorByName i name))) st =
      (Ok (), st1\<lparr>outs := outs st1 @ [SinkSend (CmContent (encoded E (answer_of c st1 k i)))]\<rparr>)" by simp
  moreover have "hm_get (published_actors st1) k = Some (a, rm')"
    using published_get[OF facts(1)] k(2) by blast
  ultimately show ?thesis
    by (intro exI[of _ "st1\<lparr>outs := outs st1 @ [SinkSend (CmContent (encoded E (answer_of c st1 k i)))]\<rparr>"]
        exI[of _ "remote_id_of c st1 k"] exI[of _ rm']) (simp add: answer_of_def remote_id_of_def)
qed

definition nexus_backed_env :: "nat env" where
  "nexus_backed_env = (sample_env 21)\<lparr>nexus_query := (\<lambda>_. Ok (Some (9, 1)))\<rparr>"

theorem nexus_name_found_through_portal_witness:
  "\<exists>st' rid rm'. handle nexus_backed_env (Content (encoded nexus_backed_env (RequestActorByName 4 (str_lit ''n'')))) (sample_open 5) = (Ok (), st') \<and>
    last (outs st') = SinkSend (CmContent (encoded nexus_backed_env (ResponseActorByName 4 (ROk rid)))) \<and>
    hm_get (published_actors st') (opaque_id rid) = Some (9, rm')"
proof -
  let ?nx = "sample_nexus\<lparr>nexus_named_actors := [(str_lit ''n'', (9, 1))]\<rparr>"
  have w: "working nexus_backed_env" using sample_working[of 21] by (simp add: nexus_backed_env_def working_def)
  have u: "uuid_new nexus_backed_env (sample_open 5)"
    by (simp add: uuid_new_def sample_open_def sample_start_def)
  show ?thesis
    by (rule nexus_name_found_through_portal[OF w sample_open_inv u, where nx = ?nx and q = 4 and rm = 1
          and N = "sample_nexus_env (Ok 60)" and answer = "Some (9, 1)"
          and nx' = "?nx\<lparr>nexus_outs := nexus_outs ?nx @ [ReplyNamed 4 (Some (9, 1))]\<rparr>"])
      (simp_all add: sample_open_def sample_start_def hm_get_def nexus_backed_env_def nexus_handle_def
        handle_query_named_actor_def nexus_reply_def nexus_emit_def sample_nexus_env_def)
qed

end
