(* ===== verification/Derive.thy ===== *)
theory Derive
  imports Transmat_Contract
begin

text \<open>
  \<open>derive_wormhole_serializable.rs\<close>: the derive macro. Its input is an item (a struct
  or an enum with fields of given types); what it checks while it expands is
  \<open>derive_check\<close>; what the code it emits does is given by the definitions below it. A
  field's type stands for its implementation of the trait: \<open>imm_of ty\<close> and
  \<open>rem_of ty\<close>. Values are lists of field values, in the order of the fields.
\<close>

section \<open>Items\<close>

record 'ty named_field =
  field_name :: rstring
  field_type :: 'ty
  field_attrs :: "rstring list"

datatype 'ty fields = Named "'ty named_field list" | TupleFields "'ty list" | UnitFields

datatype 'ty item =
    StructItem rstring "'ty fields"
  | EnumItem rstring "(rstring \<times> 'ty fields) list"
  | OtherItem

section \<open>Expansion\<close>

datatype derive_error =
    BothAttributes rstring
  | SerdeNotImplemented
  | BincodeNotImplemented
  | NotStructOrEnum

definition for_field_check :: "'ty named_field \<Rightarrow> derive_error option" where
  "for_field_check f =
     (let has_attr_serde = str_lit ''serde'' \<in> set (field_attrs f);
          has_attr_bincode = str_lit ''bincode'' \<in> set (field_attrs f)
      in if has_attr_serde \<and> has_attr_bincode then Some (BothAttributes (field_name f))
         else if has_attr_serde then Some SerdeNotImplemented
         else if has_attr_bincode then Some BincodeNotImplemented
         else None)"

text \<open>\<open>collect::<Result<Vec<_>, _>>()?\<close> stops at the first error.\<close>

fun first_error :: "('a \<Rightarrow> derive_error option) \<Rightarrow> 'a list \<Rightarrow> derive_error option" where
  "first_error f [] = None"
| "first_error f (x # xs) = (case f x of Some e \<Rightarrow> Some e | None \<Rightarrow> first_error f xs)"

definition fields_check :: "'ty fields \<Rightarrow> derive_error option" where
  "fields_check fs = (case fs of Named nfs \<Rightarrow> first_error for_field_check nfs | _ \<Rightarrow> None)"

definition derive_check :: "'ty item \<Rightarrow> derive_error option" where
  "derive_check it = (case it of
     StructItem nm fs \<Rightarrow> fields_check fs
   | EnumItem nm variants \<Rightarrow> first_error (\<lambda>(_, fs). fields_check fs) variants
   | OtherItem \<Rightarrow> Some NotStructOrEnum)"

section \<open>The emitted code: one field\<close>

text \<open>\<open>field_bytes\<close> behind their length, for every field in turn.\<close>

fun serialize_fields :: "('ty \<Rightarrow> ('s, 'v) immat) \<Rightarrow> 'ty list \<Rightarrow> 'v list \<Rightarrow> ('s, bytes) eff" where
  "serialize_fields imm_of (ty # tys) (v # vs) =
     seq (imm_of ty v) (\<lambda>field_bytes.
     seq (serialize_fields imm_of tys vs) (\<lambda>buffer.
     ret (len_u64 field_bytes @ field_bytes @ buffer)))"
| "serialize_fields imm_of _ _ = ret []"

text \<open>
  The block that takes one length-prefixed slice off \<open>data\<close>. It differs from the
  library's \<open>elem_slice\<close> in the errors it reports.
\<close>

definition field_slice :: "platform \<Rightarrow> bytes \<Rightarrow> nat \<Rightarrow> (bytes \<times> nat) outcome" where
  "field_slice P data offset =
     and_then (usize_add P offset 8) (\<lambda>hdr_end.
     if length data < hdr_end then Err (UnexpectedEndOfData hdr_end (length data))
     else
       and_then (subslice data offset hdr_end) (\<lambda>hdr.
       if length hdr \<noteq> 8 then Err TryFromSliceError
       else if usize_max P < le_value hdr then Err FieldLengthExceedsUsize
       else
         and_then (usize_add P hdr_end (le_value hdr)) (\<lambda>field_end.
         if length data < field_end then Err (UnexpectedEndOfData field_end (length data))
         else and_then (subslice data hdr_end field_end) (\<lambda>field_bytes. Ok (field_bytes, field_end)))))"

text \<open>Tuple structs and tuple variants: the values are bound to \<open>field0_value\<close>, \<open>field1_value\<close>, \<dots>\<close>

fun deserialize_fields ::
    "platform \<Rightarrow> ('ty \<Rightarrow> ('t, 'w) remat) \<Rightarrow> bytes \<Rightarrow> nat \<Rightarrow> 'ty list \<Rightarrow> ('t, 'w list \<times> nat) eff" where
  "deserialize_fields P rem_of data offset [] = ret ([], offset)"
| "deserialize_fields P rem_of data offset (ty # tys) =
     seq (lift (field_slice P data offset)) (\<lambda>(field_bytes, offset).
     seq (rem_of ty field_bytes) (\<lambda>field_value.
     seq (deserialize_fields P rem_of data offset tys) (\<lambda>(field_values, offset).
     ret (field_value # field_values, offset))))"

text \<open>
  Named fields: the code for a field \<open>x\<close> binds three local variables,
  \<open>field_len_x\<close>, \<open>field_bytes_x\<close> and \<open>field_x\<close>, and the struct is built
  from the variables \<open>field_x\<close> at the end. Each binding shadows an earlier one of the
  same name; the newest comes first in the list.
\<close>

datatype 'w binding = BLen nat | BBytes bytes | BVal 'w

definition ident_len :: "rstring \<Rightarrow> rstring" where "ident_len x = str_lit ''field_len_'' @ x"
definition ident_bytes :: "rstring \<Rightarrow> rstring" where "ident_bytes x = str_lit ''field_bytes_'' @ x"
definition ident_field :: "rstring \<Rightarrow> rstring" where "ident_field x = str_lit ''field_'' @ x"

fun deserialize_named ::
    "platform \<Rightarrow> ('ty \<Rightarrow> ('t, 'w) remat) \<Rightarrow> bytes \<Rightarrow> nat \<Rightarrow> (rstring \<times> 'w binding) list \<Rightarrow>
     'ty named_field list \<Rightarrow> ('t, (rstring \<times> 'w binding) list \<times> nat) eff" where
  "deserialize_named P rem_of data offset env [] = ret (env, offset)"
| "deserialize_named P rem_of data offset env (f # fs) =
     seq (lift (field_slice P data offset)) (\<lambda>(field_bytes, offset).
     seq (rem_of (field_type f) field_bytes) (\<lambda>field_value.
     deserialize_named P rem_of data offset
       ((ident_field (field_name f), BVal field_value)
        # (ident_bytes (field_name f), BBytes field_bytes)
        # (ident_len (field_name f), BLen (length field_bytes)) # env) fs))"

text \<open>
  \<open>Self { x: field_x, ... }\<close>. A variable that holds a length has type \<open>usize\<close>:
  \<open>of_usize ty n\<close> is that value where \<open>ty\<close> is \<open>usize\<close>. Otherwise the emitted
  code does not compile (\<open>None\<close>).
\<close>

fun reconstruct ::
    "('ty \<Rightarrow> nat \<Rightarrow> 'w option) \<Rightarrow> (rstring \<times> 'w binding) list \<Rightarrow> 'ty named_field list \<Rightarrow> 'w list option" where
  "reconstruct of_usize env [] = Some []"
| "reconstruct of_usize env (f # fs) =
     (case map_of env (ident_field (field_name f)) of
        Some (BVal w) \<Rightarrow> map_option ((#) w) (reconstruct of_usize env fs)
      | Some (BLen n) \<Rightarrow>
          (case of_usize (field_type f) n of
             Some w \<Rightarrow> map_option ((#) w) (reconstruct of_usize env fs) | None \<Rightarrow> None)
      | _ \<Rightarrow> None)"

definition does_not_compile :: werror where
  "does_not_compile = AnyhowMsg (str_lit ''mismatched types'')"

definition build :: "'w list option \<Rightarrow> ('t, 'w list) eff" where
  "build r = (case r of Some ws \<Rightarrow> ret ws | None \<Rightarrow> throw does_not_compile)"

section \<open>The emitted code: structs\<close>

definition field_types :: "'ty fields \<Rightarrow> 'ty list" where
  "field_types fs = (case fs of Named nfs \<Rightarrow> map field_type nfs | TupleFields tys \<Rightarrow> tys | UnitFields \<Rightarrow> [])"

definition immaterialize_struct :: "('ty \<Rightarrow> ('s, 'v) immat) \<Rightarrow> 'ty fields \<Rightarrow> ('s, 'v list) immat" where
  "immaterialize_struct imm_of fs vs = (case fs of
     Named nfs \<Rightarrow> serialize_fields imm_of (map field_type nfs) vs
   | TupleFields tys \<Rightarrow> serialize_fields imm_of tys vs
   | UnitFields \<Rightarrow> ret [])"

definition rematerialize_struct ::
    "platform \<Rightarrow> ('ty \<Rightarrow> nat \<Rightarrow> 'w option) \<Rightarrow> ('ty \<Rightarrow> ('t, 'w) remat) \<Rightarrow> 'ty fields \<Rightarrow> ('t, 'w list) remat" where
  "rematerialize_struct P of_usize rem_of fs data = (case fs of
     Named nfs \<Rightarrow>
       seq (deserialize_named P rem_of data 0 [] nfs) (\<lambda>(env, offset).
       if length data \<noteq> offset then throw (NotFullyConsumed (length data) offset)
       else build (reconstruct of_usize env nfs))
   | TupleFields tys \<Rightarrow>
       seq (deserialize_fields P rem_of data 0 tys) (\<lambda>(ws, offset).
       if length data \<noteq> offset then throw (NotFullyConsumed (length data) offset)
       else ret ws)
   | UnitFields \<Rightarrow>
       if length data \<noteq> 0 then throw (UnitStructNotEmpty (length data)) else ret [])"

section \<open>The emitted code: enums\<close>

text \<open>
  An enum value is the name of its variant with the values of its fields. The arm of a
  struct variant binds the fields to variables of their own names; \<open>buffer\<close> is bound
  after them, and the code for a field \<open>x\<close> binds \<open>field_bytes_x\<close>. A later field of
  that name is then read from this variable: \<open>of_bytes ty b\<close> is its value where \<open>ty\<close>
  is \<open>Vec<u8>\<close>, otherwise the emitted code does not compile. Nor does it where a field
  is called \<open>buffer\<close>, which is used again after it was moved, or \<open>ctx\<close>, which hides
  the argument.
\<close>

datatype 'v local_var = LVal 'v | LBytes bytes | LBuffer

definition local_value :: "('ty \<Rightarrow> bytes \<Rightarrow> 'v option) \<Rightarrow> (rstring \<times> 'v local_var) list \<Rightarrow> 'ty named_field \<Rightarrow> 'v option" where
  "local_value of_bytes env f = (case map_of env (field_name f) of
     Some (LVal v) \<Rightarrow> Some v
   | Some (LBytes b) \<Rightarrow> of_bytes (field_type f) b
   | _ \<Rightarrow> None)"

fun serialize_named ::
    "('ty \<Rightarrow> bytes \<Rightarrow> 'v option) \<Rightarrow> ('ty \<Rightarrow> ('s, 'v) immat) \<Rightarrow> (rstring \<times> 'v local_var) list \<Rightarrow>
     'ty named_field list \<Rightarrow> ('s, bytes) eff" where
  "serialize_named of_bytes imm_of env [] = ret []"
| "serialize_named of_bytes imm_of env (f # fs) = (case local_value of_bytes env f of
     None \<Rightarrow> throw does_not_compile
   | Some v \<Rightarrow>
       seq (imm_of (field_type f) v) (\<lambda>field_bytes.
       seq (serialize_named of_bytes imm_of ((ident_bytes (field_name f), LBytes field_bytes) # env) fs) (\<lambda>buffer.
       ret (len_u64 field_bytes @ field_bytes @ buffer))))"

definition immaterialize_variant ::
    "('ty \<Rightarrow> bytes \<Rightarrow> 'v option) \<Rightarrow> ('ty \<Rightarrow> ('s, 'v) immat) \<Rightarrow> 'ty fields \<Rightarrow> ('s, 'v list) immat" where
  "immaterialize_variant of_bytes imm_of fs vs = (case fs of
     UnitFields \<Rightarrow> ret []
   | TupleFields tys \<Rightarrow> serialize_fields imm_of tys vs
   | Named nfs \<Rightarrow>
       let names = map field_name nfs in
       if str_lit ''ctx'' \<in> set names then throw does_not_compile
       else serialize_named of_bytes imm_of ((str_lit ''buffer'', LBuffer) # zip names (map LVal vs)) nfs)"

definition immaterialize_enum ::
    "('ty \<Rightarrow> bytes \<Rightarrow> 'v option) \<Rightarrow> ('ty \<Rightarrow> ('s, 'v) immat) \<Rightarrow> (rstring \<times> 'ty fields) list \<Rightarrow>
     ('s, rstring \<times> 'v list) immat" where
  "immaterialize_enum of_bytes imm_of variants = (\<lambda>(name, vs).
     case map_of variants name of
       None \<Rightarrow> throw (UnknownVariant name)
     | Some fs \<Rightarrow>
         seq (immaterialize_variant of_bytes imm_of fs vs) (\<lambda>bytes.
         ret (len_u64 name @ name @ len_u64 bytes @ bytes)))"

definition rematerialize_variant ::
    "platform \<Rightarrow> ('ty \<Rightarrow> nat \<Rightarrow> 'w option) \<Rightarrow> ('ty \<Rightarrow> ('t, 'w) remat) \<Rightarrow> 'ty fields \<Rightarrow> ('t, 'w list) remat" where
  "rematerialize_variant P of_usize rem_of fs payload_data = (case fs of
     UnitFields \<Rightarrow>
       if payload_data \<noteq> [] then throw (UnitVariantNotEmpty (length payload_data)) else ret []
   | TupleFields tys \<Rightarrow>
       seq (deserialize_fields P rem_of payload_data 0 tys) (\<lambda>(ws, payload_offset).
       if payload_offset \<noteq> length payload_data
       then throw (PayloadNotFullyConsumed (length payload_data) payload_offset)
       else ret ws)
   | Named nfs \<Rightarrow>
       seq (deserialize_named P rem_of payload_data 0 [] nfs) (\<lambda>(env, payload_offset).
       if payload_offset \<noteq> length payload_data
       then throw (PayloadNotFullyConsumed (length payload_data) payload_offset)
       else build (reconstruct of_usize env nfs)))"

definition rematerialize_enum ::
    "platform \<Rightarrow> ('ty \<Rightarrow> nat \<Rightarrow> 'w option) \<Rightarrow> ('ty \<Rightarrow> ('t, 'w) remat) \<Rightarrow>
     rstring \<Rightarrow> (rstring \<times> 'ty fields) list \<Rightarrow> ('t, rstring \<times> 'w list) remat" where
  "rematerialize_enum P of_usize rem_of enum_name variants data =
     (if variants = [] then throw (UninhabitedEnum enum_name)
      else
        seq (lift (field_slice P data 0)) (\<lambda>(variant_name_bytes, offset).
        seq (lift (from_utf8 variant_name_bytes)) (\<lambda>variant_name.
        seq (lift (field_slice P data offset)) (\<lambda>(payload_data, offset).
        seq (case map_of variants variant_name of
               None \<Rightarrow> throw (UnknownVariant variant_name)
             | Some fs \<Rightarrow> rematerialize_variant P of_usize rem_of fs payload_data) (\<lambda>ws.
        if length data \<noteq> offset then throw (NotFullyConsumed (length data) offset)
        else ret (variant_name, ws))))))"

end
