(* ===== verification/Derive_Correct.thy ===== *)
theory Derive_Correct
  imports Derive
begin

text \<open>
  The derive macro keeps the contract of the trait: if every field type's implementation
  meets it, the emitted implementation does, for structs and enums alike, provided no
  field's variable is captured by the variables emitted for a later field
  (\<open>no_capture\<close>, and \<open>no_clash\<close> in struct variants).
\<close>

section \<open>One field\<close>

lemma field_slice_eq_Ok: "field_slice P data offset = Ok x \<longleftrightarrow> elem_slice P data offset = Ok x"
  by (auto simp: field_slice_def elem_slice_def and_then_eq_Ok usize_from_u64_le_bytes_eq not_less
      split: if_splits)

lemma field_slice_eq_Panic:
  "(\<exists>p. field_slice P data offset = Panic p) \<longleftrightarrow> (\<exists>p. elem_slice P data offset = Panic p)"
  by (auto simp: field_slice_def elem_slice_def and_then_eq_Panic usize_from_u64_le_bytes_eq not_less
      require_min_buffer_size_def split: if_splits)

lemma seq_field_slice:
  "wp (seq (lift (elem_slice P data n)) f) Q t \<Longrightarrow> wp (seq (lift (field_slice P data n)) f) Q t"
  by (cases "elem_slice P data n") (auto simp: wp_def seq_def dest: field_slice_eq_Ok[THEN iffD2])

section \<open>Fields in order\<close>

text \<open>Goodness and representation, field by field.\<close>

fun good_fields :: "('ty \<Rightarrow> 'v \<Rightarrow> bool) \<Rightarrow> 'ty list \<Rightarrow> 'v list \<Rightarrow> bool" where
  "good_fields g [] [] = True"
| "good_fields g (ty # tys) (v # vs) = (g ty v \<and> good_fields g tys vs)"
| "good_fields g _ _ = False"

fun rel_fields :: "('ty \<Rightarrow> 's \<Rightarrow> 't \<Rightarrow> 'v \<Rightarrow> 'w \<Rightarrow> bool) \<Rightarrow> 'ty list \<Rightarrow> 's \<Rightarrow> 't \<Rightarrow> 'v list \<Rightarrow> 'w list \<Rightarrow> bool" where
  "rel_fields R [] s t [] [] = True"
| "rel_fields R (ty # tys) s t (v # vs) (w # ws) = (R ty s t v w \<and> rel_fields R tys s t vs ws)"
| "rel_fields R _ s t _ _ = False"

text \<open>A table of implementations that all meet the contract, in one pair of worlds.\<close>

locale derive_table = transmat_world +
  fixes imm_of :: "'ty \<Rightarrow> ('s, 'v) immat" and rem_of :: "'ty \<Rightarrow> ('t, 'w) remat"
    and good :: "'ty \<Rightarrow> 'v \<Rightarrow> bool" and rel :: "'ty \<Rightarrow> 's \<Rightarrow> 't \<Rightarrow> 'v \<Rightarrow> 'w \<Rightarrow> bool"
  assumes entry: "transmat P sinv sle tinv tle (imm_of ty) (rem_of ty) (good ty) (rel ty)"
begin

lemma rel_fields_mono:
  "sle s s' \<Longrightarrow> tle t t' \<Longrightarrow> rel_fields rel tys s t vs ws \<Longrightarrow> rel_fields rel tys s' t' vs ws"
proof (induction tys arbitrary: vs ws)
  case Nil
  then show ?case by (cases vs; cases ws) auto
next
  case (Cons ty tys)
  then show ?case using transmat.rel_mono[OF entry] by (cases vs; cases ws) auto
qed

lemma serialize_keeps: "keeps sinv sle (serialize_fields imm_of tys vs)"
proof (induction tys arbitrary: vs)
  case (Cons ty tys)
  then show ?case
    using sle_order transmat.imm_keeps[OF entry] by (cases vs) (auto simp del: ret_apply)
qed (use sle_order in \<open>auto simp del: ret_apply\<close>)

lemma deserialize_keeps: "keeps tinv tle (deserialize_fields P rem_of data n tys)"
proof (induction tys arbitrary: n)
  case (Cons ty tys)
  show ?case
    unfolding deserialize_fields.simps
    by (intro keeps_seq keeps_lift keeps_case_prod keeps_ret tle_order Cons
        transmat.rem_keeps[OF entry])
qed (use tle_order in \<open>auto simp del: ret_apply\<close>)

text \<open>What the fields' code wrote is read back, wherever in a buffer it stands.\<close>

lemma fields_read:
  assumes "sinv s" and "good_fields good tys vs" and "serialize_fields imm_of tys vs s = (Ok bs, s')"
    and "fits P data" and "n \<le> length data" and "drop n data = bs @ post" and "tinv t"
  shows "wp (deserialize_fields P rem_of data n tys)
    (\<lambda>(ws, n') t'. n' = n + length bs \<and> rel_fields rel tys s' t' vs ws) t"
  using assms
proof (induction tys arbitrary: vs s bs n t)
  case Nil
  then show ?case by (cases vs) auto
next
  case (Cons ty tys)
  obtain v vs' where vs: "vs = v # vs'" "good ty v" "good_fields good tys vs'"
    using Cons.prems(2) by (cases vs) auto
  obtain b s1 bs' where b: "imm_of ty v s = (Ok b, s1)" and bs': "serialize_fields imm_of tys vs' s1 = (Ok bs', s')"
    and bs: "bs = (len_u64 b @ b) @ bs'"
    using Cons.prems(3) by (auto simp: vs seq_eq_Ok)
  have s1: "sinv s1" using keepsD[OF transmat.imm_keeps[OF entry] Cons.prems(1) b] by simp
  have s2: "sle s1 s'" using keepsD[OF serialize_keeps s1 bs'] by simp
  have el: "immaterialize_elem (imm_of ty) v s = (Ok (len_u64 b @ b), s1)"
    using b by (simp add: immaterialize_elem_def seq_def)
  have d: "drop n data = (len_u64 b @ b) @ (bs' @ post)" using Cons.prems(6) bs by simp
  let ?n = "n + length (len_u64 b @ b)"
  have n: "?n \<le> length data" using arg_cong[OF d, of length] Cons.prems(5) by simp
  have d': "drop ?n data = bs' @ post"
    using d by (metis add.commute append_eq_conv_conj drop_drop)
  obtain w t1 where w: "rematerialize_elem P (rem_of ty) data n t = (Ok (w, ?n), t1)" "rel ty s1 t1 v w"
    using transmat.elem_reads[OF entry Cons.prems(1) vs(2) el Cons.prems(4,5) d Cons.prems(7)]
    by (auto simp: wp_iff)
  have t1: "tinv t1" using keepsD[OF transmat.rem_elem_keeps[OF entry] Cons.prems(7) w(1)] by simp
  obtain x where x: "elem_slice P data n = Ok (x, ?n)" "rem_of ty x t = (Ok w, t1)"
    using w(1) by (auto simp: rematerialize_elem_def seq_eq_Ok split: prod.splits)
  obtain ws t2 where ws: "deserialize_fields P rem_of data ?n tys t1 = (Ok (ws, ?n + length bs'), t2)"
    "rel_fields rel tys s' t2 vs' ws"
    using Cons.IH[OF s1 vs(3) bs' Cons.prems(4) n d' t1] by (auto simp: wp_iff)
  have "tle t1 t2" using keepsD[OF deserialize_keeps t1 ws(1)] by simp
  then have "rel ty s' t2 v w" using transmat.rel_mono[OF entry s2 _ w(2)] by blast
  then show ?case
    using x(2) ws field_slice_eq_Ok[THEN iffD2, OF x(1)]
    by (simp add: wp_def seq_def vs bs add.assoc)
qed

end

section \<open>Named fields and their variables\<close>

text \<open>
  No field is called \<open>len_x\<close> or \<open>bytes_x\<close> where a later field is called \<open>x\<close>; and
  names are distinct, as the compiler asks.
\<close>

fun no_capture :: "rstring list \<Rightarrow> bool" where
  "no_capture [] = True"
| "no_capture (x # xs) = (x \<notin> set xs \<and>
     (\<forall>y \<in> set xs. x \<noteq> str_lit ''len_'' @ y \<and> x \<noteq> str_lit ''bytes_'' @ y) \<and> no_capture xs)"

text \<open>The variables that the code for the fields \<open>fs\<close> has bound to \<open>bs\<close> and \<open>ws\<close>.\<close>

fun bindings :: "'ty named_field list \<Rightarrow> bytes list \<Rightarrow> 'w list \<Rightarrow> (rstring \<times> 'w binding) list \<Rightarrow>
    (rstring \<times> 'w binding) list" where
  "bindings (f # fs) (b # bs) (w # ws) env =
     bindings fs bs ws ((ident_field (field_name f), BVal w) # (ident_bytes (field_name f), BBytes b)
       # (ident_len (field_name f), BLen (length b)) # env)"
| "bindings _ _ _ env = env"

lemma ident_simps [simp]:
  "ident_field x = ident_field y \<longleftrightarrow> x = y"
  "ident_field x = ident_len y \<longleftrightarrow> x = str_lit ''len_'' @ y"
  "ident_field x = ident_bytes y \<longleftrightarrow> x = str_lit ''bytes_'' @ y"
  by (simp_all add: ident_field_def ident_len_def ident_bytes_def str_lit_def)

lemma bindings_other:
  assumes "x \<notin> field_name ` set fs"
    and "\<forall>y \<in> field_name ` set fs. x \<noteq> str_lit ''len_'' @ y \<and> x \<noteq> str_lit ''bytes_'' @ y"
  shows "map_of (bindings fs bs ws env) (ident_field x) = map_of env (ident_field x)"
  using assms
proof (induction fs bs ws env rule: bindings.induct)
  case (1 f fs b bs w ws env)
  then show ?case by (auto simp: fun_upd_def)
qed auto

lemma reconstruct_bindings:
  assumes "no_capture (map field_name fs)" and "length bs = length fs" and "length ws = length fs"
  shows "reconstruct of_usize (bindings fs bs ws env) fs = Some ws"
  using assms
proof (induction fs bs ws env rule: bindings.induct)
  case (1 f fs b bs w ws env)
  let ?x = "field_name f"
  have "map_of (bindings (f # fs) (b # bs) (w # ws) env) (ident_field ?x) = Some (BVal w)"
    using 1(2) by (simp add: bindings_other)
  then show ?case using 1 by simp
qed auto

text \<open>The code for named fields is that for unnamed ones, but for the variables.\<close>

lemma deserialize_named_eq:
  "deserialize_fields P rem_of data n (map field_type fs) t = (Ok (ws, n'), t') \<Longrightarrow>
   \<exists>bs. length bs = length fs \<and> length ws = length fs \<and>
     deserialize_named P rem_of data n env fs t = (Ok (bindings fs bs ws env, n'), t')"
proof (induction fs arbitrary: n ws t env)
  case (Cons f fs)
  obtain b off w t1 ws' where b: "field_slice P data n = Ok (b, off)"
    and w: "rem_of (field_type f) b t = (Ok w, t1)" and ws: "ws = w # ws'"
    and rest: "deserialize_fields P rem_of data off (map field_type fs) t1 = (Ok (ws', n'), t')"
    using Cons.prems by (auto simp: seq_eq_Ok split: prod.splits)
  from Cons.IH[OF rest] obtain bs where "length bs = length fs" "length ws' = length fs"
    "deserialize_named P rem_of data off ((ident_field (field_name f), BVal w)
        # (ident_bytes (field_name f), BBytes b) # (ident_len (field_name f), BLen (length b)) # env) fs t1
      = (Ok (bindings fs bs ws' ((ident_field (field_name f), BVal w)
        # (ident_bytes (field_name f), BBytes b) # (ident_len (field_name f), BLen (length b)) # env), n'), t')"
    by blast
  then show ?case using b w ws by (intro exI[of _ "b # bs"]) (simp add: seq_def)
qed simp

section \<open>Structs and enums\<close>

definition fields_ok :: "'ty fields \<Rightarrow> bool" where
  "fields_ok fs = (case fs of Named nfs \<Rightarrow> no_capture (map field_name nfs) | _ \<Rightarrow> True)"

text \<open>In a struct variant, no field has the name of a variable bound before it is read.\<close>

fun no_clash :: "rstring list \<Rightarrow> bool" where
  "no_clash [] = True"
| "no_clash (x # xs) = (ident_bytes x \<notin> set xs \<and> x \<noteq> str_lit ''buffer'' \<and> x \<noteq> str_lit ''ctx'' \<and> no_clash xs)"

definition variant_ok :: "'ty fields \<Rightarrow> bool" where
  "variant_ok fs \<longleftrightarrow> fields_ok fs \<and> (case fs of Named nfs \<Rightarrow> no_clash (map field_name nfs) | _ \<Rightarrow> True)"

definition variants_ok :: "(rstring \<times> 'ty fields) list \<Rightarrow> bool" where
  "variants_ok variants \<longleftrightarrow> list_all (\<lambda>(name, fs). utf8_valid name \<and> variant_ok fs) variants"

definition good_enum :: "('ty \<Rightarrow> 'v \<Rightarrow> bool) \<Rightarrow> (rstring \<times> 'ty fields) list \<Rightarrow> rstring \<times> 'v list \<Rightarrow> bool" where
  "good_enum g variants v = (case map_of variants (fst v) of
     None \<Rightarrow> False | Some fs \<Rightarrow> good_fields g (field_types fs) (snd v))"

definition rel_enum ::
    "('ty \<Rightarrow> 's \<Rightarrow> 't \<Rightarrow> 'v \<Rightarrow> 'w \<Rightarrow> bool) \<Rightarrow> (rstring \<times> 'ty fields) list \<Rightarrow> 's \<Rightarrow> 't \<Rightarrow>
     rstring \<times> 'v list \<Rightarrow> rstring \<times> 'w list \<Rightarrow> bool" where
  "rel_enum R variants s t v w \<longleftrightarrow> fst w = fst v \<and> (case map_of variants (fst v) of
     None \<Rightarrow> False | Some fs \<Rightarrow> rel_fields R (field_types fs) s t (snd v) (snd w))"

lemma immaterialize_struct_eq:
  "immaterialize_struct imm_of fs vs = (if fs = UnitFields then ret [] else serialize_fields imm_of (field_types fs) vs)"
  by (cases fs) (simp_all add: immaterialize_struct_def field_types_def)

text \<open>Without such names, the arm of a struct variant writes what a struct's code writes.\<close>

lemma serialize_named_eq:
  assumes "list_all2 (\<lambda>f v. map_of env (field_name f) = Some (LVal v)) nfs vs" and "no_clash (map field_name nfs)"
  shows "serialize_named of_bytes imm_of env nfs = serialize_fields imm_of (map field_type nfs) vs"
  using assms
proof (induction nfs arbitrary: env vs)
  case (Cons f fs)
  then obtain v vs' where vs: "vs = v # vs'" and v: "map_of env (field_name f) = Some (LVal v)"
    and rest: "list_all2 (\<lambda>f v. map_of env (field_name f) = Some (LVal v)) fs vs'"
    by (auto simp: list_all2_Cons1)
  have "list_all2 (\<lambda>g v. map_of ((ident_bytes (field_name f), LBytes b) # env) (field_name g) = Some (LVal v)) fs vs'" for b
    using rest Cons.prems(2) by (auto simp: list_all2_conv_all_nth) (metis imageI nth_mem)
  then have "serialize_named of_bytes imm_of ((ident_bytes (field_name f), LBytes b) # env) fs =
      serialize_fields imm_of (map field_type fs) vs'" for b
    using Cons.IH[of "(ident_bytes (field_name f), LBytes b) # env" vs'] Cons.prems(2) by simp
  then show ?case using v by (simp add: vs local_value_def)
qed simp

lemma no_clash_free: "no_clash xs \<Longrightarrow> str_lit ''buffer'' \<notin> set xs \<and> str_lit ''ctx'' \<notin> set xs"
  by (induction xs) auto

lemma no_capture_distinct: "no_capture xs \<Longrightarrow> distinct xs"
  by (induction xs) auto

lemma good_fields_length: "good_fields g tys vs \<Longrightarrow> length vs = length tys"
  by (induction g tys vs rule: good_fields.induct) auto

lemma immaterialize_variant_eq:
  assumes "variant_ok fs" and "length vs = length (field_types fs)"
  shows "immaterialize_variant of_bytes imm_of fs vs = immaterialize_struct imm_of fs vs"
proof (cases fs)
  case (Named nfs)
  let ?ns = "map field_name nfs"
  have ok: "no_capture ?ns" "no_clash ?ns" and l: "length vs = length nfs"
    using assms by (simp_all add: Named variant_ok_def fields_ok_def field_types_def)
  have free: "str_lit ''buffer'' \<notin> set ?ns" "str_lit ''ctx'' \<notin> set ?ns"
    using no_clash_free[OF ok(2)] by blast+
  have "map_of (zip ?ns (map LVal vs)) (field_name (nfs ! i)) = Some (LVal (vs ! i))" if "i < length nfs" for i
    using map_of_zip_nth[of ?ns "map LVal vs" i] no_capture_distinct[OF ok(1)] l that by simp
  then have "list_all2 (\<lambda>f v. map_of ((str_lit ''buffer'', LBuffer) # zip ?ns (map LVal vs)) (field_name f) = Some (LVal v)) nfs vs"
    using free(1) l by (auto simp: list_all2_conv_all_nth) (metis imageI nth_mem)
  from serialize_named_eq[OF this ok(2)] show ?thesis
    using free(2) by (simp add: Named immaterialize_variant_def immaterialize_struct_def Let_def)
qed (simp_all add: immaterialize_variant_def immaterialize_struct_def)

text \<open>A buffer that is exactly the fields is taken apart into their values.\<close>

lemma named_whole:
  assumes "no_capture (map field_name nfs)"
    and "deserialize_fields P rem_of data 0 (map field_type nfs) t = (Ok (ws, length data), t')"
  shows "\<exists>env. deserialize_named P rem_of data 0 [] nfs t = (Ok (env, length data), t') \<and>
    reconstruct of_usize env nfs = Some ws"
proof -
  from deserialize_named_eq[OF assms(2), of "[]"] obtain bs where
    bs: "length bs = length nfs" "length ws = length nfs"
    and d: "deserialize_named P rem_of data 0 [] nfs t = (Ok (bindings nfs bs ws [], length data), t')"
    by blast
  have "reconstruct of_usize (bindings nfs bs ws []) nfs = Some ws"
    by (rule reconstruct_bindings[OF assms(1) bs])
  with d show ?thesis by blast
qed

lemma rematerialize_struct_run:
  assumes "fields_ok fs" and "fs \<noteq> UnitFields"
    and run: "deserialize_fields P rem_of data 0 (field_types fs) t = (Ok (ws, length data), t')"
  shows "rematerialize_struct P of_usize rem_of fs data t = (Ok ws, t')"
    and "rematerialize_variant P of_usize rem_of fs data t = (Ok ws, t')"
proof -
  have "rematerialize_struct P of_usize rem_of fs data t = (Ok ws, t') \<and>
    rematerialize_variant P of_usize rem_of fs data t = (Ok ws, t')"
  proof (cases fs)
    case (Named nfs)
    then have "no_capture (map field_name nfs)" using assms(1) by (simp add: fields_ok_def)
    from named_whole[OF this] run Named obtain env where
      "deserialize_named P rem_of data 0 [] nfs t = (Ok (env, length data), t')"
      "reconstruct of_usize env nfs = Some ws"
      by (fastforce simp: field_types_def)
    then show ?thesis
      by (simp add: Named rematerialize_struct_def rematerialize_variant_def seq_OkD build_def)
  qed (use assms in \<open>simp_all add: rematerialize_struct_def rematerialize_variant_def field_types_def seq_OkD\<close>)
  then show "rematerialize_struct P of_usize rem_of fs data t = (Ok ws, t')"
    and "rematerialize_variant P of_usize rem_of fs data t = (Ok ws, t')" by auto
qed

context derive_table
begin

lemma named_keeps: "keeps tinv tle (deserialize_named P rem_of data n env nfs)"
proof (induction nfs arbitrary: n env)
  case (Cons f fs)
  show ?case
    unfolding deserialize_named.simps
    by (intro keeps_seq keeps_lift keeps_case_prod tle_order Cons transmat.rem_keeps[OF entry])
qed (use tle_order in \<open>auto simp del: ret_apply\<close>)

lemma build_keeps: "keeps tinv tle (build r)"
  using tle_order by (cases r) (auto simp: build_def simp del: ret_apply throw_apply)

lemma struct_rem_keeps: "keeps tinv tle (rematerialize_struct P of_usize rem_of fs data)"
  using tle_order deserialize_keeps named_keeps build_keeps
  by (cases fs) (auto simp: rematerialize_struct_def simp del: ret_apply throw_apply)

lemma variant_rem_keeps: "keeps tinv tle (rematerialize_variant P of_usize rem_of fs data)"
  using tle_order deserialize_keeps named_keeps build_keeps
  by (cases fs) (auto simp: rematerialize_variant_def simp del: ret_apply throw_apply)

lemma struct_imm_keeps: "keeps sinv sle (immaterialize_struct imm_of fs vs)"
  using sle_order serialize_keeps by (auto simp: immaterialize_struct_eq simp del: ret_apply)

lemma struct_delivers:
  assumes ok: "fields_ok fs" and s: "sinv s" and g: "good_fields good (field_types fs) vs"
    and w: "immaterialize_struct imm_of fs vs s = (Ok bs, s')" and f: "fits P bs" and t: "tinv t"
  shows "wp (rematerialize_struct P of_usize rem_of fs bs) (\<lambda>ws t'. rel_fields rel (field_types fs) s' t' vs ws) t"
    and "wp (rematerialize_variant P of_usize rem_of fs bs) (\<lambda>ws t'. rel_fields rel (field_types fs) s' t' vs ws) t"
proof -
  have "wp (rematerialize_struct P of_usize rem_of fs bs) (\<lambda>ws t'. rel_fields rel (field_types fs) s' t' vs ws) t
    \<and> wp (rematerialize_variant P of_usize rem_of fs bs) (\<lambda>ws t'. rel_fields rel (field_types fs) s' t' vs ws) t"
  proof (cases "fs = UnitFields")
    case True
    then show ?thesis
      using g w by (cases vs) (auto simp: immaterialize_struct_def rematerialize_struct_def
          rematerialize_variant_def field_types_def)
  next
    case False
    have "wp (deserialize_fields P rem_of bs 0 (field_types fs))
      (\<lambda>(ws, n') t'. n' = 0 + length bs \<and> rel_fields rel (field_types fs) s' t' vs ws) t"
      using w False by (intro fields_read[OF s g _ f _ _ t, where post = "[]"]) (simp_all add: immaterialize_struct_eq)
    then obtain ws t' where "deserialize_fields P rem_of bs 0 (field_types fs) t = (Ok (ws, length bs), t')"
      and r: "rel_fields rel (field_types fs) s' t' vs ws" by (auto simp: wp_iff)
    from rematerialize_struct_run[OF ok False this(1)] r show ?thesis by (simp add: wp_iff)
  qed
  then show "wp (rematerialize_struct P of_usize rem_of fs bs) (\<lambda>ws t'. rel_fields rel (field_types fs) s' t' vs ws) t"
    and "wp (rematerialize_variant P of_usize rem_of fs bs) (\<lambda>ws t'. rel_fields rel (field_types fs) s' t' vs ws) t"
    by auto
qed

lemma transmat_struct:
  assumes "fields_ok fs"
  shows "transmat P sinv sle tinv tle (immaterialize_struct imm_of fs)
    (rematerialize_struct P of_usize rem_of fs)
    (good_fields good (field_types fs)) (rel_fields rel (field_types fs))"
  by unfold_locales
    (fact struct_imm_keeps struct_rem_keeps struct_delivers(1)[OF assms] rel_fields_mono)+

text \<open>The enum: name and payload, each behind its length.\<close>

lemma serialize_named_keeps: "keeps sinv sle (serialize_named of_bytes imm_of env nfs)"
proof (induction nfs arbitrary: env)
  case (Cons f fs)
  then show ?case
    using sle_order transmat.imm_keeps[OF entry] by (auto simp del: ret_apply throw_apply split: option.split)
qed (use sle_order in \<open>auto simp del: ret_apply\<close>)

lemma variant_imm_keeps: "keeps sinv sle (immaterialize_variant of_bytes imm_of fs vs)"
  using sle_order serialize_keeps serialize_named_keeps
  by (cases fs) (auto simp: immaterialize_variant_def Let_def simp del: ret_apply throw_apply)

lemma enum_imm_keeps: "keeps sinv sle (immaterialize_enum of_bytes imm_of variants v)"
  using sle_order variant_imm_keeps
  by (auto simp: immaterialize_enum_def simp del: ret_apply throw_apply split: option.split)

lemma enum_rem_keeps: "keeps tinv tle (rematerialize_enum P of_usize rem_of nm variants data)"
proof -
  have "keeps tinv tle (case map_of variants v of None \<Rightarrow> throw (UnknownVariant v)
      | Some fs \<Rightarrow> rematerialize_variant P of_usize rem_of fs p)" for v p
    using tle_order variant_rem_keeps by (auto split: option.split simp del: throw_apply)
  then show ?thesis
    using tle_order unfolding rematerialize_enum_def
    by (auto intro!: keeps_seq keeps_lift keeps_case_prod simp del: ret_apply throw_apply lift_apply)
qed

lemma enum_delivers:
  assumes ok: "variants_ok variants" and s: "sinv s" and g: "good_enum good variants v"
    and w: "immaterialize_enum of_bytes imm_of variants v s = (Ok bs, s')" and f: "fits P bs" and t: "tinv t"
  shows "wp (rematerialize_enum P of_usize rem_of nm variants bs) (\<lambda>w t'. rel_enum rel variants s' t' v w) t"
proof -
  obtain name vs fs where v: "v = (name, vs)" and fs: "map_of variants name = Some fs"
    and gv: "good_fields good (field_types fs) vs"
    using g by (cases v) (auto simp: good_enum_def split: option.splits)
  have okv: "utf8_valid name" "fields_ok fs" and vok: "variant_ok fs"
    using ok map_of_SomeD[OF fs] by (auto simp: variants_ok_def variant_ok_def list_all_iff)
  obtain pay where pay: "immaterialize_struct imm_of fs vs s = (Ok pay, s')"
    and bs: "bs = len_u64 name @ name @ len_u64 pay @ pay"
    using w fs by (auto simp: v immaterialize_enum_def immaterialize_variant_eq[OF vok good_fields_length[OF gv]] seq_eq_Ok)
  have "fits P pay" using f by (simp add: bs fits_def)
  from struct_delivers(2)[where of_usize = of_usize, OF okv(2) s gv pay this t] obtain ws t' where
    ws: "rematerialize_variant P of_usize rem_of fs pay t = (Ok ws, t')"
    "rel_fields rel (field_types fs) s' t' vs ws" by (auto simp: wp_iff)
  have h1: "field_slice P bs 0 = Ok (name, 8 + length name)"
    unfolding field_slice_eq_Ok
    using elem_slice_Ok[OF platform_wf f, of 0 name "len_u64 pay @ pay"] by (simp add: bs)
  have "elem_slice P bs (8 + length name) = Ok (pay, 8 + length name + 8 + length pay)"
    by (rule elem_slice_Ok[OF platform_wf f, of _ pay "[]"]) (simp_all add: bs)
  then have h2: "field_slice P bs (8 + length name) = Ok (pay, length bs)"
    unfolding field_slice_eq_Ok by (simp add: bs)
  have "variants \<noteq> []" using fs by auto
  then have "rematerialize_enum P of_usize rem_of nm variants bs t = (Ok (name, ws), t')"
    using h1 h2 fs okv(1) ws(1)
    by (simp add: rematerialize_enum_def from_utf8_def seq_OkD)
  with ws(2) fs show ?thesis by (simp add: wp_iff rel_enum_def v)
qed

lemma transmat_enum:
  assumes "variants_ok variants"
  shows "transmat P sinv sle tinv tle (immaterialize_enum of_bytes imm_of variants)
    (rematerialize_enum P of_usize rem_of nm variants)
    (good_enum good variants) (rel_enum rel variants)"
proof unfold_locales
  show "keeps sinv sle (immaterialize_enum of_bytes imm_of variants v)" for v by (rule enum_imm_keeps)
  show "keeps tinv tle (rematerialize_enum P of_usize rem_of nm variants bs)" for bs by (rule enum_rem_keeps)
  show "wp (rematerialize_enum P of_usize rem_of nm variants bs) (\<lambda>w t'. rel_enum rel variants s' t' v w) t"
    if "sinv s" "good_enum good variants v" "immaterialize_enum of_bytes imm_of variants v s = (Ok bs, s')"
      "fits P bs" "tinv t" for s v bs s' t
    using that by (rule enum_delivers[OF assms])
  show "rel_enum rel variants s' t' v w"
    if "sle s s'" "tle t t'" "rel_enum rel variants s t v w" for s s' t t' v w
    using that rel_fields_mono by (auto simp: rel_enum_def split: option.splits)
qed

end

end
