(* ===== verification/Serial_Props.thy ===== *)
theory Serial_Props
  imports Transmat_Default_Correct Derive_Correct Context_Correct Sample_Codec
begin

text \<open>
  The properties of the serialization: the contract of the trait on the model's own
  implementations, its closure under the containers, the tuples and the derive macro, and
  what decoders do with bytes they did not write.
\<close>

section \<open>The contract on the implementations\<close>

text \<open>Code that keeps no state runs in the world with one state.\<close>

abbreviation always :: "unit \<Rightarrow> bool" where "always \<equiv> \<lambda>_. True"
abbreviation same :: "unit \<Rightarrow> unit \<Rightarrow> bool" where "same \<equiv> \<lambda>_ _. True"

lemma unit_world [intro]: "wf_platform P \<Longrightarrow> transmat_world P (\<lambda>_ _. True) (\<lambda>_ _. True)"
  by unfold_locales (auto simp: world_order_def)

interpretation pure: transmat_world host64 always same always same
  by (rule unit_world) simp

interpretation utf8: transmat host64 always same always same immaterialize_string
    "rematerialize_string host64" utf8_valid rel_eq
  by (rule transmat_string) (rule unit_world, simp)

interpretation byte_vec: transmat host64 always same always same immaterialize_vec_u8
    "rematerialize_vec_u8 host64" "\<lambda>_. True" rel_eq
  by (rule transmat_vec_u8) (rule unit_world, simp)

interpretation actor_ref: transmat host64 node_inv node_le node_inv node_le
    "immaterialize_actor_ref (sample_env 0 :: nat env) (sample_enc enc_rid) 0"
    "rematerialize_actor_ref (sample_dec dec_rid)" "\<lambda>_. True" rel_actor_ref
  by (rule transmat_actor_ref) (simp_all add: sample_rid_law)

interpretation utf8_run: layout host64 always same always same
    "immaterialize_elem immaterialize_string" "rematerialize_elem host64 (rematerialize_string host64)"
    utf8_valid rel_eq
  by (rule utf8.elem.layout_axioms)

section \<open>Round trips\<close>

text \<open>The contract, read off at the world without state.\<close>

lemma pure_roundtrip:
  assumes "transmat P always same always same imm rem good rel_eq"
    and "good v" and "imm v () = (Ok bs, s')" and "fits P bs"
  shows "rem bs () = (Ok v, ())"
  using transmat.delivers[OF assms(1) _ assms(2,3,4)] by (auto simp: wp_iff)

lemma pure_delivers:
  assumes "transmat P always same always same imm rem good rel"
    and "good v" and "imm v () = (Ok bs, ())" and "fits P bs"
  shows "\<exists>w. rem bs () = (Ok w, ()) \<and> rel () () v w"
  using transmat.delivers[OF assms(1) _ assms(2,3,4)] by (auto simp: wp_iff)

lemma utf8_contract: "transmat host64 always same always same immaterialize_string
    (rematerialize_string host64) utf8_valid rel_eq"
  by (rule transmat_string) (rule unit_world, simp)

text \<open>
  C15: Vectors keep the contract. If the element type's implementation meets it, the one for
  \<open>Vec<T>\<close> does, for every vector whose elements are good and whose count the receiver
  can allocate; the received vector has the elements sent, in order.
\<close>

theorem vec_contract:
  assumes "transmat P sinv sle tinv tle imm rem g R"
  shows "transmat P sinv sle tinv tle (immaterialize_vec Q imm) (rematerialize_vec P sz rem)
    (good_vec P sz g) (rel_vec R)"
  by (rule transmat_vec[OF assms])

theorem vec_contract_witness:
  "rematerialize_vec host64 24 (rematerialize_string host64)
     (len_u64 [(), ()] @ len_u64 (len_u64 (str_lit ''ab'') @ str_lit ''ab'') @ len_u64 (str_lit ''ab'') @ str_lit ''ab'' @
      len_u64 (len_u64 ([]::rstring)) @ len_u64 ([]::rstring)) () = (Ok [str_lit ''ab'', []], ())"
proof -
  let ?bs = "len_u64 [(), ()] @ len_u64 (len_u64 (str_lit ''ab'') @ str_lit ''ab'') @ len_u64 (str_lit ''ab'') @ str_lit ''ab'' @
      len_u64 (len_u64 ([]::rstring)) @ len_u64 ([]::rstring)"
  have l: "len_u64 [(), ()] = len_u64 [str_lit ''ab'', []]" by (simp add: len_u64_def)
  have i: "immaterialize_vec host64 immaterialize_string [str_lit ''ab'', []] () = (Ok ?bs, ())"
    unfolding l by (simp add: immaterialize_vec_def immaterialize_string_def with_capacity_def usize_mul_def
        usize_add_def host64_def usize_max_def isize_max_def seq_def)
  have g: "good_vec host64 24 utf8_valid [str_lit ''ab'', []]"
    by (simp add: good_vec_def with_capacity_def host64_def isize_max_def str_lit_def)
  have "fits host64 ?bs" by (rule fits_host64) (simp add: str_lit_def)
  from transmat.delivers[OF vec_contract[OF utf8_contract, of host64 24] _ g i this]
  show ?thesis by (auto simp: wp_iff rel_vec_def list_all2_Cons1)
qed

text \<open>
  The longest tuple keeps the contract. If twelve implementations of the trait meet it,
  the implementation for the tuple of their types does: what one side immaterializes, the
  other rematerializes to a tuple whose components each stand for the one sent, and nothing
  else is accepted on the way.
\<close>

theorem tuple12_contract:
  assumes "transmat P sinv sle tinv tle i0 r0 g0 R0"
    and "transmat P sinv sle tinv tle i1 r1 g1 R1"
    and "transmat P sinv sle tinv tle i2 r2 g2 R2"
    and "transmat P sinv sle tinv tle i3 r3 g3 R3"
    and "transmat P sinv sle tinv tle i4 r4 g4 R4"
    and "transmat P sinv sle tinv tle i5 r5 g5 R5"
    and "transmat P sinv sle tinv tle i6 r6 g6 R6"
    and "transmat P sinv sle tinv tle i7 r7 g7 R7"
    and "transmat P sinv sle tinv tle i8 r8 g8 R8"
    and "transmat P sinv sle tinv tle i9 r9 g9 R9"
    and "transmat P sinv sle tinv tle i10 r10 g10 R10"
    and "transmat P sinv sle tinv tle i11 r11 g11 R11"
  shows "transmat P sinv sle tinv tle
    (immaterialize_tuple12 i0 i1 i2 i3 i4 i5 i6 i7 i8 i9 i10 i11)
    (rematerialize_tuple12 P r0 r1 r2 r3 r4 r5 r6 r7 r8 r9 r10 r11)
    (good_pair g0 (good_pair g1 (good_pair g2 (good_pair g3 (good_pair g4 (good_pair g5 (good_pair g6 (good_pair g7 (good_pair g8 (good_pair g9 (good_pair g10 g11)))))))))))
    (rel_pair R0 (rel_pair R1 (rel_pair R2 (rel_pair R3 (rel_pair R4 (rel_pair R5 (rel_pair R6 (rel_pair R7 (rel_pair R8 (rel_pair R9 (rel_pair R10 R11)))))))))))"
  by (rule transmat_tuple12[OF assms])

theorem tuple12_contract_witness:
  "transmat host64 always same always same
    (immaterialize_tuple12 immaterialize_string immaterialize_string immaterialize_string immaterialize_string immaterialize_string immaterialize_string immaterialize_string immaterialize_string immaterialize_string immaterialize_string immaterialize_string immaterialize_string)
    (rematerialize_tuple12 host64 (rematerialize_string host64) (rematerialize_string host64) (rematerialize_string host64) (rematerialize_string host64) (rematerialize_string host64) (rematerialize_string host64) (rematerialize_string host64) (rematerialize_string host64) (rematerialize_string host64) (rematerialize_string host64) (rematerialize_string host64) (rematerialize_string host64))
    (good_pair utf8_valid (good_pair utf8_valid (good_pair utf8_valid (good_pair utf8_valid (good_pair utf8_valid (good_pair utf8_valid (good_pair utf8_valid (good_pair utf8_valid (good_pair utf8_valid (good_pair utf8_valid (good_pair utf8_valid utf8_valid)))))))))))
    (rel_pair rel_eq (rel_pair rel_eq (rel_pair rel_eq (rel_pair rel_eq (rel_pair rel_eq (rel_pair rel_eq (rel_pair rel_eq (rel_pair rel_eq (rel_pair rel_eq (rel_pair rel_eq (rel_pair rel_eq rel_eq)))))))))))"
  by (rule tuple12_contract) (rule utf8.transmat_axioms)+

text \<open>
  \<open>Option\<close> and \<open>Result\<close> keep the contract, whatever the case: the received value
  has the same constructor, around a value that stands for the one sent.
\<close>

theorem option_result_contract:
  assumes "transmat P sinv sle tinv tle imm rem g R" and "transmat P sinv sle tinv tle imm' rem' g' R'"
  shows "transmat P sinv sle tinv tle (immaterialize_option imm) (rematerialize_option P rem)
      (pred_option g) (rel_option R) \<and>
    transmat P sinv sle tinv tle (immaterialize_result imm imm') (rematerialize_result P rem rem')
      (good_result g g') (rel_result R R')"
  using transmat_option[OF assms(1)] transmat_result[OF assms] by blast

theorem option_result_contract_witness:
  "rematerialize_option host64 (rematerialize_string host64)
     ([1] @ len_u64 (len_u64 (str_lit ''hi'') @ str_lit ''hi'') @ len_u64 (str_lit ''hi'') @ str_lit ''hi'') () =
     (Ok (Some (str_lit ''hi'')), ())"
proof -
  let ?bs = "[1] @ len_u64 (len_u64 (str_lit ''hi'') @ str_lit ''hi'') @ len_u64 (str_lit ''hi'') @ str_lit ''hi''"
  note T = option_result_contract[OF utf8_contract utf8_contract, THEN conjunct1]
  have i: "immaterialize_option immaterialize_string (Some (str_lit ''hi'')) () = (Ok ?bs, ())"
    by (simp add: immaterialize_string_def)
  have "fits host64 ?bs" by (rule fits_host64) (simp add: str_lit_def)
  from transmat.delivers[OF T _ _ i this] show ?thesis
    by (auto simp: wp_iff rel_option_def str_lit_def option.rel_sel)
qed

text \<open>
  C16: Plain data comes back as it was: strings, byte vectors, fixed-width integers and
  floats (by their bits), booleans and unit, on every platform and in every world.
\<close>

theorem plain_roundtrips:
  fixes w :: "'n::len word"
  assumes "wf_platform P" and "utf8_valid str" and "fits P (len_u64 str @ str)"
    and "fits P (len_u64 v @ v)" and "8 dvd LENGTH('n)"
  shows "(\<exists>bs. immaterialize_string str s = (Ok bs, s) \<and> rematerialize_string P bs t = (Ok str, t)) \<and>
    (\<exists>bs. immaterialize_vec_u8 v s = (Ok bs, s) \<and> rematerialize_vec_u8 P bs t = (Ok v, t)) \<and>
    (\<exists>bs. immaterialize_le_bytes w s = (Ok bs, s) \<and> length bs = LENGTH('n) div 8 \<and>
       rematerialize_le_bytes bs t = (Ok w, t)) \<and>
    (\<exists>bs. immaterialize_bool b s = (Ok bs, s) \<and> rematerialize_bool bs t = (Ok b, t)) \<and>
    (\<exists>bs. immaterialize_unit u s = (Ok bs, s) \<and> rematerialize_unit bs t = (Ok u, t))"
  using assms len_prefixed[OF assms(1,3)] len_prefixed[OF assms(1,4)]
  by (auto simp: immaterialize_string_def rematerialize_string_def from_utf8_def
      immaterialize_vec_u8_def rematerialize_vec_u8_def immaterialize_le_bytes_def
      rematerialize_le_bytes_def immaterialize_bool_def rematerialize_bool_def immaterialize_unit_def
      rematerialize_unit_def subslice_def from_to_le_bytes)

theorem plain_roundtrips_witness:
  "\<exists>bs. immaterialize_le_bytes (300 :: 16 word) () = (Ok bs, ()) \<and> length bs = 2 \<and>
     rematerialize_le_bytes bs () = (Ok (300 :: 16 word), ())"
proof -
  have f: "fits host64 (len_u64 xs @ xs)" if "length xs < 100" for xs :: bytes
    by (rule fits_host64) (use that in simp)
  have "utf8_valid (str_lit ''x'')" by (simp add: str_lit_def)
  from plain_roundtrips[OF wf_host64 this f f, where v = "[1, 2]" and w = "300 :: 16 word" and s = "()" and t = "()"]
  show ?thesis by (simp add: str_lit_def)
qed

section \<open>Between platforms\<close>

text \<open>
  C37: Sizes travel between platforms without silent truncation. A \<open>usize\<close> that any
  platform immaterialized is rematerialized to itself where it fits the receiver's
  \<open>usize\<close>, and is refused with the value in the error where it does not.
\<close>

theorem usize_between_platforms:
  assumes "wf_platform P" and "v \<le> usize_max P"
  shows "\<exists>bs. immaterialize_usize v s = (Ok bs, s) \<and>
    rematerialize_usize Q bs t = (if v \<le> usize_max Q then Ok v else Err (ExceedsPlatformUsize v), t)"
proof -
  have "v < 2 ^ 64" using assms usize_max_bound by (meson le_less_trans)
  then have "unat (of_nat v :: 64 word) = v" by (simp add: unat_of_nat)
  then show ?thesis
    by (simp add: immaterialize_usize_def rematerialize_usize_def subslice_def from_to_le_bytes u64_to_usize_def)
qed

theorem usize_between_platforms_witness:
  "\<exists>bs. immaterialize_usize (2 ^ 40) () = (Ok bs, ()) \<and>
    rematerialize_usize host32 bs () = (Err (ExceedsPlatformUsize (2 ^ 40)), ())"
  using usize_between_platforms[OF wf_host64, of "2 ^ 40" "()" host32 "()"]
  by (simp add: host64_def host32_def usize_max_def)

text \<open>
  The two ways to read a length differ. Where the platform's \<open>usize\<close> has 32 bits,
  \<open>Option\<close> and \<open>Result\<close> cast the announced length: one that is too large by
  \<open>2 ^ 32\<close> is taken for the true one, and the value is accepted. The code for vectors,
  tuples and strings refuses the same length.
\<close>

theorem option_length_truncated:
  assumes "usize_bits P = 32" and "length b + 9 \<le> usize_max P"
  shows "rematerialize_option P rem ([1] @ le_bytes 8 (2 ^ 32 + length b) @ b) t =
      seq (rem b) (\<lambda>v. ret (Some v)) t \<and>
    elem_slice P (le_bytes 8 (2 ^ 32 + length b) @ b) 0 = Err (ExceedsPlatformUsize (2 ^ 32 + length b))"
proof -
  have small: "length b + 9 < 2 ^ 32" using assms by (simp add: usize_max_def)
  then have v: "le_value (le_bytes 8 (2 ^ 32 + length b)) = 2 ^ 32 + length b"
    by (intro le_value_le_bytes) simp
  then have u: "unat (from_le_bytes (le_bytes 8 (2 ^ 32 + length b)) :: 64 word) = 2 ^ 32 + length b"
    by (simp add: unat_from_le_bytes_u64)
  have "as_usize P (2 ^ 32 + length b) = length b" using assms small by (simp add: as_usize_def)
  then have "inner_slice P ([1] @ le_bytes 8 (2 ^ 32 + length b) @ b) = Ok b"
    using assms(2) u by (simp add: inner_slice_def subslice_def Let_def)
  moreover have "usize_max P < 2 ^ 32 + length b" "8 \<le> usize_max P" using assms by (simp_all add: usize_max_def)
  ultimately show ?thesis
    using v by (simp add: rematerialize_option_def elem_slice_def subslice_def usize_from_u64_le_bytes_eq Let_def)
qed

theorem option_length_truncated_witness:
  "rematerialize_option host32 (rematerialize_le_bytes :: (unit, 8 word) remat)
     ([1] @ le_bytes 8 (2 ^ 32 + length [7 :: 8 word]) @ [7]) () = (Ok (Some 7), ())"
  using option_length_truncated[of host32 "[7]" "rematerialize_le_bytes :: (unit, 8 word) remat" "()"]
  by (simp add: host32_def usize_max_def rematerialize_le_bytes_def subslice_def from_le_bytes_def seq_def)

section \<open>Bytes from a stranger\<close>

text \<open>
  Which lengths make a decoder panic. Reading one length-prefixed element panics exactly
  when eight length bytes are there, announce a length that \<open>usize\<close> can hold, and that
  length overflows when added to the offset: with overflow checks at the addition, without
  them at the slice. On such bytes the vector, tuple and derived decoders panic as well,
  whatever their elements.
\<close>

theorem hostile_length_panics:
  assumes "wf_platform P" and "fits P data"
  shows "((\<exists>p. elem_slice P data 0 = Panic p) \<longleftrightarrow> hostile_length P data 0) \<and>
    (hostile_length P data 0 \<longrightarrow>
       (\<exists>p. rematerialize_tuple1 P rem data t = (Panic p, t)) \<and>
       (\<exists>p. rematerialize_struct P of_usize (\<lambda>_. rem) (TupleFields [ty]) data t = (Panic p, t)))"
proof -
  have iff: "(\<exists>p. elem_slice P data 0 = Panic p) \<longleftrightarrow> hostile_length P data 0"
    by (rule elem_slice_Panic_iff[OF assms]) simp
  moreover have "(\<exists>p. rematerialize_tuple1 P rem data t = (Panic p, t)) \<and>
       (\<exists>p. rematerialize_struct P of_usize (\<lambda>_. rem) (TupleFields [ty]) data t = (Panic p, t))"
    if "hostile_length P data 0"
  proof -
    from iff that obtain p where p: "elem_slice P data 0 = Panic p" by blast
    then obtain q where q: "field_slice P data 0 = Panic q" using field_slice_eq_Panic[of P data 0] by blast
    show ?thesis
      using p q by (simp add: rematerialize_tuple1_def read_all_def rematerialize_elem_def rematerialize_struct_def seq_def)
  qed
  ultimately show ?thesis by blast
qed

theorem hostile_length_panics_witness:
  "\<exists>p. rematerialize_tuple1 host64 (rematerialize_string host64) (replicate 8 255) () = (Panic p, ())"
proof -
  have f: "fits host64 (replicate 8 (255 :: 8 word))" by (rule fits_host64) simp
  have "replicate 8 (255 :: 8 word) = [255, 255, 255, 255, 255, 255, 255, 255]"
    by (simp add: numeral_eq_Suc)
  then have "hostile_length host64 (replicate 8 255) 0"
    by (simp add: hostile_length_def host64_def usize_max_def)
  from hostile_length_panics[OF wf_host64 f, of "rematerialize_string host64" "()", THEN conjunct2,
      THEN mp, OF this] show ?thesis by (rule conjunct1)
qed

lemma subslice_agree:
  "length xs = 8 \<Longrightarrow> length ys = 8 \<Longrightarrow> 8 \<le> a \<Longrightarrow> subslice (xs @ body) a b = subslice (ys @ body) a b"
  by (simp add: subslice_def)

lemma elem_slice_agree:
  assumes "length xs = 8" and "length ys = 8" and "8 \<le> n"
  shows "elem_slice P (xs @ body) n = elem_slice P (ys @ body) n"
proof -
  have size: "require_min_buffer_size (xs @ body) k = require_min_buffer_size (ys @ body) k" for k
    using assms by (simp add: require_min_buffer_size_def)
  have sub: "8 \<le> a \<Longrightarrow> subslice (xs @ body) a b = subslice (ys @ body) a b" for a b
    by (rule subslice_agree[OF assms(1,2)])
  show ?thesis
  proof (cases "usize_add P n 8")
    case (Ok h)
    show ?thesis
    proof (cases "8 \<le> h")
      case False
      then have "subslice zs n h = Panic SliceOutOfRange" for zs :: bytes
        using assms(3) by (simp add: subslice_def)
      with Ok size show ?thesis by (simp add: elem_slice_def)
    qed (use Ok size sub assms(3) in \<open>simp add: elem_slice_def\<close>)
  qed (simp_all add: elem_slice_def)
qed

lemma vec_loop_agree:
  "data = xs @ body \<Longrightarrow> length xs = 8 \<Longrightarrow> length ys = 8 \<Longrightarrow> 8 \<le> n \<Longrightarrow>
   rematerialize_vec_loop P rem data n buffer t = rematerialize_vec_loop P rem (ys @ body) n buffer t"
proof (induction P rem data n buffer arbitrary: t rule: rematerialize_vec_loop.induct)
  case (1 P rem data n buffer)
  note el = elem_slice_agree[OF 1(3,4,5), of P body]
  show ?case
  proof (cases "n < length data")
    case False
    then show ?thesis using 1 by (simp add: rematerialize_vec_loop_done)
  next
    case True
    have e: "rematerialize_elem P rem data n = rematerialize_elem P rem (ys @ body) n"
      using el 1(2) by (simp add: rematerialize_elem_def)
    have n: "n < length (ys @ body)" using True 1 by simp
    obtain r t' where run: "rematerialize_elem P rem data n t = (r, t')" by fastforce
    show ?thesis
    proof (cases r)
      case (Ok x)
      obtain v m where x: "x = (v, m)" by fastforce
      then obtain b where b: "elem_slice P data n = Ok (b, m)"
        using run Ok by (auto simp: rematerialize_elem_def seq_eq_Ok split: prod.splits)
      then have "8 \<le> m" using elem_slice_OkD[OF b] 1(5) by simp
      then have "rematerialize_vec_loop P rem data m (buffer @ [v]) t' =
          rematerialize_vec_loop P rem (ys @ body) m (buffer @ [v]) t'"
        using 1(1)[OF True b refl 1(2,3,4)] by blast
      then show ?thesis
        using run Ok x e by (simp add: rematerialize_vec_loop_step[OF True] rematerialize_vec_loop_step[OF n] seq_def)
    qed (use run e in \<open>simp_all add: rematerialize_vec_loop_step[OF True] rematerialize_vec_loop_step[OF n] seq_def\<close>)
  qed
qed

text \<open>
  The count of a vector is only believed. Two buffers that differ in nothing but the
  announced count give the same result, as long as the receiver can allocate both counts;
  a count it cannot allocate panics or aborts, and eight bytes are enough to announce it.
\<close>

theorem vec_count_unchecked:
  assumes "count \<le> usize_max P" and "count' \<le> usize_max P" and "usize_max P < 2 ^ 64"
  shows "(with_capacity P sz count = Ok () \<and> with_capacity P sz count' = Ok () \<longrightarrow>
      rematerialize_vec P sz rem (le_bytes 8 count @ body) t = rematerialize_vec P sz rem (le_bytes 8 count' @ body) t) \<and>
    (isize_max P < count * sz \<longrightarrow> rematerialize_vec P sz rem (le_bytes 8 count @ body) t = (Panic CapacityOverflow, t))"
proof -
  have cnt: "usize_from_u64_le_bytes P (le_bytes 8 c) = Ok c" if "c \<le> usize_max P" for c
  proof -
    have "le_value (le_bytes 8 c) = c" by (rule le_value_le_bytes) (use that assms(3) in simp)
    then show ?thesis using that by (simp add: usize_from_u64_le_bytes_eq)
  qed
  have loop: "rematerialize_vec_loop P rem (le_bytes 8 count @ body) 8 [] t =
      rematerialize_vec_loop P rem (le_bytes 8 count' @ body) 8 [] t"
    by (rule vec_loop_agree[OF refl length_le_bytes length_le_bytes order_refl])
  have hdr: "subslice (le_bytes 8 c @ body) 0 8 = Ok (le_bytes 8 c)" for c by (simp add: subslice_def)
  have size: "require_buffer_size (le_bytes 8 count @ body) n = require_buffer_size (le_bytes 8 count' @ body) n" for n
    by (simp add: require_buffer_size_def)
  show ?thesis
    using cnt[OF assms(1)] cnt[OF assms(2)] hdr loop size
    by (simp add: rematerialize_vec_def seq_def with_capacity_def)
qed

theorem vec_count_unchecked_witness:
  "rematerialize_vec host64 1 rematerialize_bool (le_bytes 8 0 @ len_u64 [1 :: 8 word] @ [1]) () =
   rematerialize_vec host64 1 rematerialize_bool (le_bytes 8 500 @ len_u64 [1 :: 8 word] @ [1]) () \<and>
   rematerialize_vec host64 1 rematerialize_bool (le_bytes 8 (2 ^ 63)) () = (Panic CapacityOverflow, ())"
proof -
  have "usize_max host64 < 2 ^ 64" "(500 :: nat) \<le> usize_max host64" "(2 :: nat) ^ 63 \<le> usize_max host64"
    "isize_max host64 < 2 ^ 63 * 1" "with_capacity host64 1 0 = Ok ()" "with_capacity host64 1 500 = Ok ()"
    by (simp_all add: host64_def usize_max_def isize_max_def with_capacity_def)
  then show ?thesis
    using vec_count_unchecked[of 0 host64 500 1 rematerialize_bool "len_u64 [1 :: 8 word] @ [1]" "()"]
      vec_count_unchecked[of "2 ^ 63" host64 0 1 rematerialize_bool "[]" "()"]
    by (simp del: le_bytes.simps)
qed

lemma subslice_extend: "subslice xs a b = Ok r \<Longrightarrow> subslice (xs @ ys) a b = Ok r"
  by (auto simp: subslice_def split: if_splits)

lemma elem_slice_extend:
  assumes "elem_slice P data n = Ok x"
  shows "elem_slice P (data @ extra) n = Ok x"
proof -
  obtain h hdr len m e where
    "usize_add P n 8 = Ok h" "h \<le> length data" "subslice data n h = Ok hdr"
    "usize_from_u64_le_bytes P hdr = Ok len" "usize_add P h len = Ok m" "m \<le> length data"
    "subslice data h m = Ok e" "x = (e, m)"
    using assms by (auto simp: elem_slice_def and_then_eq_Ok)
  then show ?thesis by (simp add: elem_slice_def subslice_extend)
qed

lemma rematerialize_elem_extend:
  assumes "rematerialize_elem P rem data n t = (Ok x, t')"
  shows "rematerialize_elem P rem (data @ extra) n t = (Ok x, t')"
proof -
  obtain e m where e: "elem_slice P data n = Ok (e, m)"
    using assms by (auto simp: rematerialize_elem_def seq_eq_Ok split: prod.splits)
  with assms show ?thesis using elem_slice_extend[OF e] by (simp add: rematerialize_elem_def)
qed

text \<open>
  Nothing may follow. Bytes that a pair decoder accepts are refused once anything is
  appended to them, with both lengths in the error; the parts themselves were still read.
\<close>

theorem trailing_bytes_refused:
  assumes "rematerialize_tuple2 P r1 r2 data t = (Ok v, t')" and "extra \<noteq> []"
  shows "rematerialize_tuple2 P r1 r2 (data @ extra) t =
    (Err (BufferSizeMismatch (length data) (length data + length extra)), t')"
proof -
  let ?r = "read_then (rematerialize_elem P r1) (rematerialize_elem P r2)"
  have "?r data 0 t = (Ok (v, length data), t')"
    using assms(1) by (intro read_all_OkD) (simp add: rematerialize_tuple2_def)
  then obtain a m t1 b where "rematerialize_elem P r1 data 0 t = (Ok (a, m), t1)"
    "rematerialize_elem P r2 data m t1 = (Ok (b, length data), t')" "v = (a, b)"
    by (auto simp: read_then_def seq_eq_Ok split: prod.splits)
  then have "?r (data @ extra) 0 t = (Ok (v, length data), t')"
    by (simp add: read_then_def seq_OkD rematerialize_elem_extend)
  with assms(2) show ?thesis
    by (simp add: rematerialize_tuple2_def read_all_leftover[of ?r _ _ v "length data" t'])
qed

theorem trailing_bytes_refused_witness:
  "rematerialize_tuple2 host64 rematerialize_bool rematerialize_unit
     ((len_u64 [1 :: 8 word] @ [1] @ len_u64 ([] :: 8 word list)) @ [9]) () = (Err (BufferSizeMismatch 17 18), ())"
proof -
  have i: "immaterialize_tuple2 immaterialize_bool immaterialize_unit (True, ()) () =
      (Ok (len_u64 [1 :: 8 word] @ [1] @ len_u64 ([] :: 8 word list)), ())"
    by (simp add: immaterialize_tuple2_def write_then_def immaterialize_elem_def immaterialize_bool_def
        immaterialize_unit_def)
  have W: "transmat_world host64 same same" by (rule unit_world) simp
  have "fits host64 (len_u64 [1 :: 8 word] @ [1] @ len_u64 ([] :: 8 word list))"
    by (rule fits_host64) simp
  note T = transmat_tuple2[OF transmat_bool[OF W, of always always] transmat_unit[OF W, of always always]]
  from transmat.delivers[OF T _ _ i \<open>fits host64 _\<close>, of "()"]
  have "rematerialize_tuple2 host64 rematerialize_bool rematerialize_unit
      (len_u64 [1 :: 8 word] @ [1] @ len_u64 ([] :: 8 word list)) () = (Ok (True, ()), ())"
    by (auto simp: wp_iff)
  from trailing_bytes_refused[OF this, of "[9]"] show ?thesis by simp
qed

text \<open>
  Two ways to handle what follows a bincode value. The library's own messages refuse
  trailing bytes with an error; the \<open>bincode\<close> proxy of derived code panics on the same
  bytes.
\<close>

theorem bincode_proxy_panics:
  assumes "bincode_law enc dec" and "enc m = Ok bs" and "extra \<noteq> []"
  shows "bincode_rematerialize dec bs = Ok m \<and> bincode_rematerialize dec (bs @ extra) = Panic AssertFailed \<and>
    simple_rematerialize dec (bs @ extra) = Err (BufferSizeMismatch (length bs) (length bs + length extra))"
proof -
  have d: "dec (bs @ rest) = Ok (m, length bs)" for rest using assms(1,2) by (simp add: bincode_law_def)
  show ?thesis
    using d[of "[]"] d[of extra] assms(3)
    by (simp add: bincode_rematerialize_def simple_rematerialize_def require_buffer_size_def)
qed

theorem bincode_proxy_panics_witness:
  "bincode_rematerialize (sample_dec dec_bytes) ([1, 5, 0] @ [9]) = Panic AssertFailed"
proof -
  have law: "bincode_law (sample_enc enc_bytes) (sample_dec dec_bytes)"
    by (rule sample_law) (rule parses_bytes)
  from bincode_proxy_panics[OF law, of "[5]" "[1, 5, 0]" "[9]"] show ?thesis by (simp add: sample_enc_def)
qed

section \<open>Derived implementations\<close>

text \<open>The message type of \<open>rpc_proxy.rs\<close>, \<open>struct RpcProxyMsg<T> { data: T }\<close>, at \<open>T = String\<close>.\<close>

definition rpc_proxy_msg :: "unit fields" where
  "rpc_proxy_msg = Named [\<lparr>field_name = str_lit ''data'', field_type = (), field_attrs = []\<rparr>]"

interpretation rpc_msg: derive_table host64 always same always same
    "\<lambda>_ :: unit. immaterialize_string" "\<lambda>_. rematerialize_string host64" "\<lambda>_. utf8_valid" "\<lambda>_. rel_eq"
  by unfold_locales

lemma rpc_msg_table: "derive_table host64 always same always same (\<lambda>_ :: unit. immaterialize_string)
    (\<lambda>_. rematerialize_string host64) (\<lambda>_. utf8_valid) (\<lambda>_. rel_eq)"
  by (rule rpc_msg.derive_table_axioms)

text \<open>
  C12: The derive macro keeps the contract on structs. If every field type's implementation
  meets the contract, so does the emitted one, for named, tuple and unit structs, provided no
  field is named \<open>len_x\<close> or \<open>bytes_x\<close> before a field \<open>x\<close>: every field of the received
  value stands for the field of the value sent.
\<close>

theorem derived_struct_contract:
  assumes "\<And>ty. transmat P sinv sle tinv tle (imm_of ty) (rem_of ty) (good ty) (rel ty)" and "fields_ok fs"
  shows "transmat P sinv sle tinv tle (immaterialize_struct imm_of fs) (rematerialize_struct P of_usize rem_of fs)
    (good_fields good (field_types fs)) (rel_fields rel (field_types fs))"
proof -
  have "derive_table P sinv sle tinv tle imm_of rem_of good rel"
    using assms(1) by (simp add: derive_table_def derive_table_axioms_def transmat.axioms(1)[OF assms(1)])
  from derive_table.transmat_struct[OF this assms(2)] show ?thesis .
qed

theorem derived_struct_contract_witness:
  "rematerialize_struct host64 (\<lambda>_ _. None) (\<lambda>_. rematerialize_string host64) rpc_proxy_msg
     (len_u64 (len_u64 (str_lit ''ok'') @ str_lit ''ok'') @ len_u64 (str_lit ''ok'') @ str_lit ''ok'') () =
   (Ok [str_lit ''ok''], ())"
proof -
  let ?bs = "len_u64 (len_u64 (str_lit ''ok'') @ str_lit ''ok'') @ len_u64 (str_lit ''ok'') @ str_lit ''ok''"
  have ok: "fields_ok rpc_proxy_msg" by (simp add: rpc_proxy_msg_def fields_ok_def)
  have i: "immaterialize_struct (\<lambda>_. immaterialize_string) rpc_proxy_msg [str_lit ''ok''] () = (Ok ?bs, ())"
    by (simp add: immaterialize_struct_def rpc_proxy_msg_def immaterialize_string_def)
  have "fits host64 ?bs" by (rule fits_host64) (simp add: str_lit_def)
  from transmat.delivers[OF derived_struct_contract[OF utf8_contract ok] _ _ i this]
  obtain ws where "rematerialize_struct host64 (\<lambda>_ _. None) (\<lambda>_. rematerialize_string host64) rpc_proxy_msg ?bs () = (Ok ws, ())"
    and r: "rel_fields (\<lambda>_. rel_eq) (field_types rpc_proxy_msg) () () [str_lit ''ok''] ws"
    by (auto simp: wp_iff rpc_proxy_msg_def field_types_def str_lit_def)
  moreover have "ws = [str_lit ''ok'']"
    using r by (cases ws rule: list.exhaust[case_product list.exhaust]) (auto simp: rpc_proxy_msg_def field_types_def elim: rel_fields.elims)
  ultimately show ?thesis by simp
qed


text \<open>\<open>enum Cmd { Stop, Say(String) }\<close>\<close>

definition sample_enum :: "(rstring \<times> unit fields) list" where
  "sample_enum = [(str_lit ''Stop'', UnitFields), (str_lit ''Say'', TupleFields [()])]"


text \<open>
  What derived enum decoders refuse. An enum without variants accepts nothing; a name
  that is no variant's, behind a well-formed header, is an error that carries the name,
  whatever the payload; and a unit variant must have no payload.
\<close>

theorem derived_enum_refuses:
  assumes "wf_platform P" and "variants \<noteq> []" and "utf8_valid name"
    and "fits P (len_u64 name @ name @ len_u64 payload @ payload)"
  shows "rematerialize_enum P of_usize rem_of enum_name [] data t = (Err (UninhabitedEnum enum_name), t) \<and>
    (map_of variants name = None \<longrightarrow>
      rematerialize_enum P of_usize rem_of enum_name variants (len_u64 name @ name @ len_u64 payload @ payload) t =
        (Err (UnknownVariant name), t)) \<and>
    (map_of variants name = Some UnitFields \<and> payload \<noteq> [] \<longrightarrow>
      rematerialize_enum P of_usize rem_of enum_name variants (len_u64 name @ name @ len_u64 payload @ payload) t =
        (Err (UnitVariantNotEmpty (length payload)), t))"
proof -
  let ?bs = "len_u64 name @ name @ len_u64 payload @ payload"
  have h1: "field_slice P ?bs 0 = Ok (name, 8 + length name)"
    unfolding field_slice_eq_Ok using elem_slice_Ok[OF assms(1,4), of 0 name "len_u64 payload @ payload"] by simp
  have "elem_slice P ?bs (8 + length name) = Ok (payload, 8 + length name + 8 + length payload)"
    by (rule elem_slice_Ok[OF assms(1,4), of _ payload "[]"]) simp_all
  then have h2: "field_slice P ?bs (8 + length name) = Ok (payload, 8 + length name + 8 + length payload)"
    unfolding field_slice_eq_Ok .
  show ?thesis
    using h1 h2 assms(2,3) by (simp add: rematerialize_enum_def from_utf8_def rematerialize_variant_def seq_def)
qed

theorem derived_enum_refuses_witness:
  "rematerialize_enum host64 (\<lambda>_ _. None) (\<lambda>_. rematerialize_string host64) (str_lit ''Cmd'') sample_enum
     (len_u64 (str_lit ''Go'') @ str_lit ''Go'' @ len_u64 ([] :: 8 word list) @ []) () = (Err (UnknownVariant (str_lit ''Go'')), ())"
proof -
  have "fits host64 (len_u64 (str_lit ''Go'') @ str_lit ''Go'' @ len_u64 ([] :: 8 word list) @ [])"
    by (rule fits_host64) (simp add: str_lit_def)
  moreover have "utf8_valid (str_lit ''Go'')" "sample_enum \<noteq> []" "map_of sample_enum (str_lit ''Go'') = None"
    by (simp_all add: str_lit_def sample_enum_def)
  ultimately show ?thesis
    using derived_enum_refuses[OF wf_host64, of sample_enum "str_lit ''Go''" "[]"
        "\<lambda>_ _. None" "\<lambda>_. rematerialize_string host64" "str_lit ''Cmd''" "[]" "()"] by blast
qed

text \<open>
  A captured variable. In a struct with a \<open>usize\<close> field \<open>len_x\<close> before a field
  \<open>x\<close>, the emitted code binds the length of \<open>x\<close>'s bytes to the very variable that
  holds the value of \<open>len_x\<close>: whatever was sent for \<open>len_x\<close>, what is received is the
  length of the bytes of \<open>x\<close>.
\<close>

theorem derived_field_captured:
  assumes "wf_platform P" and "fits P (len_u64 b1 @ b1 @ len_u64 b2 @ b2)"
    and "rem_of Usize b1 t = (Ok w1, t1)" and "rem_of ty b2 t1 = (Ok w2, t2)"
    and "of_usize Usize (length b2) = Some w"
  shows "rematerialize_struct P of_usize rem_of
      (Named [\<lparr>field_name = str_lit ''len_'' @ x, field_type = Usize, field_attrs = []\<rparr>,
              \<lparr>field_name = x, field_type = ty, field_attrs = []\<rparr>])
      (len_u64 b1 @ b1 @ len_u64 b2 @ b2) t = (Ok [w, w2], t2)"
proof -
  let ?bs = "len_u64 b1 @ b1 @ len_u64 b2 @ b2"
  have h1: "field_slice P ?bs 0 = Ok (b1, 8 + length b1)"
    unfolding field_slice_eq_Ok using elem_slice_Ok[OF assms(1,2), of 0 b1 "len_u64 b2 @ b2"] by simp
  have "elem_slice P ?bs (8 + length b1) = Ok (b2, 8 + length b1 + 8 + length b2)"
    by (rule elem_slice_Ok[OF assms(1,2), of _ b2 "[]"]) simp_all
  then have h2: "field_slice P ?bs (8 + length b1) = Ok (b2, length ?bs)"
    unfolding field_slice_eq_Ok by simp
  have "ident_field (str_lit ''len_'' @ x) = ident_len x" "ident_len x \<noteq> ident_field x" "ident_len x \<noteq> ident_bytes x"
    "str_lit ''len_'' \<noteq> []" "str_lit ''len_'' \<noteq> str_lit ''bytes_''"
    by (simp_all add: ident_field_def ident_len_def ident_bytes_def str_lit_def)
  then show ?thesis
    using h1 h2 assms(3,4,5) by (simp add: rematerialize_struct_def seq_def build_def)
qed

text \<open>\<open>struct Blob { len_data: usize, data: Vec<u8> }\<close>, sent with \<open>len_data = 7\<close>.\<close>

datatype blob_type = UsizeTy | BytesTy
datatype blob_value = UsizeVal nat | BytesVal bytes

definition blob_rem :: "blob_type \<Rightarrow> (unit, blob_value) remat" where
  "blob_rem ty bs = (case ty of
     UsizeTy \<Rightarrow> seq (rematerialize_usize host64 bs) (\<lambda>n. ret (UsizeVal n))
   | BytesTy \<Rightarrow> seq (rematerialize_vec_u8 host64 bs) (\<lambda>v. ret (BytesVal v)))"

definition blob_of_usize :: "blob_type \<Rightarrow> nat \<Rightarrow> blob_value option" where
  "blob_of_usize ty n = (case ty of UsizeTy \<Rightarrow> Some (UsizeVal n) | BytesTy \<Rightarrow> None)"

theorem derived_field_captured_witness:
  "rematerialize_struct host64 blob_of_usize blob_rem
      (Named [\<lparr>field_name = str_lit ''len_'' @ str_lit ''data'', field_type = UsizeTy, field_attrs = []\<rparr>,
              \<lparr>field_name = str_lit ''data'', field_type = BytesTy, field_attrs = []\<rparr>])
      (len_u64 (to_le_bytes (7 :: 64 word)) @ to_le_bytes (7 :: 64 word) @
       len_u64 (len_u64 [1 :: 8 word, 2] @ [1, 2]) @ len_u64 [1 :: 8 word, 2] @ [1, 2]) () =
    (Ok [UsizeVal 10, BytesVal [1, 2]], ())"
proof (rule derived_field_captured[OF wf_host64, where rem_of = blob_rem])
  show "fits host64 (len_u64 (to_le_bytes (7 :: 64 word)) @ to_le_bytes (7 :: 64 word) @
       len_u64 (len_u64 [1 :: 8 word, 2] @ [1, 2]) @ len_u64 [1 :: 8 word, 2] @ [1, 2])"
    by (rule fits_host64) simp
  show "blob_rem UsizeTy (to_le_bytes (7 :: 64 word)) () = (Ok (UsizeVal 7), ())"
    by (simp add: blob_rem_def rematerialize_usize_def subslice_def from_to_le_bytes u64_to_usize_def
        host64_def usize_max_def)
  have "fits host64 (len_u64 [1 :: 8 word, 2] @ [1, 2])" by (rule fits_host64) simp
  from len_prefixed[OF wf_host64 this]
  show "blob_rem BytesTy (len_u64 [1 :: 8 word, 2] @ [1, 2]) () = (Ok (BytesVal [1, 2]), ())"
    by (simp add: blob_rem_def rematerialize_vec_u8_def)
qed (simp add: blob_of_usize_def)

text \<open>
  The same on the writing side of an enum: in a struct variant with a field \<open>a\<close> before a
  field \<open>field_bytes_a\<close> of type \<open>Vec<u8>\<close>, the bytes of \<open>a\<close> are bound to the variable
  that holds the second field's value, and are sent in its place, whatever it was.
\<close>

lemma derived_variant_captured:
  assumes "imm_of ty1 v1 s = (Ok b1, s1)" and "of_bytes ty2 b1 = Some v'" and "imm_of ty2 v' s1 = (Ok b2, s2)"
    and "a \<noteq> str_lit ''ctx''" and "a \<noteq> str_lit ''buffer''"
  shows "immaterialize_variant of_bytes imm_of
      (Named [\<lparr>field_name = a, field_type = ty1, field_attrs = []\<rparr>,
              \<lparr>field_name = ident_bytes a, field_type = ty2, field_attrs = []\<rparr>])
      [v1, v2] s = (Ok (len_u64 b1 @ b1 @ len_u64 b2 @ b2), s2)"
proof -
  have "ident_bytes a \<noteq> str_lit ''ctx''" "ident_bytes a \<noteq> str_lit ''buffer''"
    by (simp_all add: ident_bytes_def str_lit_def)
  then show ?thesis
    using assms by (auto simp: immaterialize_variant_def local_value_def seq_def)
qed

end
