(* ===== verification/Framing.thy ===== *)
theory Framing
  imports Conduit
begin

text \<open>
  The byte-stream transports (\<open>conduit/unix_socket/client.rs\<close>, its copy in
  \<open>server.rs\<close>, and \<open>conduit/ssh/client.rs\<close>): a type byte, a 32-bit
  length in network order, and the data. The streams of the operating system are a
  \<open>writer\<close>, which fails after some number of calls, and a \<open>reader\<close>, which
  ends after some bytes; both are part of the state the code passes on.
\<close>

section \<open>Byte streams\<close>

text \<open>\<open>io_left\<close>: the calls that still succeed; \<open>io_part\<close>: what a failing one writes.\<close>

record writer =
  written :: bytes
  io_left :: nat
  io_part :: nat

text \<open>\<open>ending\<close>: the error after the last byte, the end of the stream or a broken one.\<close>

record reader =
  avail :: bytes
  ending :: werror

definition write_all :: "bytes \<Rightarrow> (writer, unit) eff" where
  "write_all data = (\<lambda>w.
     if io_left w = 0 then (Err IoError, w\<lparr>written := written w @ take (io_part w) data\<rparr>)
     else (Ok (), w\<lparr>written := written w @ data, io_left := io_left w - 1\<rparr>))"

definition write_u8 :: "byte \<Rightarrow> (writer, unit) eff" where
  "write_u8 b = write_all [b]"

definition write_u32 :: "32 word \<Rightarrow> (writer, unit) eff" where
  "write_u32 n = write_all (rev (to_le_bytes n))"

definition flush :: "(writer, unit) eff" where
  "flush = write_all []"

definition or_msg :: "(writer, unit) eff \<Rightarrow> char list \<Rightarrow> (writer, unit) eff" where
  "or_msg m msg = (\<lambda>w. case m w of (Err e, w') \<Rightarrow> (Err (AnyhowMsg (str_lit msg)), w') | (r, w') \<Rightarrow> (r, w'))"

definition read_exact :: "nat \<Rightarrow> (reader, bytes) eff" where
  "read_exact n = (\<lambda>r.
     if length (avail r) < n then (Err (ending r), r\<lparr>avail := []\<rparr>)
     else (Ok (take n (avail r)), r\<lparr>avail := drop n (avail r)\<rparr>))"

definition read_u8 :: "(reader, byte) eff" where
  "read_u8 = seq (read_exact 1) (\<lambda>bs. ret (hd bs))"

definition read_u32 :: "(reader, 32 word) eff" where
  "read_u32 = seq (read_exact 4) (\<lambda>bs. ret (from_le_bytes (rev bs)))"

text \<open>\<open>vec![0u8; len]\<close> allocates its bytes before anything is read into it.\<close>

definition zeroed_vec :: "platform \<Rightarrow> nat \<Rightarrow> unit outcome" where
  "zeroed_vec P len = with_capacity P 1 len"

text \<open>A stream made by \<open>unfold\<close>: each call yields an item and the reader it goes on with.\<close>

definition yielding ::
    "(reader, conduit_message) eff \<Rightarrow> reader \<Rightarrow> (conduit_message outcome \<times> reader) option" where
  "yielding m r = Some (m r)"

text \<open>Its first \<open>n\<close> items.\<close>

fun items ::
    "nat \<Rightarrow> (reader \<Rightarrow> (conduit_message outcome \<times> reader) option) \<Rightarrow> reader \<Rightarrow> conduit_message outcome list" where
  "items 0 src r = []"
| "items (Suc n) src r = (case src r of None \<Rightarrow> [] | Some (x, r') \<Rightarrow> x # items n src r')"

section \<open>Unix socket, client\<close>

definition unix_client_sink :: "conduit_message \<Rightarrow> (writer, unit) eff" where
  "unix_client_sink element = (case element of
     CmHandshake text \<Rightarrow>
       (let data = text; len = of_nat (length data) :: 32 word in
        seq (or_msg (write_u8 0) ''Failed to write message type'') (\<lambda>_.
        seq (or_msg (write_u32 len) ''Failed to write message length'') (\<lambda>_.
        seq (or_msg (write_all data) ''Failed to write message data'') (\<lambda>_.
        flush))))
   | CmContent bin \<Rightarrow>
       (let len = of_nat (length bin) :: 32 word in
        seq (or_msg (write_u8 1) ''Failed to write message type'') (\<lambda>_.
        seq (or_msg (write_u32 len) ''Failed to write message length'') (\<lambda>_.
        seq (or_msg (write_all bin) ''Failed to write message data'') (\<lambda>_.
        flush))))
   | CmClose reason \<Rightarrow>
       seq (or_msg (write_u8 2) ''Failed to write close message'') (\<lambda>_.
       flush))"

definition unix_client_source :: "platform \<Rightarrow> reader \<Rightarrow> (conduit_message outcome \<times> reader) option" where
  "unix_client_source P = yielding (
     seq read_u8 (\<lambda>msg_type.
     if msg_type = 0 then
       seq read_u32 (\<lambda>l. let len = as_usize P (unat l) in
       seq (lift (zeroed_vec P len)) (\<lambda>_.
       seq (read_exact len) (\<lambda>buf.
       lift (and_then (from_utf8 buf) (\<lambda>text. Ok (CmHandshake text))))))
     else if msg_type = 1 then
       seq read_u32 (\<lambda>l. let len = as_usize P (unat l) in
       seq (lift (zeroed_vec P len)) (\<lambda>_.
       seq (read_exact len) (\<lambda>buf.
       ret (CmContent buf))))
     else if msg_type = 2 then ret (CmClose None)
     else throw (AnyhowMsg (str_lit ''Unknown message type''))))"

section \<open>Unix socket, server\<close>

definition unix_server_sink :: "conduit_message \<Rightarrow> (writer, unit) eff" where
  "unix_server_sink element = (case element of
     CmHandshake text \<Rightarrow>
       (let data = text; len = of_nat (length data) :: 32 word in
        seq (or_msg (write_u8 0) ''Failed to write message type'') (\<lambda>_.
        seq (or_msg (write_u32 len) ''Failed to write message length'') (\<lambda>_.
        seq (or_msg (write_all data) ''Failed to write message data'') (\<lambda>_.
        flush))))
   | CmContent bin \<Rightarrow>
       (let len = of_nat (length bin) :: 32 word in
        seq (or_msg (write_u8 1) ''Failed to write message type'') (\<lambda>_.
        seq (or_msg (write_u32 len) ''Failed to write message length'') (\<lambda>_.
        seq (or_msg (write_all bin) ''Failed to write message data'') (\<lambda>_.
        flush))))
   | CmClose reason \<Rightarrow>
       seq (or_msg (write_u8 2) ''Failed to write close message'') (\<lambda>_.
       flush))"

definition unix_server_source :: "platform \<Rightarrow> reader \<Rightarrow> (conduit_message outcome \<times> reader) option" where
  "unix_server_source P = yielding (
     seq read_u8 (\<lambda>msg_type.
     if msg_type = 0 then
       seq read_u32 (\<lambda>l. let len = as_usize P (unat l) in
       seq (lift (zeroed_vec P len)) (\<lambda>_.
       seq (read_exact len) (\<lambda>buf.
       lift (and_then (from_utf8 buf) (\<lambda>text. Ok (CmHandshake text))))))
     else if msg_type = 1 then
       seq read_u32 (\<lambda>l. let len = as_usize P (unat l) in
       seq (lift (zeroed_vec P len)) (\<lambda>_.
       seq (read_exact len) (\<lambda>buf.
       ret (CmContent buf))))
     else if msg_type = 2 then ret (CmClose None)
     else throw (AnyhowMsg (str_lit ''Unknown message type''))))"

section \<open>SSH\<close>

definition ssh_sink :: "conduit_message \<Rightarrow> (writer, unit) eff" where
  "ssh_sink element = (case element of
     CmHandshake text \<Rightarrow>
       (let data = text; len = of_nat (length data) :: 32 word in
        seq (write_u8 0) (\<lambda>_.
        seq (write_u32 len) (\<lambda>_.
        seq (write_all data) (\<lambda>_.
        flush))))
   | CmContent data \<Rightarrow>
       (let len = of_nat (length data) :: 32 word in
        seq (write_u8 1) (\<lambda>_.
        seq (write_u32 len) (\<lambda>_.
        seq (write_all data) (\<lambda>_.
        flush))))
   | CmClose reason \<Rightarrow>
       (\<lambda>w. let w1 = snd (write_u8 2 w); w2 = snd (flush w1)
            in (Err (AnyhowMsg (str_lit ''Connection closed'')), w2)))"

definition ssh_source :: "platform \<Rightarrow> reader \<Rightarrow> (conduit_message outcome \<times> reader) option" where
  "ssh_source P = (\<lambda>r.
     case read_u8 r of
       (Err e, r1) \<Rightarrow> if e = UnexpectedEof then None else Some (Err e, r1)
     | (Panic p, r1) \<Rightarrow> Some (Panic p, r1)
     | (Ok msg_type, r1) \<Rightarrow> yielding (
         seq read_u32 (\<lambda>l. let len = as_usize P (unat l) in
         seq (lift (zeroed_vec P len)) (\<lambda>_.
         seq (read_exact len) (\<lambda>buffer.
         if msg_type = 0 then lift (and_then (from_utf8 buffer) (\<lambda>text. Ok (CmHandshake text)))
         else if msg_type = 1 then ret (CmContent buffer)
         else if msg_type = 2 then
           ret (CmClose (case from_utf8 buffer of Ok reason \<Rightarrow> Some reason | _ \<Rightarrow> None))
         else throw (AnyhowMsg (str_lit ''Unknown message type'')))))) r1)"

section \<open>Frames\<close>

definition header :: "bytes \<Rightarrow> bytes" where
  "header data = rev (to_le_bytes (of_nat (length data) :: 32 word))"

definition frame :: "conduit_message \<Rightarrow> bytes" where
  "frame m = (case m of
     CmHandshake text \<Rightarrow> 0 # header text @ text
   | CmContent bin \<Rightarrow> 1 # header bin @ bin
   | CmClose r \<Rightarrow> [2])"

text \<open>What fits the length field and the reader's memory.\<close>

definition small_enough :: "platform \<Rightarrow> bytes \<Rightarrow> bool" where
  "small_enough P data \<longleftrightarrow> length data < 2 ^ 32 \<and> length data \<le> isize_max P \<and> length data \<le> alloc_limit P"

definition carried :: "platform \<Rightarrow> conduit_message \<Rightarrow> bool" where
  "carried P m = (case m of
     CmHandshake text \<Rightarrow> small_enough P text \<and> utf8_valid text
   | CmContent bin \<Rightarrow> small_enough P bin
   | CmClose r \<Rightarrow> False)"

lemma io_apply [simp]:
  "0 < io_left w \<Longrightarrow> write_all d w = (Ok (), w\<lparr>written := written w @ d, io_left := io_left w - 1\<rparr>)"
  by (simp add: write_all_def)

lemma or_msg_Ok [simp]: "m w = (Ok (), w') \<Longrightarrow> or_msg m msg w = (Ok (), w')"
  by (simp add: or_msg_def)

lemma write_frame:
  assumes "4 \<le> io_left w"
  shows "seq (or_msg (write_u8 t) a) (\<lambda>_. seq (or_msg (write_u32 n) b) (\<lambda>_.
      seq (or_msg (write_all d) c) (\<lambda>_. flush))) w =
    (Ok (), w\<lparr>written := written w @ t # rev (to_le_bytes n) @ d, io_left := io_left w - 4\<rparr>)"
  using assms by (simp add: seq_def write_u8_def write_u32_def flush_def)

lemma write_frame_ssh:
  assumes "4 \<le> io_left w"
  shows "seq (write_u8 t) (\<lambda>_. seq (write_u32 n) (\<lambda>_. seq (write_all d) (\<lambda>_. flush))) w =
    (Ok (), w\<lparr>written := written w @ t # rev (to_le_bytes n) @ d, io_left := io_left w - 4\<rparr>)"
  using assms by (simp add: seq_def write_u8_def write_u32_def flush_def)

lemma read_exact_append [simp]:
  "avail r = d @ rest \<Longrightarrow> n = length d \<Longrightarrow> read_exact n r = (Ok d, r\<lparr>avail := rest\<rparr>)"
  by (simp add: read_exact_def)

lemma read_u8_Cons [simp]: "avail r = b # rest \<Longrightarrow> read_u8 r = (Ok b, r\<lparr>avail := rest\<rparr>)"
  by (simp add: read_u8_def seq_def read_exact_def)

lemma length_header [simp]: "length (header d) = 4"
  by (simp add: header_def)

lemma read_u32_header [simp]:
  "avail r = header d @ rest \<Longrightarrow> read_u32 r = (Ok (of_nat (length d)), r\<lparr>avail := rest\<rparr>)"
  by (simp add: read_u32_def seq_def read_exact_def header_def from_to_le_bytes)

lemma small_len:
  assumes "wf_platform P" and "small_enough P d"
  shows "as_usize P (unat (of_nat (length d) :: 32 word)) = length d"
    and "zeroed_vec P (length d) = Ok ()"
proof -
  have "length d \<le> usize_max P" using assms isize_le_usize unfolding small_enough_def by fastforce
  moreover have "(0::nat) < 2 ^ usize_bits P" by simp
  ultimately have "length d < 2 ^ usize_bits P" unfolding usize_max_def by linarith
  then show "as_usize P (unat (of_nat (length d) :: 32 word)) = length d"
    using assms(2) by (simp add: small_enough_def as_usize_def unat_of_nat)
  show "zeroed_vec P (length d) = Ok ()"
    using assms(2) by (simp add: small_enough_def zeroed_vec_def with_capacity_def)
qed

section \<open>What a pair of sink and source promises\<close>

text \<open>
  A sink writes the frame of what it is given, in at most four calls of the writer; a
  source takes exactly one frame off the front of the stream and yields its message. What
  follows from that for whole conversations is proved once, here.
\<close>

locale framing =
  fixes P :: platform
    and sink :: "conduit_message \<Rightarrow> (writer, unit) eff"
    and source :: "reader \<Rightarrow> (conduit_message outcome \<times> reader) option"
  assumes sink_frame: "carried P m \<Longrightarrow> 4 \<le> io_left w \<Longrightarrow>
      sink m w = (Ok (), w\<lparr>written := written w @ frame m, io_left := io_left w - 4\<rparr>)"
    and source_frame: "carried P m \<Longrightarrow> avail r = frame m @ rest \<Longrightarrow>
      source r = Some (Ok m, r\<lparr>avail := rest\<rparr>)"
    and source_end: "avail r = [] \<Longrightarrow> ending r = UnexpectedEof \<Longrightarrow>
      source r = None \<or> (\<exists>e. source r = Some (Err e, r))"
begin

lemma sink_all:
  "list_all (carried P) ms \<Longrightarrow> 4 * length ms \<le> io_left w \<Longrightarrow>
   foldr (\<lambda>m k. seq (sink m) (\<lambda>_. k)) ms (ret ()) w =
     (Ok (), w\<lparr>written := written w @ concat (map frame ms), io_left := io_left w - 4 * length ms\<rparr>)"
proof (induction ms arbitrary: w)
  case (Cons m ms)
  have "sink m w = (Ok (), w\<lparr>written := written w @ frame m, io_left := io_left w - 4\<rparr>)"
    using Cons.prems by (intro sink_frame) simp_all
  then show ?case using Cons by (simp add: seq_OkD)
qed simp

lemma source_items:
  "list_all (carried P) ms \<Longrightarrow> avail r = concat (map frame ms) @ rest \<Longrightarrow>
   items (length ms + n) source r = map Ok ms @ items n source (r\<lparr>avail := rest\<rparr>)"
proof (induction ms arbitrary: r)
  case Nil
  then have "r\<lparr>avail := rest\<rparr> = r" by simp
  then show ?case by simp
next
  case (Cons m ms)
  have "source r = Some (Ok m, r\<lparr>avail := concat (map frame ms) @ rest\<rparr>)"
    using Cons.prems by (intro source_frame) simp_all
  then show ?case using Cons by simp
qed

lemma items_end:
  assumes "avail r = []" and "ending r = UnexpectedEof"
  shows "live_prefix (items n source r) = [] \<and> no_panic (items n source r)"
proof (induction n)
  case (Suc n)
  show ?case using source_end[OF assms] Suc by auto
qed simp

text \<open>What one end writes before it closes the stream is what the other end's portal gets.\<close>

lemma conversation:
  assumes ms: "list_all (carried P) ms" and io: "4 * length ms \<le> io_left w"
    and sent: "foldr (\<lambda>m k. seq (sink m) (\<lambda>_. k)) ms (ret ()) w = (q, w')" and fresh: "written w = []"
    and n: "length ms \<le> n"
  shows "q = Ok () \<and> receive_loop (\<lambda>_. True) 0 (items n source \<lparr>avail = written w', ending = UnexpectedEof\<rparr>)
    = map portal_message_of ms @ [Close]"
proof -
  let ?r = "\<lparr>avail = concat (map frame ms), ending = UnexpectedEof\<rparr>"
  have w': "q = Ok ()" "written w' = concat (map frame ms)"
    using sent sink_all[OF ms io] fresh by auto
  obtain k where k: "n = length ms + k" using n le_Suc_ex by blast
  have open_ms: "list_all (\<lambda>m. \<not> is_close m) ms"
    using ms by (auto simp: list_all_iff carried_def is_close_def split: conduit_message.splits)
  have it: "items n source ?r = map Ok ms @ items k source (?r\<lparr>avail := []\<rparr>)"
    unfolding k by (rule source_items[OF ms]) simp
  have tl: "live_prefix (items k source (?r\<lparr>avail := []\<rparr>)) = [] \<and> no_panic (items k source (?r\<lparr>avail := []\<rparr>))"
    by (rule items_end) simp_all
  show ?thesis
    using w' it tl open_ms by (simp add: receive_loop_eq live_prefix_append)
qed

end

section \<open>The four conversations\<close>

lemmas framing_defs = frame_def header_def[symmetric] yielding_def seq_def small_len

lemma unix_client_sink_frame:
  "carried P m \<Longrightarrow> 4 \<le> io_left w \<Longrightarrow> unix_client_sink m w =
     (Ok (), w\<lparr>written := written w @ frame m, io_left := io_left w - 4\<rparr>)"
  by (cases m) (simp_all add: unix_client_sink_def Let_def write_frame frame_def header_def carried_def)

lemma unix_server_sink_eq: "unix_server_sink = unix_client_sink"
  by (simp add: fun_eq_iff unix_server_sink_def unix_client_sink_def)

lemma unix_server_source_eq: "unix_server_source = unix_client_source"
  by (simp add: fun_eq_iff unix_server_source_def unix_client_source_def)

lemma ssh_sink_frame:
  "carried P m \<Longrightarrow> 4 \<le> io_left w \<Longrightarrow> ssh_sink m w =
     (Ok (), w\<lparr>written := written w @ frame m, io_left := io_left w - 4\<rparr>)"
  by (cases m) (simp_all add: ssh_sink_def Let_def write_frame_ssh frame_def header_def carried_def)

lemma unix_client_source_frame:
  assumes "wf_platform P" and "carried P m" and "avail r = frame m @ rest"
  shows "unix_client_source P r = Some (Ok m, r\<lparr>avail := rest\<rparr>)"
  using assms small_len[OF assms(1)]
  by (cases m) (simp_all add: unix_client_source_def yielding_def seq_def frame_def carried_def Let_def
      from_utf8_def)

lemma ssh_source_frame:
  assumes "wf_platform P" and "carried P m" and "avail r = frame m @ rest"
  shows "ssh_source P r = Some (Ok m, r\<lparr>avail := rest\<rparr>)"
  using assms small_len[OF assms(1)]
  by (cases m) (simp_all add: ssh_source_def yielding_def seq_def frame_def carried_def Let_def
      from_utf8_def)

lemma unix_client_source_end:
  "avail r = [] \<Longrightarrow> ending r = UnexpectedEof \<Longrightarrow> unix_client_source P r = Some (Err UnexpectedEof, r)"
  by (simp add: unix_client_source_def yielding_def read_u8_def read_exact_def seq_def)

lemma ssh_source_end:
  "avail r = [] \<Longrightarrow> ending r = UnexpectedEof \<Longrightarrow> ssh_source P r = None"
  by (simp add: ssh_source_def read_u8_def read_exact_def seq_def)

lemma framing_unix_up: "wf_platform P \<Longrightarrow> framing P unix_client_sink (unix_server_source P)"
  by unfold_locales
    (simp_all add: unix_server_source_eq unix_client_sink_frame unix_client_source_frame unix_client_source_end)

lemma framing_unix_down: "wf_platform P \<Longrightarrow> framing P unix_server_sink (unix_client_source P)"
  by unfold_locales
    (simp_all add: unix_server_sink_eq unix_client_sink_frame unix_client_source_frame unix_client_source_end)

lemma framing_ssh_up: "wf_platform P \<Longrightarrow> framing P ssh_sink (unix_server_source P)"
  by unfold_locales
    (simp_all add: unix_server_source_eq ssh_sink_frame unix_client_source_frame unix_client_source_end)

lemma framing_ssh_down: "wf_platform P \<Longrightarrow> framing P unix_server_sink (ssh_source P)"
  by unfold_locales
    (simp_all add: unix_server_sink_eq unix_client_sink_frame ssh_source_frame ssh_source_end)

text \<open>On a 64-bit host, every conversation the repository's transports can have.\<close>

interpretation unix_up: framing host64 unix_client_sink "unix_server_source host64"
  by (rule framing_unix_up) simp

interpretation unix_down: framing host64 unix_server_sink "unix_client_source host64"
  by (rule framing_unix_down) simp

interpretation ssh_up: framing host64 ssh_sink "unix_server_source host64"
  by (rule framing_ssh_up) simp

interpretation ssh_down: framing host64 unix_server_sink "ssh_source host64"
  by (rule framing_ssh_down) simp

section \<open>Properties\<close>

definition send_all :: "(conduit_message \<Rightarrow> (writer, unit) eff) \<Rightarrow> conduit_message list \<Rightarrow> (writer, unit) eff" where
  "send_all sink ms = foldr (\<lambda>m k. seq (sink m) (\<lambda>_. k)) ms (ret ())"

definition new_writer :: "nat \<Rightarrow> writer" where
  "new_writer n = \<lparr>written = [], io_left = n, io_part = 0\<rparr>"

text \<open>What the portal at the far end is told, when one end sends \<open>ms\<close> and closes the stream.\<close>

definition told ::
    "(conduit_message \<Rightarrow> (writer, unit) eff) \<Rightarrow> (reader \<Rightarrow> (conduit_message outcome \<times> reader) option) \<Rightarrow>
     conduit_message list \<Rightarrow> ('rm, 'f) portal_message list" where
  "told sink source ms =
     (let w = snd (send_all sink ms (new_writer (4 * length ms)))
      in receive_loop (\<lambda>_. True) 0 (items (length ms + 1) source \<lparr>avail = written w, ending = UnexpectedEof\<rparr>))"

lemma told_framing:
  assumes "framing P sink source" and "list_all (carried P) ms"
  shows "(told sink source ms :: ('rm, 'f) portal_message list) = map portal_message_of ms @ [Close]"
proof -
  obtain q w' where run: "send_all sink ms (new_writer (4 * length ms)) = (q, w')" by fastforce
  have "q = Ok () \<and> (receive_loop (\<lambda>_. True) 0 (items (length ms + 1) source \<lparr>avail = written w', ending = UnexpectedEof\<rparr>) :: ('rm, 'f) portal_message list)
    = map portal_message_of ms @ [Close]"
    by (rule framing.conversation[OF assms(1,2) _ run[unfolded send_all_def]]) (simp_all add: new_writer_def)
  then show ?thesis using run by (simp add: told_def)
qed


lemma sample_carried: "list_all (carried host64) [CmHandshake (str_lit ''hi''), CmContent [1, 2, 3]]"
  by (simp add: carried_def small_enough_def host64_def isize_max_def str_lit_def)


text \<open>
  An SSH client and a unix-socket server understand each other, although their sources
  differ: handshake and content messages cross in both directions, in order, and the close
  of the stream is reported once.
\<close>

theorem ssh_conversation:
  assumes "wf_platform P" and "list_all (carried P) ms"
  shows "(told ssh_sink (unix_server_source P) ms :: ('rm, 'f) portal_message list) = map portal_message_of ms @ [Close] \<and>
    (told unix_server_sink (ssh_source P) ms :: ('rm, 'f) portal_message list) = map portal_message_of ms @ [Close]"
  using told_framing[OF framing_ssh_up[OF assms(1)] assms(2)] told_framing[OF framing_ssh_down[OF assms(1)] assms(2)]
  by blast

theorem ssh_conversation_witness:
  "(told unix_server_sink (ssh_source host64) [CmHandshake (str_lit ''hi''), CmContent [1, 2, 3]] :: (nat, nat) portal_message list) =
    [Handshake (str_lit ''hi''), Content [1, 2, 3], Close]"
  using ssh_conversation[where 'rm = nat and 'f = nat, OF wf_host64 sample_carried] by simp

text \<open>
  The transports disagree on the close frame. All sinks write it as its type byte alone;
  the unix sources take that as a close, but the SSH source wants four length bytes after
  it: it fails if they are missing, and takes them from the next frame if they are not.
\<close>

theorem ssh_close_misread:
  "unix_server_sink (CmClose r) (new_writer 2) = (Ok (), \<lparr>written = [2], io_left = 0, io_part = 0\<rparr>) \<and>
   unix_client_source P \<lparr>avail = [2], ending = e\<rparr> = Some (Ok (CmClose None), \<lparr>avail = [], ending = e\<rparr>) \<and>
   ssh_source P \<lparr>avail = [2], ending = e\<rparr> = Some (Err e, \<lparr>avail = [], ending = e\<rparr>) \<and>
   ssh_source P \<lparr>avail = 2 # header [] @ rest, ending = e\<rparr> = Some (Ok (CmClose (Some [])), \<lparr>avail = rest, ending = e\<rparr>)"
  by (simp add: unix_server_sink_def new_writer_def write_u8_def flush_def seq_def unix_client_source_def
      yielding_def ssh_source_def read_u32_def read_exact_def header_def Let_def as_usize_def zeroed_vec_def
      with_capacity_def from_to_le_bytes from_utf8_def)

text \<open>
  A message of \<open>2 ^ 32\<close> bytes or more is sent, and reported as sent, under a length
  that has lost its high bits: the reader takes the first bytes for the whole message and
  looks for the next frame in the middle of this one.
\<close>

theorem oversized_content_misframed:
  assumes "wf_platform P" and "length d = 2 ^ 32 + k" and "small_enough P (take k d)" and "4 \<le> io_left w"
  shows "\<exists>w'. unix_client_sink (CmContent d) w = (Ok (), w') \<and>
    (\<exists>bs. written w' = written w @ bs \<and>
      unix_server_source P \<lparr>avail = bs, ending = e\<rparr> = Some (Ok (CmContent (take k d)), \<lparr>avail = drop k d, ending = e\<rparr>))"
proof -
  let ?w = "w\<lparr>written := written w @ 1 # header d @ d, io_left := io_left w - 4\<rparr>"
  have s: "unix_client_sink (CmContent d) w = (Ok (), ?w)"
    using write_frame[OF assms(4)] by (simp add: unix_client_sink_def header_def Let_def)
  have len: "length (take k d) = k" using assms(2) by simp
  have "(of_nat (length d) :: 32 word) = of_nat (length (take k d))"
    unfolding len assms(2) by simp
  then have h: "header d = header (take k d)" by (simp add: header_def)
  have "1 # header d @ d = frame (CmContent (take k d)) @ drop k d" by (simp add: frame_def h)
  moreover have "carried P (CmContent (take k d))" using assms(3) by (simp add: carried_def)
  ultimately have "unix_server_source P \<lparr>avail = 1 # header d @ d, ending = e\<rparr> =
      Some (Ok (CmContent (take k d)), \<lparr>avail = 1 # header d @ d, ending = e\<rparr>\<lparr>avail := drop k d\<rparr>)"
    unfolding unix_server_source_eq
    by (intro unix_client_source_frame[OF assms(1)]) simp_all
  with s show ?thesis by (intro exI[of _ ?w] conjI exI[of _ "1 # header d @ d"]) simp_all
qed

theorem oversized_content_misframed_witness:
  "\<exists>w' bs. unix_client_sink (CmContent (replicate (2 ^ 32 + 3) 0)) (new_writer 9) = (Ok (), w') \<and> written w' = bs \<and>
    unix_server_source host64 \<lparr>avail = bs, ending = UnexpectedEof\<rparr> =
      Some (Ok (CmContent (take 3 (replicate (2 ^ 32 + 3) 0))), \<lparr>avail = drop 3 (replicate (2 ^ 32 + 3) 0), ending = UnexpectedEof\<rparr>)"
proof -
  have "length (replicate (2 ^ 32 + 3) (0 :: 8 word)) = 2 ^ 32 + 3" by (rule length_replicate)
  from oversized_content_misframed[OF wf_host64 this, of "new_writer 9" UnexpectedEof]
  show ?thesis by (simp add: small_enough_def host64_def isize_max_def new_writer_def del: replicate.simps take_replicate drop_replicate)
qed

text \<open>
  What the receive loop puts into the portal's mailbox. Whatever the mailbox refuses, it
  gets a first part of the messages that came before the first error or close frame, in
  order, followed by at most one \<open>Close\<close>; a mailbox that refuses nothing gets all of
  them and exactly one \<open>Close\<close>.
\<close>

theorem receive_loop_order:
  "(\<exists>k xs. (receive_loop takes n rs :: ('rm, 'f) portal_message list) =
      map portal_message_of (take k (live_prefix rs)) @ xs \<and> (xs = [] \<or> xs = [Close])) \<and>
   (no_panic rs \<longrightarrow>
      (receive_loop (\<lambda>_. True) n rs :: ('rm, 'f) portal_message list) = map portal_message_of (live_prefix rs) @ [Close])"
  using receive_loop_part receive_loop_eq[of n "\<lambda>_. True" rs] by blast

theorem receive_loop_order_witness:
  "(receive_loop (\<lambda>_. True) 0 [Ok (CmContent [1]), Err IoError, Ok (CmContent [2])] :: (nat, nat) portal_message list) =
     [Content [1], Close]"
  using receive_loop_order[where 'rm = nat and 'f = nat, of "\<lambda>_. True" 0 "[Ok (CmContent [1]), Err IoError, Ok (CmContent [2])]"] by simp

end
