(* ===== verification/Fn_Actor.thy ===== *)
theory Fn_Actor
  imports Prelude "HOL-Library.Sublist"
begin

text \<open>
  \<open>util/function_actor.rs\<close> and \<open>util/thread_local_function_actor.rs\<close>: an actor
  whose handler hands every message on through a bounded channel, and a task that runs the
  user's function on the other end of it and stops the actor when the function returns.
  The runs of actor, channel and task together are sequences of events.
\<close>

section \<open>State\<close>

datatype fn_status = Running | Stopped | Failed

text \<open>
  \<open>accepted\<close>: the messages \<open>send_message\<close> took, \<open>inbox\<close>: those the actor has not
  begun to handle, \<open>in_hand\<close>: the one its handler is sending on, \<open>chan\<close>: those in the
  channel, \<open>taken\<close>: those the function has received. \<open>fn_returned\<close>: the function is
  done, and its end of the channel closed; \<open>stop_asked\<close>: \<open>stop\<close> was called.
\<close>

record 'm fn_actor =
  accepted :: "'m list"
  inbox :: "'m list"
  in_hand :: "'m option"
  chan :: "'m list"
  taken :: "'m list"
  fn_returned :: bool
  stop_asked :: bool
  fn_status :: fn_status

definition max_channel_size :: nat where
  "max_channel_size = 294967295 - 1000"

definition fn_start :: "'m fn_actor" where
  "fn_start = \<lparr>accepted = [], inbox = [], in_hand = None, chan = [], taken = [],
     fn_returned = False, stop_asked = False, fn_status = Running\<rparr>"

section \<open>The handler\<close>

text \<open>
  The channels are those of the crates tokio and futures: what a channel answers to a
  message is an argument, \<open>None\<close> as long as the sender has to wait. The code relies on
  this: a bounded channel takes a message only while there is room and the receiver is
  there, and fails when the receiver is gone.
\<close>

definition bounded_channel :: "('m fn_actor \<Rightarrow> unit outcome option) \<Rightarrow> nat \<Rightarrow> bool" where
  "bounded_channel send room \<longleftrightarrow> (\<forall>w.
     (send w = Some (Ok ()) \<longrightarrow> \<not> fn_returned w \<and> length (chan w) < room) \<and>
     (fn_returned w \<longrightarrow> (\<exists>e. send w = Some (Err e))) \<and> (\<forall>p. send w \<noteq> Some (Panic p)))"

text \<open>tokio's \<open>send\<close> waits for room: it fails only when the receiver is gone.\<close>

definition waits_for_room :: "('m fn_actor \<Rightarrow> unit outcome option) \<Rightarrow> bool" where
  "waits_for_room send \<longleftrightarrow> (\<forall>w e. send w = Some (Err e) \<longrightarrow> fn_returned w)"

text \<open>
  Channels that do so: \<open>mpsc_send\<close> as tokio documents \<open>send\<close>; \<open>try_send\<close> as the
  \<open>futures\<close> crate documents it: it does not wait, and its one sender may exceed the buffer
  by one message.
\<close>

definition mpsc_send :: "nat \<Rightarrow> 'm fn_actor \<Rightarrow> unit outcome option" where
  "mpsc_send capacity w =
     (if fn_returned w then Some (Err SendError)
      else if length (chan w) < capacity then Some (Ok ()) else None)"

definition try_send :: "nat \<Rightarrow> 'm fn_actor \<Rightarrow> unit outcome option" where
  "try_send buffer w =
     (if fn_returned w then Some (Err SendError)
      else if length (chan w) < buffer + 1 then Some (Ok ()) else Some (Err SendError))"

text \<open>\<open>handle\<close>, given what the channel answered.\<close>

definition fn_handle :: "unit outcome \<Rightarrow> ('m fn_actor, unit) eff" where
  "fn_handle sent = (\<lambda>w. case sent of
     Ok u \<Rightarrow> (Ok (), w)
   | Err err \<Rightarrow> (Err err, w\<lparr>stop_asked := True\<rparr>)
   | Panic p \<Rightarrow> (Panic p, w))"

definition thread_local_handle :: "unit outcome \<Rightarrow> ('m fn_actor, unit) eff" where
  "thread_local_handle sent = (\<lambda>w. case sent of
     Ok u \<Rightarrow> (Ok (), w)
   | Err err \<Rightarrow> (Err (AnyhowMsg (str_lit ''Failed to send message'')), w\<lparr>stop_asked := True\<rparr>)
   | Panic p \<Rightarrow> (Panic p, w))"

section \<open>Runs\<close>

text \<open>
  \<open>SendMsg\<close>: someone sends to the actor. \<open>StopActor\<close>: someone stops it. \<open>TakeMsg\<close>,
  \<open>SendOn\<close>, \<open>Halt\<close>: the actor begins a message, its handler ends, it stops between two
  messages. \<open>Recv\<close>, \<open>Return\<close>, \<open>TaskStop\<close>: the function receives a message, it
  returns, and the task stops the actor.
\<close>

datatype 'm fn_event = SendMsg 'm | StopActor | TakeMsg | SendOn | Halt | Recv | Return | TaskStop

definition send_on ::
    "('m fn_actor \<Rightarrow> unit outcome option) \<Rightarrow> (unit outcome \<Rightarrow> ('m fn_actor, unit) eff) \<Rightarrow> 'm fn_actor \<Rightarrow>
     'm fn_actor option" where
  "send_on send handle w = (case in_hand w of
     None \<Rightarrow> None
   | Some m \<Rightarrow> (case send w of
       None \<Rightarrow> None
     | Some r \<Rightarrow>
         (let w1 = w\<lparr>in_hand := None, chan := (if is_ok r then chan w @ [m] else chan w)\<rparr>;
              (res, w2) = handle r w1
          in Some (if is_ok res then w2 else w2\<lparr>fn_status := Failed\<rparr>))))"

definition fn_task :: "'m fn_event \<Rightarrow> 'm fn_actor \<Rightarrow> 'm fn_actor option" where
  "fn_task ev w = (case ev of
     Recv \<Rightarrow>
       (case chan w of
          [] \<Rightarrow> None
        | m # ms \<Rightarrow> if fn_returned w then None else Some (w\<lparr>chan := ms, taken := taken w @ [m]\<rparr>))
   | Return \<Rightarrow> if fn_returned w then None else Some (w\<lparr>fn_returned := True, chan := []\<rparr>)
   | TaskStop \<Rightarrow> if fn_returned w \<and> \<not> stop_asked w then Some (w\<lparr>stop_asked := True\<rparr>) else None
   | _ \<Rightarrow> None)"

definition fn_step ::
    "('m fn_actor \<Rightarrow> unit outcome option) \<Rightarrow> (unit outcome \<Rightarrow> ('m fn_actor, unit) eff) \<Rightarrow> 'm fn_event \<Rightarrow>
     'm fn_actor \<Rightarrow> 'm fn_actor option" where
  "fn_step send handle ev w = (case ev of
     SendMsg m \<Rightarrow>
       Some (if fn_status w = Running then w\<lparr>accepted := accepted w @ [m], inbox := inbox w @ [m]\<rparr> else w)
   | StopActor \<Rightarrow> Some (w\<lparr>stop_asked := True\<rparr>)
   | TakeMsg \<Rightarrow>
       if fn_status w = Running \<and> \<not> stop_asked w \<and> in_hand w = None then
         (case inbox w of [] \<Rightarrow> None | m # ms \<Rightarrow> Some (w\<lparr>inbox := ms, in_hand := Some m\<rparr>))
       else None
   | SendOn \<Rightarrow> if fn_status w = Running then send_on send handle w else None
   | Halt \<Rightarrow>
       if fn_status w = Running \<and> stop_asked w \<and> in_hand w = None then Some (w\<lparr>fn_status := Stopped\<rparr>)
       else None
   | _ \<Rightarrow> fn_task ev w)"

fun fn_run ::
    "('m fn_actor \<Rightarrow> unit outcome option) \<Rightarrow> (unit outcome \<Rightarrow> ('m fn_actor, unit) eff) \<Rightarrow> 'm fn_event list \<Rightarrow>
     'm fn_actor \<Rightarrow> 'm fn_actor option" where
  "fn_run send handle [] w = Some w"
| "fn_run send handle (ev # evs) w =
     (case fn_step send handle ev w of None \<Rightarrow> None | Some w' \<Rightarrow> fn_run send handle evs w')"

text \<open>Events that the actor and its task bring about on their own.\<close>

definition internal :: "'m fn_event \<Rightarrow> bool" where
  "internal ev = (case ev of SendMsg _ \<Rightarrow> False | StopActor \<Rightarrow> False | _ \<Rightarrow> True)"

section \<open>What both kinds of channels share\<close>

text \<open>The messages on their way, oldest first.\<close>

definition under_way :: "'m fn_actor \<Rightarrow> 'm list" where
  "under_way w = chan w @ (case in_hand w of None \<Rightarrow> [] | Some m \<Rightarrow> [m]) @ inbox w"

text \<open>
  A bound on the events left once the function has returned: a message in the inbox is
  begun and sent on, a message in hand is sent on, then the stop and the halt.
\<close>

definition events_left :: "'m fn_actor \<Rightarrow> nat" where
  "events_left w = 2 * length (inbox w) + (if in_hand w = None then 0 else 1) +
     (if stop_asked w then 0 else 1) + (if fn_status w = Running then 1 else 0)"

text \<open>
  What the function has received, and what waits for it, was accepted in that order; and
  while the function runs and the handler has not failed, nothing is lost.
\<close>

definition fn_inv :: "nat \<Rightarrow> 'm fn_actor \<Rightarrow> bool" where
  "fn_inv room w \<longleftrightarrow> prefix (taken w @ chan w) (accepted w) \<and> length (chan w) \<le> room \<and>
     (fn_returned w \<longrightarrow> chan w = []) \<and>
     (\<not> fn_returned w \<and> fn_status w \<noteq> Failed \<longrightarrow> accepted w = taken w @ under_way w)"

lemmas fn_inv_defs = fn_inv_def under_way_def

lemma fn_start_inv: "fn_inv room fn_start"
  by (simp add: fn_inv_defs fn_start_def)

locale fn_channel =
  fixes send :: "'m fn_actor \<Rightarrow> unit outcome option"
    and handle :: "unit outcome \<Rightarrow> ('m fn_actor, unit) eff"
    and room :: nat
  assumes sent: "send w = Some (Ok ()) \<Longrightarrow> \<not> fn_returned w \<and> length (chan w) < room"
    and closed: "fn_returned w \<Longrightarrow> \<exists>e. send w = Some (Err e)"
    and no_panic: "send w \<noteq> Some (Panic p)"
    and handle_Ok: "handle (Ok ()) w = (Ok (), w)"
    and handle_Err: "\<exists>e'. handle (Err e) w = (Err e', w\<lparr>stop_asked := True\<rparr>)"
begin

lemma send_on_cases:
  assumes "send_on send handle w = Some w'"
  obtains (queued) m where "in_hand w = Some m" "\<not> fn_returned w" "length (chan w) < room"
      "w' = w\<lparr>in_hand := None, chan := chan w @ [m]\<rparr>"
    | (failed) m e where "in_hand w = Some m" "send w = Some (Err e)"
      "w' = w\<lparr>in_hand := None, stop_asked := True, fn_status := Failed\<rparr>"
proof -
  obtain m where m: "in_hand w = Some m" using assms by (auto simp: send_on_def split: option.splits)
  obtain r where r: "send w = Some r" using assms m by (auto simp: send_on_def split: option.splits)
  show thesis
  proof (cases r)
    case (Ok u)
    then show thesis using assms m r sent[of w] handle_Ok that(1) by (simp add: send_on_def Let_def)
  next
    case (Err e)
    obtain e' where "handle (Err e) (w\<lparr>in_hand := None, chan := chan w\<rparr>) =
        (Err e', w\<lparr>in_hand := None, chan := chan w\<rparr>\<lparr>stop_asked := True\<rparr>)"
      using handle_Err[of e "w\<lparr>in_hand := None, chan := chan w\<rparr>"] by blast
    then show thesis using assms m r Err that(2) by (simp add: send_on_def Let_def)
  next
    case (Panic p)
    then show thesis using r no_panic by blast
  qed
qed

lemma step_inv:
  assumes "fn_step send handle ev w = Some w'" and "fn_inv room w"
  shows "fn_inv room w'"
proof (cases ev)
  case SendOn
  then have "send_on send handle w = Some w'" and run: "fn_status w = Running"
    using assms(1) by (auto simp: fn_step_def split: if_splits)
  from this(1) show ?thesis
  proof (cases rule: send_on_cases)
    case (queued m)
    then have "accepted w = taken w @ chan w @ m # inbox w"
      using assms(2) run by (simp add: fn_inv_defs)
    with queued assms(2) run show ?thesis by (simp add: fn_inv_defs)
  next
    case (failed m e)
    then show ?thesis using assms(2) by (auto simp: fn_inv_defs)
  qed
qed (use assms in \<open>auto simp: fn_step_def fn_task_def fn_inv_defs split: if_splits list.splits option.splits
    intro: prefix_prefix append_prefixD\<close>)

lemma run_inv: "fn_run send handle evs w = Some w' \<Longrightarrow> fn_inv room w \<Longrightarrow> fn_inv room w'"
  by (induction evs arbitrary: w) (auto split: option.splits dest: step_inv)

text \<open>Once the function has returned, every event of the run's own brings the end nearer.\<close>

lemma step_left:
  assumes "fn_step send handle ev w = Some w'" and "internal ev" and "fn_returned w"
  shows "events_left w' < events_left w" and "fn_returned w'"
proof -
  have "events_left w' < events_left w \<and> fn_returned w'"
  proof (cases ev)
    case SendOn
    then have "send_on send handle w = Some w'" and run: "fn_status w = Running"
      using assms(1) by (auto simp: fn_step_def split: if_splits)
    from this(1) show ?thesis
      by (cases rule: send_on_cases) (use run assms(3) in \<open>auto simp: events_left_def\<close>)
  qed (use assms in \<open>auto simp: fn_step_def fn_task_def events_left_def internal_def
      split: if_splits list.splits option.splits\<close>)
  then show "events_left w' < events_left w" and "fn_returned w'" by auto
qed

lemma run_left:
  "fn_run send handle evs w = Some w' \<Longrightarrow> list_all internal evs \<Longrightarrow> fn_returned w \<Longrightarrow>
   length evs + events_left w' \<le> events_left w \<and> fn_returned w'"
proof (induction evs arbitrary: w)
  case (Cons ev evs)
  then obtain w1 where "fn_step send handle ev w = Some w1" "fn_run send handle evs w1 = Some w'"
    by (auto split: option.splits)
  with Cons step_left[of ev w w1] show ?case by fastforce
qed simp

text \<open>And as long as the actor has not ended, there is such an event.\<close>

lemma not_stuck:
  assumes "fn_returned w" and "fn_status w = Running"
  shows "\<exists>ev w'. internal ev \<and> fn_step send handle ev w = Some w'"
proof (cases "in_hand w")
  case (Some m)
  obtain e where e: "send w = Some (Err e)" using closed[OF assms(1)] by blast
  then have "\<exists>w'. fn_step send handle SendOn w = Some w'"
    using Some assms(2) by (simp add: fn_step_def send_on_def Let_def split: prod.split)
  then show ?thesis by (auto simp: internal_def intro: exI[of _ SendOn])
next
  case None
  show ?thesis
  proof (cases "stop_asked w")
    case True
    then have "fn_step send handle Halt w = Some (w\<lparr>fn_status := Stopped\<rparr>)"
      using None assms by (simp add: fn_step_def)
    then show ?thesis by (auto simp: internal_def intro!: exI[of _ Halt])
  next
    case False
    then have "fn_step send handle TaskStop w = Some (w\<lparr>stop_asked := True\<rparr>)"
      using assms by (simp add: fn_step_def fn_task_def)
    then show ?thesis by (auto simp: internal_def intro!: exI[of _ TaskStop])
  qed
qed

end

text \<open>A channel whose sender waits for room: its handler fails only when the function is gone.\<close>

locale waiting_channel = fn_channel +
  assumes waits: "send w = Some (Err e) \<Longrightarrow> fn_returned w"
begin

lemma step_failed:
  assumes "fn_step send handle ev w = Some w'" and "fn_status w = Failed \<longrightarrow> fn_returned w"
  shows "fn_status w' = Failed \<longrightarrow> fn_returned w'"
proof (cases ev)
  case SendOn
  then have "send_on send handle w = Some w'" using assms(1) by (auto simp: fn_step_def split: if_splits)
  then show ?thesis using assms(2) waits by (cases rule: send_on_cases) auto
qed (use assms in \<open>auto simp: fn_step_def fn_task_def split: if_splits list.splits option.splits\<close>)

lemma run_failed:
  "fn_run send handle evs w = Some w' \<Longrightarrow> fn_status w = Failed \<longrightarrow> fn_returned w \<Longrightarrow>
   fn_status w' = Failed \<longrightarrow> fn_returned w'"
proof (induction evs arbitrary: w)
  case (Cons ev evs)
  then obtain w1 where "fn_step send handle ev w = Some w1" "fn_run send handle evs w1 = Some w'"
    by (auto split: option.splits)
  with Cons step_failed[of ev w w1] show ?case by blast
qed simp

end

lemma fn_channel_handles:
  assumes "bounded_channel send room"
  shows "fn_channel send fn_handle room" "fn_channel send thread_local_handle room"
  using assms by unfold_locales (auto simp: bounded_channel_def fn_handle_def thread_local_handle_def)

lemma waiting_channel_handle:
  assumes "bounded_channel send room" and "waits_for_room send"
  shows "waiting_channel send fn_handle room"
  by (rule waiting_channel.intro[OF fn_channel_handles(1)[OF assms(1)]], unfold_locales)
    (use assms(2) in \<open>simp add: waits_for_room_def\<close>)

lemma mpsc_send_channel: "bounded_channel (mpsc_send capacity) capacity" "waits_for_room (mpsc_send capacity)"
  by (auto simp: bounded_channel_def waits_for_room_def mpsc_send_def split: if_splits)

lemma try_send_channel: "bounded_channel (try_send buffer) (buffer + 1)"
  by (auto simp: bounded_channel_def try_send_def split: if_splits)

interpretation tokio: waiting_channel "mpsc_send max_channel_size" fn_handle max_channel_size
  by (rule waiting_channel_handle[OF mpsc_send_channel])

interpretation futures: fn_channel "try_send max_channel_size" thread_local_handle "max_channel_size + 1"
  by (rule fn_channel_handles(2)[OF try_send_channel])

end
