(* ===== verification/Fn_Family.thy ===== *)
theory Fn_Family
  imports Fn_Actor Nexus
begin

text \<open>
  The constructors of \<open>FnActor\<close> and \<open>ThreadLocalFnActor\<close>, and the actors they make side by side:
  each has its channel and, where it was started with a function, a task for it; some are
  linked to a supervisor, which hears of their end.
\<close>

section \<open>Actors and links\<close>

datatype fn_kind = TokioFn | LocalFn

text \<open>\<open>has_task\<close>: a task runs the function; otherwise the receiving end is with the caller.\<close>

record 'm fn_cell =
  fn_kind :: fn_kind
  has_task :: bool
  supervisor :: "actor_id option"
  fn_state :: "'m fn_actor"

type_synonym 'm fn_family = "(actor_id, 'm fn_cell) hmap"

type_synonym 'm family_eff = "('m fn_family, actor_id) eff"

text \<open>The runtime's answer to a spawn is an argument. The actors' \<open>pre_start\<close> only stores the sender.\<close>

definition spawn_cell :: "fn_kind \<Rightarrow> actor_id option \<Rightarrow> actor_id outcome \<Rightarrow> 'm family_eff" where
  "spawn_cell k supv actor_spawned =
     seq (lift actor_spawned) (\<lambda>a w. (Ok a, hm_insert a \<lparr>fn_kind = k, has_task = False, supervisor = supv, fn_state = fn_start\<rparr> w))"

text \<open>\<open>spawn(async move { f(ctx).await; actor_ref.stop(\<dots>) })\<close>\<close>

definition spawn_task :: "actor_id \<Rightarrow> 'm family_eff" where
  "spawn_task a = (\<lambda>w. (Ok a, case hm_get w a of Some c \<Rightarrow> hm_insert a (c\<lparr>has_task := True\<rparr>) w | None \<Rightarrow> w))"

section \<open>FnActor\<close>

definition start :: "actor_id outcome \<Rightarrow> 'm family_eff" where
  "start actor_spawned = spawn_cell TokioFn None actor_spawned"

definition start_instant :: "actor_id outcome \<Rightarrow> 'm family_eff" where
  "start_instant actor_spawned = spawn_cell TokioFn None actor_spawned"

definition start_linked :: "actor_id outcome \<Rightarrow> actor_id \<Rightarrow> 'm family_eff" where
  "start_linked actor_spawned supv = spawn_cell TokioFn (Some supv) actor_spawned"

definition start_fn :: "actor_id outcome \<Rightarrow> 'm family_eff" where
  "start_fn actor_spawned = seq (start actor_spawned) (\<lambda>actor_ref. spawn_task actor_ref)"

definition start_fn_linked :: "actor_id outcome \<Rightarrow> actor_id \<Rightarrow> 'm family_eff" where
  "start_fn_linked actor_spawned supv = seq (start_linked actor_spawned supv) (\<lambda>actor_ref. spawn_task actor_ref)"

definition start_fn_instant :: "actor_id outcome \<Rightarrow> 'm family_eff" where
  "start_fn_instant actor_spawned = seq (start_instant actor_spawned) (\<lambda>actor_ref. spawn_task actor_ref)"

text \<open>Its handler of supervision events logs the end of a child.\<close>

definition fn_supervise :: "supervision_event \<Rightarrow> ('m fn_actor, unit) eff" where
  "fn_supervise message = (\<lambda>st. (Ok (), case message of
     ActorTerminated who \<Rightarrow> st
   | ActorFailed who err \<Rightarrow> st
   | OtherEvent \<Rightarrow> st))"

section \<open>ThreadLocalFnActor\<close>

definition local_start :: "actor_id outcome \<Rightarrow> 'm family_eff" where
  "local_start actor_spawned = spawn_cell LocalFn None actor_spawned"

definition local_start_linked :: "actor_id outcome \<Rightarrow> actor_id \<Rightarrow> 'm family_eff" where
  "local_start_linked actor_spawned supv = spawn_cell LocalFn (Some supv) actor_spawned"

definition local_start_fn :: "actor_id outcome \<Rightarrow> 'm family_eff" where
  "local_start_fn actor_spawned = seq (local_start actor_spawned) (\<lambda>actor_ref. spawn_task actor_ref)"

definition local_start_fn_linked :: "actor_id outcome \<Rightarrow> actor_id \<Rightarrow> 'm family_eff" where
  "local_start_fn_linked actor_spawned supv = seq (local_start_linked actor_spawned supv) (\<lambda>actor_ref. spawn_task actor_ref)"

definition local_start_instant :: "actor_id outcome \<Rightarrow> 'm family_eff" where
  "local_start_instant spawn_result = (\<lambda>w. case spawn_cell LocalFn None spawn_result w of
     (Ok actor_ref, w') \<Rightarrow> (Ok actor_ref, w') | (r, w') \<Rightarrow> (r, w'))"

definition local_start_fn_instant :: "actor_id outcome \<Rightarrow> 'm family_eff" where
  "local_start_fn_instant spawn_result = seq (local_start_instant spawn_result) (\<lambda>actor_ref. spawn_task actor_ref)"

definition local_fn_supervise :: "supervision_event \<Rightarrow> ('m fn_actor, unit) eff" where
  "local_fn_supervise message = (\<lambda>st. (Ok (), case message of
     ActorTerminated who \<Rightarrow> st
   | ActorFailed who err \<Rightarrow> st
   | OtherEvent \<Rightarrow> st))"

section \<open>Steps of the family\<close>

text \<open>One event of one actor. Only a task stops an actor whose function has returned.\<close>

definition cell_step :: "'m fn_event \<Rightarrow> 'm fn_cell \<Rightarrow> 'm fn_cell option" where
  "cell_step ev c =
     (if ev = TaskStop \<and> \<not> has_task c then None
      else map_option (\<lambda>s. c\<lparr>fn_state := s\<rparr>) (case fn_kind c of
        TokioFn \<Rightarrow> fn_step (mpsc_send max_channel_size) fn_handle ev (fn_state c)
      | LocalFn \<Rightarrow> fn_step (try_send max_channel_size) thread_local_handle ev (fn_state c)))"

text \<open>An actor that ends is reported to its supervisor, whose handler runs.\<close>

definition report :: "actor_id \<Rightarrow> fn_status \<Rightarrow> supervision_event" where
  "report a s = (case s of Failed \<Rightarrow> ActorFailed a SendError | _ \<Rightarrow> ActorTerminated a)"

definition supervise_cell :: "supervision_event \<Rightarrow> 'm fn_cell \<Rightarrow> 'm fn_cell" where
  "supervise_cell event c =
     (let (r, s) = (case fn_kind c of TokioFn \<Rightarrow> fn_supervise event (fn_state c) | LocalFn \<Rightarrow> local_fn_supervise event (fn_state c))
      in c\<lparr>fn_state := (if is_ok r then s else s\<lparr>fn_status := Failed\<rparr>)\<rparr>)"

definition notify :: "actor_id \<Rightarrow> 'm fn_cell \<Rightarrow> 'm fn_cell \<Rightarrow> 'm fn_family \<Rightarrow> 'm fn_family" where
  "notify a c c' w =
     (if fn_status (fn_state c) = Running \<and> fn_status (fn_state c') \<noteq> Running then
        (case supervisor c' of
           Some supv \<Rightarrow> (case hm_get w supv of
               Some s \<Rightarrow> hm_insert supv (supervise_cell (report a (fn_status (fn_state c'))) s) w
             | None \<Rightarrow> w)
         | None \<Rightarrow> w)
      else w)"

definition family_step :: "actor_id \<Rightarrow> 'm fn_event \<Rightarrow> 'm fn_family \<Rightarrow> 'm fn_family option" where
  "family_step a ev w = (case hm_get w a of
     None \<Rightarrow> None
   | Some c \<Rightarrow> map_option (\<lambda>c'. notify a c c' (hm_insert a c' w)) (cell_step ev c))"

fun family_run :: "(actor_id \<times> 'm fn_event) list \<Rightarrow> 'm fn_family \<Rightarrow> 'm fn_family option" where
  "family_run [] w = Some w"
| "family_run ((a, ev) # evs) w = (case family_step a ev w of None \<Rightarrow> None | Some w' \<Rightarrow> family_run evs w')"

section \<open>One actor among the others\<close>

lemma supervise_cell_same: "supervise_cell event c = c"
  by (cases c; cases event) (simp_all add: supervise_cell_def fn_supervise_def local_fn_supervise_def split: fn_kind.split)

lemma notify_get: "hm_get (notify a c c' w) b = hm_get w b"
  by (auto simp: notify_def supervise_cell_same hm_get_insert split: option.split)

lemma family_step_get:
  "family_step a ev w = Some w' \<Longrightarrow>
   \<exists>c c'. hm_get w a = Some c \<and> cell_step ev c = Some c' \<and> (\<forall>b. hm_get w' b = (if b = a then Some c' else hm_get w b))"
  by (auto simp: family_step_def notify_get hm_get_insert split: option.splits)

lemma cell_step_fixed:
  "cell_step ev c = Some c' \<Longrightarrow> fn_kind c' = fn_kind c \<and> has_task c' = has_task c \<and> supervisor c' = supervisor c"
  by (auto simp: cell_step_def split: if_splits)

text \<open>The run of a family, seen at one actor, is a run of that actor.\<close>

fun events_of :: "actor_id \<Rightarrow> (actor_id \<times> 'm fn_event) list \<Rightarrow> 'm fn_event list" where
  "events_of a [] = []"
| "events_of a ((b, ev) # evs) = (if b = a then ev # events_of a evs else events_of a evs)"

definition run_of :: "fn_kind \<Rightarrow> 'm fn_event list \<Rightarrow> 'm fn_actor \<Rightarrow> 'm fn_actor option" where
  "run_of k = (case k of
     TokioFn \<Rightarrow> fn_run (mpsc_send max_channel_size) fn_handle
   | LocalFn \<Rightarrow> fn_run (try_send max_channel_size) thread_local_handle)"

lemma cell_step_run:
  "cell_step ev c = Some c' \<Longrightarrow> run_of (fn_kind c) (ev # evs) (fn_state c) = run_of (fn_kind c) evs (fn_state c')"
  by (auto simp: cell_step_def run_of_def split: fn_kind.splits if_splits)

lemma family_run_cell:
  assumes "family_run evs w = Some w'" and "hm_get w a = Some c"
  shows "\<exists>c'. hm_get w' a = Some c' \<and> run_of (fn_kind c) (events_of a evs) (fn_state c) = Some (fn_state c') \<and>
    fn_kind c' = fn_kind c \<and> has_task c' = has_task c \<and> supervisor c' = supervisor c"
  using assms
proof (induction evs arbitrary: w c)
  case Nil
  then show ?case by (simp add: run_of_def split: fn_kind.split)
next
  case (Cons e evs)
  obtain b ev where e: "e = (b, ev)" by force
  then obtain w1 where s: "family_step b ev w = Some w1" and r: "family_run evs w1 = Some w'"
    using Cons.prems(1) by (auto split: option.splits)
  from family_step_get[OF s] obtain d d' where d: "hm_get w b = Some d" "cell_step ev d = Some d'"
    "\<forall>x. hm_get w1 x = (if x = b then Some d' else hm_get w x)" by blast
  show ?case
  proof (cases "b = a")
    case True
    then have "d = c" "hm_get w1 a = Some d'" using d Cons.prems(2) by auto
    with Cons.IH[OF r this(2)] cell_step_fixed[OF d(2)] cell_step_run[OF d(2), of "events_of a evs"] True e
    show ?thesis by auto
  next
    case False
    then have "hm_get w1 a = Some c" using d Cons.prems(2) by auto
    with Cons.IH[OF r this] False e show ?thesis by simp
  qed
qed

text \<open>All constructors, with the kind, whether there is a task, and the supervisor of what they make.\<close>

definition constructors :: "actor_id \<Rightarrow> ((actor_id outcome \<Rightarrow> 'm family_eff) \<times> fn_kind \<times> bool \<times> actor_id option) set" where
  "constructors p = {(start, TokioFn, False, None), (start_instant, TokioFn, False, None),
     (\<lambda>r. start_linked r p, TokioFn, False, Some p), (start_fn, TokioFn, True, None),
     (start_fn_instant, TokioFn, True, None), (\<lambda>r. start_fn_linked r p, TokioFn, True, Some p),
     (local_start, LocalFn, False, None), (local_start_instant, LocalFn, False, None),
     (\<lambda>r. local_start_linked r p, LocalFn, False, Some p), (local_start_fn, LocalFn, True, None),
     (local_start_fn_instant, LocalFn, True, None), (\<lambda>r. local_start_fn_linked r p, LocalFn, True, Some p)}"

definition new_cell :: "fn_kind \<Rightarrow> bool \<Rightarrow> actor_id option \<Rightarrow> 'm fn_cell" where
  "new_cell k t supv = \<lparr>fn_kind = k, has_task = t, supervisor = supv, fn_state = fn_start\<rparr>"

lemma spawn_cell_simps:
  "spawn_cell k supv (Ok a) w = (Ok a, hm_insert a (new_cell k False supv) w)"
  "spawn_cell k supv (Err e) w = (Err e, w)" "spawn_cell k supv (Panic q) w = (Panic q, w)"
  by (simp_all add: spawn_cell_def new_cell_def)

lemma spawn_task_new:
  "spawn_task a (hm_insert a (new_cell k False supv) w) = (Ok a, hm_insert a (new_cell k True supv) (hm_insert a (new_cell k False supv) w))"
  by (simp add: spawn_task_def hm_get_insert new_cell_def)

lemmas constructor_defs = start_def start_instant_def start_linked_def start_fn_def start_fn_linked_def start_fn_instant_def
  local_start_def local_start_linked_def local_start_fn_def local_start_fn_linked_def local_start_instant_def local_start_fn_instant_def

lemma constructors_make:
  assumes "(mk, k, t, supv) \<in> constructors p"
  shows "\<exists>w'. mk (Ok a) w = (Ok a, w') \<and> (\<forall>b. hm_get w' b = (if b = a then Some (new_cell k t supv) else hm_get w b))"
    and "mk (Err e) w = (Err e, w)"
  using assms by (auto simp: constructors_def constructor_defs spawn_cell_simps spawn_task_new seq_def hm_get_insert)

section \<open>How one ends\<close>

lemma run_of_inv:
  assumes "run_of k evs fn_start = Some st"
  shows "prefix (taken st @ chan st) (accepted st)"
proof (cases k)
  case TokioFn
  with assms tokio.run_inv[of evs fn_start st] fn_start_inv show ?thesis by (auto simp: run_of_def fn_inv_def)
next
  case LocalFn
  with assms futures.run_inv[of evs fn_start st] fn_start_inv show ?thesis by (auto simp: run_of_def fn_inv_def)
qed

lemma cell_goes_on:
  assumes "fn_returned (fn_state c)" and "fn_status (fn_state c) = Running" and "has_task c"
  shows "\<exists>ev. internal ev \<and> cell_step ev c \<noteq> None"
  using assms tokio.not_stuck[OF assms(1,2)] futures.not_stuck[OF assms(1,2)]
  by (cases "fn_kind c") (auto simp: cell_step_def)

text \<open>Nothing is left to do.\<close>

definition idle :: "'m fn_actor \<Rightarrow> bool" where
  "idle st \<longleftrightarrow> inbox st = [] \<and> in_hand st = None \<and> \<not> stop_asked st"

lemma cell_lingers:
  assumes "fn_returned (fn_state c)" and "idle (fn_state c)" and "\<not> has_task c" and "internal ev" and "chan (fn_state c) = []"
  shows "cell_step ev c = None"
  using assms by (cases ev; cases "fn_kind c")
    (auto simp: cell_step_def fn_step_def fn_task_def send_on_def internal_def idle_def)

end
