(* ===== verification/Combinators.thy ===== *)
theory Combinators
  imports Prelude
begin

text \<open>
  \<open>util/combinators/{filter,map,filter_map}.rs\<close>: actors that stand before another one
  and change, or drop, the messages for it. \<open>takes n\<close> says whether the target still
  takes the message of the \<open>n\<close>-th call of \<open>send_message\<close>. \<open>filter\<close> runs a loop on a
  \<open>FnActor\<close>; the other two are actors of their own, which the first error ends.
\<close>

section \<open>\<open>filter\<close>\<close>

datatype 'm filter_result = Forward 'm | Drop

fun filter_loop :: "('m \<Rightarrow> 'm filter_result) \<Rightarrow> (nat \<Rightarrow> bool) \<Rightarrow> nat \<Rightarrow> 'm list \<Rightarrow> 'm list" where
  "filter_loop f takes n [] = []"
| "filter_loop f takes n (msg # rx) = (case f msg of
     Forward msg' \<Rightarrow>
       if takes n then msg' # filter_loop f takes (n + 1) rx
       else filter_loop f takes (n + 1) rx
   | Drop \<Rightarrow> filter_loop f takes n rx)"

section \<open>\<open>map\<close> and \<open>filter_map\<close>\<close>

text \<open>A handler returns its result and what it has sent to the target, \<open>takes\<close> the target's answer.\<close>

definition mapped_handle :: "('b \<Rightarrow> 'a) \<Rightarrow> bool \<Rightarrow> 'b \<Rightarrow> unit outcome \<times> 'a list" where
  "mapped_handle to takes message =
     (let mapped_message = to message
      in if takes then (Ok (), [mapped_message]) else (Err SendError, []))"

definition filter_map_handle :: "('b \<Rightarrow> 'a option) \<Rightarrow> bool \<Rightarrow> 'b \<Rightarrow> unit outcome \<times> 'a list" where
  "filter_map_handle f takes message = (case f message of
     Some mapped_message \<Rightarrow> if takes then (Ok (), [mapped_message]) else (Err SendError, [])
   | None \<Rightarrow> (Ok (), []))"

text \<open>An actor takes its messages in turn, until a handler fails: is it still alive, and what did it send?\<close>

fun actor_run :: "(bool \<Rightarrow> 'b \<Rightarrow> unit outcome \<times> 'a list) \<Rightarrow> (nat \<Rightarrow> bool) \<Rightarrow> nat \<Rightarrow> 'b list \<Rightarrow> bool \<times> 'a list" where
  "actor_run handle takes n [] = (True, [])"
| "actor_run handle takes n (message # inbox) = (case handle (takes n) message of
     (Ok u, sent) \<Rightarrow>
       (let (alive, more) = actor_run handle takes (n + length sent) inbox in (alive, sent @ more))
   | (_, sent) \<Rightarrow> (False, sent))"

section \<open>Reference: the functions on lists\<close>

definition forwarded :: "('m \<Rightarrow> 'm filter_result) \<Rightarrow> 'm \<Rightarrow> 'm option" where
  "forwarded f m = (case f m of Forward m' \<Rightarrow> Some m' | Drop \<Rightarrow> None)"

lemma filter_loop_eq:
  "filter_loop f (\<lambda>i. i < k) n msgs = take (k - n) (List.map_filter (forwarded f) msgs)"
proof (induction msgs arbitrary: n)
  case (Cons m msgs)
  show ?case
  proof (cases "f m")
    case (Forward m')
    then show ?thesis
      using Cons by (cases "n < k") (simp_all add: forwarded_def map_filter_simps Suc_diff_Suc flip: take_Suc_Cons)
  qed (use Cons in \<open>simp add: forwarded_def map_filter_simps\<close>)
qed (simp add: map_filter_simps)

lemma filter_map_run_eq:
  "actor_run (filter_map_handle f) (\<lambda>i. i < k) n msgs =
     (n + length (List.map_filter f msgs) \<le> max n k, take (k - n) (List.map_filter f msgs))"
proof (induction msgs arbitrary: n)
  case (Cons m msgs)
  show ?case
  proof (cases "f m")
    case (Some m')
    then show ?thesis
      using Cons by (cases "n < k") (auto simp: filter_map_handle_def map_filter_simps Suc_diff_Suc max_def simp flip: take_Suc_Cons)
  qed (use Cons in \<open>simp add: filter_map_handle_def map_filter_simps\<close>)
qed (simp add: map_filter_simps)

lemma mapped_is_filter_map: "mapped_handle to = filter_map_handle (\<lambda>m. Some (to m))"
  by (simp add: fun_eq_iff mapped_handle_def filter_map_handle_def)

lemma mapped_run_eq:
  "actor_run (mapped_handle to) (\<lambda>i. i < k) n msgs = (n + length msgs \<le> max n k, take (k - n) (map to msgs))"
  unfolding mapped_is_filter_map filter_map_run_eq by (simp add: map_filter_def comp_def)

end
