(* ===== verification/Websocket.thy ===== *)
theory Websocket
  imports Conduit Fn_Actor
begin

text \<open>
  The WebSocket transports: \<open>conduit/websocket/server/tokio_tungstenite.rs\<close>,
  \<open>conduit/websocket/client/tokio_tungstenite.rs\<close> and
  \<open>conduit/websocket/client/ewebsock.rs\<close>. The crates deliver whole messages, so a
  transport maps messages to messages. A tungstenite stream is the list of the items it
  yields; an ewebsock connection reports a list of events.
\<close>

section \<open>tungstenite\<close>

text \<open>A close frame has a code, known by its \<open>Debug\<close> text, and a reason.\<close>

record close_frame =
  close_code :: rstring
  close_reason :: rstring

datatype ws_message =
    WsText rstring
  | WsBinary bytes
  | WsPing bytes
  | WsPong bytes
  | WsClose "close_frame option"
  | WsFrame bytes

definition close_text :: "close_frame \<Rightarrow> rstring" where
  "close_text fr = str_lit ''Close code: '' @ close_code fr @ str_lit '', reason: '' @ close_reason fr"

definition ws_client_to_conduit :: "ws_message outcome \<Rightarrow> conduit_message outcome option" where
  "ws_client_to_conduit element =
     (let output = (case element of
            Ok msg \<Rightarrow> Ok (case msg of
                WsText text \<Rightarrow> Some (CmHandshake text)
              | WsBinary bin \<Rightarrow> Some (CmContent bin)
              | WsClose (Some reason) \<Rightarrow> Some (CmClose (Some (close_text reason)))
              | WsClose None \<Rightarrow> Some (CmClose None)
              | _ \<Rightarrow> None)
          | Err e \<Rightarrow> Err e | Panic p \<Rightarrow> Panic p)
      in case output of
           Ok (Some msg) \<Rightarrow> Some (Ok msg) | Ok None \<Rightarrow> None
         | Err e \<Rightarrow> Some (Err e) | Panic p \<Rightarrow> Some (Panic p))"

definition ws_server_to_conduit :: "ws_message outcome \<Rightarrow> conduit_message outcome option" where
  "ws_server_to_conduit element =
     (let output = (case element of
            Ok msg \<Rightarrow> Ok (case msg of
                WsText text \<Rightarrow> Some (CmHandshake text)
              | WsBinary bin \<Rightarrow> Some (CmContent bin)
              | WsClose _ \<Rightarrow> Some (CmClose None)
              | _ \<Rightarrow> None)
          | Err e \<Rightarrow> Err e | Panic p \<Rightarrow> Panic p)
      in case output of
           Ok (Some msg) \<Rightarrow> Some (Ok msg) | Ok None \<Rightarrow> None
         | Err e \<Rightarrow> Some (Err e) | Panic p \<Rightarrow> Some (Panic p))"

text \<open>\<open>source.filter_map(\<dots>)\<close>\<close>

definition ws_client_source :: "ws_message outcome list \<Rightarrow> conduit_message outcome list" where
  "ws_client_source = List.map_filter ws_client_to_conduit"

definition ws_server_source :: "ws_message outcome list \<Rightarrow> conduit_message outcome list" where
  "ws_server_source = List.map_filter ws_server_to_conduit"

definition conduit_to_ws_client :: "conduit_message \<Rightarrow> ws_message" where
  "conduit_to_ws_client element = (case element of
     CmHandshake text \<Rightarrow> WsText text | CmContent bin \<Rightarrow> WsBinary bin | CmClose _ \<Rightarrow> WsClose None)"

definition conduit_to_ws_server :: "conduit_message \<Rightarrow> ws_message" where
  "conduit_to_ws_server element = (case element of
     CmHandshake text \<Rightarrow> WsText text | CmContent bin \<Rightarrow> WsBinary bin | CmClose _ \<Rightarrow> WsClose None)"

section \<open>ewebsock\<close>

datatype ews_message = EwsText rstring | EwsBinary bytes | EwsOther bytes

datatype ews_event = EwsOpened | EwsMessage ews_message | EwsError rstring | EwsClosed

text \<open>
  The event handler: what it puts into the channel whose other end the receive loop reads,
  and whether it signals that the connection is open, which it does once.
\<close>

definition ews_handler :: "ews_event \<Rightarrow> bool \<Rightarrow> conduit_message list \<times> bool \<times> bool" where
  "ews_handler evt opened_tx = (case evt of
     EwsOpened \<Rightarrow> ([], False, opened_tx)
   | EwsMessage ws_message \<Rightarrow>
       (case ws_message of
          EwsText text \<Rightarrow> [CmHandshake text] | EwsBinary bin \<Rightarrow> [CmContent bin] | EwsOther _ \<Rightarrow> [], opened_tx, False)
   | EwsError _ \<Rightarrow> ([], opened_tx, False)
   | EwsClosed \<Rightarrow> ([], opened_tx, False))"

text \<open>All events in turn: the channel's messages, and how often the opening was signalled.\<close>

fun ews_events :: "bool \<Rightarrow> ews_event list \<Rightarrow> conduit_message list \<times> nat" where
  "ews_events opened_tx [] = ([], 0)"
| "ews_events opened_tx (evt # evts) =
     (let (ms, opened_tx', signalled) = ews_handler evt opened_tx;
          (ms', n) = ews_events opened_tx' evts
      in (ms @ ms', n + (if signalled then 1 else 0)))"

text \<open>
  \<open>adapt_tokio_receiver_to_Conduit\<close>: what has come through the channel so far. The
  stream ends only when the handler, which owns the channel's other end, is dropped.
\<close>

definition ews_source :: "ews_event list \<Rightarrow> conduit_message outcome list" where
  "ews_source evts = map Ok (fst (ews_events True evts))"

text \<open>
  The sink: an actor (\<open>FnActor\<close>) takes the messages and hands them to the task that owns
  the \<open>WsSender\<close>. \<open>running\<close> is the actor's status, \<open>queue\<close> what it was sent.
\<close>

record ews_sink =
  sender_running :: bool
  sender_queue :: "conduit_message list"

definition poll_ready :: "ews_sink \<Rightarrow> unit outcome" where
  "poll_ready s = (if sender_running s then Ok () else Err (AnyhowMsg (str_lit ''Disconnected'')))"

definition start_send :: "conduit_message \<Rightarrow> (ews_sink, unit) eff" where
  "start_send item = (\<lambda>s.
     (Ok (), if sender_running s then s\<lparr>sender_queue := sender_queue s @ [item]\<rparr> else s))"

definition poll_close :: "(ews_sink, unit) eff" where
  "poll_close = start_send (CmClose (Some (str_lit ''Closing the Sink'')))"

text \<open>\<open>send\<close> of a sink: ready, then the message, then flushed.\<close>

definition ews_send :: "conduit_message \<Rightarrow> (ews_sink, unit) eff" where
  "ews_send item = seq (\<lambda>s. (poll_ready s, s)) (\<lambda>_. start_send item)"

text \<open>
  The sender's function: what it gives to the \<open>WsSender\<close>, and whether it asked its actor
  to stop. It goes on with what it still receives; when nothing more comes, the channel to
  the \<open>WsSender\<close> closes, and with it the connection.
\<close>

fun ews_sender :: "conduit_message list \<Rightarrow> ews_message list \<times> bool" where
  "ews_sender [] = ([], False)"
| "ews_sender (msg # rx) =
     (let (sent, stopped) = ews_sender rx
      in case msg of
           CmHandshake text \<Rightarrow> (EwsText text # sent, stopped)
         | CmContent data \<Rightarrow> (EwsBinary data # sent, stopped)
         | CmClose _ \<Rightarrow> (sent, True))"

section \<open>The maps are inverse\<close>

lemma ws_client_source_sink:
  "ws_client_source (map (Ok \<circ> conduit_to_ws_server) ms) =
     map Ok (map (\<lambda>m. if is_close m then CmClose None else m) ms)"
proof (induction ms)
  case (Cons m ms)
  then show ?case
    by (cases m) (simp_all add: ws_client_source_def conduit_to_ws_server_def ws_client_to_conduit_def map_filter_simps)
qed (simp add: ws_client_source_def map_filter_simps)

lemma ws_server_source_sink:
  "ws_server_source (map (Ok \<circ> conduit_to_ws_client) ms) =
     map Ok (map (\<lambda>m. if is_close m then CmClose None else m) ms)"
proof (induction ms)
  case (Cons m ms)
  then show ?case
    by (cases m) (simp_all add: ws_server_source_def conduit_to_ws_client_def ws_server_to_conduit_def map_filter_simps)
qed (simp add: ws_server_source_def map_filter_simps)

lemma portal_message_of_close [simp]: "is_close m \<Longrightarrow> portal_message_of m = Close"
  by (cases m) auto

text \<open>What the receive loop makes of a stream does not depend on what close frames say.\<close>

definition same_item :: "conduit_message outcome \<Rightarrow> conduit_message outcome \<Rightarrow> bool" where
  "same_item r q \<longleftrightarrow> r = q \<or> (\<exists>m m'. r = Ok m \<and> q = Ok m' \<and> is_close m \<and> is_close m')"

lemma is_close_eq: "is_close m \<longleftrightarrow> (\<exists>r. m = CmClose r)"
  by (cases m) auto

lemma receive_loop_same:
  "list_all2 same_item rs qs \<Longrightarrow>
     (receive_loop takes n rs :: ('rm, 'f) portal_message list) = receive_loop takes n qs"
proof (induction rs qs arbitrary: n rule: list_all2_induct)
  case (Cons r rs q qs)
  show ?case
  proof (cases "r = q")
    case True
    show ?thesis
    proof (cases q)
      case (Ok m)
      then show ?thesis using Cons.IH True by (cases m) simp_all
    qed (use True in simp_all)
  next
    case False
    then show ?thesis using Cons.hyps by (auto simp: same_item_def is_close_eq)
  qed
qed simp

lemma ws_sources_same:
  "list_all2 same_item (ws_client_source rs) (ws_server_source rs)"
proof (induction rs)
  case (Cons r rs)
  have "rel_option same_item (ws_client_to_conduit r) (ws_server_to_conduit r)"
    by (auto simp: ws_client_to_conduit_def ws_server_to_conduit_def same_item_def
        split: outcome.split ws_message.split option.split)
  with Cons show ?case
    by (cases "ws_client_to_conduit r"; cases "ws_server_to_conduit r")
      (simp_all add: ws_client_source_def ws_server_source_def map_filter_simps)
qed (simp add: ws_client_source_def ws_server_source_def map_filter_simps)

text \<open>Which messages come through does not depend on the signal.\<close>

definition ews_item :: "ews_event \<Rightarrow> conduit_message list" where
  "ews_item evt = (case evt of
     EwsMessage (EwsText t) \<Rightarrow> [CmHandshake t] | EwsMessage (EwsBinary d) \<Rightarrow> [CmContent d] | _ \<Rightarrow> [])"

lemma ews_handler_item: "fst (ews_handler evt b) = ews_item evt"
  by (simp add: ews_handler_def ews_item_def split: ews_event.split ews_message.split)

lemma ews_events_items: "fst (ews_events b evts) = concat (map ews_item evts)"
  by (induction evts arbitrary: b) (simp_all add: case_prod_beta Let_def ews_handler_item)

lemma ews_source_eq: "ews_source evts = map Ok (concat (map ews_item evts))"
  by (simp add: ews_source_def ews_events_items)

text \<open>The opening is signalled at the first event that reports it, and not again.\<close>

lemma ews_opened_once: "snd (ews_events b evts) = (if b \<and> EwsOpened \<in> set evts then 1 else 0)"
  by (induction evts arbitrary: b)
    (auto simp: case_prod_beta Let_def ews_handler_def split: ews_event.splits)

lemma ews_sender_live:
  assumes "list_all (\<lambda>m. \<not> is_close m) ms"
  shows "ews_sender ms = (map (\<lambda>m. case m of CmHandshake t \<Rightarrow> EwsText t | CmContent d \<Rightarrow> EwsBinary d) ms, False)"
  using assms
proof (induction ms)
  case (Cons m ms)
  then show ?case by (cases m) (simp_all add: Let_def)
qed simp

end
