(* ===== verification/Util_Props.thy ===== *)
theory Util_Props
  imports Fn_Family Combinators Websocket
begin

text \<open>
  The properties of function actors, of the actors that stand before another one, and of the
  WebSocket transports.
\<close>

section \<open>Function actors\<close>

text \<open>
  A function actor hands its messages on in order and loses none. After any run, what the
  function has received, followed by what waits in the channel, is the first part of what
  the actor accepted; the channel never exceeds its capacity; and as long as the function has
  not returned, every accepted message has been received or is on its way, and the actor has
  not failed.
\<close>

theorem fn_actor_order:
  assumes "bounded_channel send capacity" and "waits_for_room send"
    and "fn_run send fn_handle evs fn_start = Some w"
  shows "prefix (taken w @ chan w) (accepted w) \<and> length (chan w) \<le> capacity \<and>
    (\<not> fn_returned w \<longrightarrow> accepted w = taken w @ under_way w \<and> fn_status w \<noteq> Failed)"
proof -
  note W = waiting_channel_handle[OF assms(1,2)] and C = fn_channel_handles(1)[OF assms(1)]
  have "fn_inv capacity w" by (rule fn_channel.run_inv[OF C assms(3) fn_start_inv])
  moreover have "fn_status w = Failed \<longrightarrow> fn_returned w"
    by (rule waiting_channel.run_failed[OF W assms(3)]) (simp add: fn_start_def)
  ultimately show ?thesis by (auto simp: fn_inv_def)
qed

definition sample_events :: "nat fn_event list" where
  "sample_events = [SendMsg 1, SendMsg 2, TakeMsg, SendMsg 3, SendOn, TakeMsg, Recv, SendOn]"

theorem fn_actor_order_witness:
  "\<exists>w. fn_run (mpsc_send 1) fn_handle sample_events fn_start = Some w \<and> taken w = [1] \<and> chan w = [2] \<and>
     accepted w = taken w @ under_way w"
proof -
  obtain w where w: "fn_run (mpsc_send 1) fn_handle sample_events fn_start = Some w"
    "taken w = [1]" "chan w = [2]" "\<not> fn_returned w"
    by (simp add: sample_events_def fn_start_def fn_step_def fn_task_def send_on_def mpsc_send_def fn_handle_def)
  with fn_actor_order[OF mpsc_send_channel w(1)] show ?thesis by blast
qed

text \<open>
  C32: When the function returns, its actor ends, whichever of the two kinds it is. From then on the actor, its handler and the task
  bring about only finitely many events on their own, at most two for every message
  still in the inbox and three more, and as long as the actor runs there is another one:
  whatever their order, the actor stops or fails.
\<close>

theorem fn_actor_ends:
  assumes "bounded_channel send capacity" and "hdl = fn_handle \<or> hdl = thread_local_handle" and "fn_returned w"
  shows "(fn_run send hdl evs w = Some w' \<and> list_all internal evs \<longrightarrow> length evs \<le> 2 * length (inbox w) + 3) \<and>
    (fn_status w = Running \<longrightarrow> (\<exists>ev w'. internal ev \<and> fn_step send hdl ev w = Some w'))"
proof -
  have C: "fn_channel send hdl capacity" using assms(2) fn_channel_handles[OF assms(1)] by blast
  have "events_left w \<le> 2 * length (inbox w) + 3" by (simp add: events_left_def)
  then show ?thesis
    using fn_channel.run_left[OF C _ _ assms(3), of evs w'] fn_channel.not_stuck[OF C assms(3)] by fastforce
qed

theorem fn_actor_ends_witness:
  "\<exists>ev w'. internal ev \<and>
     fn_step (try_send 1) thread_local_handle ev (fn_start\<lparr>inbox := [5 :: nat], fn_returned := True\<rparr>) = Some w'"
  using fn_actor_ends[OF try_send_channel, of thread_local_handle "fn_start\<lparr>inbox := [5 :: nat], fn_returned := True\<rparr>" 1 "[]" undefined]
  by (simp add: fn_start_def)

text \<open>
  The two kinds of function actors differ when the channel is full. The handler of
  \<open>FnActor\<close> waits, and once the function has received a message it goes on; that of
  \<open>ThreadLocalFnActor\<close> fails, and with it the actor, although the function still runs: the
  message in hand and those behind it are lost.
\<close>

theorem full_channel:
  assumes "fn_status w = Running" and "in_hand w = Some m" and "\<not> fn_returned w" and "length (chan w) = buffer + 1"
  shows "fn_step (mpsc_send (buffer + 1)) fn_handle SendOn w = None \<and>
    (\<exists>w1 w2. fn_step (mpsc_send (buffer + 1)) fn_handle Recv w = Some w1 \<and>
       fn_step (mpsc_send (buffer + 1)) fn_handle SendOn w1 = Some w2 \<and>
       chan w2 = tl (chan w) @ [m] \<and> fn_status w2 = Running) \<and>
    fn_step (try_send buffer) thread_local_handle SendOn w =
      Some (w\<lparr>in_hand := None, stop_asked := True, fn_status := Failed\<rparr>)"
  using assms
  by (cases "chan w")
    (auto simp: fn_step_def fn_task_def send_on_def mpsc_send_def try_send_def fn_handle_def thread_local_handle_def)

theorem full_channel_witness:
  "\<exists>w. fn_run (try_send 1) thread_local_handle
       [SendMsg (1 :: nat), TakeMsg, SendOn, SendMsg 2, TakeMsg, SendOn, SendMsg 3, TakeMsg] fn_start = Some w \<and>
     fn_step (try_send 1) thread_local_handle SendOn w =
       Some (w\<lparr>in_hand := None, stop_asked := True, fn_status := Failed\<rparr>)"
proof -
  let ?evs = "[SendMsg (1 :: nat), TakeMsg, SendOn, SendMsg 2, TakeMsg, SendOn, SendMsg 3, TakeMsg]"
  obtain w where w: "fn_run (try_send 1) thread_local_handle ?evs fn_start = Some w"
    "fn_status w = Running" "in_hand w = Some 3" "\<not> fn_returned w" "length (chan w) = 1 + 1"
    by (simp add: fn_start_def fn_step_def fn_task_def send_on_def try_send_def thread_local_handle_def)
  with full_channel[OF w(2-5)] show ?thesis by blast
qed



section \<open>Actors before actors\<close>

text \<open>
  \<open>filter\<close>, \<open>map\<close> and \<open>filter_map\<close> do to a run of messages what the functions of
  the same names do to a list, up to the message the target no longer takes. There they
  differ: the filter swallows the rest and lives on, the other two end, unless everything
  they still had to send was dropped by the function.
\<close>

theorem combinators_reference:
  "filter_loop f (\<lambda>i. i < k) 0 msgs = take k (List.map_filter (forwarded f) msgs) \<and>
   actor_run (mapped_handle to) (\<lambda>i. i < k) 0 msgs' = (length msgs' \<le> k, take k (map to msgs')) \<and>
   actor_run (filter_map_handle g) (\<lambda>i. i < k) 0 msgs' =
     (length (List.map_filter g msgs') \<le> k, take k (List.map_filter g msgs'))"
  by (simp add: filter_loop_eq mapped_run_eq filter_map_run_eq)

section \<open>WebSockets\<close>

text \<open>Frames that carry no message: a connection sends them on its own.\<close>

definition noise :: "ws_message \<Rightarrow> bool" where
  "noise m = (case m of WsPing _ \<Rightarrow> True | WsPong _ \<Rightarrow> True | WsFrame _ \<Rightarrow> True | _ \<Rightarrow> False)"

lemma ws_noise:
  "noise m \<Longrightarrow> ws_client_to_conduit (Ok m) = None" "noise m \<Longrightarrow> ws_server_to_conduit (Ok m) = None"
  by (auto simp: noise_def ws_client_to_conduit_def ws_server_to_conduit_def split: ws_message.splits)

lemma client_source_skips_noise: "ws_client_source (map Ok ms) = ws_client_source (map Ok (filter (\<lambda>m. \<not> noise m) ms))"
  by (induction ms) (simp_all add: ws_client_source_def map_filter_simps ws_noise split: option.split)

lemma server_source_skips_noise: "ws_server_source (map Ok ms) = ws_server_source (map Ok (filter (\<lambda>m. \<not> noise m) ms))"
  by (induction ms) (simp_all add: ws_server_source_def map_filter_simps ws_noise split: option.split)

lemma live_prefix_sent:
  "live_prefix (map Ok (map (\<lambda>m. if is_close m then CmClose None else m) ms)) = takeWhile (\<lambda>m. \<not> is_close m) ms"
  by (induction ms) auto

text \<open>
  C19: WebSockets carry conversations. What one end puts into its sink, delivered by the
  connection together with pings and other frames of its own, reaches the other end's
  portal as the same messages in order up to the first close, and then one close; in both
  directions.
\<close>

theorem websocket_conversation:
  assumes "filter (\<lambda>m. \<not> noise m) up = map conduit_to_ws_client ms"
    and "filter (\<lambda>m. \<not> noise m) down = map conduit_to_ws_server ms"
  shows "(receive_loop (\<lambda>_. True) 0 (ws_server_source (map Ok up)) :: ('rm, 'f) portal_message list) =
      map portal_message_of (takeWhile (\<lambda>m. \<not> is_close m) ms) @ [Close] \<and>
    (receive_loop (\<lambda>_. True) 0 (ws_client_source (map Ok down)) :: ('rm, 'f) portal_message list) =
      map portal_message_of (takeWhile (\<lambda>m. \<not> is_close m) ms) @ [Close]"
proof -
  let ?sent = "map Ok (map (\<lambda>m. if is_close m then CmClose None else m) ms) :: conduit_message outcome list"
  have "ws_server_source (map Ok up) = ?sent" "ws_client_source (map Ok down) = ?sent"
    using server_source_skips_noise[of up] client_source_skips_noise[of down] assms
      ws_server_source_sink[of ms] ws_client_source_sink[of ms] by simp_all
  moreover have "(receive_loop (\<lambda>_. True) 0 ?sent :: ('rm, 'f) portal_message list) =
      map portal_message_of (takeWhile (\<lambda>m. \<not> is_close m) ms) @ [Close]"
    unfolding live_prefix_sent[symmetric] by (rule receive_loop_eq[OF _ no_panic_map_Ok]) simp
  ultimately show ?thesis by simp
qed

theorem websocket_conversation_witness:
  "(receive_loop (\<lambda>_. True) 0 (ws_server_source (map Ok [WsText [104], WsPing [], WsBinary [1, 2], WsClose None, WsBinary [3]]))
     :: (nat, nat) portal_message list) = [Handshake [104], Content [1, 2], Close]"
  using websocket_conversation[where 'rm = nat and 'f = nat,
      of "[WsText [104], WsPing [], WsBinary [1, 2], WsClose None, WsBinary [3]]"
        "[CmHandshake [104], CmContent [1, 2], CmClose None, CmContent [3]]"
        "[WsText [104], WsBinary [1, 2], WsClose None, WsBinary [3]]"]
  by (simp add: noise_def conduit_to_ws_client_def conduit_to_ws_server_def is_close_def)

text \<open>
  The two tungstenite sources are written differently, and keep or drop what a close frame
  says, but no portal can tell: whatever the connection yields, errors included, and
  whatever the mailbox refuses, the receive loop does the same with both; and the two sinks
  write the same.
\<close>

theorem websocket_sources_agree:
  "(receive_loop takes n (ws_client_source rs) :: ('rm, 'f) portal_message list) = receive_loop takes n (ws_server_source rs) \<and>
   conduit_to_ws_client = conduit_to_ws_server"
  using receive_loop_same[OF ws_sources_same] by (auto simp: conduit_to_ws_client_def conduit_to_ws_server_def fun_eq_iff)

text \<open>
  An ewebsock connection that closes, or breaks, is not noticed. The messages come through
  in order, and the opening is signalled once; but where a tungstenite source ends with a
  close, the events \<open>Closed\<close> and \<open>Error\<close> leave the ewebsock source as it was, and the
  portal is not told.
\<close>

theorem ewebsock_close_unseen:
  "ews_source (evts @ [EwsMessage (EwsText t), EwsMessage (EwsBinary d)]) = ews_source evts @ [Ok (CmHandshake t), Ok (CmContent d)] \<and>
   ews_source (evts @ [EwsClosed]) = ews_source evts \<and> ews_source (evts @ [EwsError e]) = ews_source evts \<and>
   snd (ews_events True (evts @ [EwsOpened, EwsOpened])) = 1 \<and>
   (receive_loop (\<lambda>_. True) 0 (ws_client_source [Ok (WsClose c)]) :: ('rm, 'f) portal_message list) = [Close]"
proof -
  have "ws_client_source [Ok (WsClose c)] = [Ok (CmClose (map_option close_text c))]"
    by (cases c) (simp_all add: ws_client_source_def map_filter_simps ws_client_to_conduit_def)
  then show ?thesis by (simp add: ews_source_eq ews_item_def ews_opened_once cast_close_def)
qed

end
