(* ===== verification/Alias_Gen.thy ===== *)
theory Alias_Gen
  imports Prelude "HOL-Library.Multiset"
begin

text \<open>
  \<open>chat_app/server/src/alias_gen.rs\<close>: the generator of user aliases. The order the two
  word lists are shuffled into is given by the random generator: it is an argument, and
  a permutation.
\<close>

section \<open>The generator\<close>

record alias_generator =
  adjectives :: "rstring list"
  nouns :: "rstring list"
  generated_count :: nat

definition array_len :: nat where
  "array_len = 30"

definition all_adjectives :: "rstring list" where
  "all_adjectives = map str_lit
     [''smirking'', ''corrupted'', ''vengeful'', ''iron'', ''grim'', ''bloody'',
      ''warp-touched'', ''eternal'', ''skulking'', ''ancient'', ''dark'', ''chaotic'',
      ''gilded'', ''forgotten'', ''zealous'', ''stalwart'', ''unseen'', ''feral'', ''stoic'',
      ''mechanized'', ''blessed'', ''cursed'', ''frenzied'', ''implacable'', ''ruinous'',
      ''scarred'', ''undying'', ''blighted'', ''relentless'', ''shrieking'']"

definition all_nouns :: "rstring list" where
  "all_nouns = map str_lit
     [''gutterrunner'', ''berserker'', ''arbiter'', ''inquisitor'', ''crusader'', ''guardian'',
      ''dreadnought'', ''reaper'', ''warbringer'', ''mechanicus'', ''prophet'', ''skaven'',
      ''paladin'', ''heretic'', ''cultist'', ''specter'', ''slayer'', ''executioner'',
      ''scribe'', ''marauder'', ''warpsmith'', ''ratcatcher'', ''plague-bearer'',
      ''voidwalker'', ''magus'', ''commissar'', ''avatar'', ''stormcaller'', ''enforcer'',
      ''nightstalker'']"

definition alias_new :: "(rstring list \<Rightarrow> rstring list) \<Rightarrow> (rstring list \<Rightarrow> rstring list) \<Rightarrow> alias_generator" where
  "alias_new shuffle1 shuffle2 =
     \<lparr>adjectives = shuffle1 all_adjectives, nouns = shuffle2 all_nouns, generated_count = 0\<rparr>"

text \<open>\<open>words[i]\<close>\<close>

definition word_at :: "rstring list \<Rightarrow> nat \<Rightarrow> rstring outcome" where
  "word_at ws i = (if i < length ws then Ok (ws ! i) else Panic SliceOutOfRange)"

definition get_pair :: "platform \<Rightarrow> (alias_generator, rstring \<times> rstring) eff" where
  "get_pair P = (\<lambda>g.
     let count = generated_count g;
         offset = count div array_len;
         adjective_index = count mod array_len
     in seq (lift (and_then (usize_add P count offset) (\<lambda>n. Ok (n mod array_len)))) (\<lambda>noun_index.
        seq (lift (word_at (adjectives g) adjective_index)) (\<lambda>adjective.
        seq (lift (word_at (nouns g) noun_index)) (\<lambda>noun.
        seq (lift (usize_add P count 1)) (\<lambda>next_count.
        (\<lambda>g. (Ok (adjective, noun), g\<lparr>generated_count := next_count\<rparr>)))))) g)"

text \<open>The words are ASCII: the upper case of a letter is 32 below it, other bytes have none.\<close>

definition to_uppercase :: "byte \<Rightarrow> byte" where
  "to_uppercase b = (if 97 \<le> b \<and> b \<le> 122 then b - 32 else b)"

definition capitalize_first_letter :: "rstring \<Rightarrow> rstring outcome" where
  "capitalize_first_letter w = (case w of [] \<Rightarrow> Panic UnwrapNone | c # rest \<Rightarrow> Ok (to_uppercase c # rest))"

definition generate_capitalized :: "platform \<Rightarrow> (alias_generator, rstring) eff" where
  "generate_capitalized P =
     seq (get_pair P) (\<lambda>(adjective, noun).
     seq (lift (capitalize_first_letter adjective)) (\<lambda>adjective.
     seq (lift (capitalize_first_letter noun)) (\<lambda>noun.
     ret (adjective @ str_lit '' '' @ noun))))"

section \<open>The aliases in order\<close>

definition capital :: "rstring \<Rightarrow> rstring" where
  "capital w = to_uppercase (hd w) # tl w"

definition words_ok :: "rstring list \<Rightarrow> bool" where
  "words_ok ws \<longleftrightarrow> length ws = array_len \<and> distinct (map capital ws) \<and>
     list_all (\<lambda>w. w \<noteq> [] \<and> 32 \<notin> set (capital w)) ws"

definition alias_at :: "rstring list \<Rightarrow> rstring list \<Rightarrow> nat \<Rightarrow> rstring" where
  "alias_at adjs ns k = capital (adjs ! (k mod array_len)) @ str_lit '' '' @
     capital (ns ! ((k + k div array_len) mod array_len))"

lemma words_ok_adjectives: "words_ok all_adjectives"
  unfolding words_ok_def by (intro conjI) code_simp+

lemma words_ok_nouns: "words_ok all_nouns"
  unfolding words_ok_def by (intro conjI) code_simp+

lemma words_ok_shuffle:
  assumes "mset ws' = mset ws" and "words_ok ws"
  shows "words_ok ws'"
proof -
  have "mset (map capital ws') = mset (map capital ws)" using assms(1) by simp
  then have "distinct (map capital ws') = distinct (map capital ws)" by (rule mset_eq_imp_distinct_iff)
  then show ?thesis
    using assms mset_eq_length[OF assms(1)] mset_eq_setD[OF assms(1)] by (simp add: words_ok_def list_all_iff)
qed

lemma capitalize_word: "w \<noteq> [] \<Longrightarrow> capitalize_first_letter w = Ok (capital w)"
  by (cases w) (simp_all add: capitalize_first_letter_def capital_def)

lemma generate_run:
  assumes "words_ok (adjectives g)" and "words_ok (nouns g)"
    and "generated_count g + generated_count g div array_len < usize_max P"
  shows "generate_capitalized P g =
    (Ok (alias_at (adjectives g) (nouns g) (generated_count g)), g\<lparr>generated_count := generated_count g + 1\<rparr>)"
proof -
  let ?k = "generated_count g"
  have i: "?k mod array_len < length (adjectives g)" "(?k + ?k div array_len) mod array_len < length (nouns g)"
    using assms(1,2) by (simp_all add: words_ok_def array_len_def)
  have "adjectives g ! (?k mod array_len) \<noteq> []" "nouns g ! ((?k + ?k div array_len) mod array_len) \<noteq> []"
    using assms(1,2) i by (simp_all add: words_ok_def list_all_length)
  then show ?thesis
    using assms(3) i
    by (simp add: generate_capitalized_def get_pair_def Let_def seq_def word_at_def usize_add_def
        capitalize_word alias_at_def)
qed

text \<open>A noun's index is the adjective's plus the number of rounds: within 900 no pair comes twice.\<close>

lemma alias_index_inj:
  fixes j k :: nat
  assumes "j < 900" and "k < 900" and "j mod 30 = k mod 30" and "(j + j div 30) mod 30 = (k + k div 30) mod 30"
  shows "j = k"
proof -
  obtain a r where j: "j = 30 * a + r" "r < 30" using div_mult_mod_eq[of j 30] by (metis mult.commute mod_less_divisor zero_less_numeral)
  obtain b q where k: "k = 30 * b + q" "q < 30" using div_mult_mod_eq[of k 30] by (metis mult.commute mod_less_divisor zero_less_numeral)
  have "r = q" using assms(3) j k by simp
  moreover have "j div 30 = a" "k div 30 = b" using j k by auto
  then have "(30 * a + (r + a)) mod 30 = (30 * b + (q + b)) mod 30"
    using assms(4) j(1) k(1) by (simp only: add.assoc)
  then have "(r + a) mod 30 = (q + b) mod 30" by (simp only: mod_mult_self4)
  moreover have "a < 30" "b < 30" using assms(1,2) j k by auto
  ultimately have "a = b" using j(2) k(2)
    by (cases "r + a < 30"; cases "r + b < 30") (auto simp: le_mod_geq)
  with \<open>r = q\<close> j k show ?thesis by simp
qed

lemma append_space_inj:
  assumes "x @ (32 :: byte) # y = x' @ 32 # y'" and "32 \<notin> set x" and "32 \<notin> set x'"
  shows "x = x' \<and> y = y'"
  using assms by (induction x arbitrary: x') (case_tac x'; auto)+

lemma alias_at_inj:
  assumes "words_ok adjs" and "words_ok ns" and "j < 900" and "k < 900" and "alias_at adjs ns j = alias_at adjs ns k"
  shows "j = k"
proof -
  let ?n = "\<lambda>k. (k + k div array_len) mod array_len"
  have pos: "i mod array_len < array_len" for i by (simp add: array_len_def)
  have word: "32 \<notin> set (capital (ws ! i))" if "words_ok ws" "i < array_len" for ws i
    using that by (simp add: words_ok_def list_all_length)
  have caps: "capital (adjs ! (j mod array_len)) = capital (adjs ! (k mod array_len)) \<and> capital (ns ! ?n j) = capital (ns ! ?n k)"
    using assms(5) word[OF assms(1) pos] by (intro append_space_inj) (simp_all add: alias_at_def str_lit_def)
  have word_eq: "i = i'" if "words_ok ws" "i < array_len" "i' < array_len" "capital (ws ! i) = capital (ws ! i')" for ws i i'
    using that nth_eq_iff_index_eq[of "map capital ws" i i'] by (simp add: words_ok_def)
  have "j mod array_len = k mod array_len" by (rule word_eq[OF assms(1) pos pos caps[THEN conjunct1]])
  moreover have "?n j = ?n k" by (rule word_eq[OF assms(2) pos pos caps[THEN conjunct2]])
  ultimately show ?thesis using assms(3,4) by - (rule alias_index_inj, simp_all add: array_len_def)
qed

lemma alias_at_period: "alias_at adjs ns (k + 900) = alias_at adjs ns k"
proof -
  have "(k + 900) div 30 = k div 30 + 30" by simp
  then have e: "k + 900 + (k + 900) div 30 = (k + k div 30) + 31 * 30" by simp
  have "(k + 900 + (k + 900) div 30) mod 30 = (k + k div 30) mod 30" unfolding e by (rule mod_mult_self1)
  moreover have "(k + 30 * 30) mod 30 = k mod 30" by (rule mod_mult_self2)
  ultimately show ?thesis by (simp add: alias_at_def array_len_def)
qed

text \<open>Many aliases, one after the other.\<close>

fun generate_many :: "platform \<Rightarrow> nat \<Rightarrow> (alias_generator, rstring list) eff" where
  "generate_many P 0 = ret []"
| "generate_many P (Suc n) =
     seq (generate_capitalized P) (\<lambda>a. seq (generate_many P n) (\<lambda>as. ret (a # as)))"

lemma generate_many_run:
  assumes "words_ok (adjectives g)" and "words_ok (nouns g)"
    and "2 * (generated_count g + n) \<le> usize_max P"
  shows "generate_many P n g =
    (Ok (map (\<lambda>i. alias_at (adjectives g) (nouns g) (generated_count g + i)) [0..<n]),
     g\<lparr>generated_count := generated_count g + n\<rparr>)"
  using assms
proof (induction n arbitrary: g)
  case (Suc n)
  let ?k = "generated_count g"
  have "?k + ?k div array_len \<le> 2 * ?k" by simp
  also have "\<dots> < 2 * (?k + Suc n)" by simp
  also have "\<dots> \<le> usize_max P" by (rule Suc.prems(3))
  finally have "?k + ?k div array_len < usize_max P" .
  from generate_run[OF Suc.prems(1,2) this] Suc.IH[of "g\<lparr>generated_count := ?k + 1\<rparr>"] Suc.prems
  show ?case by (simp add: seq_def map_upt_Suc del: upt_Suc)
qed simp

lemma alias_new_words:
  assumes "mset (shuffle1 all_adjectives) = mset all_adjectives" and "mset (shuffle2 all_nouns) = mset all_nouns"
  shows "words_ok (adjectives (alias_new shuffle1 shuffle2))" "words_ok (nouns (alias_new shuffle1 shuffle2))"
    "generated_count (alias_new shuffle1 shuffle2) = 0"
  using words_ok_shuffle[OF assms(1) words_ok_adjectives] words_ok_shuffle[OF assms(2) words_ok_nouns]
  by (simp_all add: alias_new_def)

lemma wf_usize_max: "wf_platform P \<Longrightarrow> 65535 \<le> usize_max P"
proof -
  assume "wf_platform P"
  then have "(2 :: nat) ^ 16 \<le> 2 ^ usize_bits P" unfolding wf_platform_def by (intro power_increasing) auto
  then show ?thesis unfolding usize_max_def by simp
qed

end
