(* ===== verification/Chat.thy ===== *)
theory Chat
  imports Alias_Gen Combinators Context
begin

text \<open>
  The chat application on the server's side: \<open>chat_app/shared/src/lib.rs\<close> (the messages),
  \<open>chat_app/server/src/chat_server.rs\<close> (the one actor that knows all clients) and
  \<open>chat_app/server/src/hub.rs\<close> (one actor per portal, which brings a client to it). What
  the actors send is recorded in order; a message to an actor or port that is gone is lost,
  as the code ignores the error.
\<close>

section \<open>Messages\<close>

datatype chat_client_message = UserConnected rstring | MessageReceived rstring rstring | Disconnect

datatype chat_server_message = PostMessage rstring port

datatype hub_message = HubConnect actor_id port

section \<open>The chat server\<close>

datatype chat_msg = Connect actor_id actor_id port | Public actor_id chat_server_message

datatype chat_output = ToClient actor_id chat_client_message | ReplyAlias port rstring | Ack port

text \<open>\<open>clients\<close>: by the actor id of the portal, the client and its alias.\<close>

record chat_state =
  clients :: "(actor_id, actor_id \<times> rstring) hmap"
  alias_gen :: alias_generator
  chat_outs :: "chat_output list"

record chat_env =
  client_takes :: "actor_id \<Rightarrow> bool"
  reply_open :: "port \<Rightarrow> bool"

definition chat_start :: "(rstring list \<Rightarrow> rstring list) \<Rightarrow> (rstring list \<Rightarrow> rstring list) \<Rightarrow> chat_state" where
  "chat_start shuffle1 shuffle2 = \<lparr>clients = [], alias_gen = alias_new shuffle1 shuffle2, chat_outs = []\<rparr>"

definition arrives :: "chat_env \<Rightarrow> chat_output \<Rightarrow> bool" where
  "arrives E x = (case x of
     ToClient c _ \<Rightarrow> client_takes E c | ReplyAlias p _ \<Rightarrow> reply_open E p | Ack p \<Rightarrow> reply_open E p)"

text \<open>\<open>let _ = \<dots>\<close>\<close>

definition tell :: "chat_env \<Rightarrow> chat_output \<Rightarrow> chat_state \<Rightarrow> chat_state" where
  "tell E x st = (if arrives E x then st\<lparr>chat_outs := chat_outs st @ [x]\<rparr> else st)"

definition handle_public :: "chat_env \<Rightarrow> actor_id \<Rightarrow> chat_server_message \<Rightarrow> chat_state \<Rightarrow> chat_state" where
  "handle_public E portal msg st = (case map_option snd (hm_get (clients st) portal) of
     None \<Rightarrow> st
   | Some sender \<Rightarrow> (case msg of PostMessage chat_message reply_port \<Rightarrow>
       tell E (Ack reply_port)
         (fold (\<lambda>(_, client, _). tell E (ToClient client (MessageReceived sender chat_message)))
            (clients st) st)))"

definition handle_connect :: "platform \<Rightarrow> chat_env \<Rightarrow> actor_id \<Rightarrow> actor_id \<Rightarrow> port \<Rightarrow> (chat_state, unit) eff" where
  "handle_connect P E portal new_client rpc =
     seq (\<lambda>st. let (r, g) = generate_capitalized P (alias_gen st) in (r, st\<lparr>alias_gen := g\<rparr>)) (\<lambda>user_alias.
     (\<lambda>st. let st1 = st\<lparr>clients := hm_insert portal (new_client, user_alias) (clients st)\<rparr>;
               st2 = tell E (ReplyAlias rpc user_alias) st1
           in (Ok (), fold (\<lambda>(portal_id, client, _).
                 if portal_id \<noteq> new_client then tell E (ToClient client (UserConnected user_alias)) else id)
               (clients st2) st2)))"

definition chat_handle :: "platform \<Rightarrow> chat_env \<Rightarrow> chat_msg \<Rightarrow> (chat_state, unit) eff" where
  "chat_handle P E msg = (case msg of
     Public sender m \<Rightarrow> (\<lambda>st. (Ok (), handle_public E sender m st))
   | Connect portal new_client rpc \<Rightarrow> handle_connect P E portal new_client rpc)"

section \<open>The hub\<close>

text \<open>
  The hub of one portal asks the server for an alias, puts a mapped actor before the server
  that marks every message with this portal, and replies with both.
\<close>

record hub_world =
  server :: chat_state
  hub_next_actor :: actor_id
  hub_next_port :: port
  hub_proxies :: "(actor_id \<times> actor_id) list"
  hub_replies :: "(port \<times> rstring \<times> actor_id) list"

fun alias_reply :: "port \<Rightarrow> chat_output list \<Rightarrow> rstring option" where
  "alias_reply p [] = None"
| "alias_reply p (x # xs) = (case x of
     ReplyAlias q a \<Rightarrow> if q = p then Some a else alias_reply p xs
   | _ \<Rightarrow> alias_reply p xs)"

definition ask_chat_server :: "platform \<Rightarrow> chat_env \<Rightarrow> actor_id \<Rightarrow> actor_id \<Rightarrow> (hub_world, rstring) eff" where
  "ask_chat_server P E portal client = (\<lambda>w.
     let q = hub_next_port w;
         (r, st) = chat_handle P (E\<lparr>reply_open := (reply_open E)(q := True)\<rparr>) (Connect portal client q) (server w);
         w' = w\<lparr>server := st, hub_next_port := q + 1\<rparr>
     in case alias_reply q (drop (length (chat_outs (server w))) (chat_outs st)) of
          Some a \<Rightarrow> (Ok a, w')
        | None \<Rightarrow> (Panic UnwrapErr, w'))"

definition hub_handle :: "platform \<Rightarrow> chat_env \<Rightarrow> actor_id \<Rightarrow> hub_message \<Rightarrow> (hub_world, unit) eff" where
  "hub_handle P E portal msg = (case msg of
     HubConnect client_actor_ref rpc_port \<Rightarrow>
       seq (ask_chat_server P E portal client_actor_ref) (\<lambda>new_user_alias.
       seq (\<lambda>w. (Ok (hub_next_actor w), w\<lparr>hub_next_actor := hub_next_actor w + 1,
              hub_proxies := (hub_next_actor w, portal) # hub_proxies w\<rparr>)) (\<lambda>proxy.
       (\<lambda>w. (Ok (), if reply_open E rpc_port
              then w\<lparr>hub_replies := (rpc_port, new_user_alias, proxy) # hub_replies w\<rparr> else w)))))"

text \<open>What the proxy makes of a message from its client.\<close>

definition hub_proxy :: "actor_id \<Rightarrow> bool \<Rightarrow> chat_server_message \<Rightarrow> unit outcome \<times> chat_msg list" where
  "hub_proxy portal = mapped_handle (\<lambda>msg. Public portal msg)"

section \<open>What is sent to whom\<close>

lemma tell_sel [simp]: "clients (tell E x st) = clients st" "alias_gen (tell E x st) = alias_gen st"
  by (simp_all add: tell_def)

lemma tell_clients:
  "fold (\<lambda>(k, c, a). tell E (f c)) xs st =
     st\<lparr>chat_outs := chat_outs st @ filter (arrives E) (map (\<lambda>(k, c, a). f c) xs)\<rparr>"
  by (induction xs arbitrary: st) (auto simp: tell_def)

lemma tell_clients_if:
  "fold (\<lambda>(k, c, a). if k \<noteq> n then tell E (f c) else id) xs st =
     st\<lparr>chat_outs := chat_outs st @ filter (arrives E) (map (\<lambda>(k, c, a). f c) (filter (\<lambda>x. fst x \<noteq> n) xs))\<rparr>"
  by (induction xs arbitrary: st) (auto simp: tell_def)

text \<open>A posted message: to every client, then the acknowledgement.\<close>

definition posted :: "rstring \<Rightarrow> rstring \<Rightarrow> port \<Rightarrow> chat_state \<Rightarrow> chat_output list" where
  "posted sender text p st =
     map (\<lambda>(k, c, a). ToClient c (MessageReceived sender text)) (clients st) @ [Ack p]"

lemma handle_public_eq:
  "handle_public E portal (PostMessage text p) st = (case hm_get (clients st) portal of
     None \<Rightarrow> st
   | Some (c, sender) \<Rightarrow> st\<lparr>chat_outs := chat_outs st @ filter (arrives E) (posted sender text p st)\<rparr>)"
  by (auto simp: handle_public_def tell_clients tell_def posted_def split: option.split)

text \<open>A new client: its alias, then the news to all in the table but one whose portal has the client's id.\<close>

definition announced :: "actor_id \<Rightarrow> actor_id \<Rightarrow> port \<Rightarrow> rstring \<Rightarrow> chat_state \<Rightarrow> chat_output list" where
  "announced portal client p a st = ReplyAlias p a #
     map (\<lambda>(k, c, _). ToClient c (UserConnected a))
       (filter (\<lambda>x. fst x \<noteq> client) (hm_insert portal (client, a) (clients st)))"

lemma handle_connect_eq:
  "handle_connect P E portal client p st = (case generate_capitalized P (alias_gen st) of
     (Ok a, g) \<Rightarrow> (Ok (), st\<lparr>alias_gen := g, clients := hm_insert portal (client, a) (clients st),
        chat_outs := chat_outs st @ filter (arrives E) (announced portal client p a st)\<rparr>)
   | (Err e, g) \<Rightarrow> (Err e, st\<lparr>alias_gen := g\<rparr>)
   | (Panic q, g) \<Rightarrow> (Panic q, st\<lparr>alias_gen := g\<rparr>))"
  by (auto simp: handle_connect_def seq_def Let_def tell_clients_if tell_def announced_def
      split: prod.split outcome.split)

section \<open>Running\<close>

text \<open>\<open>chat_reach P st n alive\<close>: the server can be in \<open>st\<close> after \<open>n\<close> connections.\<close>

definition is_connect :: "chat_msg \<Rightarrow> bool" where
  "is_connect m = (case m of Connect _ _ _ \<Rightarrow> True | Public _ _ \<Rightarrow> False)"

inductive chat_reach :: "platform \<Rightarrow> chat_state \<Rightarrow> nat \<Rightarrow> bool \<Rightarrow> bool" for P where
  start: "mset (shuffle1 all_adjectives) = mset all_adjectives \<Longrightarrow> mset (shuffle2 all_nouns) = mset all_nouns \<Longrightarrow>
    chat_reach P (chat_start shuffle1 shuffle2) 0 True"
| step: "chat_reach P st n True \<Longrightarrow> chat_handle P E m st = (r, st') \<Longrightarrow>
    chat_reach P st' (if is_connect m then n + 1 else n) (r = Ok ())"

inductive_cases chat_reachE: "chat_reach P st n alive"

text \<open>The aliases in the table are those of distinct numbers already given out.\<close>

definition alias_no :: "alias_generator \<Rightarrow> nat \<Rightarrow> rstring" where
  "alias_no g k = alias_at (adjectives g) (nouns g) k"

definition chat_inv :: "chat_state \<Rightarrow> bool" where
  "chat_inv st \<longleftrightarrow> hm_ok (clients st) \<and> words_ok (adjectives (alias_gen st)) \<and> words_ok (nouns (alias_gen st)) \<and>
     (\<exists>no. inj_on no (fst ` set (clients st)) \<and>
       (\<forall>(k, c, a) \<in> set (clients st). no k < generated_count (alias_gen st) \<and> a = alias_no (alias_gen st) (no k)))"

lemma chat_inv_connect:
  assumes "chat_inv st"
  defines "g \<equiv> alias_gen st"
  shows "chat_inv (st\<lparr>alias_gen := g\<lparr>generated_count := generated_count g + 1\<rparr>,
    clients := hm_insert portal (client, alias_no g (generated_count g)) (clients st), chat_outs := os\<rparr>)"
proof -
  obtain no where no: "inj_on no (fst ` set (clients st))"
    and al: "\<And>k c a. (k, c, a) \<in> set (clients st) \<Longrightarrow> no k < generated_count g \<and> a = alias_no g (no k)"
    and ok: "hm_ok (clients st)" "words_ok (adjectives g)" "words_ok (nouns g)"
    using assms by (fastforce simp: chat_inv_def)
  let ?no = "no(portal := generated_count g)"
  have "inj_on ?no (fst ` set (hm_insert portal (client, alias_no g (generated_count g)) (clients st)))"
    using no al by (fastforce simp: set_hm_insert[OF ok(1)] inj_on_def)
  moreover have "?no k < generated_count g + 1 \<and> a = alias_no g (?no k)"
    if "(k, c, a) \<in> set (hm_insert portal (client, alias_no g (generated_count g)) (clients st))" for k c a
    using that al[of k c a] by (auto simp: set_hm_insert[OF ok(1)] less_Suc_eq)
  ultimately show ?thesis
    using ok by (auto simp: chat_inv_def alias_no_def intro!: exI[of _ ?no])
qed

lemma chat_handle_Connect:
  assumes "wf_platform P" and "chat_inv st" and n: "generated_count (alias_gen st) \<le> 900"
  defines "g \<equiv> alias_gen st" and "a \<equiv> alias_no (alias_gen st) (generated_count (alias_gen st))"
  shows "chat_handle P E (Connect portal client p) st = (Ok (),
    st\<lparr>alias_gen := g\<lparr>generated_count := generated_count g + 1\<rparr>,
       clients := hm_insert portal (client, a) (clients st),
       chat_outs := chat_outs st @ filter (arrives E) (announced portal client p a st)\<rparr>)"
proof -
  have "generated_count g div array_len \<le> generated_count g" by simp
  then have "generated_count g + generated_count g div array_len < usize_max P"
    using n wf_usize_max[OF assms(1)] unfolding g_def by linarith
  moreover have "words_ok (adjectives g)" "words_ok (nouns g)" using assms(2) by (auto simp: chat_inv_def g_def)
  ultimately have "generate_capitalized P g = (Ok a, g\<lparr>generated_count := generated_count g + 1\<rparr>)"
    using generate_run by (simp add: a_def g_def alias_no_def)
  then show ?thesis by (simp add: chat_handle_def handle_connect_eq g_def)
qed

lemma chat_inv_public: "chat_inv st \<Longrightarrow> chat_handle P E (Public k m) st = (r, st') \<Longrightarrow>
    r = Ok () \<and> chat_inv st' \<and> clients st' = clients st \<and> alias_gen st' = alias_gen st"
  by (cases m) (auto simp: chat_handle_def handle_public_eq chat_inv_def split: option.splits)

lemma chat_reach_inv:
  assumes "chat_reach P st n alive" and "wf_platform P" and "n \<le> 901"
  shows "alive \<and> chat_inv st \<and> generated_count (alias_gen st) = n"
  using assms
proof (induction rule: chat_reach.induct)
  case (start shuffle1 shuffle2)
  then show ?case
    using alias_new_words[of shuffle1 shuffle2, OF start(1) start(2)] by (simp add: chat_start_def chat_inv_def)
next
  case (step st n E m r st')
  show ?case
  proof (cases m)
    case (Connect portal client p)
    then have n: "n \<le> 900" using step.prems by (simp add: is_connect_def)
    with step have inv: "chat_inv st" "generated_count (alias_gen st) = n" by auto
    from step.hyps(2) have "r = Ok ()" and st': "st' = st\<lparr>alias_gen := alias_gen st\<lparr>generated_count := n + 1\<rparr>,
        clients := hm_insert portal (client, alias_no (alias_gen st) n) (clients st),
        chat_outs := chat_outs st @ filter (arrives E) (announced portal client p (alias_no (alias_gen st) n) st)\<rparr>"
      using chat_handle_Connect[OF step.prems(1) inv(1), of E portal client p] n inv(2) Connect by auto
    then show ?thesis
      using chat_inv_connect[OF inv(1)] inv(2) Connect by (simp add: is_connect_def)
  next
    case (Public k msg)
    then show ?thesis using step chat_inv_public[of st P E k msg r st'] by (simp add: is_connect_def)
  qed
qed

lemma chat_aliases_differ:
  assumes "chat_inv st" and "generated_count (alias_gen st) \<le> 900"
    and "hm_get (clients st) k = Some (c, a)" and "hm_get (clients st) k' = Some (c', a)"
  shows "k = k'"
proof -
  obtain no where inj: "inj_on no (fst ` set (clients st))"
    and al: "\<And>k c a. (k, c, a) \<in> set (clients st) \<Longrightarrow> no k < generated_count (alias_gen st) \<and> a = alias_no (alias_gen st) (no k)"
    and ok: "words_ok (adjectives (alias_gen st))" "words_ok (nouns (alias_gen st))"
    using assms(1) by (fastforce simp: chat_inv_def)
  note in1 = hm_get_Some_in[OF assms(3)] and in2 = hm_get_Some_in[OF assms(4)]
  have e: "alias_at (adjectives (alias_gen st)) (nouns (alias_gen st)) (no k) =
      alias_at (adjectives (alias_gen st)) (nouns (alias_gen st)) (no k')"
    using al[OF in1, THEN conjunct2] al[OF in2, THEN conjunct2] unfolding alias_no_def by (rule trans[OF sym])
  have "no k < 900" "no k' < 900"
    using al[OF in1, THEN conjunct1] al[OF in2, THEN conjunct1] assms(2) by linarith+
  from alias_at_inj[OF ok this e] have "no k = no k'" .
  moreover have "k \<in> fst ` set (clients st)" "k' \<in> fst ` set (clients st)"
    using imageI[OF in1, of fst] imageI[OF in2, of fst] by simp_all
  ultimately show ?thesis by (rule inj_onD[OF inj])
qed

text \<open>What connecting through a hub does.\<close>

lemma hub_connect:
  assumes "wf_platform P" and "chat_inv (server w)" and "generated_count (alias_gen (server w)) \<le> 900"
    and p: "reply_open E p"
  defines "a \<equiv> alias_no (alias_gen (server w)) (generated_count (alias_gen (server w)))"
  shows "\<exists>w'. hub_handle P E portal (HubConnect client p) w = (Ok (), w') \<and>
    hub_replies w' = (p, a, hub_next_actor w) # hub_replies w \<and>
    hub_proxies w' = (hub_next_actor w, portal) # hub_proxies w \<and>
    clients (server w') = hm_insert portal (client, a) (clients (server w)) \<and> chat_inv (server w') \<and>
    generated_count (alias_gen (server w')) = generated_count (alias_gen (server w)) + 1 \<and>
    (\<exists>xs. chat_outs (server w') = chat_outs (server w) @ ReplyAlias (hub_next_port w) a # xs)"
proof -
  let ?E = "E\<lparr>reply_open := (reply_open E)(hub_next_port w := True)\<rparr>"
  note run = chat_handle_Connect[OF assms(1,2,3), of ?E portal client "hub_next_port w", folded a_def]
  have q: "arrives ?E (ReplyAlias (hub_next_port w) a)" by (simp add: arrives_def)
  obtain st where st: "chat_handle P ?E (Connect portal client (hub_next_port w)) (server w) = (Ok (), st)"
    and cl: "clients st = hm_insert portal (client, a) (clients (server w))"
    and outs: "chat_outs st = chat_outs (server w) @ ReplyAlias (hub_next_port w) a #
      filter (arrives ?E) (tl (announced portal client (hub_next_port w) a (server w)))"
    and inv: "chat_inv st" and cnt: "generated_count (alias_gen st) = generated_count (alias_gen (server w)) + 1"
    using run q chat_inv_connect[OF assms(2)] by (fastforce simp: announced_def a_def)
  from st outs have "ask_chat_server P E portal client w = (Ok a, w\<lparr>server := st, hub_next_port := hub_next_port w + 1\<rparr>)"
    by (simp add: ask_chat_server_def Let_def)
  then show ?thesis using p cl inv outs cnt by (simp add: hub_handle_def seq_def)
qed

end
