(* ===== verification/Chat_Protocol.thy ===== *)
theory Chat_Protocol
  imports Chat Context_Correct Derive_Correct
begin

text \<open>
  The chat application's message types, \<open>chat_app/shared/src/lib.rs\<close>, as items of the
  derive macro, over the implementations for strings, actor references and reply ports: the
  contract of the trait for the whole protocol, in the world of the portal's node.
\<close>

section \<open>Implementations at a common type of values\<close>

text \<open>
  A table of implementations has one type of values. \<open>embed_imm\<close> takes a value of this
  type apart, \<open>embed_rem\<close> puts the value that was read into it.
\<close>

definition embed_imm :: "('v \<Rightarrow> 'a option) \<Rightarrow> ('s, 'a) immat \<Rightarrow> ('s, 'v) immat" where
  "embed_imm proj imm v = (case proj v of Some a \<Rightarrow> imm a | None \<Rightarrow> throw EncodeError)"

definition embed_rem :: "('b \<Rightarrow> 'w) \<Rightarrow> ('t, 'b) remat \<Rightarrow> ('t, 'w) remat" where
  "embed_rem wrap rem bs = seq (rem bs) (\<lambda>b. ret (wrap b))"

definition embed_good :: "('v \<Rightarrow> 'a option) \<Rightarrow> ('a \<Rightarrow> bool) \<Rightarrow> 'v \<Rightarrow> bool" where
  "embed_good proj good v = (case proj v of Some a \<Rightarrow> good a | None \<Rightarrow> False)"

definition embed_rel ::
    "('v \<Rightarrow> 'a option) \<Rightarrow> ('b \<Rightarrow> 'w) \<Rightarrow> ('s \<Rightarrow> 't \<Rightarrow> 'a \<Rightarrow> 'b \<Rightarrow> bool) \<Rightarrow> 's \<Rightarrow> 't \<Rightarrow> 'v \<Rightarrow> 'w \<Rightarrow> bool" where
  "embed_rel proj wrap R s t v w \<longleftrightarrow> (\<exists>a b. proj v = Some a \<and> w = wrap b \<and> R s t a b)"

lemma transmat_embed:
  assumes T: "transmat P sinv sle tinv tle imm rem good R"
  shows "transmat P sinv sle tinv tle (embed_imm proj imm) (embed_rem wrap rem) (embed_good proj good) (embed_rel proj wrap R)"
proof (rule transmat.intro[OF transmat.axioms(1)[OF T]], rule transmat_axioms.intro)
  note so = transmat_world.sle_order[OF transmat.axioms(1)[OF T]]
    and to = transmat_world.tle_order[OF transmat.axioms(1)[OF T]]
  show "keeps sinv sle (embed_imm proj imm v)" for v
    using so transmat.imm_keeps[OF T] by (auto simp: embed_imm_def simp del: throw_apply split: option.split)
  show "keeps tinv tle (embed_rem wrap rem bs)" for bs
    unfolding embed_rem_def by (intro keeps_seq keeps_ret to transmat.rem_keeps[OF T])
  fix s v bs s' t
  assume s: "sinv s" and "embed_good proj good v" and w: "embed_imm proj imm v s = (Ok bs, s')"
    and f: "fits P bs" and t: "tinv t"
  then obtain a where a: "proj v = Some a" "good a" by (auto simp: embed_good_def split: option.splits)
  have "wp (rem bs) (\<lambda>b t'. R s' t' a b) t"
    using w a(1) by (intro transmat.delivers[OF T s a(2) _ f t]) (simp add: embed_imm_def)
  then show "wp (embed_rem wrap rem bs) (\<lambda>w t'. embed_rel proj wrap R s' t' v w) t"
    using a(1) by (auto simp: embed_rem_def embed_rel_def wp_iff seq_def)
next
  show "embed_rel proj wrap R s' t' v w" if "sle s s'" "tle t t'" "embed_rel proj wrap R s t v w" for s s' t t' v w
    using that transmat.rel_mono[OF T that(1,2)] by (auto simp: embed_rel_def)
qed

section \<open>The protocol's types\<close>

datatype chat_ty = TString | TUserAlias | TChatMessage | TClientRef | TServerRef | TConnectReply | TPostReply

datatype chat_value = VStr rstring | VActor actor_id | VPort reply_port | VStruct "chat_value list"

fun the_str :: "chat_value \<Rightarrow> rstring option" where
  "the_str (VStr s) = Some s" | "the_str _ = None"

fun the_actor :: "chat_value \<Rightarrow> actor_id option" where
  "the_actor (VActor a) = Some a" | "the_actor _ = None"

fun the_port :: "chat_value \<Rightarrow> reply_port option" where
  "the_port (VPort p) = Some p" | "the_port _ = None"

fun the_struct :: "chat_value \<Rightarrow> chat_value list option" where
  "the_struct (VStruct vs) = Some vs" | "the_struct _ = None"

text \<open>\<open>struct UserAlias(pub String)\<close>, \<open>struct ChatMessage(pub String)\<close>, and the enums.\<close>

definition user_alias :: "chat_ty fields" where "user_alias = TupleFields [TString]"
definition chat_message :: "chat_ty fields" where "chat_message = TupleFields [TString]"

definition hub_message_item :: "(rstring \<times> chat_ty fields) list" where
  "hub_message_item = [(str_lit ''Connect'', TupleFields [TClientRef, TConnectReply])]"

definition chat_server_message_item :: "(rstring \<times> chat_ty fields) list" where
  "chat_server_message_item = [(str_lit ''PostMessage'', TupleFields [TChatMessage, TPostReply])]"

definition chat_client_message_item :: "(rstring \<times> chat_ty fields) list" where
  "chat_client_message_item =
     [(str_lit ''UserConnected'', TupleFields [TUserAlias]),
      (str_lit ''MessageReceived'', TupleFields [TUserAlias, TChatMessage]),
      (str_lit ''Disconnect'', UnitFields)]"

text \<open>
  What the implementations need of their surroundings: the two encoders, the timeout for
  ports without one, the rematerializer published with a reference of each type.
\<close>

record 'rm protocol =
  proto_env :: "'rm env"
  rid_enc :: "remote_actor_id \<Rightarrow> bytes outcome"
  rid_dec :: "bytes \<Rightarrow> (remote_actor_id \<times> nat) outcome"
  rpc_enc :: "proxied_rpc_reply_port \<Rightarrow> bytes outcome"
  rpc_dec :: "bytes \<Rightarrow> (proxied_rpc_reply_port \<times> nat) outcome"
  rpc_timeout :: nat
  receiver_of :: "chat_ty \<Rightarrow> 'rm"

definition string_imm :: "chat_ty \<Rightarrow> ('s, chat_value) immat" where
  "string_imm ty = embed_imm the_str immaterialize_string"

definition string_rem :: "platform \<Rightarrow> chat_ty \<Rightarrow> ('t, chat_value) remat" where
  "string_rem P ty = embed_rem VStr (rematerialize_string P)"

definition chat_imm :: "'rm protocol \<Rightarrow> chat_ty \<Rightarrow> (('rm, 'f) node, chat_value) immat" where
  "chat_imm X ty = (case ty of
     TString \<Rightarrow> string_imm ty
   | TUserAlias \<Rightarrow> embed_imm the_struct (immaterialize_struct string_imm user_alias)
   | TChatMessage \<Rightarrow> embed_imm the_struct (immaterialize_struct string_imm chat_message)
   | TClientRef \<Rightarrow> embed_imm the_actor (immaterialize_actor_ref (proto_env X) (rid_enc X) (receiver_of X ty))
   | TServerRef \<Rightarrow> embed_imm the_actor (immaterialize_actor_ref (proto_env X) (rid_enc X) (receiver_of X ty))
   | TConnectReply \<Rightarrow> embed_imm the_port (immaterialize_replychannel (proto_env X) (rpc_enc X) (rpc_timeout X) (receiver_of X ty))
   | TPostReply \<Rightarrow> embed_imm the_port (immaterialize_replychannel (proto_env X) (rpc_enc X) (rpc_timeout X) (receiver_of X ty)))"

definition chat_rem :: "platform \<Rightarrow> 'rm protocol \<Rightarrow> chat_ty \<Rightarrow> (('rm, 'f) node, chat_value) remat" where
  "chat_rem P X ty = (case ty of
     TString \<Rightarrow> string_rem P ty
   | TUserAlias \<Rightarrow> embed_rem VStruct (rematerialize_struct P (\<lambda>_ _. None) (string_rem P) user_alias)
   | TChatMessage \<Rightarrow> embed_rem VStruct (rematerialize_struct P (\<lambda>_ _. None) (string_rem P) chat_message)
   | TClientRef \<Rightarrow> embed_rem VActor (rematerialize_actor_ref (rid_dec X))
   | TServerRef \<Rightarrow> embed_rem VActor (rematerialize_actor_ref (rid_dec X))
   | TConnectReply \<Rightarrow> embed_rem VPort (rematerialize_replychannel (rpc_dec X))
   | TPostReply \<Rightarrow> embed_rem VPort (rematerialize_replychannel (rpc_dec X)))"

definition string_good :: "chat_ty \<Rightarrow> chat_value \<Rightarrow> bool" where
  "string_good ty = embed_good the_str utf8_valid"

definition string_rel :: "chat_ty \<Rightarrow> 's \<Rightarrow> 't \<Rightarrow> chat_value \<Rightarrow> chat_value \<Rightarrow> bool" where
  "string_rel ty = embed_rel the_str VStr rel_eq"

definition chat_good :: "chat_ty \<Rightarrow> chat_value \<Rightarrow> bool" where
  "chat_good ty = (case ty of
     TString \<Rightarrow> string_good ty
   | TUserAlias \<Rightarrow> embed_good the_struct (good_fields string_good [TString])
   | TChatMessage \<Rightarrow> embed_good the_struct (good_fields string_good [TString])
   | TClientRef \<Rightarrow> embed_good the_actor (\<lambda>_. True)
   | TServerRef \<Rightarrow> embed_good the_actor (\<lambda>_. True)
   | TConnectReply \<Rightarrow> embed_good the_port (\<lambda>_. True)
   | TPostReply \<Rightarrow> embed_good the_port (\<lambda>_. True))"

definition chat_rel :: "'rm protocol \<Rightarrow> chat_ty \<Rightarrow> ('rm, 'f) node \<Rightarrow> ('rm, 'f) node \<Rightarrow> chat_value \<Rightarrow> chat_value \<Rightarrow> bool" where
  "chat_rel X ty = (case ty of
     TString \<Rightarrow> string_rel ty
   | TUserAlias \<Rightarrow> embed_rel the_struct VStruct (rel_fields string_rel [TString])
   | TChatMessage \<Rightarrow> embed_rel the_struct VStruct (rel_fields string_rel [TString])
   | TClientRef \<Rightarrow> embed_rel the_actor VActor rel_actor_ref
   | TServerRef \<Rightarrow> embed_rel the_actor VActor rel_actor_ref
   | TConnectReply \<Rightarrow> embed_rel the_port VPort (rel_reply_port (rpc_timeout X))
   | TPostReply \<Rightarrow> embed_rel the_port VPort (rel_reply_port (rpc_timeout X)))"

section \<open>The contract\<close>

lemma node_world: "wf_platform P \<Longrightarrow> transmat_world P node_le node_le"
  by unfold_locales auto

lemma string_table:
  assumes "wf_platform P"
  shows "derive_table P node_inv node_le node_inv node_le string_imm (string_rem P) string_good string_rel"
proof (intro derive_table.intro derive_table_axioms.intro)
  show "transmat_world P node_le node_le" by (rule node_world[OF assms])
  show "transmat P node_inv node_le node_inv node_le (string_imm ty) (string_rem P ty) (string_good ty) (string_rel ty)" for ty
    unfolding string_imm_def string_rem_def string_good_def string_rel_def
    by (rule transmat_embed[OF transmat_string[OF node_world[OF assms]]])
qed

lemma chat_table:
  assumes "wf_platform P" and "bincode_law (rid_enc X) (rid_dec X)" and "bincode_law (rpc_enc X) (rpc_dec X)"
  shows "derive_table P node_inv node_le node_inv node_le (chat_imm X) (chat_rem P X) chat_good (chat_rel X)"
proof (intro derive_table.intro derive_table_axioms.intro)
  show "transmat_world P node_le node_le" by (rule node_world[OF assms(1)])
  note S = derive_table.transmat_struct[OF string_table[OF assms(1)], where fs = "TupleFields [TString]" and of_usize = "\<lambda>_ _. None"]
  have struct: "transmat P node_inv node_le node_inv node_le (immaterialize_struct string_imm (TupleFields [TString]))
    (rematerialize_struct P (\<lambda>_ _. None) (string_rem P) (TupleFields [TString]))
    (good_fields string_good [TString]) (rel_fields string_rel [TString])"
    using S by (simp add: fields_ok_def field_types_def)
  note T = transmat_embed[OF struct] transmat_embed[OF transmat_actor_ref[OF assms(1,2)]]
    transmat_embed[OF transmat_replychannel[OF assms(1,3)]]
  show "transmat P node_inv node_le node_inv node_le (chat_imm X ty) (chat_rem P X ty) (chat_good ty) (chat_rel X ty)" for ty
    using T derive_table.entry[OF string_table[OF assms(1)], of TString]
    by (cases ty) (simp_all add: chat_imm_def chat_rem_def chat_good_def chat_rel_def user_alias_def chat_message_def)
qed

lemma chat_items_ok:
  "variants_ok hub_message_item" "variants_ok chat_server_message_item" "variants_ok chat_client_message_item"
  by (simp_all add: variants_ok_def variant_ok_def fields_ok_def str_lit_def hub_message_item_def
      chat_server_message_item_def chat_client_message_item_def)

end
