(* ===== verification/Chat_Props.thy ===== *)
theory Chat_Props
  imports Chat Chat_Protocol Portal_Props
begin

text \<open>
  The properties of the chat application: its aliases, what its server sends to whom, what a
  client gets through a hub, and its protocol over a portal.
\<close>

section \<open>Aliases\<close>

text \<open>
  Whatever the two word lists are shuffled into, the first 900 aliases are pairwise
  different, as the generator's comment says, and the next one is the first again.
\<close>

theorem alias_unique:
  assumes "wf_platform P"
    and "mset (shuffle1 all_adjectives) = mset all_adjectives" and "mset (shuffle2 all_nouns) = mset all_nouns"
  shows "\<exists>as g. generate_many P 901 (alias_new shuffle1 shuffle2) = (Ok as, g) \<and>
    distinct (take 900 as) \<and> length as = 901 \<and> as ! 900 = as ! 0"
proof -
  let ?g = "alias_new shuffle1 shuffle2"
  let ?as = "map (alias_at (adjectives ?g) (nouns ?g)) [0..<901]"
  note W = alias_new_words[of shuffle1 shuffle2, OF assms(2) assms(3)]
  have run: "generate_many P 901 ?g = (Ok ?as, ?g\<lparr>generated_count := 901\<rparr>)"
    using generate_many_run[OF W(1,2), of 901 P] W(3) wf_usize_max[OF assms(1)] by simp
  have "take 900 ?as = map (alias_at (adjectives ?g) (nouns ?g)) [0..<900]" by (simp add: take_map del: upt.simps)
  moreover have "inj_on (alias_at (adjectives ?g) (nouns ?g)) {0..<900}"
    using alias_at_inj[OF W(1,2)] by (auto intro: inj_onI)
  ultimately have "distinct (take 900 ?as)" by (simp add: distinct_map del: upt.simps)
  moreover have "?as ! 900 = ?as ! 0" using alias_at_period[of "adjectives ?g" "nouns ?g" 0] by (simp del: upt.simps)
  ultimately show ?thesis using run by (intro exI[of _ ?as]) (simp del: upt.simps)
qed

theorem alias_unique_witness:
  "\<exists>as g. generate_many host64 901 (alias_new rev (\<lambda>ws. tl ws @ [hd ws])) = (Ok as, g) \<and>
    distinct (take 900 as) \<and> length as = 901 \<and> as ! 900 = as ! 0"
proof -
  have "mset (tl all_nouns @ [hd all_nouns]) = mset all_nouns" by (cases all_nouns) (simp_all add: all_nouns_def)
  then show ?thesis by (intro alias_unique wf_host64) simp_all
qed

section \<open>The server\<close>

text \<open>
  C30: As long as the generator has not run through, the server lives, its table has one entry
  for a portal, and no two portals have the same alias, whatever they send, in whatever
  order, and whichever clients have gone.
\<close>

theorem chat_aliases_distinct:
  assumes "wf_platform P" and "chat_reach P st n alive" and "n \<le> 900"
  shows "alive \<and> hm_ok (clients st) \<and>
    (\<forall>k k' c c' a. hm_get (clients st) k = Some (c, a) \<and> hm_get (clients st) k' = Some (c', a) \<longrightarrow> k = k')"
proof -
  have "n \<le> 901" using assms(3) by simp
  from chat_reach_inv[OF assms(2,1) this] have "alive" "chat_inv st" and n: "generated_count (alias_gen st) \<le> 900"
    using assms(3) by auto
  then show ?thesis using chat_aliases_differ[OF \<open>chat_inv st\<close> n] by (auto simp: chat_inv_def)
qed

text \<open>Two clients, 11 behind the portal 1 and 12 behind the portal 2; the second one cannot be reached any more.\<close>

definition sample_chat_env :: chat_env where
  "sample_chat_env = \<lparr>client_takes = \<lambda>c. c \<noteq> 12, reply_open = \<lambda>_. True\<rparr>"

definition sample_chat :: chat_state where
  "sample_chat = snd (chat_handle host64 sample_chat_env (Connect 2 12 102)
     (snd (chat_handle host64 sample_chat_env (Connect 1 11 101) (chat_start id id))))"

lemma sample_aliases:
  "alias_at all_adjectives all_nouns 0 = str_lit ''Smirking Gutterrunner''"
  "alias_at all_adjectives all_nouns (Suc 0) = str_lit ''Corrupted Berserker''"
  by (simp_all add: alias_at_def array_len_def all_adjectives_def all_nouns_def capital_def str_lit_def to_uppercase_def)

lemma sample_chat_run:
  "chat_reach host64 sample_chat 2 True \<and>
   clients sample_chat = [(1, 11, str_lit ''Smirking Gutterrunner''), (2, 12, str_lit ''Corrupted Berserker'')]"
proof -
  let ?init = "chat_start id id"
  let ?st = "snd (chat_handle host64 sample_chat_env (Connect 1 11 101) ?init)"
  have 0: "chat_reach host64 ?init 0 True" by (rule chat_reach.start) simp_all
  have i0: "chat_inv ?init" "generated_count (alias_gen ?init) = 0"
    using chat_reach_inv[OF 0 wf_host64] by auto
  have run0: "chat_handle host64 sample_chat_env (Connect 1 11 101) ?init = (Ok (), ?st)"
    "clients ?st = [(1, 11, str_lit ''Smirking Gutterrunner'')]"
    "adjectives (alias_gen ?st) = all_adjectives" "nouns (alias_gen ?st) = all_nouns"
    using chat_handle_Connect[OF wf_host64 i0(1), of sample_chat_env 1 11 101] i0(2)
    by (simp_all add: chat_start_def alias_new_def alias_no_def sample_aliases hm_insert_def)
  have 1: "chat_reach host64 ?st 1 True"
    using chat_reach.step[OF 0 run0(1)] by (simp add: is_connect_def)
  have i1: "chat_inv ?st" "generated_count (alias_gen ?st) = 1"
    using chat_reach_inv[OF 1 wf_host64] by auto
  have run1: "chat_handle host64 sample_chat_env (Connect 2 12 102) ?st = (Ok (), sample_chat)"
    "clients sample_chat = [(1, 11, str_lit ''Smirking Gutterrunner''), (2, 12, str_lit ''Corrupted Berserker'')]"
    using chat_handle_Connect[OF wf_host64 i1(1), of sample_chat_env 2 12 102] i1(2) run0(2-4)
    unfolding sample_chat_def by (simp_all add: alias_no_def sample_aliases hm_insert_def)
  then show ?thesis using chat_reach.step[OF 1 run1(1)] by (simp add: is_connect_def numeral_2_eq_2)
qed

theorem chat_aliases_distinct_witness:
  "\<exists>st. chat_reach host64 st 2 True \<and> length (clients st) = 2 \<and> hm_ok (clients st) \<and>
    (\<forall>k k' c c' a. hm_get (clients st) k = Some (c, a) \<and> hm_get (clients st) k' = Some (c', a) \<longrightarrow> k = k')"
proof -
  have "(2 :: nat) \<le> 900" by simp
  from chat_aliases_distinct[OF wf_host64 sample_chat_run[THEN conjunct1] this] sample_chat_run
  show ?thesis by (intro exI[of _ sample_chat]) simp
qed

lemma reached_clients:
  "mset (filter (arrives E) (map (\<lambda>(k, c, a). ToClient c m) cs)) =
     image_mset (\<lambda>(k, c, a). ToClient c m) (filter_mset (\<lambda>(k, c, a). client_takes E c) (mset cs))"
  by (induction cs) (auto simp: arrives_def)

lemma unknown_sender: "hm_get (clients st) k = None \<Longrightarrow> chat_handle P E (Public k m) st = (Ok (), st)"
  by (simp add: chat_handle_def handle_public_def)

lemma arrives_Ack: "arrives E (Ack p) = reply_open E p"
  by (simp add: arrives_def)

text \<open>
  What a known client posts reaches every client that can still be reached, once for each
  entry of the table and under the sender's alias, and is acknowledged after that; one
  unreachable client does not keep it from the others. What comes through a portal that is
  not in the table has no effect. The table stays as it is.
\<close>

theorem chat_post_reaches_all:
  assumes "hm_get (clients st) pid = Some (c, sender)"
  shows "\<exists>xs st'. chat_handle P E (Public pid (PostMessage text p)) st = (Ok (), st') \<and>
      clients st' = clients st \<and> alias_gen st' = alias_gen st \<and>
      chat_outs st' = chat_outs st @ xs @ (if reply_open E p then [Ack p] else []) \<and>
      mset xs = image_mset (\<lambda>(k, c, a). ToClient c (MessageReceived sender text))
        (filter_mset (\<lambda>(k, c, a). client_takes E c) (mset (clients st))) \<and>
    (\<forall>other m. hm_get (clients st) other = None \<longrightarrow> chat_handle P E (Public other m) st = (Ok (), st))"
proof -
  let ?xs = "filter (arrives E) (map (\<lambda>(k, c, a). ToClient c (MessageReceived sender text)) (clients st))"
  have "mset ?xs = image_mset (\<lambda>(k, c, a). ToClient c (MessageReceived sender text))
      (filter_mset (\<lambda>(k, c, a). client_takes E c) (mset (clients st)))"
    by (rule reached_clients)
  then show ?thesis
    using assms unknown_sender by (intro exI[of _ ?xs]) (simp add: chat_handle_def handle_public_eq posted_def arrives_Ack)
qed

theorem chat_post_reaches_all_witness:
  "\<exists>xs st'. chat_handle host64 sample_chat_env (Public 2 (PostMessage [104, 105] 7)) sample_chat = (Ok (), st') \<and>
     chat_outs st' = chat_outs sample_chat @ xs @ [Ack 7] \<and>
     mset xs = {#ToClient 11 (MessageReceived (str_lit ''Corrupted Berserker'') [104, 105])#}"
proof -
  have "hm_get (clients sample_chat) 2 = Some (12, str_lit ''Corrupted Berserker'')"
    using sample_chat_run by (simp add: hm_get_def)
  from chat_post_reaches_all[OF this, of host64 sample_chat_env "[104, 105]" 7] sample_chat_run
  show ?thesis by (auto simp: sample_chat_env_def)
qed

text \<open>
  A connection is announced to everyone in the table that can be reached, and the new client
  is told of it too, although the code's comment excludes it: the entry skipped is
  the one whose portal has the id of the new client, and a portal is not a client.
\<close>

theorem chat_connect_notifies_self:
  assumes "wf_platform P" and "chat_reach P st n True" and "n \<le> 900"
    and "pid \<noteq> client" and "client_takes E client"
  shows "\<exists>a st' xs. chat_handle P E (Connect pid client p) st = (Ok (), st') \<and>
    hm_get (clients st') pid = Some (client, a) \<and> chat_outs st' = chat_outs st @ xs \<and>
    ToClient client (UserConnected a) \<in> set xs \<and>
    (reply_open E p \<longrightarrow> hd xs = ReplyAlias p a) \<and>
    (\<forall>k c b. (k, c, b) \<in> set (clients st') \<and> k \<noteq> client \<and> client_takes E c \<longrightarrow> ToClient c (UserConnected a) \<in> set xs)"
proof -
  have n: "n \<le> 901" using assms(3) by simp
  note I = chat_reach_inv[OF assms(2,1) n]
  then have "chat_inv st" and c: "generated_count (alias_gen st) \<le> 900" using assms(3) by auto
  define a where "a = alias_no (alias_gen st) (generated_count (alias_gen st))"
  let ?xs = "filter (arrives E) (announced pid client p a st)"
  obtain st' where run: "chat_handle P E (Connect pid client p) st = (Ok (), st')"
    and cl: "clients st' = hm_insert pid (client, a) (clients st)" and out: "chat_outs st' = chat_outs st @ ?xs"
    using chat_handle_Connect[OF assms(1) \<open>chat_inv st\<close> c, of E pid client p] by (simp add: a_def)
  have "hm_ok (clients st)" using I by (simp add: chat_inv_def)
  then have told: "ToClient c' (UserConnected a) \<in> set ?xs"
    if "(k, c', b) \<in> set (clients st')" "k \<noteq> client" "client_takes E c'" for k c' b
    using that by (force simp: cl announced_def arrives_def)
  moreover have self: "(pid, client, a) \<in> set (clients st')"
    using \<open>hm_ok (clients st)\<close> by (simp add: cl set_hm_insert)
  moreover have "hm_get (clients st') pid = Some (client, a)" by (simp add: cl hm_get_insert)
  moreover have "hd ?xs = ReplyAlias p a" if "reply_open E p" using that by (simp add: announced_def arrives_def)
  ultimately show ?thesis
    using run out told[OF self assms(4,5)] by (intro exI[of _ a] exI[of _ st'] exI[of _ ?xs]) blast
qed

theorem chat_connect_notifies_self_witness:
  "\<exists>a st' xs. chat_handle host64 sample_chat_env (Connect 3 13 103) sample_chat = (Ok (), st') \<and>
     hm_get (clients st') 3 = Some (13, a) \<and> chat_outs st' = chat_outs sample_chat @ xs \<and>
     ToClient 13 (UserConnected a) \<in> set xs \<and> hd xs = ReplyAlias 103 a"
proof -
  have "(2 :: nat) \<le> 900" "(3 :: nat) \<noteq> 13" "client_takes sample_chat_env 13" "reply_open sample_chat_env 103"
    by (simp_all add: sample_chat_env_def)
  note T = chat_connect_notifies_self[OF wf_host64 sample_chat_run[THEN conjunct1] this(1-3), of 103]
    and o = \<open>reply_open sample_chat_env 103\<close>
  from T show ?thesis
    by (elim exE conjE) (intro exI conjI, assumption+, erule mp, rule o)
qed

section \<open>Through a hub\<close>

text \<open>
  C24: A client that connects through the hub of its portal gets an alias no other portal has and
  an actor to post to. What it sends to this actor reaches the server marked with its portal,
  and from there every client that can be reached, under this alias, and itself too.
\<close>

theorem hub_connection:
  assumes "wf_platform P" and "chat_reach P (server w) n True" and "n \<le> 899" and "reply_open E p"
  shows "\<exists>a proxy w'. hub_handle P E pid (HubConnect client p) w = (Ok (), w') \<and>
    (p, a, proxy) \<in> set (hub_replies w') \<and> (proxy, pid) \<in> set (hub_proxies w') \<and>
    (\<forall>k c. hm_get (clients (server w')) k = Some (c, a) \<longrightarrow> k = pid) \<and>
    hm_get (clients (server w')) pid = Some (client, a) \<and>
    (\<forall>m. hub_proxy pid True m = (Ok (), [Public pid m])) \<and>
    (\<forall>E' text q k c b. (k, c, b) \<in> set (clients (server w')) \<and> client_takes E' c \<longrightarrow>
       ToClient c (MessageReceived a text) \<in>
         set (chat_outs (snd (chat_handle P E' (Public pid (PostMessage text q)) (server w')))))"
proof -
  have n: "n \<le> 901" using assms(3) by simp
  from chat_reach_inv[OF assms(2,1) n] have "chat_inv (server w)" and c: "generated_count (alias_gen (server w)) \<le> 900"
    using assms(3) by auto
  define a where "a = alias_no (alias_gen (server w)) (generated_count (alias_gen (server w)))"
  from hub_connect[OF assms(1) \<open>chat_inv (server w)\<close> c assms(4), of pid client, folded a_def]
  obtain w' where w': "hub_handle P E pid (HubConnect client p) w = (Ok (), w')"
    "hub_replies w' = (p, a, hub_next_actor w) # hub_replies w"
    "hub_proxies w' = (hub_next_actor w, pid) # hub_proxies w"
    "clients (server w') = hm_insert pid (client, a) (clients (server w))" "chat_inv (server w')"
    "generated_count (alias_gen (server w')) = generated_count (alias_gen (server w)) + 1" by blast
  have get: "hm_get (clients (server w')) pid = Some (client, a)" by (simp add: w'(4) hm_get_insert)
  have c': "generated_count (alias_gen (server w')) \<le> 900"
    using w'(6) chat_reach_inv[OF assms(2,1) n] assms(3) by simp
  have "k = pid" if "hm_get (clients (server w')) k = Some (d, a)" for k d
    by (rule chat_aliases_differ[OF w'(5) c' that get])
  moreover have "ToClient d (MessageReceived a body) \<in>
      set (chat_outs (snd (chat_handle P E' (Public pid (PostMessage body q)) (server w'))))"
    if "(k, d, b) \<in> set (clients (server w'))" "client_takes E' d" for E' body q k d b
    using that get by (force simp: chat_handle_def handle_public_eq posted_def arrives_def)
  moreover have "hub_proxy pid True m = (Ok (), [Public pid m])" for m by (simp add: hub_proxy_def mapped_handle_def)
  moreover have "(p, a, hub_next_actor w) \<in> set (hub_replies w')" "(hub_next_actor w, pid) \<in> set (hub_proxies w')"
    by (simp_all add: w'(2,3))
  ultimately show ?thesis
    using w'(1) get by (intro exI[of _ a] exI[of _ "hub_next_actor w"] exI[of _ w']) blast
qed

definition sample_hub :: hub_world where
  "sample_hub = \<lparr>server = sample_chat, hub_next_actor = 50, hub_next_port = 60, hub_proxies = [], hub_replies = []\<rparr>"

theorem hub_connection_witness:
  "\<exists>a proxy w'. hub_handle host64 sample_chat_env 3 (HubConnect 13 103) sample_hub = (Ok (), w') \<and>
     (103, a, proxy) \<in> set (hub_replies w') \<and> (proxy, 3) \<in> set (hub_proxies w') \<and>
     hm_get (clients (server w')) 3 = Some (13, a)"
proof -
  have "chat_reach host64 (server sample_hub) 2 True" "(2 :: nat) \<le> 899" "reply_open sample_chat_env 103"
    using sample_chat_run by (simp_all add: sample_hub_def sample_chat_env_def)
  from hub_connection[OF wf_host64 this, of 3 13] show ?thesis
    by (elim exE conjE) (intro exI conjI, assumption+)
qed

section \<open>The protocol over a portal\<close>


definition sample_protocol :: "nat protocol" where
  "sample_protocol = \<lparr>proto_env = sample_env 0, rid_enc = sample_enc enc_rid, rid_dec = sample_dec dec_rid,
     rpc_enc = sample_enc enc_proxied, rpc_dec = sample_dec dec_proxied, rpc_timeout = 3, receiver_of = \<lambda>_. 0\<rparr>"

lemma sample_hub_message:
  "\<exists>bs s'. immaterialize_enum (\<lambda>_ _. None) (chat_imm sample_protocol) hub_message_item
      (str_lit ''Connect'', [VActor 7, VPort \<lparr>rp_port = 40, rp_timeout = None\<rparr>]) (sample_node 5) = (Ok bs, s') \<and>
    fits host64 bs"
  by (simp add: immaterialize_enum_def immaterialize_variant_def hub_message_item_def chat_imm_def embed_imm_def sample_protocol_def
      immaterialize_actor_ref_def seq_def sample_node_ask simple_immaterialize_def sample_enc_def
      immaterialize_replychannel_def spawn_rpc_proxy_def kill_after_def Let_def
      ask_publish_actor_def sample_node_def sample_open_def sample_start_def handle_def
      handle_publish_actor_def publish_actor_def find_published_def hm_insert_def
      reply_send_def emit_def remote_id_of_def sample_args_def
      fits_host64 enc_rid_def enc_proxied_def str_lit_def)


end
