(* ===== verification/Derive_Types.thy ===== *)
theory Derive_Types
  imports Chat_Props
begin

text \<open>
  The emitted readers are type-sound on every input: whatever the bytes are, a value they
  return is a variant of the item with its fields, each of the field's type. No byte of a peer
  makes one type another.
\<close>

section \<open>The readers of the fields\<close>

text \<open>\<open>typed ty w\<close>: \<open>w\<close> is a value of \<open>ty\<close>. What implementations for the field types return is typed.\<close>

definition sound_readers :: "('ty \<Rightarrow> 'w \<Rightarrow> bool) \<Rightarrow> ('ty \<Rightarrow> ('t, 'w) remat) \<Rightarrow> bool" where
  "sound_readers typed rem_of \<longleftrightarrow> (\<forall>ty bs t w t'. rem_of ty bs t = (Ok w, t') \<longrightarrow> typed ty w)"

lemma sound_readersD: "sound_readers typed rem_of \<Longrightarrow> rem_of ty bs t = (Ok w, t') \<Longrightarrow> typed ty w"
  unfolding sound_readers_def by blast

definition sound_usize :: "('ty \<Rightarrow> 'w \<Rightarrow> bool) \<Rightarrow> ('ty \<Rightarrow> nat \<Rightarrow> 'w option) \<Rightarrow> bool" where
  "sound_usize typed of_usize \<longleftrightarrow> (\<forall>ty n w. of_usize ty n = Some w \<longrightarrow> typed ty w)"

text \<open>The compiler takes no two fields, and no two variants, of one name.\<close>

definition names_distinct :: "'ty fields \<Rightarrow> bool" where
  "names_distinct fs = (case fs of Named nfs \<Rightarrow> distinct (map field_name nfs) | _ \<Rightarrow> True)"

lemma deserialize_fields_typed:
  assumes "sound_readers typed rem_of" and "deserialize_fields P rem_of data n tys t = (Ok (ws, m), t')"
  shows "list_all2 typed tys ws"
  using assms(2)
proof (induction tys arbitrary: n ws m t)
  case Nil
  then show ?case by (simp add: ret_def)
next
  case (Cons ty tys)
  then obtain bs off w ws' t1 t2 where "rem_of ty bs t1 = (Ok w, t2)" "ws = w # ws'"
    "deserialize_fields P rem_of data off tys t2 = (Ok (ws', m), t')"
    by (auto simp: seq_eq_Ok ret_def)
  with Cons.IH sound_readersD[OF assms(1)] show ?case by simp
qed

text \<open>Every variable \<open>field_x\<close> the code bound to a value holds one of the type of a field \<open>x\<close>.\<close>

definition env_typed :: "('ty \<Rightarrow> 'w \<Rightarrow> bool) \<Rightarrow> 'ty named_field set \<Rightarrow> (rstring \<times> 'w binding) list \<Rightarrow> bool" where
  "env_typed typed F env \<longleftrightarrow>
     (\<forall>x w. (x, BVal w) \<in> set env \<longrightarrow> (\<exists>f \<in> F. x = ident_field (field_name f) \<and> typed (field_type f) w))"

lemma deserialize_named_typed:
  assumes "sound_readers typed rem_of" and "env_typed typed F env" and "set nfs \<subseteq> F"
    and "deserialize_named P rem_of data n env nfs t = (Ok (env', m), t')"
  shows "env_typed typed F env'"
  using assms(2-4)
proof (induction nfs arbitrary: n env t)
  case Nil
  then show ?case by (simp add: ret_def)
next
  case (Cons f nfs)
  then obtain bs off w t1 t2 where w: "rem_of (field_type f) bs t1 = (Ok w, t2)"
    and rest: "deserialize_named P rem_of data off
      ((ident_field (field_name f), BVal w) # (ident_bytes (field_name f), BBytes bs)
        # (ident_len (field_name f), BLen (length bs)) # env) nfs t2 = (Ok (env', m), t')"
    by (auto simp: seq_eq_Ok)
  have "typed (field_type f) w" by (rule sound_readersD[OF assms(1) w])
  with Cons.prems(1,2) show ?case by (intro Cons.IH[OF _ _ rest]) (auto simp: env_typed_def)
qed

lemma reconstruct_typed:
  assumes "env_typed typed F env" and "inj_on field_name F" and "set nfs \<subseteq> F" and "sound_usize typed of_usize"
    and "reconstruct of_usize env nfs = Some ws"
  shows "list_all2 typed (map field_type nfs) ws"
  using assms(3,5)
proof (induction nfs arbitrary: ws)
  case (Cons f nfs)
  then obtain w ws' where ws: "ws = w # ws'" "reconstruct of_usize env nfs = Some ws'"
    and w: "map_of env (ident_field (field_name f)) = Some (BVal w) \<or> (\<exists>n. of_usize (field_type f) n = Some w)"
    by (auto split: option.splits binding.splits)
  have "typed (field_type f) w"
  proof (cases "map_of env (ident_field (field_name f)) = Some (BVal w)")
    case True
    then obtain g where g: "g \<in> F" "ident_field (field_name f) = ident_field (field_name g)" "typed (field_type g) w"
      using assms(1) map_of_SomeD by (fastforce simp: env_typed_def)
    then have "f = g" using assms(2) Cons.prems(1) by (auto simp: ident_field_def dest: inj_onD)
    then show ?thesis using g(3) by simp
  qed (use w assms(4) in \<open>auto simp: sound_usize_def\<close>)
  then show ?case using Cons ws by simp
qed simp

section \<open>Structs and enums\<close>

lemma named_typed:
  assumes "sound_readers typed rem_of" and "sound_usize typed of_usize" and "distinct (map field_name nfs)"
    and "deserialize_named P rem_of data 0 [] nfs t = (Ok (env, m), t1)" and "reconstruct of_usize env nfs = Some ws"
  shows "list_all2 typed (map field_type nfs) ws"
proof -
  have "env_typed typed (set nfs) env"
    by (rule deserialize_named_typed[OF assms(1) _ _ assms(4)]) (simp_all add: env_typed_def)
  then show ?thesis using assms(2,3,5) by (intro reconstruct_typed[of typed "set nfs"]) (auto simp: distinct_map)
qed

lemma struct_typed:
  assumes "sound_readers typed rem_of" and "sound_usize typed of_usize" and "names_distinct fs"
    and "rematerialize_struct P of_usize rem_of fs data t = (Ok ws, t')"
  shows "list_all2 typed (field_types fs) ws"
  using assms named_typed[OF assms(1,2)] deserialize_fields_typed[OF assms(1)]
  by (cases fs) (auto simp: rematerialize_struct_def names_distinct_def field_types_def seq_eq_Ok ret_def throw_def build_def
      split: if_splits option.splits)

lemma variant_typed:
  assumes "sound_readers typed rem_of" and "sound_usize typed of_usize" and "names_distinct fs"
    and "rematerialize_variant P of_usize rem_of fs data t = (Ok ws, t')"
  shows "list_all2 typed (field_types fs) ws"
  using assms named_typed[OF assms(1,2)] deserialize_fields_typed[OF assms(1)]
  by (cases fs) (auto simp: rematerialize_variant_def names_distinct_def field_types_def seq_eq_Ok ret_def throw_def build_def
      split: if_splits option.splits)

lemma enum_typed:
  assumes "sound_readers typed rem_of" and "sound_usize typed of_usize" and "list_all (names_distinct \<circ> snd) variants"
    and "rematerialize_enum P of_usize rem_of nm variants data t = (Ok (name, ws), t')"
  shows "\<exists>fs. map_of variants name = Some fs \<and> list_all2 typed (field_types fs) ws"
proof -
  obtain fs pay t1 where fs: "map_of variants name = Some fs" "rematerialize_variant P of_usize rem_of fs pay t1 = (Ok ws, t')"
    using assms(4) by (auto simp: rematerialize_enum_def seq_eq_Ok ret_def throw_def split: if_splits option.splits)
  moreover have "names_distinct fs" using assms(3) map_of_SomeD[OF fs(1)] by (auto simp: list_all_iff)
  ultimately show ?thesis using variant_typed[OF assms(1,2)] by blast
qed


section \<open>The chat's messages\<close>

fun chat_typed :: "chat_ty \<Rightarrow> chat_value \<Rightarrow> bool" where
  "chat_typed TString (VStr s) = utf8_valid s"
| "chat_typed TUserAlias (VStruct [VStr s]) = utf8_valid s"
| "chat_typed TChatMessage (VStruct [VStr s]) = utf8_valid s"
| "chat_typed TClientRef (VActor a) = True"
| "chat_typed TServerRef (VActor a) = True"
| "chat_typed TConnectReply (VPort p) = True"
| "chat_typed TPostReply (VPort p) = True"
| "chat_typed _ _ = False"

lemma string_rem_typed: "string_rem P ty bs t = (Ok w, t') \<Longrightarrow> \<exists>s. w = VStr s \<and> utf8_valid s"
  by (auto simp: string_rem_def embed_rem_def rematerialize_string_def from_utf8_def seq_eq_Ok ret_def lift_def
      and_then_def split: outcome.splits if_splits)

lemma string_struct_typed:
  assumes "rematerialize_struct P (\<lambda>_ _. None) (string_rem P) (TupleFields [TString]) bs t = (Ok ws, t')"
  shows "\<exists>s. ws = [VStr s] \<and> utf8_valid s"
proof -
  have "sound_readers (\<lambda>_ w. \<exists>s. w = VStr s \<and> utf8_valid s) (string_rem P)"
    using string_rem_typed by (fastforce simp: sound_readers_def)
  from struct_typed[OF this _ _ assms] show ?thesis
    by (auto simp: sound_usize_def names_distinct_def field_types_def list_all2_Cons1)
qed

lemma sound_chat: "sound_readers chat_typed (chat_rem P X)"
proof -
  have "chat_typed ty w" if "chat_rem P X ty bs t = (Ok w, t')" for ty bs t w t'
    using that string_rem_typed[of P ty bs t w t']
    by (cases ty) (auto simp: chat_rem_def user_alias_def chat_message_def embed_rem_def seq_eq_Ok ret_def
        dest!: string_struct_typed string_rem_typed)
  then show ?thesis unfolding sound_readers_def by blast
qed

text \<open>
  What a peer posts, whatever it sent, is a text that is well-formed UTF-8 and a reply port: the
  server reads nothing else.
\<close>

lemma posted_typed:
  assumes "rematerialize_enum P (\<lambda>_ _. None) (chat_rem P X) nm chat_server_message_item data t = (Ok (name, ws), t')"
  shows "\<exists>s p. name = str_lit ''PostMessage'' \<and> ws = [VStruct [VStr s], VPort p] \<and> utf8_valid s"
proof -
  have "list_all (names_distinct \<circ> snd) chat_server_message_item"
    by (simp add: chat_server_message_item_def names_distinct_def)
  from enum_typed[OF sound_chat _ this assms] show ?thesis
    by (auto simp: sound_usize_def chat_server_message_item_def field_types_def list_all2_Cons1 split: if_splits
        elim!: chat_typed.elims)
qed

text \<open>The server's word that a user joined, written on one node and read on another.\<close>

lemma sample_joined:
  "\<exists>bs. immaterialize_enum (\<lambda>_ _. None) (chat_imm sample_protocol) chat_client_message_item
      (str_lit ''UserConnected'', [VStruct [VStr (str_lit ''ann'')]]) (sample_node 5) = (Ok bs, sample_node 5) \<and> fits host64 bs"
  by (simp add: immaterialize_enum_def immaterialize_variant_def chat_client_message_item_def chat_imm_def embed_imm_def
      immaterialize_struct_def user_alias_def string_imm_def immaterialize_string_def seq_def ret_def fits_host64 str_lit_def)


end
