(* ===== verification/Utext.thy ===== *)
theory Utext
  imports Prelude
begin

text \<open>
  Texts as lists of code points, where the code works on the characters of a \<open>str\<close>: white
  space, trimming, and the bytes a text is kept and sent as.
\<close>

section \<open>Characters\<close>

type_synonym utext = "nat list"

definition lit :: "string \<Rightarrow> utext" where
  "lit s = map of_char s"

text \<open>\<open>char::is_whitespace\<close>\<close>

definition is_whitespace :: "nat \<Rightarrow> bool" where
  "is_whitespace c \<longleftrightarrow> 9 \<le> c \<and> c \<le> 13 \<or> c = 32 \<or> c = 133 \<or> c = 160 \<or> c = 5760 \<or>
     8192 \<le> c \<and> c \<le> 8202 \<or> c = 8232 \<or> c = 8233 \<or> c = 8239 \<or> c = 8287 \<or> c = 12288"

definition trim_by :: "(nat \<Rightarrow> bool) \<Rightarrow> utext \<Rightarrow> utext" where
  "trim_by p s = rev (dropWhile p (rev (dropWhile p s)))"

definition trim :: "utext \<Rightarrow> utext" where
  "trim = trim_by is_whitespace"

lemma trim_Nil_iff: "trim s = [] \<longleftrightarrow> list_all is_whitespace s"
proof -
  have "dropWhile is_whitespace (rev (dropWhile is_whitespace s)) = [] \<longleftrightarrow> list_all is_whitespace (dropWhile is_whitespace s)"
    by (simp add: list_all_iff dropWhile_eq_Nil_conv)
  also have "\<dots> \<longleftrightarrow> list_all is_whitespace s" by (induction s) auto
  finally show ?thesis by (simp add: trim_def trim_by_def)
qed

section \<open>UTF-8\<close>

text \<open>A \<open>char\<close> is a Unicode scalar value.\<close>

definition scalar :: "nat \<Rightarrow> bool" where
  "scalar c \<longleftrightarrow> c < 0xD800 \<or> 0xE000 \<le> c \<and> c < 0x110000"

definition byte_of :: "nat \<Rightarrow> byte" where
  "byte_of n = word_of_nat n"

definition utf8_char :: "nat \<Rightarrow> bytes" where
  "utf8_char c =
     (if c < 0x80 then [byte_of c]
      else if c < 0x800 then [byte_of (0xC0 + c div 64), byte_of (0x80 + c mod 64)]
      else if c < 0x10000 then
        [byte_of (0xE0 + c div 4096), byte_of (0x80 + c div 64 mod 64), byte_of (0x80 + c mod 64)]
      else
        [byte_of (0xF0 + c div 262144), byte_of (0x80 + c div 4096 mod 64),
         byte_of (0x80 + c div 64 mod 64), byte_of (0x80 + c mod 64)])"

definition utf8_encode :: "utext \<Rightarrow> rstring" where
  "utf8_encode s = concat (map utf8_char s)"

lemma byte_of_unat [simp]: "n < 256 \<Longrightarrow> unat (byte_of n) = n"
  by (simp add: byte_of_def unat_of_nat)

lemma byte_compare:
  assumes "n < 256"
  shows "byte_of n \<le> numeral k \<longleftrightarrow> n \<le> unat (numeral k :: byte)"
    "numeral k \<le> byte_of n \<longleftrightarrow> unat (numeral k :: byte) \<le> n"
    "byte_of n < numeral k \<longleftrightarrow> n < unat (numeral k :: byte)"
    "byte_of n = numeral k \<longleftrightarrow> n = unat (numeral k :: byte)"
  using assms by (simp_all add: word_le_nat_alt word_less_nat_alt word_unat_eq_iff del: unat_numeral)

lemma is_cont_byte: "n < 64 \<Longrightarrow> is_cont (byte_of (128 + n))"
  by (simp add: is_cont_def byte_compare)

lemma utf8_valid_char:
  assumes "scalar c"
  shows "utf8_valid (utf8_char c @ bs) = utf8_valid bs"
proof -
  consider "c < 0x80" | "0x80 \<le> c" "c < 0x800" | "0x800 \<le> c" "c < 0x10000" | "0x10000 \<le> c" by linarith
  then show ?thesis
  proof cases
    case 1
    then show ?thesis by (simp add: utf8_char_def byte_compare)
  next
    case 2
    then have "2 \<le> c div 64" "c div 64 < 32" by auto
    then show ?thesis using 2 by (simp add: utf8_char_def byte_compare is_cont_byte)
  next
    case 3
    define h m where "h = c div 4096" and "m = c div 64 mod 64"
    have h: "h < 16" using 3 by (simp add: h_def)
    have "m < 64" by (simp add: m_def)
    have "32 \<le> m" if "h = 0"
    proof -
      have "c < 4096" using that by (simp add: h_def)
      then show ?thesis using 3(1) by (simp add: m_def)
    qed
    moreover have "m \<le> 31" if "h = 13"
    proof -
      have "53248 \<le> c" "c < 57344" using that unfolding h_def by linarith+
      then have "c < 55296" using assms by (simp add: scalar_def)
      then have "832 \<le> c div 64" "c div 64 < 864" using \<open>53248 \<le> c\<close> by auto
      moreover have "c div 64 = 832 + (c div 64 - 832)" "c div 64 - 832 < 32" using calculation by auto
      ultimately have "m = (832 + (c div 64 - 832)) mod 64" by (simp add: m_def)
      also have "\<dots> = (13 * 64 + (c div 64 - 832)) mod 64" by simp
      also have "\<dots> = c div 64 - 832" using \<open>c div 64 - 832 < 32\<close> by (simp only: mod_mult_self3) simp
      finally show ?thesis using \<open>c div 64 - 832 < 32\<close> by simp
    qed
    moreover have "utf8_char c = [byte_of (224 + h), byte_of (128 + m), byte_of (128 + c mod 64)]"
      using 3 by (simp add: utf8_char_def h_def m_def)
    ultimately show ?thesis
      using h \<open>m < 64\<close> by (simp add: byte_compare is_cont_byte)
  next
    case 4
    define h m where "h = c div 262144" and "m = c div 4096 mod 64"
    have c: "c < 1114112" using 4 assms by (simp add: scalar_def)
    have h: "h \<le> 4" using c by (simp add: h_def)
    have "m < 64" by (simp add: m_def)
    have "16 \<le> m" if "h = 0"
    proof -
      have "c < 262144" using that by (simp add: h_def)
      then show ?thesis using 4 by (simp add: m_def)
    qed
    moreover have "m \<le> 15" if "h = 4"
    proof -
      have "256 \<le> c div 4096" "c div 4096 < 272" using that c unfolding h_def by linarith+
      then have e: "c div 4096 = 4 * 64 + (c div 4096 - 256)" and "c div 4096 - 256 < 16" by auto
      from arg_cong[OF e, of "\<lambda>n. n mod 64"] have "m = (4 * 64 + (c div 4096 - 256)) mod 64" unfolding m_def .
      also have "\<dots> = c div 4096 - 256" using \<open>c div 4096 - 256 < 16\<close> by (simp only: mod_mult_self3) simp
      finally show ?thesis using \<open>c div 4096 - 256 < 16\<close> by simp
    qed
    moreover have "utf8_char c = [byte_of (240 + h), byte_of (128 + m), byte_of (128 + c div 64 mod 64), byte_of (128 + c mod 64)]"
      using 4 by (simp add: utf8_char_def h_def m_def)
    ultimately show ?thesis
      using h \<open>m < 64\<close> by (simp add: byte_compare is_cont_byte)
  qed
qed

lemma utf8_valid_encode: "list_all scalar s \<Longrightarrow> utf8_valid (utf8_encode s)"
  by (induction s) (simp_all add: utf8_encode_def utf8_valid_char)

lemma utf8_encode_Nil_iff: "utf8_encode s = [] \<longleftrightarrow> s = []"
  by (cases s) (simp_all add: utf8_encode_def utf8_char_def)

lemma is_cont_lead: "n < 256 \<Longrightarrow> \<not> is_cont (byte_of n) \<longleftrightarrow> n < 128 \<or> 192 \<le> n"
  by (auto simp: is_cont_def byte_compare)

section \<open>Strings as bytes\<close>

text \<open>\<open>String::push\<close> and \<open>String::pop\<close>: the last character is the last byte that continues no other, and what follows it.\<close>

definition string_push :: "rstring \<Rightarrow> nat \<Rightarrow> rstring" where
  "string_push s c = s @ utf8_char c"

definition string_pop :: "rstring \<Rightarrow> rstring" where
  "string_pop s = rev (drop 1 (dropWhile is_cont (rev s)))"

lemma utf8_char_split:
  assumes "scalar c"
  shows "\<exists>b cs. utf8_char c = b # cs \<and> \<not> is_cont b \<and> list_all is_cont cs"
proof -
  have "c < 1114112" using assms by (auto simp: scalar_def)
  then have "c div 262144 < 5" by simp
  moreover have "c div 4096 < 16" if "c < 65536" using that by simp
  moreover have "c div 64 < 32" if "c < 2048" using that by simp
  ultimately show ?thesis by (simp add: utf8_char_def is_cont_lead is_cont_byte)
qed

lemma string_pop_char:
  assumes "scalar c"
  shows "string_pop (s @ utf8_char c) = s"
proof -
  obtain b cs where u: "utf8_char c = b # cs" "\<not> is_cont b" "list_all is_cont cs"
    using utf8_char_split[OF assms] by blast
  have "dropWhile is_cont (rev cs @ b # rev s) = b # rev s"
    using u(2,3) by (subst dropWhile_append2) (simp_all add: list_all_iff)
  then show ?thesis by (simp add: string_pop_def u(1))
qed

lemma string_pop_push: "scalar c \<Longrightarrow> string_pop (string_push s c) = s"
  by (simp add: string_push_def string_pop_char)

lemma utf8_encode_snoc: "utf8_encode (s @ [c]) = string_push (utf8_encode s) c"
  by (simp add: utf8_encode_def string_push_def)

lemma string_pop_encode: "list_all scalar s \<Longrightarrow> string_pop (utf8_encode s) = utf8_encode (butlast s)"
  by (cases s rule: rev_cases) (simp_all add: utf8_encode_snoc string_pop_push, simp add: utf8_encode_def string_pop_def)

text \<open>\<open>str::chars\<close>, on the bytes of valid UTF-8.\<close>

fun chars :: "rstring \<Rightarrow> utext" where
  "chars [] = []"
| "chars (b # bs) =
     (if b < 0x80 then unat b # chars bs
      else if b < 0xE0 then
        (case bs of c # cs \<Rightarrow> ((unat b - 0xC0) * 64 + (unat c - 0x80)) # chars cs | _ \<Rightarrow> [])
      else if b < 0xF0 then
        (case bs of c # d # cs \<Rightarrow>
           ((unat b - 0xE0) * 4096 + (unat c - 0x80) * 64 + (unat d - 0x80)) # chars cs | _ \<Rightarrow> [])
      else
        (case bs of c # d # e # cs \<Rightarrow>
           ((unat b - 0xF0) * 262144 + (unat c - 0x80) * 4096 + (unat d - 0x80) * 64 + (unat e - 0x80)) # chars cs
         | _ \<Rightarrow> []))"

lemma div_mod_parts:
  "c div 4096 * 64 + c div 64 mod 64 = (c div 64 :: nat)" "c div 262144 * 64 + c div 4096 mod 64 = (c div 4096 :: nat)"
  using div_mult_mod_eq[of "c div 64" 64] div_mult_mod_eq[of "c div 4096" 64] by (simp_all flip: div_mult2_eq)

lemma chars_char:
  assumes "scalar c"
  shows "chars (utf8_char c @ bs) = c # chars bs"
proof -
  have c: "c < 1114112" using assms by (auto simp: scalar_def)
  consider "c < 0x80" | "0x80 \<le> c" "c < 0x800" | "0x800 \<le> c" "c < 0x10000" | "0x10000 \<le> c" by linarith
  then show ?thesis
  proof cases
    case 1
    then show ?thesis by (simp add: utf8_char_def byte_compare)
  next
    case 2
    then have "c div 64 < 32" by simp
    then show ?thesis using 2 by (simp add: utf8_char_def byte_compare)
  next
    case 3
    then have "c div 4096 < 16" by simp
    moreover have "c div 4096 * 4096 + c div 64 mod 64 * 64 + c mod 64 = c"
      using div_mod_parts(1)[of c] div_mult_mod_eq[of c 64] by linarith
    ultimately show ?thesis using 3 by (simp add: utf8_char_def byte_compare)
  next
    case 4
    then have "c div 262144 < 5" using c by simp
    moreover have "c div 262144 * 262144 + c div 4096 mod 64 * 4096 + c div 64 mod 64 * 64 + c mod 64 = c"
      using div_mod_parts[of c] div_mult_mod_eq[of c 64] by linarith
    ultimately show ?thesis using 4 by (simp add: utf8_char_def byte_compare)
  qed
qed

lemma chars_encode: "list_all scalar s \<Longrightarrow> chars (utf8_encode s) = s"
  by (induction s) (simp_all add: utf8_encode_def chars_char)

end
