(* ===== verification/Chat_Client.thy ===== *)
theory Chat_Client
  imports Chat Utext
begin

text \<open>
  The two clients of the chat: \<open>chat_app/client/src/{main,ui}.rs\<close> for the terminal and
  \<open>chat_app/wasm_client/src/{main,app}.rs\<close> for the browser. In both an actor passes what
  the server sends on to the user interface. Colours, borders and the layout are left
  out; what is modelled of drawing is the text. The events of crossterm and egui are
  arguments, as is the table of Unicode upper case.
\<close>

section \<open>The terminal\<close>

datatype chat_entry = EntryMessage rstring rstring | EntryUserConnected rstring

record ui_state =
  ui_alias :: "rstring option"
  ui_server :: "actor_id option"
  chat_history :: "chat_entry list"
  is_message_in_flight :: bool
  composer :: rstring
  ui_exit :: bool

definition ui_new :: ui_state where
  "ui_new = \<lparr>ui_alias = None, ui_server = None, chat_history = [], is_message_in_flight = False,
     composer = [], ui_exit = False\<rparr>"

text \<open>The keys the code looks at; \<open>OtherKey\<close> stands for all the others.\<close>

datatype key_code = KeyChar nat | Esc | Enter | Backspace | OtherKey

datatype key_event_kind = Press | Repeat | Release

record key_event =
  code :: key_code
  control :: bool
  kind :: key_event_kind

datatype terminal_event = Key key_event | OtherTerminalEvent

datatype ui_msg =
    UIConnected rstring actor_id
  | AddChatMessage rstring rstring
  | UIUserConnected rstring
  | UIDisconnected
  | SetMessageInFlight bool
  | InputEvent key_event

text \<open>The filter before the actor, for \<open>filter_map_handle\<close>.\<close>

definition key_input :: "terminal_event \<Rightarrow> ui_msg option" where
  "key_input evt = (case evt of
     Key key \<Rightarrow> if kind key = Press then Some (InputEvent key) else None
   | OtherTerminalEvent \<Rightarrow> None)"

text \<open>
  The actor with its channel. \<open>awaited\<close>: the reply ports of the posts whose task, spawned by
  \<open>ask_then\<close>, still waits; \<open>posts\<close>: what was sent, and to whom; \<open>ui_end\<close>: how the actor
  ended, if it has.
\<close>

record terminal =
  ui :: ui_state
  ui_rx :: "ui_msg list"
  term_port :: port
  awaited :: "port list"
  posts :: "(actor_id \<times> chat_server_message) list"
  ui_end :: "unit outcome option"

definition terminal_start :: terminal where
  "terminal_start = \<lparr>ui = ui_new, ui_rx = [], term_port = 0, awaited = [], posts = [], ui_end = None\<rparr>"

text \<open>\<open>server.ask_then(\<dots>, None, \<dots>).unwrap()\<close>; \<open>takes\<close>: does the server's proxy take the message?\<close>

definition ask_server :: "bool \<Rightarrow> actor_id \<Rightarrow> rstring \<Rightarrow> (terminal, unit) eff" where
  "ask_server takes srv msg_to_send = (\<lambda>t.
     let rpc = term_port t; t' = t\<lparr>term_port := rpc + 1\<rparr>
     in if takes then (Ok (), t'\<lparr>awaited := awaited t @ [rpc], posts := posts t @ [(srv, PostMessage msg_to_send rpc)]\<rparr>)
        else (Panic UnwrapErr, t'))"

definition ui_key :: "bool \<Rightarrow> key_event \<Rightarrow> (terminal, unit) eff" where
  "ui_key takes key = (\<lambda>t. let s = ui t in
     if code key = KeyChar 99 \<and> control key then (Ok (), t\<lparr>ui := s\<lparr>ui_exit := True\<rparr>\<rparr>)
     else case code key of
       Esc \<Rightarrow> (Ok (), t\<lparr>ui := s\<lparr>composer := []\<rparr>\<rparr>)
     | Enter \<Rightarrow> (case ui_server s of
         Some srv \<Rightarrow>
           if composer s \<noteq> []
           then ask_server takes srv (composer s) (t\<lparr>ui := s\<lparr>is_message_in_flight := True, composer := []\<rparr>\<rparr>)
           else (Ok (), t)
       | None \<Rightarrow> (Ok (), t))
     | KeyChar c \<Rightarrow> (Ok (), t\<lparr>ui := s\<lparr>composer := string_push (composer s) c\<rparr>\<rparr>)
     | Backspace \<Rightarrow> (Ok (), t\<lparr>ui := s\<lparr>composer := string_pop (composer s)\<rparr>\<rparr>)
     | OtherKey \<Rightarrow> (Ok (), t))"

definition ui_handle :: "bool \<Rightarrow> ui_msg \<Rightarrow> (terminal, unit) eff" where
  "ui_handle takes msg = (\<lambda>t. let s = ui t in case msg of
     UIConnected user_alias srv \<Rightarrow> (Ok (), t\<lparr>ui := s\<lparr>ui_alias := Some user_alias, ui_server := Some srv\<rparr>\<rparr>)
   | AddChatMessage user_alias chat_message \<Rightarrow>
       (Ok (), t\<lparr>ui := s\<lparr>chat_history := chat_history s @ [EntryMessage user_alias chat_message]\<rparr>\<rparr>)
   | SetMessageInFlight is_in_flight \<Rightarrow> (Ok (), t\<lparr>ui := s\<lparr>is_message_in_flight := is_in_flight\<rparr>\<rparr>)
   | UIDisconnected \<Rightarrow> (Ok (), t\<lparr>ui := s\<lparr>ui_exit := True\<rparr>\<rparr>)
   | InputEvent key \<Rightarrow> ui_key takes key t
   | UIUserConnected user_alias \<Rightarrow>
       (Ok (), t\<lparr>ui := s\<lparr>chat_history := chat_history s @ [EntryUserConnected user_alias]\<rparr>\<rparr>))"

text \<open>
  One turn of the loop, \<open>draws\<close>: does drawing succeed? The value says whether the loop goes on.
\<close>

definition ui_turn :: "bool \<Rightarrow> bool \<Rightarrow> ui_msg \<Rightarrow> (terminal, bool) eff" where
  "ui_turn takes draws msg =
     seq (ui_handle takes msg) (\<lambda>_ t.
     if ui_exit (ui t) then (Ok False, t)
     else if draws then (Ok True, t) else (Panic UnwrapErr, t))"

section \<open>The actor for the server's messages\<close>

text \<open>\<open>start_chatclient_actor\<close>; \<open>unwrap\<close> panics when the user interface is gone.\<close>

definition chatclient_handle :: "bool \<Rightarrow> chat_client_message \<Rightarrow> unit outcome \<times> ui_msg list" where
  "chatclient_handle takes msg =
     (let m = (case msg of
         MessageReceived user_alias chat_msg \<Rightarrow> AddChatMessage user_alias chat_msg
       | UserConnected user_alias \<Rightarrow> UIUserConnected user_alias
       | Disconnect \<Rightarrow> UIDisconnected)
      in if takes then (Ok (), [m]) else (Panic UnwrapErr, []))"

section \<open>The terminal with all that sends to it\<close>

text \<open>
  \<open>FromServer\<close>: the chat client actor handles a message; \<open>FromKeyboard\<close>: the filter handles an
  event; \<open>Joined\<close>: \<open>run\<close> has the answer of the hub; \<open>Answered\<close>: a waiting task gets its
  reply, or finds the port dropped; \<open>Turn\<close>: the loop takes a message.
\<close>

datatype terminal_step =
    FromServer chat_client_message
  | FromKeyboard terminal_event
  | Joined rstring actor_id
  | Answered port
  | Turn bool bool

definition ui_takes :: "terminal \<Rightarrow> bool" where
  "ui_takes t \<longleftrightarrow> ui_end t = None"

definition to_ui :: "ui_msg list \<Rightarrow> terminal \<Rightarrow> terminal" where
  "to_ui ms t = (if ui_takes t then t\<lparr>ui_rx := ui_rx t @ ms\<rparr> else t)"

definition terminal_turn :: "bool \<Rightarrow> bool \<Rightarrow> terminal \<Rightarrow> terminal" where
  "terminal_turn takes draws t = (case (ui_end t, ui_rx t) of
     (None, msg # rx) \<Rightarrow>
       (case ui_turn takes draws msg (t\<lparr>ui_rx := rx\<rparr>) of
          (Ok True, t') \<Rightarrow> t'
        | (Ok False, t') \<Rightarrow> t'\<lparr>ui_end := Some (Ok ())\<rparr>
        | (Err e, t') \<Rightarrow> t'\<lparr>ui_end := Some (Err e)\<rparr>
        | (Panic p, t') \<Rightarrow> t'\<lparr>ui_end := Some (Panic p)\<rparr>)
   | _ \<Rightarrow> t)"

definition terminal_step :: "terminal_step \<Rightarrow> terminal \<Rightarrow> terminal" where
  "terminal_step ev t = (case ev of
     FromServer msg \<Rightarrow> to_ui (snd (chatclient_handle (ui_takes t) msg)) t
   | FromKeyboard evt \<Rightarrow> to_ui (snd (filter_map_handle key_input (ui_takes t) evt)) t
   | Joined user_alias srv \<Rightarrow> to_ui [UIConnected user_alias srv] t
   | Answered p \<Rightarrow>
       if p \<in> set (awaited t)
       then to_ui [SetMessageInFlight False] (t\<lparr>awaited := removeAll p (awaited t)\<rparr>) else t
   | Turn takes draws \<Rightarrow> terminal_turn takes draws t)"

definition terminal_run :: "terminal_step list \<Rightarrow> terminal \<Rightarrow> terminal" where
  "terminal_run = fold terminal_step"

section \<open>What the terminal shows\<close>

text \<open>\<open>format!(\"{:>12}\", \<dots>)\<close> counts characters.\<close>

definition pad_left :: "nat \<Rightarrow> rstring \<Rightarrow> rstring" where
  "pad_left n s = replicate (n - length (chars s)) 32 @ s"

definition history_line :: "(rstring \<Rightarrow> rstring) \<Rightarrow> chat_entry \<Rightarrow> rstring \<times> rstring" where
  "history_line to_upper entry = (case entry of
     EntryMessage user_alias message \<Rightarrow> (pad_left 12 (to_upper user_alias), message)
   | EntryUserConnected user_alias \<Rightarrow> (str_lit ''        JOIN'', user_alias @ str_lit '' connected''))"

text \<open>The lines of \<open>render_chat_history\<close>, without the bar between label and text.\<close>

definition render_chat_history :: "(rstring \<Rightarrow> rstring) \<Rightarrow> nat \<Rightarrow> ui_state \<Rightarrow> (rstring \<times> rstring) list" where
  "render_chat_history to_upper area_height s =
     (let inner_height = max (area_height - 2) 1;
          start_idx = length (chat_history s) - inner_height
      in if chat_history s = [] then [([], str_lit ''-- awaiting link --'')]
         else map (history_line to_upper) (drop start_idx (chat_history s)))"

text \<open>\<open>render_header\<close>: the alias and the state of the link; \<open>render_composer\<close>: the text in the box.\<close>

definition render_header :: "ui_state \<Rightarrow> rstring \<times> rstring" where
  "render_header s =
     (case ui_alias s of Some a \<Rightarrow> a | None \<Rightarrow> str_lit ''NO ALIAS'',
      if ui_server s \<noteq> None then str_lit ''ONLINE'' else str_lit ''LINKING'')"

definition render_composer :: "ui_state \<Rightarrow> rstring" where
  "render_composer s =
     (if is_message_in_flight s then str_lit ''SENDING...''
      else if composer s = [] then str_lit ''MESSAGE'' else composer s)"

section \<open>The browser\<close>

datatype ui_update =
    UpConnected rstring actor_id
  | UpUserConnected rstring
  | UpMessageReceived rstring rstring
  | UpDisconnected
  | UpError rstring

text \<open>\<open>start_client_handler_actor\<close>; \<open>sends\<close>: the channel to the app still has a receiver; \<open>repaints\<close>: so has the other one.\<close>

definition client_update :: "chat_client_message \<Rightarrow> ui_update" where
  "client_update msg = (case msg of
     UserConnected user_alias \<Rightarrow> UpUserConnected user_alias
   | MessageReceived user_alias m \<Rightarrow> UpMessageReceived user_alias m
   | Disconnect \<Rightarrow> UpDisconnected)"

definition client_handler :: "bool \<Rightarrow> bool \<Rightarrow> chat_client_message \<Rightarrow> unit outcome \<times> ui_update list" where
  "client_handler sends repaints msg =
     (let update_msg = client_update msg
      in (if repaints then Ok () else Panic UnwrapErr, if sends then [update_msg] else []))"

text \<open>The app, without the references it only keeps alive; the channel holds what was not yet received.\<close>

record template_app =
  messages :: "(rstring \<times> rstring) list"
  input_message :: rstring
  app_alias :: "rstring option"
  app_status :: rstring
  chat_server_ref :: "actor_id option"
  ui_update_rx :: "ui_update list option"

definition app_default :: template_app where
  "app_default = \<lparr>messages = [], input_message = [], app_alias = None,
     app_status = str_lit ''Connecting...'', chat_server_ref = None, ui_update_rx = None\<rparr>"

definition app_new :: "ui_update list \<Rightarrow> template_app" where
  "app_new rx = app_default\<lparr>ui_update_rx := Some rx, app_status := str_lit ''Joining chat...''\<rparr>"

definition say :: "rstring \<Rightarrow> rstring \<Rightarrow> template_app \<Rightarrow> template_app" where
  "say who what a = a\<lparr>messages := messages a @ [(who, what)]\<rparr>"

definition app_update :: "ui_update \<Rightarrow> template_app \<Rightarrow> template_app" where
  "app_update upd a = (case upd of
     UpConnected al server_ref \<Rightarrow>
       say (str_lit ''System'') (str_lit ''Connected as '' @ al)
         (a\<lparr>app_alias := Some al, chat_server_ref := Some server_ref, app_status := str_lit ''Connected as '' @ al\<rparr>)
   | UpUserConnected al \<Rightarrow> say (str_lit ''System'') (al @ str_lit '' joined.'') a
   | UpMessageReceived al msg \<Rightarrow> say al msg a
   | UpDisconnected \<Rightarrow>
       say (str_lit ''System'') (str_lit ''Disconnected.'')
         (a\<lparr>app_status := str_lit ''Disconnected.'', chat_server_ref := None\<rparr>)
   | UpError err_msg \<Rightarrow>
       say (str_lit ''System'') (str_lit ''Error: '' @ err_msg) (a\<lparr>app_status := str_lit ''Error: '' @ err_msg\<rparr>))"

definition handle_events :: "template_app \<Rightarrow> template_app" where
  "handle_events a = (case ui_update_rx a of
     Some rx \<Rightarrow> (fold app_update rx a)\<lparr>ui_update_rx := Some []\<rparr>
   | None \<Rightarrow> a)"

text \<open>\<open>send_current_message\<close>: the result of \<open>ask_then\<close> is ignored. The posts are those the server's proxy took.\<close>

definition send_current_message ::
    "bool \<Rightarrow> port \<Rightarrow> template_app \<Rightarrow> template_app \<times> (actor_id \<times> chat_server_message) list" where
  "send_current_message takes rpc a = (case chat_server_ref a of
     Some server_ref \<Rightarrow>
       (a\<lparr>input_message := []\<rparr>, if takes then [(server_ref, PostMessage (input_message a) rpc)] else [])
   | None \<Rightarrow> (say (str_lit ''System'') (str_lit ''Not connected.'') a, []))"

text \<open>\<open>composer\<close>, given the input's answers of this frame.\<close>

definition app_composer ::
    "bool \<Rightarrow> bool \<Rightarrow> bool \<Rightarrow> bool \<Rightarrow> port \<Rightarrow> template_app \<Rightarrow> template_app \<times> (actor_id \<times> chat_server_message) list" where
  "app_composer clicked lost_focus enter takes rpc a =
     (if (clicked \<or> lost_focus \<and> enter) \<and> trim (chars (input_message a)) \<noteq> []
      then send_current_message takes rpc a else (a, []))"

text \<open>
  \<open>ui\<close>, one frame: the updates first, then the composer, whose text the user may have
  changed to \<open>edit\<close> of what it was.
\<close>

record browser =
  page :: template_app
  web_port :: port
  web_posts :: "(actor_id \<times> chat_server_message) list"

definition app_frame :: "(rstring \<Rightarrow> rstring) \<Rightarrow> bool \<Rightarrow> bool \<Rightarrow> bool \<Rightarrow> bool \<Rightarrow> browser \<Rightarrow> browser" where
  "app_frame edit clicked lost_focus enter takes w =
     (let a = handle_events (page w);
          (a', ps) = app_composer clicked lost_focus enter takes (web_port w) (a\<lparr>input_message := edit (input_message a)\<rparr>)
      in w\<lparr>page := a', web_port := web_port w + 1, web_posts := web_posts w @ ps\<rparr>)"

text \<open>\<open>WebFromServer\<close>: the handler actor takes a message; \<open>WebJoined\<close>: \<open>init\<close> has the answer of the hub.\<close>

datatype browser_step =
    WebFromServer bool chat_client_message
  | WebJoined rstring actor_id
  | Frame "rstring \<Rightarrow> rstring" bool bool bool bool

definition to_app :: "ui_update list \<Rightarrow> browser \<Rightarrow> browser" where
  "to_app us w = w\<lparr>page := (page w)\<lparr>ui_update_rx := map_option (\<lambda>rx. rx @ us) (ui_update_rx (page w))\<rparr>\<rparr>"

definition browser_step :: "browser_step \<Rightarrow> browser \<Rightarrow> browser" where
  "browser_step ev w = (case ev of
     WebFromServer repaints msg \<Rightarrow> to_app (snd (client_handler (ui_update_rx (page w) \<noteq> None) repaints msg)) w
   | WebJoined al srv \<Rightarrow> to_app [UpConnected al srv] w
   | Frame edit clicked lost_focus enter takes \<Rightarrow> app_frame edit clicked lost_focus enter takes w)"

definition browser_run :: "browser_step list \<Rightarrow> browser \<Rightarrow> browser" where
  "browser_run = fold browser_step"

section \<open>The address of the server\<close>

text \<open>
  \<open>websocket_url_from_location\<close>: \<open>search\<close> is the query of the page's address, \<open>decode\<close> the
  browser's \<open>decodeURIComponent\<close>; both may fail.
\<close>

fun split_on :: "nat \<Rightarrow> utext \<Rightarrow> utext list" where
  "split_on d [] = [[]]"
| "split_on d (c # s) =
     (if c = d then [] # split_on d s
      else case split_on d s of w # ws \<Rightarrow> (c # w) # ws | [] \<Rightarrow> [[c]])"

definition split_once :: "nat \<Rightarrow> utext \<Rightarrow> (utext \<times> utext) option" where
  "split_once d s = (case dropWhile (\<lambda>c. c \<noteq> d) s of
     [] \<Rightarrow> None | _ # rest \<Rightarrow> Some (takeWhile (\<lambda>c. c \<noteq> d) s, rest))"

fun find_map :: "('a \<Rightarrow> 'b option) \<Rightarrow> 'a list \<Rightarrow> 'b option" where
  "find_map f [] = None"
| "find_map f (x # xs) = (case f x of Some y \<Rightarrow> Some y | None \<Rightarrow> find_map f xs)"

definition websocket_url_from_location :: "(utext \<Rightarrow> utext option) \<Rightarrow> utext option \<Rightarrow> utext" where
  "websocket_url_from_location decode location = (case location of
     None \<Rightarrow> lit ''.''
   | Some search \<Rightarrow>
       (case find_map (\<lambda>(key, val).
              if key = lit ''server'' then Some (case decode val of Some decoded \<Rightarrow> decoded | None \<Rightarrow> val) else None)
            (List.map_filter (split_once 61) (split_on 38 (dropWhile (\<lambda>c. c = 63) search))) of
          Some url \<Rightarrow> url
        | None \<Rightarrow> lit ''.''))"

end
