(* ===== verification/Chat_Room.thy ===== *)
theory Chat_Room
  imports Chat
begin

text \<open>
  What the chat server promises its clients, as a room: who sits behind which portal, and one
  log of what was said. The server refines it, and a client that stays receives the log.
\<close>

section \<open>The room\<close>

record room =
  seats :: "actor_id \<Rightarrow> rstring option"
  joined :: nat
  log :: "chat_client_message list"

text \<open>\<open>name n\<close>: the alias of the one who joins after \<open>n\<close> others.\<close>

definition room_step :: "(nat \<Rightarrow> rstring) \<Rightarrow> chat_msg \<Rightarrow> room \<Rightarrow> room" where
  "room_step name m r = (case m of
     Connect portal client p \<Rightarrow>
       r\<lparr>seats := (seats r)(portal \<mapsto> name (joined r)), joined := joined r + 1,
         log := log r @ [UserConnected (name (joined r))]\<rparr>
   | Public portal msg \<Rightarrow> (case (seats r portal, msg) of
       (Some a, PostMessage body p) \<Rightarrow> r\<lparr>log := log r @ [MessageReceived a body]\<rparr>
     | (None, _) \<Rightarrow> r))"

definition room_run :: "(nat \<Rightarrow> rstring) \<Rightarrow> chat_msg list \<Rightarrow> room \<Rightarrow> room" where
  "room_run name = fold (room_step name)"

text \<open>The server at work on a list of messages, each under the conditions of its time.\<close>

fun chat_run :: "platform \<Rightarrow> (chat_env \<times> chat_msg) list \<Rightarrow> (chat_state, unit) eff" where
  "chat_run P [] = ret ()"
| "chat_run P ((E, m) # ms) = seq (chat_handle P E m) (\<lambda>_. chat_run P ms)"

text \<open>The room of a server, with an empty log.\<close>

definition room_of :: "chat_state \<Rightarrow> room" where
  "room_of st = \<lparr>seats = (\<lambda>k. map_option snd (hm_get (clients st) k)),
     joined = generated_count (alias_gen st), log = []\<rparr>"

definition delivered :: "actor_id \<Rightarrow> chat_output list \<Rightarrow> chat_client_message list" where
  "delivered c = List.map_filter (\<lambda>x. case x of ToClient d m \<Rightarrow> if d = c then Some m else None | _ \<Rightarrow> None)"

lemma delivered_simps [simp]:
  "delivered c [] = []"
  "delivered c (xs @ ys) = delivered c xs @ delivered c ys"
  "delivered c (ToClient d m # xs) = (if d = c then m # delivered c xs else delivered c xs)"
  "delivered c (ReplyAlias p a # xs) = delivered c xs"
  "delivered c (Ack p # xs) = delivered c xs"
  by (simp_all add: delivered_def map_filter_simps map_filter_def)

section \<open>Listeners\<close>

text \<open>The client \<open>c\<close> behind the portal \<open>k\<close> is in the table once.\<close>

definition listening :: "chat_state \<Rightarrow> actor_id \<times> actor_id \<Rightarrow> bool" where
  "listening st = (\<lambda>(k, c). \<exists>a. filter (\<lambda>(k', c', a'). c' = c) (clients st) = [(k, c, a)])"

text \<open>
  The client stays: it takes what is sent to it, does not connect anew, and the ids of new
  clients are neither its own nor its portal's.
\<close>

definition stays_on :: "actor_id \<times> actor_id \<Rightarrow> chat_env \<times> chat_msg \<Rightarrow> bool" where
  "stays_on = (\<lambda>(k, c) (E, m). client_takes E c \<and>
     (case m of Connect k' c' _ \<Rightarrow> k' \<noteq> k \<and> c' \<noteq> c \<and> c' \<noteq> k | Public _ _ \<Rightarrow> True))"

lemma delivered_to_all:
  assumes "client_takes E c"
  shows "delivered c (filter (arrives E) (map (\<lambda>(k, c, a). ToClient c m) cs)) =
    map (\<lambda>_. m) (filter (\<lambda>(k', c', a'). c' = c) cs)"
  using assms by (induction cs) (auto simp: arrives_def)

lemma entries_after_insert:
  "\<forall>(k', c', a') \<in> set cs. c' = c \<longrightarrow> k' \<noteq> p \<Longrightarrow> d \<noteq> c \<Longrightarrow>
    filter (\<lambda>(k', c', a'). c' = c) (hm_insert p (d, b) cs) = filter (\<lambda>(k', c', a'). c' = c) cs"
  by (induction cs) (auto simp: hm_insert_def)

lemma filter_eq_singleton:
  assumes "filter P xs = [x]" and "y \<in> set xs" and "P y"
  shows "y = x"
proof -
  have "y \<in> set (filter P xs)" using assms(2,3) by simp
  then show ?thesis using assms(1) by simp
qed

lemma listening_insert:
  assumes "listening st (k, c)" and "p \<noteq> k" and "d \<noteq> c"
  shows "filter (\<lambda>(k', c', a'). c' = c) (hm_insert p (d, b) (clients st)) = filter (\<lambda>(k', c', a'). c' = c) (clients st)"
proof (rule entries_after_insert)
  obtain a where "filter (\<lambda>(k', c', a'). c' = c) (clients st) = [(k, c, a)]"
    using assms(1) by (auto simp: listening_def)
  from filter_eq_singleton[OF this] show "\<forall>(k', c', a') \<in> set (clients st). c' = c \<longrightarrow> k' \<noteq> p"
    using assms(2) by fastforce
qed (fact assms)

section \<open>The server refines the room\<close>

definition refines :: "chat_state \<Rightarrow> chat_output list \<Rightarrow> room \<Rightarrow> (actor_id \<times> actor_id) set \<Rightarrow> bool" where
  "refines st xs r L \<longleftrightarrow> room_of st = r\<lparr>log := []\<rparr> \<and> (\<forall>(k, c) \<in> L. listening st (k, c) \<and> delivered c xs = log r)"

lemma step_refines:
  assumes "wf_platform P" and "chat_inv st" and "is_connect m \<Longrightarrow> generated_count (alias_gen st) \<le> 900"
    and "\<forall>l \<in> L. listening st l" and "\<forall>l \<in> L. stays_on l (E, m)"
  shows "\<exists>st' xs. chat_handle P E m st = (Ok (), st') \<and> chat_outs st' = chat_outs st @ xs \<and> chat_inv st' \<and>
    alias_no (alias_gen st') = alias_no (alias_gen st) \<and>
    generated_count (alias_gen st') = (if is_connect m then generated_count (alias_gen st) + 1 else generated_count (alias_gen st)) \<and>
    refines st' xs (room_step (alias_no (alias_gen st)) m (room_of st)) L"
proof (cases m)
  case (Connect p d q)
  define a where "a = alias_no (alias_gen st) (generated_count (alias_gen st))"
  have n: "generated_count (alias_gen st) \<le> 900" using assms(3) Connect by (simp add: is_connect_def)
  let ?st = "st\<lparr>alias_gen := alias_gen st\<lparr>generated_count := generated_count (alias_gen st) + 1\<rparr>,
    clients := hm_insert p (d, a) (clients st), chat_outs := chat_outs st @ filter (arrives E) (announced p d q a st)\<rparr>"
  have "listening ?st (k, c) \<and> delivered c (filter (arrives E) (announced p d q a st)) = [UserConnected a]"
    if "(k, c) \<in> L" for k c
  proof -
    have ne: "p \<noteq> k" "d \<noteq> c" "d \<noteq> k" and t: "client_takes E c" and l: "listening st (k, c)"
      using that assms(4,5) Connect by (auto simp: stays_on_def)
    note same = listening_insert[OF l ne(1,2), of a]
    obtain b where b: "filter (\<lambda>(k', c', a'). c' = c) (clients st) = [(k, c, b)]" using l by (auto simp: listening_def)
    have "filter (\<lambda>(k', c', a'). c' = c) (filter (\<lambda>x. fst x \<noteq> d) (hm_insert p (d, a) (clients st))) =
        filter (\<lambda>x. fst x \<noteq> d) (filter (\<lambda>(k', c', a'). c' = c) (hm_insert p (d, a) (clients st)))"
      by (simp add: conj_commute)
    also have "\<dots> = [(k, c, b)]" using ne(3) by (simp add: same b)
    finally have "delivered c (filter (arrives E) (announced p d q a st)) = [UserConnected a]"
      using delivered_to_all[OF t, of "UserConnected a" "filter (\<lambda>x. fst x \<noteq> d) (hm_insert p (d, a) (clients st))"]
      by (simp add: announced_def del: filter_filter)
    then show ?thesis using same b by (simp add: listening_def)
  qed
  moreover have "chat_inv ?st" using chat_inv_connect[OF assms(2), where portal = p and client = d and os = "chat_outs ?st"] by (simp add: a_def)
  moreover have "chat_handle P E m st = (Ok (), ?st)"
    using chat_handle_Connect[OF assms(1,2) n, of E p d q] by (simp add: Connect a_def)
  ultimately show ?thesis
    by (intro exI[of _ ?st])
      (auto simp: refines_def room_of_def room_step_def Connect is_connect_def hm_get_insert fun_eq_iff alias_no_def a_def)
next
  case (Public p msg)
  obtain body q where m: "m = Public p (PostMessage body q)" using Public by (cases msg) auto
  show ?thesis
  proof (cases "hm_get (clients st) p")
    case None
    then show ?thesis using assms(2,4)
      by (intro exI[of _ st] exI[of _ "[]"])
        (auto simp: m chat_handle_def handle_public_eq refines_def room_of_def room_step_def is_connect_def)
  next
    case (Some ca)
    then obtain c' sender where s: "hm_get (clients st) p = Some (c', sender)" by (cases ca) simp
    let ?xs = "filter (arrives E) (posted sender body q st)"
    have "delivered c ?xs = [MessageReceived sender body]" if "(k, c) \<in> L" for k c
    proof -
      have t: "client_takes E c" and l: "listening st (k, c)" using that assms(4,5) by (auto simp: stays_on_def)
      then show ?thesis
        using delivered_to_all[OF t, of "MessageReceived sender body" "clients st"]
        by (auto simp: posted_def listening_def)
    qed
    then show ?thesis using assms(2,4) s
      by (intro exI[of _ "st\<lparr>chat_outs := chat_outs st @ ?xs\<rparr>"] exI[of _ ?xs])
        (auto simp: m chat_handle_def handle_public_eq refines_def room_of_def room_step_def is_connect_def
          listening_def chat_inv_def)
  qed
qed

text \<open>The log is only appended to.\<close>

lemma room_step_log: "room_step name m (r\<lparr>log := l\<rparr>) = (room_step name m (r\<lparr>log := []\<rparr>))\<lparr>log := l @ log (room_step name m (r\<lparr>log := []\<rparr>))\<rparr>"
  by (auto simp: room_step_def split: chat_msg.splits option.splits chat_server_message.splits)

lemma room_run_log: "room_run name ms r =
    (room_run name ms (r\<lparr>log := []\<rparr>))\<lparr>log := log r @ log (room_run name ms (r\<lparr>log := []\<rparr>))\<rparr>"
proof (induction ms arbitrary: r)
  case (Cons m ms)
  let ?s = "room_step name m (r\<lparr>log := []\<rparr>)"
  have 1: "room_step name m r = ?s\<lparr>log := log r @ log ?s\<rparr>" using room_step_log[where r = r and l = "log r"] by simp
  show ?case
    using Cons[of ?s] Cons[of "?s\<lparr>log := log r @ log ?s\<rparr>"] by (simp add: room_run_def 1)
qed (simp add: room_run_def)

definition connects :: "chat_msg list \<Rightarrow> nat" where
  "connects ms = length (filter is_connect ms)"

lemma run_refines:
  assumes "wf_platform P" and "chat_inv st" and "generated_count (alias_gen st) + connects (map snd ms) \<le> 901"
    and "\<forall>l \<in> L. listening st l" and "\<forall>l \<in> L. \<forall>x \<in> set ms. stays_on l x"
  shows "\<exists>st' xs. chat_run P ms st = (Ok (), st') \<and> chat_outs st' = chat_outs st @ xs \<and> chat_inv st' \<and>
    refines st' xs (room_run (alias_no (alias_gen st)) (map snd ms) (room_of st)) L"
  using assms(2-)
proof (induction ms arbitrary: st)
  case Nil
  then show ?case by (auto simp: refines_def room_run_def room_of_def)
next
  case (Cons x ms)
  obtain E m where x: "x = (E, m)" by (cases x)
  have n: "generated_count (alias_gen st) \<le> 900" if "is_connect m" using Cons.prems(2) that by (simp add: x connects_def)
  obtain st1 xs where 1: "chat_handle P E m st = (Ok (), st1)" "chat_outs st1 = chat_outs st @ xs" "chat_inv st1"
    "alias_no (alias_gen st1) = alias_no (alias_gen st)"
    "generated_count (alias_gen st1) = (if is_connect m then generated_count (alias_gen st) + 1 else generated_count (alias_gen st))"
    and r1: "refines st1 xs (room_step (alias_no (alias_gen st)) m (room_of st)) L"
    using step_refines[where L = L and E = E and m = m, OF assms(1) Cons.prems(1) n] Cons.prems(3,4) x by (fastforce simp del: split_paired_Ex)
  have "generated_count (alias_gen st1) + connects (map snd ms) \<le> 901"
    using Cons.prems(2) 1(5) by (simp add: x connects_def split: if_splits)
  moreover have "\<forall>l \<in> L. listening st1 l" using r1 by (auto simp: refines_def)
  ultimately obtain st' ys where 2: "chat_run P ms st1 = (Ok (), st')" "chat_outs st' = chat_outs st1 @ ys" "chat_inv st'"
    and r2: "refines st' ys (room_run (alias_no (alias_gen st)) (map snd ms) (room_of st1)) L"
    using Cons.IH[of st1] 1(3,4) Cons.prems(4) by auto
  let ?s = "room_step (alias_no (alias_gen st)) m (room_of st)"
  have run: "room_run (alias_no (alias_gen st)) (map snd (x # ms)) (room_of st) =
      (room_run (alias_no (alias_gen st)) (map snd ms) (room_of st1))\<lparr>log := log ?s @
        log (room_run (alias_no (alias_gen st)) (map snd ms) (room_of st1))\<rparr>"
    using r1 room_run_log[of _ "map snd ms" ?s] by (simp add: x refines_def room_run_def)
  have "refines st' (xs @ ys) (room_run (alias_no (alias_gen st)) (map snd (x # ms)) (room_of st)) L"
    unfolding run using r1 r2 by (fastforce simp: refines_def)
  moreover have "chat_run P (x # ms) st = (Ok (), st')" using 1(1) 2(1) by (simp add: x seq_def)
  ultimately show ?case using 1(2) 2(2,3) by (intro exI[of _ st'] exI[of _ "xs @ ys"]) simp
qed

end
