(* ===== verification/Chat_Client_Props.thy ===== *)
theory Chat_Client_Props
  imports Chat_Client Chat_Room Chat_Props
begin

text \<open>
  The properties of the chat's clients, and of a client and the server together: what
  is typed is what is posted, and every screen shows the conversation of the room.
\<close>

section \<open>What a client receives is what it shows\<close>

definition entry_of :: "chat_client_message \<Rightarrow> chat_entry option" where
  "entry_of m = (case m of
     MessageReceived a body \<Rightarrow> Some (EntryMessage a body)
   | UserConnected a \<Rightarrow> Some (EntryUserConnected a)
   | Disconnect \<Rightarrow> None)"

definition entries :: "chat_client_message list \<Rightarrow> chat_entry list" where
  "entries = List.map_filter entry_of"

definition entry_in :: "ui_msg \<Rightarrow> chat_entry option" where
  "entry_in m = (case m of
     AddChatMessage a body \<Rightarrow> Some (EntryMessage a body)
   | UIUserConnected a \<Rightarrow> Some (EntryUserConnected a)
   | _ \<Rightarrow> None)"

definition server_message :: "terminal_step \<Rightarrow> chat_client_message option" where
  "server_message ev = (case ev of FromServer m \<Rightarrow> Some m | _ \<Rightarrow> None)"

definition server_messages :: "terminal_step list \<Rightarrow> chat_client_message list" where
  "server_messages = List.map_filter server_message"

lemma map_filter_append: "List.map_filter f (xs @ ys) = List.map_filter f xs @ List.map_filter f ys"
  by (simp add: map_filter_def)

lemmas client_defs = ui_turn_def ui_handle_def ui_key_def ask_server_def seq_def Let_def

lemma ui_turn_keeps:
  assumes "ui_turn takes draws m t = (r, t')"
  shows "ui_rx t' = ui_rx t" "ui_end t' = ui_end t"
    "chat_history (ui t') = chat_history (ui t) @ (case entry_in m of Some e \<Rightarrow> [e] | None \<Rightarrow> [])"
  using assms by (auto simp: client_defs entry_in_def split: ui_msg.splits key_code.splits option.splits if_splits outcome.splits)

definition shown_or_queued :: "terminal \<Rightarrow> chat_entry list" where
  "shown_or_queued t = chat_history (ui t) @ List.map_filter entry_in (ui_rx t)"

lemma step_shows:
  assumes "ui_takes (terminal_step ev t)"
  shows "ui_takes t \<and> shown_or_queued (terminal_step ev t) = shown_or_queued t @ entries (List.map_filter server_message [ev])"
proof (cases ev)
  case (Turn takes draws)
  show ?thesis
  proof (cases "ui_end t = None \<and> ui_rx t \<noteq> []")
    case True
    then obtain m rx where rx: "ui_rx t = m # rx" "ui_end t = None" by (cases "ui_rx t") auto
    obtain r t' where run: "ui_turn takes draws m (t\<lparr>ui_rx := rx\<rparr>) = (r, t')" by (cases "ui_turn takes draws m (t\<lparr>ui_rx := rx\<rparr>)")
    then have "terminal_step ev t = t'"
      using assms rx by (auto simp: Turn terminal_step_def terminal_turn_def ui_takes_def split: outcome.splits bool.splits)
    then show ?thesis using ui_turn_keeps[OF run] rx
      by (simp add: ui_takes_def shown_or_queued_def server_message_def Turn map_filter_simps entries_def split: option.split)
  next
    case False
    then show ?thesis using assms
      by (auto simp: Turn terminal_step_def terminal_turn_def server_message_def map_filter_simps entries_def ui_takes_def
          split: option.splits list.splits)
  qed
qed (use assms in \<open>auto simp: terminal_step_def to_ui_def ui_takes_def shown_or_queued_def map_filter_append map_filter_simps
       chatclient_handle_def filter_map_handle_def key_input_def entry_in_def entry_of_def entries_def server_message_def Let_def
       split: chat_client_message.splits terminal_event.splits if_splits\<close>)

lemma run_shows:
  "ui_takes (terminal_run evs t) \<Longrightarrow>
    ui_takes t \<and> shown_or_queued (terminal_run evs t) = shown_or_queued t @ entries (server_messages evs)"
proof (induction evs rule: rev_induct)
  case (snoc ev evs)
  then show ?case using step_shows[of ev "terminal_run evs t"]
    by (auto simp: terminal_run_def server_messages_def map_filter_append entries_def)
qed (simp add: terminal_run_def server_messages_def entries_def map_filter_simps)

text \<open>The browser's rows.\<close>

definition web_row :: "chat_entry \<Rightarrow> rstring \<times> rstring" where
  "web_row e = (case e of
     EntryMessage a body \<Rightarrow> (a, body)
   | EntryUserConnected a \<Rightarrow> (str_lit ''System'', a @ str_lit '' joined.''))"

definition web_message :: "browser_step \<Rightarrow> chat_client_message option" where
  "web_message ev = (case ev of WebFromServer _ m \<Rightarrow> Some m | _ \<Rightarrow> None)"

definition web_messages :: "browser_step list \<Rightarrow> chat_client_message list" where
  "web_messages = List.map_filter web_message"

definition entry_up :: "ui_update \<Rightarrow> chat_entry option" where
  "entry_up u = (case u of
     UpMessageReceived a body \<Rightarrow> Some (EntryMessage a body)
   | UpUserConnected a \<Rightarrow> Some (EntryUserConnected a)
   | _ \<Rightarrow> None)"

text \<open>The app is connected, and only parts of the conversation wait for it.\<close>

definition in_chat :: "browser \<Rightarrow> bool" where
  "in_chat w \<longleftrightarrow> chat_server_ref (page w) \<noteq> None \<and>
     (\<exists>rx. ui_update_rx (page w) = Some rx \<and> list_all (\<lambda>u. entry_up u \<noteq> None) rx)"

definition web_shown_or_queued :: "browser \<Rightarrow> (rstring \<times> rstring) list" where
  "web_shown_or_queued w = messages (page w) @
     map web_row (List.map_filter entry_up (case ui_update_rx (page w) of Some rx \<Rightarrow> rx | None \<Rightarrow> []))"

lemma app_updates:
  "list_all (\<lambda>u. entry_up u \<noteq> None) us \<Longrightarrow>
    fold app_update us a = a\<lparr>messages := messages a @ map web_row (List.map_filter entry_up us)\<rparr>"
  by (induction us arbitrary: a)
    (auto simp: app_update_def entry_up_def say_def web_row_def map_filter_simps split: ui_update.splits)

lemma composer_keeps:
  assumes "app_composer clicked lost enter takes rpc a = (a', ps)" and "chat_server_ref a \<noteq> None"
  shows "messages a' = messages a" "chat_server_ref a' = chat_server_ref a" "ui_update_rx a' = ui_update_rx a"
  using assms by (auto simp: app_composer_def send_current_message_def split: if_splits option.splits)

definition stays_in_chat :: "browser_step \<Rightarrow> bool" where
  "stays_in_chat ev = (case ev of WebJoined _ _ \<Rightarrow> False | WebFromServer _ m \<Rightarrow> m \<noteq> Disconnect | _ \<Rightarrow> True)"

lemma browser_step_shows:
  assumes "in_chat w" and "stays_in_chat ev"
  shows "in_chat (browser_step ev w) \<and> web_shown_or_queued (browser_step ev w) =
    web_shown_or_queued w @ map web_row (entries (List.map_filter web_message [ev]))"
proof (cases ev)
  case (Frame edit clicked lost enter takes)
  obtain rx where rx: "ui_update_rx (page w) = Some rx" "list_all (\<lambda>u. entry_up u \<noteq> None) rx"
    using assms(1) by (auto simp: in_chat_def)
  let ?a = "handle_events (page w)"
  obtain a' ps where c: "app_composer clicked lost enter takes (web_port w) (?a\<lparr>input_message := edit (input_message ?a)\<rparr>) = (a', ps)"
    by (cases "app_composer clicked lost enter takes (web_port w) (?a\<lparr>input_message := edit (input_message ?a)\<rparr>)")
  have h: "?a = (page w)\<lparr>messages := messages (page w) @ map web_row (List.map_filter entry_up rx), ui_update_rx := Some []\<rparr>"
    by (simp add: handle_events_def rx(1) app_updates[OF rx(2)])
  have "chat_server_ref (?a\<lparr>input_message := edit (input_message ?a)\<rparr>) \<noteq> None"
    using assms(1) by (simp add: h in_chat_def)
  from composer_keeps[OF c this] show ?thesis
    using assms(1) c by (simp add: Frame browser_step_def app_frame_def in_chat_def web_shown_or_queued_def h rx
        map_filter_simps web_message_def entries_def Let_def)
next
  case (WebFromServer repaints m)
  obtain rx where rx: "ui_update_rx (page w) = Some rx" "list_all (\<lambda>u. entry_up u \<noteq> None) rx"
    using assms(1) by (auto simp: in_chat_def)
  then show ?thesis using assms
    by (cases m) (auto simp: WebFromServer browser_step_def to_app_def client_handler_def client_update_def in_chat_def entry_up_def
        web_shown_or_queued_def map_filter_append map_filter_simps web_message_def entries_def entry_of_def stays_in_chat_def)
qed (use assms in \<open>simp add: stays_in_chat_def\<close>)

lemma browser_run_shows:
  "in_chat w \<Longrightarrow> list_all stays_in_chat evs \<Longrightarrow>
    in_chat (browser_run evs w) \<and>
    web_shown_or_queued (browser_run evs w) = web_shown_or_queued w @ map web_row (entries (web_messages evs))"
proof (induction evs rule: rev_induct)
  case (snoc ev evs)
  then show ?case using browser_step_shows[of "browser_run evs w" ev]
    by (simp add: browser_run_def web_messages_def map_filter_append entries_def)
qed (simp add: browser_run_def web_messages_def entries_def map_filter_simps)

lemma no_Disconnect_in_log: "Disconnect \<notin> set (log r) \<Longrightarrow> Disconnect \<notin> set (log (room_run name ms r))"
  by (induction ms arbitrary: r)
    (auto simp: room_run_def room_step_def split: chat_msg.splits option.splits chat_server_message.splits)

section \<open>One conversation for all\<close>

text \<open>
  C25: The server refines a room with one log. Whatever arrives in whatever order, it goes on,
  and every client that stays in the table receives the new entries of the log, each
  once and in this order, so that any two of them receive the same; the table is that of the room.
\<close>

theorem chat_total_order:
  assumes "wf_platform P" and "chat_reach P st n True" and "n + connects (map snd ms) \<le> 901"
    and "\<forall>l \<in> L. listening st l" and "\<forall>l \<in> L. \<forall>x \<in> set ms. stays_on l x"
  defines "r \<equiv> room_run (alias_no (alias_gen st)) (map snd ms) (room_of st)"
  shows "\<exists>st' xs. chat_run P ms st = (Ok (), st') \<and> chat_outs st' = chat_outs st @ xs \<and>
    (\<forall>k. map_option snd (hm_get (clients st') k) = seats r k) \<and> generated_count (alias_gen st') = joined r \<and>
    (\<forall>(k, c) \<in> L. listening st' (k, c) \<and> delivered c xs = log r)"
proof -
  have "n \<le> 901" using assms(3) by simp
  note R = chat_reach_inv[OF assms(2,1) this]
  then have "generated_count (alias_gen st) + connects (map snd ms) \<le> 901" using assms(3) by simp
  from run_refines[OF assms(1) R[THEN conjunct2, THEN conjunct1] this assms(4,5)]
  obtain st' xs where run: "chat_run P ms st = (Ok (), st')" "chat_outs st' = chat_outs st @ xs"
    and ref: "refines st' xs r L" by (auto simp: r_def)
  from ref have "seats (room_of st') = seats r" "joined (room_of st') = joined r" by (simp_all add: refines_def)
  then show ?thesis using run ref
    by (intro exI[of _ st'] exI[of _ xs]) (auto simp: refines_def room_of_def fun_eq_iff)
qed

definition open_chat_env :: chat_env where
  "open_chat_env = \<lparr>client_takes = \<lambda>_. True, reply_open = \<lambda>_. True\<rparr>"

definition sample_talk :: "(chat_env \<times> chat_msg) list" where
  "sample_talk = [(open_chat_env, Public 2 (PostMessage [104, 105] 7)), (sample_chat_env\<lparr>client_takes := \<lambda>_. True\<rparr>, Public 1 (PostMessage [111] 8))]"

lemma sample_listeners:
  "\<forall>l \<in> {(1, 11), (2, 12)}. listening sample_chat l" "\<forall>l \<in> {(1, 11), (2, 12)}. \<forall>x \<in> set sample_talk. stays_on l x"
  "2 + connects (map snd sample_talk) \<le> 901"
  using sample_chat_run by (simp_all add: listening_def stays_on_def sample_talk_def open_chat_env_def connects_def is_connect_def)

lemma sample_log:
  "log (room_run (alias_no (alias_gen sample_chat)) (map snd sample_talk) (room_of sample_chat)) =
    [MessageReceived (str_lit ''Corrupted Berserker'') [104, 105], MessageReceived (str_lit ''Smirking Gutterrunner'') [111]]"
  using sample_chat_run by (simp add: room_run_def sample_talk_def room_step_def room_of_def hm_get_def)

theorem chat_total_order_witness:
  "\<exists>st' xs. chat_run host64 sample_talk sample_chat = (Ok (), st') \<and> chat_outs st' = chat_outs sample_chat @ xs \<and>
    delivered 11 xs = [MessageReceived (str_lit ''Corrupted Berserker'') [104, 105], MessageReceived (str_lit ''Smirking Gutterrunner'') [111]] \<and>
    delivered 12 xs = delivered 11 xs"
  using chat_total_order[OF wf_host64 sample_chat_run[THEN conjunct1] sample_listeners(3,1,2), unfolded sample_log] by auto

text \<open>
  C27: A user at a terminal and one in a browser see the same conversation, that of the room,
  however their key presses, frames and acknowledgements fall between the messages: once both
  have worked off what they received, the terminal's history has grown by the log's new
  entries and the browser's rows by the same ones.
\<close>

theorem same_conversation:
  assumes "wf_platform P" and "chat_reach P st n True" and "n + connects (map snd ms) \<le> 901"
    and "\<forall>l \<in> {(k, c), (k', c')}. listening st l" and "\<forall>l \<in> {(k, c), (k', c')}. \<forall>x \<in> set ms. stays_on l x"
  defines "new \<equiv> entries (log (room_run (alias_no (alias_gen st)) (map snd ms) (room_of st)))"
  shows "\<exists>st' xs. chat_run P ms st = (Ok (), st') \<and> chat_outs st' = chat_outs st @ xs \<and>
    (\<forall>evs t. server_messages evs = delivered c xs \<and> ui_rx t = [] \<and>
        ui_takes (terminal_run evs t) \<and> ui_rx (terminal_run evs t) = [] \<longrightarrow>
      chat_history (ui (terminal_run evs t)) = chat_history (ui t) @ new) \<and>
    (\<forall>fs w. web_messages fs = delivered c' xs \<and> in_chat w \<and> ui_update_rx (page w) = Some [] \<and>
        (\<forall>a srv. WebJoined a srv \<notin> set fs) \<and> ui_update_rx (page (browser_run fs w)) = Some [] \<longrightarrow>
      messages (page (browser_run fs w)) = messages (page w) @ map web_row new)"
proof -
  let ?r = "room_run (alias_no (alias_gen st)) (map snd ms) (room_of st)"
  have "n \<le> 901" using assms(3) by simp
  note R = chat_reach_inv[OF assms(2,1) this]
  then have "generated_count (alias_gen st) + connects (map snd ms) \<le> 901" using assms(3) by simp
  from run_refines[OF assms(1) R[THEN conjunct2, THEN conjunct1] this assms(4,5)]
  obtain st' xs where run: "chat_run P ms st = (Ok (), st')" "chat_outs st' = chat_outs st @ xs"
    and d: "delivered c xs = log ?r" "delivered c' xs = log ?r" by (auto simp: refines_def)
  have nd: "Disconnect \<notin> set (log ?r)" by (rule no_Disconnect_in_log) (simp add: room_of_def)
  have "chat_history (ui (terminal_run evs t)) = chat_history (ui t) @ new"
    if "server_messages evs = delivered c xs" "ui_rx t = []" "ui_takes (terminal_run evs t)" "ui_rx (terminal_run evs t) = []" for evs t
    using run_shows[OF that(3)] that(1,2,4) by (simp add: shown_or_queued_def map_filter_simps d new_def)
  moreover have "messages (page (browser_run fs w)) = messages (page w) @ map web_row new"
    if "web_messages fs = delivered c' xs" "in_chat w" "ui_update_rx (page w) = Some []"
      "\<forall>a srv. WebJoined a srv \<notin> set fs" "ui_update_rx (page (browser_run fs w)) = Some []" for fs w
  proof -
    have "stays_in_chat f" if f: "f \<in> set fs" for f
    proof (cases f)
      case (WebFromServer b m)
      then have "m \<in> set (web_messages fs)" using f by (force simp: web_messages_def map_filter_def web_message_def)
      then show ?thesis using that(1) d(2) nd WebFromServer \<open>web_messages fs = delivered c' xs\<close> by (auto simp: stays_in_chat_def)
    qed (use f \<open>\<forall>a srv. WebJoined a srv \<notin> set fs\<close> in \<open>auto simp: stays_in_chat_def\<close>)
    then have "list_all stays_in_chat fs" by (simp add: list_all_iff)
    from browser_run_shows[OF that(2) this] show ?thesis
      using that(1,3,5) by (simp add: web_shown_or_queued_def map_filter_simps d new_def)
  qed
  ultimately show ?thesis using run by (intro exI[of _ st'] exI[of _ xs]) blast
qed

definition key_press :: "key_code \<Rightarrow> terminal_step" where
  "key_press c = FromKeyboard (Key \<lparr>code = c, control = False, kind = Press\<rparr>)"

definition sample_said :: "chat_client_message list" where
  "sample_said = [MessageReceived (str_lit ''Corrupted Berserker'') [104, 105], MessageReceived (str_lit ''Smirking Gutterrunner'') [111]]"

definition sample_evening :: "terminal_step list" where
  "sample_evening = [key_press (KeyChar 97), FromServer (sample_said ! 0), Turn True True, FromServer (sample_said ! 1),
     key_press Backspace, Turn True True, Turn True True, Turn True True]"

definition sample_browser :: browser where
  "sample_browser = \<lparr>page = (app_new [])\<lparr>chat_server_ref := Some 9\<rparr>, web_port = 0, web_posts = []\<rparr>"

definition sample_frames :: "browser_step list" where
  "sample_frames = [WebFromServer True (sample_said ! 0), Frame id False False False True,
     WebFromServer True (sample_said ! 1), Frame id True False False True]"

lemma sample_evening_run:
  "ui_takes (terminal_run sample_evening terminal_start)" "ui_rx (terminal_run sample_evening terminal_start) = []"
  "server_messages sample_evening = sample_said"
  by (simp_all add: sample_evening_def terminal_run_def terminal_step_def key_press_def to_ui_def ui_takes_def terminal_start_def
      filter_map_handle_def key_input_def chatclient_handle_def terminal_turn_def client_defs ui_new_def sample_said_def
      server_messages_def server_message_def map_filter_simps string_push_def string_pop_def)

lemma sample_frames_run:
  "in_chat sample_browser" "ui_update_rx (page sample_browser) = Some []" "\<forall>a srv. WebJoined a srv \<notin> set sample_frames"
  "ui_update_rx (page (browser_run sample_frames sample_browser)) = Some []" "web_messages sample_frames = sample_said"
  by (simp_all add: in_chat_def sample_browser_def app_new_def app_default_def sample_frames_def browser_run_def browser_step_def
      to_app_def client_handler_def client_update_def sample_said_def app_frame_def handle_events_def app_update_def say_def
      app_composer_def web_messages_def web_message_def map_filter_simps trim_def trim_by_def Let_def)

theorem same_conversation_witness:
  "chat_history (ui (terminal_run sample_evening terminal_start)) =
     [EntryMessage (str_lit ''Corrupted Berserker'') [104, 105], EntryMessage (str_lit ''Smirking Gutterrunner'') [111]] \<and>
   messages (page (browser_run sample_frames sample_browser)) =
     [(str_lit ''Corrupted Berserker'', [104, 105]), (str_lit ''Smirking Gutterrunner'', [111])]"
proof -
  note R = chat_reach_inv[OF sample_chat_run[THEN conjunct1] wf_host64]
  have c: "generated_count (alias_gen sample_chat) + connects (map snd sample_talk) \<le> 901" "chat_inv sample_chat"
    using R sample_listeners(3) by simp_all
  obtain st1 ys where 1: "chat_run host64 sample_talk sample_chat = (Ok (), st1)" "chat_outs st1 = chat_outs sample_chat @ ys"
    and d: "delivered 11 ys = sample_said" "delivered 12 ys = sample_said"
    using run_refines[OF wf_host64 c(2,1) sample_listeners(1,2)] by (auto simp: refines_def sample_log sample_said_def)
  obtain st' xs where 2: "chat_run host64 sample_talk sample_chat = (Ok (), st')" "chat_outs st' = chat_outs sample_chat @ xs"
    and T: "\<forall>evs t. server_messages evs = delivered 11 xs \<and> ui_rx t = [] \<and>
        ui_takes (terminal_run evs t) \<and> ui_rx (terminal_run evs t) = [] \<longrightarrow>
      chat_history (ui (terminal_run evs t)) = chat_history (ui t) @ entries sample_said"
    and W: "\<forall>fs w. web_messages fs = delivered 12 xs \<and> in_chat w \<and> ui_update_rx (page w) = Some [] \<and>
        (\<forall>a srv. WebJoined a srv \<notin> set fs) \<and> ui_update_rx (page (browser_run fs w)) = Some [] \<longrightarrow>
      messages (page (browser_run fs w)) = messages (page w) @ map web_row (entries sample_said)"
    using same_conversation[OF wf_host64 sample_chat_run[THEN conjunct1] sample_listeners(3,1,2), unfolded sample_log, folded sample_said_def]
    by blast
  have "xs = ys" using 1 2 by simp
  have "chat_history (ui (terminal_run sample_evening terminal_start)) = chat_history (ui terminal_start) @ entries sample_said"
    using T[rule_format, of sample_evening terminal_start] sample_evening_run d \<open>xs = ys\<close> by (simp add: terminal_start_def)
  moreover have "messages (page (browser_run sample_frames sample_browser)) = messages (page sample_browser) @ map web_row (entries sample_said)"
    using W[rule_format, of sample_frames sample_browser] sample_frames_run d \<open>xs = ys\<close> by simp
  ultimately show ?thesis
    by (simp add: terminal_start_def ui_new_def sample_browser_def app_new_def app_default_def sample_said_def entries_def
        map_filter_simps entry_of_def web_row_def)
qed

section \<open>What is typed is what is posted\<close>

text \<open>The editor as the user thinks of it: the line so far, in characters, and the lines sent.\<close>

fun edit_key :: "key_event \<Rightarrow> utext \<times> utext list \<Rightarrow> utext \<times> utext list" where
  "edit_key key (line, ls) = (case code key of
     KeyChar c \<Rightarrow> (line @ [c], ls)
   | Esc \<Rightarrow> ([], ls)
   | Enter \<Rightarrow> if line = [] then (line, ls) else ([], ls @ [line])
   | Backspace \<Rightarrow> (butlast line, ls)
   | OtherKey \<Rightarrow> (line, ls))"

definition edit_keys :: "key_event list \<Rightarrow> utext \<times> utext list \<Rightarrow> utext \<times> utext list" where
  "edit_keys = fold edit_key"

definition key_in :: "ui_msg \<Rightarrow> key_event option" where
  "key_in m = (case m of InputEvent key \<Rightarrow> Some key | _ \<Rightarrow> None)"

definition pressed :: "terminal_step \<Rightarrow> key_event option" where
  "pressed ev = (case ev of FromKeyboard (Key key) \<Rightarrow> if kind key = Press then Some key else None | _ \<Rightarrow> None)"

definition presses :: "terminal_step list \<Rightarrow> key_event list" where
  "presses = List.map_filter pressed"

text \<open>A char is a scalar value; the terminal stays connected, and its posts are taken.\<close>

definition plain_step :: "terminal_step \<Rightarrow> bool" where
  "plain_step ev = (case ev of
     FromKeyboard (Key key) \<Rightarrow> (case code key of KeyChar c \<Rightarrow> scalar c | _ \<Rightarrow> True)
   | Joined _ _ \<Rightarrow> False
   | Turn takes draws \<Rightarrow> takes
   | _ \<Rightarrow> True)"

definition post_text :: "chat_server_message \<Rightarrow> rstring" where
  "post_text m = (case m of PostMessage body p \<Rightarrow> body)"

text \<open>The terminal's composer and posts are the bytes of a line and of sent lines, from which the queued keys lead to \<open>goal\<close>.\<close>

definition edits_to :: "actor_id \<Rightarrow> (actor_id \<times> rstring) list \<Rightarrow> utext \<times> utext list \<Rightarrow> terminal \<Rightarrow> bool" where
  "edits_to srv before goal t \<longleftrightarrow> ui_server (ui t) = Some srv \<and> (\<forall>a s. UIConnected a s \<notin> set (ui_rx t)) \<and>
     list_all (\<lambda>key. case code key of KeyChar c \<Rightarrow> scalar c | _ \<Rightarrow> True) (List.map_filter key_in (ui_rx t)) \<and>
     (\<exists>line ls. list_all scalar line \<and> composer (ui t) = utf8_encode line \<and>
       map (map_prod id post_text) (posts t) = before @ map (\<lambda>l. (srv, utf8_encode l)) ls \<and>
       edit_keys (List.map_filter key_in (ui_rx t)) (line, ls) = goal)"

lemma utf8_encode_Nil [simp]: "utf8_encode [] = []"
  by (simp add: utf8_encode_def)

lemma utf8_encode_single: "utf8_encode [c] = string_push [] c"
  by (simp add: utf8_encode_def string_push_def)

lemma list_all_butlast: "list_all P xs \<Longrightarrow> list_all P (butlast xs)"
  by (auto simp: list_all_iff dest: in_set_butlastD)

lemma turn_edits:
  assumes "edits_to srv before goal t" and "ui_rx t = m # rx" and "ui_turn True draws m (t\<lparr>ui_rx := rx\<rparr>) = (Ok True, t')"
  shows "edits_to srv before goal t'"
proof -
  obtain line ls where inv: "ui_server (ui t) = Some srv" "\<forall>a s. UIConnected a s \<notin> set (ui_rx t)"
      "list_all (\<lambda>key. case code key of KeyChar c \<Rightarrow> scalar c | _ \<Rightarrow> True) (List.map_filter key_in (ui_rx t))"
    and line: "list_all scalar line" "composer (ui t) = utf8_encode line"
      "map (map_prod id post_text) (posts t) = before @ map (\<lambda>l. (srv, utf8_encode l)) ls"
      "edit_keys (List.map_filter key_in (ui_rx t)) (line, ls) = goal"
    using assms(1) by (auto simp: edits_to_def)
  show ?thesis
  proof (cases m)
    case (InputEvent key)
    then have e: "edit_keys (List.map_filter key_in rx) (edit_key key (line, ls)) = goal"
      using line(4) by (simp add: assms(2) edit_keys_def key_in_def map_filter_simps)
    have sc: "case code key of KeyChar c \<Rightarrow> scalar c | _ \<Rightarrow> True"
      using inv(3) by (simp add: assms(2) InputEvent key_in_def map_filter_simps)
    have rest: "\<forall>a s. UIConnected a s \<notin> set rx"
      "list_all (\<lambda>key. case code key of KeyChar c \<Rightarrow> scalar c | _ \<Rightarrow> True) (List.map_filter key_in rx)"
      using inv(2,3) by (simp_all add: assms(2) InputEvent key_in_def map_filter_simps)
    have "\<exists>line' ls'. edit_key key (line, ls) = (line', ls') \<and> list_all scalar line' \<and> composer (ui t') = utf8_encode line' \<and>
        map (map_prod id post_text) (posts t') = before @ map (\<lambda>l. (srv, utf8_encode l)) ls' \<and>
        ui_server (ui t') = Some srv \<and> ui_rx t' = rx"
      using assms(3) sc inv(1) line(1-3)
      by (auto simp: InputEvent client_defs utf8_encode_snoc utf8_encode_single string_pop_encode list_all_butlast utf8_encode_Nil_iff post_text_def
          split: key_code.splits if_splits)
    then show ?thesis using e rest by (fastforce simp: edits_to_def)
  qed (use assms(3) inv assms(2) line in \<open>fastforce simp: edits_to_def client_defs key_in_def map_filter_simps split: if_splits\<close>)+
qed

lemma step_edits:
  assumes "edits_to srv before goal t" and "plain_step ev" and "ui_takes (terminal_step ev t)"
  shows "edits_to srv before (edit_keys (List.map_filter pressed [ev]) goal) (terminal_step ev t)"
proof (cases ev)
  case (Turn takes draws)
  show ?thesis
  proof (cases "ui_end t = None \<and> ui_rx t \<noteq> []")
    case True
    then obtain m rx where rx: "ui_rx t = m # rx" "ui_end t = None" by (cases "ui_rx t") auto
    obtain r t' where run: "ui_turn True draws m (t\<lparr>ui_rx := rx\<rparr>) = (r, t')" by (cases "ui_turn True draws m (t\<lparr>ui_rx := rx\<rparr>)")
    then have "terminal_step ev t = t'" "r = Ok True"
      using assms(2,3) rx by (auto simp: Turn plain_step_def terminal_step_def terminal_turn_def ui_takes_def split: outcome.splits bool.splits)
    then show ?thesis using turn_edits[OF assms(1) rx(1)] run by (simp add: pressed_def Turn map_filter_simps edit_keys_def)
  next
    case False
    then show ?thesis using assms(1)
      by (auto simp: Turn terminal_step_def terminal_turn_def pressed_def map_filter_simps edit_keys_def split: option.splits list.splits)
  qed
next
  case (FromKeyboard evt)
  show ?thesis
  proof (cases "pressed ev")
    case None
    then show ?thesis using assms(1)
      by (cases evt) (simp_all add: FromKeyboard terminal_step_def to_ui_def filter_map_handle_def key_input_def pressed_def
          map_filter_simps edit_keys_def split: if_splits)
  next
    case (Some key)
    then have evt: "evt = Key key" "kind key = Press" by (auto simp: FromKeyboard pressed_def split: terminal_event.splits if_splits)
    have "ui_end t = None" using assms(3) by (auto simp: FromKeyboard terminal_step_def to_ui_def ui_takes_def split: if_splits)
    then have "terminal_step ev t = t\<lparr>ui_rx := ui_rx t @ [InputEvent key]\<rparr>"
      by (simp add: FromKeyboard evt terminal_step_def to_ui_def ui_takes_def filter_map_handle_def key_input_def)
    then show ?thesis using assms(1,2)
      by (auto simp: FromKeyboard evt edits_to_def pressed_def map_filter_append map_filter_simps edit_keys_def key_in_def plain_step_def)
  qed
qed (use assms in \<open>auto simp: terminal_step_def to_ui_def ui_takes_def edits_to_def pressed_def map_filter_append map_filter_simps
       edit_keys_def key_in_def chatclient_handle_def plain_step_def Let_def split: chat_client_message.splits if_splits\<close>)

lemma run_edits:
  "edits_to srv before goal t \<Longrightarrow> list_all plain_step evs \<Longrightarrow> ui_takes (terminal_run evs t) \<Longrightarrow>
    edits_to srv before (edit_keys (presses evs) goal) (terminal_run evs t)"
proof (induction evs rule: rev_induct)
  case (snoc ev evs)
  let ?t = "terminal_run evs t"
  have 1: "ui_takes (terminal_step ev ?t)" using snoc.prems(3) by (simp add: terminal_run_def)
  then have "ui_takes ?t" using step_shows by blast
  then have "edits_to srv before (edit_keys (presses evs) goal) ?t" using snoc by simp
  from step_edits[OF this _ 1] show ?case
    using snoc.prems(2) by (simp add: terminal_run_def presses_def map_filter_append edit_keys_def)
qed (simp add: terminal_run_def presses_def map_filter_simps edit_keys_def)

lemma edit_keys_scalar:
  "list_all (\<lambda>key. case code key of KeyChar c \<Rightarrow> scalar c | _ \<Rightarrow> True) keys \<Longrightarrow> list_all scalar l \<Longrightarrow>
    list_all (\<lambda>l. l \<noteq> [] \<and> list_all scalar l) ls \<Longrightarrow>
    list_all scalar (fst (edit_keys keys (l, ls))) \<and> list_all (\<lambda>l. l \<noteq> [] \<and> list_all scalar l) (snd (edit_keys keys (l, ls)))"
  by (induction keys arbitrary: l ls) (auto simp: edit_keys_def list_all_butlast split: key_code.splits)

text \<open>
  C26: Whatever happens between the key presses, a connected terminal posts to its server exactly
  the lines that were typed, character for character and in order, each once and as valid
  UTF-8; what is left in the composer is the line not yet sent.
\<close>

theorem typed_lines_posted:
  assumes "ui_server (ui t) = Some srv" and "ui_rx t = []" and "composer (ui t) = []"
    and "\<forall>ev \<in> set evs. plain_step ev"
    and "ui_takes (terminal_run evs t)" and "ui_rx (terminal_run evs t) = []"
  defines "typed \<equiv> edit_keys (presses evs) ([], [])"
  shows "composer (ui (terminal_run evs t)) = utf8_encode (fst typed) \<and>
    map (map_prod id post_text) (posts (terminal_run evs t)) =
      map (map_prod id post_text) (posts t) @ map (\<lambda>l. (srv, utf8_encode l)) (snd typed) \<and>
    list_all (\<lambda>l. l \<noteq> [] \<and> utf8_valid (utf8_encode l)) (snd typed)"
proof -
  let ?before = "map (map_prod id post_text) (posts t)"
  have "edits_to srv ?before ([], []) t" using assms(1-3) by (simp add: edits_to_def map_filter_simps edit_keys_def)
  moreover have "list_all plain_step evs" using assms(4) by (simp add: list_all_iff)
  ultimately have "edits_to srv ?before typed (terminal_run evs t)" unfolding typed_def using assms(5) by (rule run_edits)
  moreover have "list_all (\<lambda>l. l \<noteq> [] \<and> utf8_valid (utf8_encode l)) (snd typed)"
  proof -
    have "list_all (\<lambda>key. case code key of KeyChar c \<Rightarrow> scalar c | _ \<Rightarrow> True) (presses evs)"
      using assms(4) by (force simp: list_all_iff presses_def map_filter_def pressed_def plain_step_def
          split: terminal_step.splits terminal_event.splits if_splits)
    from edit_keys_scalar[OF this, of "[]" "[]"] show ?thesis by (auto simp: typed_def list_all_iff utf8_valid_encode)
  qed
  ultimately show ?thesis using assms(6) by (auto simp: edits_to_def map_filter_simps edit_keys_def)
qed

definition sample_typing :: "terminal_step list" where
  "sample_typing = [key_press (KeyChar 228), key_press (KeyChar 98), FromServer (sample_said ! 0), Turn True True, Turn True True,
     key_press Backspace, key_press Enter, Turn True True, Turn True True, key_press (KeyChar 99), Answered 0, Turn True True, Turn True True,
     Turn True True]"

definition sample_terminal :: terminal where
  "sample_terminal = terminal_start\<lparr>ui := ui_new\<lparr>ui_server := Some 9\<rparr>\<rparr>"

lemma sample_typing_run:
  "\<forall>ev \<in> set sample_typing. plain_step ev" "ui_takes (terminal_run sample_typing sample_terminal)"
  "ui_rx (terminal_run sample_typing sample_terminal) = []" "edit_keys (presses sample_typing) ([], []) = ([99], [[228]])"
  by (simp_all add: sample_typing_def terminal_run_def terminal_step_def key_press_def to_ui_def ui_takes_def terminal_start_def
      filter_map_handle_def key_input_def chatclient_handle_def terminal_turn_def client_defs ui_new_def sample_said_def
      map_filter_simps string_push_def string_pop_def sample_terminal_def plain_step_def scalar_def utf8_char_def
      is_cont_def byte_of_def presses_def pressed_def edit_keys_def)

theorem typed_lines_posted_witness:
  "composer (ui (terminal_run sample_typing sample_terminal)) = [99] \<and>
   map (map_prod id post_text) (posts (terminal_run sample_typing sample_terminal)) = [(9, [195, 164])]"
  using typed_lines_posted[of sample_terminal 9 sample_typing, OF _ _ _ sample_typing_run(1-3)] sample_typing_run(4)
  by (simp add: sample_terminal_def terminal_start_def ui_new_def utf8_encode_def utf8_char_def byte_of_def)

section \<open>The message in flight\<close>

definition outstanding :: "terminal \<Rightarrow> nat" where
  "outstanding t = length (awaited t) + length (filter (\<lambda>m. m = SetMessageInFlight False) (ui_rx t))"

definition flag_ok :: "terminal \<Rightarrow> bool" where
  "flag_ok t \<longleftrightarrow> SetMessageInFlight True \<notin> set (ui_rx t) \<and> (\<forall>p \<in> set (awaited t). p < term_port t) \<and> distinct (awaited t) \<and>
     (is_message_in_flight (ui t) \<longrightarrow> 0 < outstanding t)"

definition flag_exact :: "terminal \<Rightarrow> bool" where
  "flag_exact t \<longleftrightarrow> outstanding t \<le> 1 \<and> (is_message_in_flight (ui t) \<longleftrightarrow> outstanding t = 1)"

lemma key_cases:
  assumes "ui_key takes key t = (Ok (), t')"
  shows "is_message_in_flight (ui t') \<and> awaited t' = awaited t @ [term_port t] \<and> term_port t' = term_port t + 1 \<or>
    is_message_in_flight (ui t') = is_message_in_flight (ui t) \<and> awaited t' = awaited t \<and> term_port t' = term_port t"
proof (cases "code key")
  case Enter
  then show ?thesis using assms by (cases "ui_server (ui t)") (auto simp: ui_key_def ask_server_def Let_def split: if_splits)
qed (use assms in \<open>auto simp: ui_key_def Let_def split: if_splits\<close>)

lemma turn_cases:
  assumes "ui_turn takes draws m t = (Ok True, t')"
  obtains (flag) b where "m = SetMessageInFlight b" "is_message_in_flight (ui t') = b" "awaited t' = awaited t" "term_port t' = term_port t"
  | (post) key where "m = InputEvent key" "is_message_in_flight (ui t')" "awaited t' = awaited t @ [term_port t]" "term_port t' = term_port t + 1"
  | (rest) "\<forall>b. m \<noteq> SetMessageInFlight b" "is_message_in_flight (ui t') = is_message_in_flight (ui t)" "awaited t' = awaited t"
      "term_port t' = term_port t"
proof -
  have h: "ui_handle takes m t = (Ok (), t')"
    using assms by (auto simp: ui_turn_def seq_def split: prod.splits outcome.splits if_splits)
  show thesis
  proof (cases m)
    case (InputEvent key)
    then have "ui_key takes key t = (Ok (), t')" using h by (simp add: ui_handle_def Let_def)
    from key_cases[OF this] show thesis using post[OF InputEvent] rest InputEvent by auto
  qed (use h flag rest in \<open>auto simp: ui_handle_def Let_def\<close>)
qed

lemma turn_flag:
  assumes "flag_ok t" and "ui_rx t = m # rx" and "ui_turn takes draws m (t\<lparr>ui_rx := rx\<rparr>) = (Ok True, t')"
  shows "flag_ok t' \<and> (flag_exact t \<and> outstanding t' \<le> 1 \<longrightarrow> flag_exact t')"
proof -
  have rx: "ui_rx t' = rx" using ui_turn_keeps(1)[OF assms(3)] by simp
  from assms(3) show ?thesis
  proof (cases rule: turn_cases)
    case (post key)
    then show ?thesis using assms(1,2)
      by (auto simp: flag_ok_def flag_exact_def outstanding_def rx less_Suc_eq)
  qed (use assms(1,2) in \<open>auto simp: flag_ok_def flag_exact_def outstanding_def rx\<close>)
qed

lemma length_removeAll_distinct: "distinct xs \<Longrightarrow> x \<in> set xs \<Longrightarrow> Suc (length (removeAll x xs)) = length xs"
  by (metis distinct_remove1_removeAll length_remove1 length_pos_if_in_set Suc_diff_1)

lemma step_flag:
  assumes "flag_ok t" and "ui_takes (terminal_step ev t)"
  shows "flag_ok (terminal_step ev t) \<and> (flag_exact t \<and> outstanding (terminal_step ev t) \<le> 1 \<longrightarrow> flag_exact (terminal_step ev t))"
proof (cases ev)
  case (Turn takes draws)
  show ?thesis
  proof (cases "ui_end t = None \<and> ui_rx t \<noteq> []")
    case True
    then obtain m rx where rx: "ui_rx t = m # rx" "ui_end t = None" by (cases "ui_rx t") auto
    obtain r t' where run: "ui_turn takes draws m (t\<lparr>ui_rx := rx\<rparr>) = (r, t')" by (cases "ui_turn takes draws m (t\<lparr>ui_rx := rx\<rparr>)")
    then have "terminal_step ev t = t'" "r = Ok True"
      using assms(2) rx by (auto simp: Turn terminal_step_def terminal_turn_def ui_takes_def split: outcome.splits bool.splits)
    then show ?thesis using turn_flag[OF assms(1) rx(1)] run by simp
  next
    case False
    then show ?thesis using assms(1)
      by (auto simp: Turn terminal_step_def terminal_turn_def split: option.splits list.splits)
  qed
next
  case (Answered p)
  have "ui_end t = None" using assms(2) by (auto simp: Answered terminal_step_def to_ui_def ui_takes_def split: if_splits)
  then show ?thesis using assms length_removeAll_distinct[of "awaited t" p]
    by (auto simp: Answered terminal_step_def to_ui_def ui_takes_def flag_ok_def flag_exact_def outstanding_def distinct_removeAll)
qed (use assms in \<open>auto simp: terminal_step_def to_ui_def ui_takes_def flag_ok_def flag_exact_def outstanding_def
       filter_map_handle_def key_input_def chatclient_handle_def Let_def
       split: chat_client_message.splits terminal_event.splits if_splits\<close>)

lemma run_flag:
  "ui_takes (terminal_run evs terminal_start) \<Longrightarrow>
    flag_ok (terminal_run evs terminal_start) \<and>
    ((\<forall>k. outstanding (terminal_run (take k evs) terminal_start) \<le> 1) \<longrightarrow> flag_exact (terminal_run evs terminal_start))"
proof (induction evs rule: rev_induct)
  case Nil
  then show ?case by (simp add: terminal_run_def terminal_start_def flag_ok_def flag_exact_def outstanding_def ui_new_def)
next
  case (snoc ev evs)
  let ?t = "terminal_run evs terminal_start"
  have 1: "ui_takes (terminal_step ev ?t)" using snoc.prems by (simp add: terminal_run_def)
  then have "ui_takes ?t" using step_shows by blast
  with snoc.IH have IH: "flag_ok ?t" "(\<forall>k. outstanding (terminal_run (take k evs) terminal_start) \<le> 1) \<longrightarrow> flag_exact ?t" by auto
  have eq: "terminal_run (evs @ [ev]) terminal_start = terminal_step ev ?t" by (simp add: terminal_run_def)
  have "flag_exact (terminal_step ev ?t)" if all: "\<forall>k. outstanding (terminal_run (take k (evs @ [ev])) terminal_start) \<le> 1"
  proof -
    have "outstanding (terminal_run (take k evs) terminal_start) \<le> 1" for k
      using spec[OF all, of "min k (length evs)"] by (cases "k \<le> length evs") (simp_all add: min_def)
    moreover have "outstanding (terminal_step ev ?t) \<le> 1" using spec[OF all, of "Suc (length evs)"] by (simp add: eq)
    ultimately show ?thesis using step_flag[OF IH(1) 1] IH(2) by blast
  qed
  then show ?case using step_flag[OF IH(1) 1] eq by simp
qed

text \<open>
  The composer says that a message is being sent only while a post waits for its
  acknowledgement, or the news of it waits in the terminal's queue: it never sticks. If
  there is never more than one such post, it says so exactly then.
\<close>

theorem in_flight_never_sticks:
  assumes "ui_takes (terminal_run evs terminal_start)"
  defines "t \<equiv> terminal_run evs terminal_start"
  shows "(is_message_in_flight (ui t) \<longrightarrow> awaited t \<noteq> [] \<or> SetMessageInFlight False \<in> set (ui_rx t)) \<and>
    ((\<forall>k. outstanding (terminal_run (take k evs) terminal_start) \<le> 1) \<longrightarrow> (is_message_in_flight (ui t) \<longleftrightarrow> outstanding t = 1))"
  using run_flag[OF assms(1)] unfolding t_def
  by (auto simp: flag_ok_def flag_exact_def outstanding_def filter_empty_conv)

definition sample_two_posts :: "terminal_step list" where
  "sample_two_posts = [Joined [65] 9, Turn True True, key_press (KeyChar 97), Turn True True, key_press Enter, Turn True True,
     key_press (KeyChar 98), Turn True True, key_press Enter, Turn True True, Answered 0, Turn True True]"

theorem in_flight_never_sticks_witness:
  "is_message_in_flight (ui (terminal_run (take 6 sample_two_posts) terminal_start)) \<and>
   awaited (terminal_run (take 6 sample_two_posts) terminal_start) = [0]"
proof -
  note D = sample_two_posts_def terminal_run_def terminal_step_def key_press_def to_ui_def ui_takes_def terminal_start_def
      filter_map_handle_def key_input_def terminal_turn_def client_defs ui_new_def string_push_def utf8_char_def
  have t: "ui_takes (terminal_run (take 6 sample_two_posts) terminal_start)" by (simp add: D)
  have f: "is_message_in_flight (ui (terminal_run (take 6 sample_two_posts) terminal_start))" by (simp add: D)
  from in_flight_never_sticks[OF t] f show ?thesis by (simp add: D)
qed

text \<open>
  With two posts the flag says too little: the first acknowledgement clears it while the
  second post still waits.
\<close>

lemma in_flight_underreports:
  "\<not> is_message_in_flight (ui (terminal_run sample_two_posts terminal_start)) \<and>
   awaited (terminal_run sample_two_posts terminal_start) = [1] \<and>
   render_composer (ui (terminal_run sample_two_posts terminal_start)) = str_lit ''MESSAGE''"
  by (simp add: sample_two_posts_def terminal_run_def terminal_step_def key_press_def to_ui_def ui_takes_def terminal_start_def
      filter_map_handle_def key_input_def terminal_turn_def client_defs ui_new_def string_push_def utf8_char_def render_composer_def)

text \<open>Enter, once the server cannot be reached any more, ends the terminal's actor in a panic.\<close>

lemma enter_after_close_panics:
  assumes "ui_takes t" and "ui_rx t = [InputEvent \<lparr>code = Enter, control = False, kind = Press\<rparr>]"
    and "ui_server (ui t) = Some srv" and "composer (ui t) \<noteq> []"
  shows "ui_end (terminal_step (Turn False draws) t) = Some (Panic UnwrapErr)"
  using assms by (simp add: terminal_step_def terminal_turn_def client_defs ui_takes_def)

text \<open>The browser's composer is emptied although the post did not go out.\<close>

lemma browser_loses_text:
  assumes "chat_server_ref a = Some srv" and "trim (chars (input_message a)) \<noteq> []"
  shows "app_composer True lost enter False rpc a = (a\<lparr>input_message := []\<rparr>, [])"
  using assms by (simp add: app_composer_def send_current_message_def)

section \<open>What the terminal draws\<close>

lemma render_last_entries:
  assumes "chat_history s \<noteq> []"
  shows "\<exists>old shown. chat_history s = old @ shown \<and> shown \<noteq> [] \<and> length shown \<le> max (h - 2) 1 \<and>
    (old \<noteq> [] \<longrightarrow> length shown = max (h - 2) 1) \<and> render_chat_history to_upper h s = map (history_line to_upper) shown"
proof -
  define m where "m = max (h - 2) 1"
  let ?i = "length (chat_history s) - m"
  have "1 \<le> m" by (simp add: m_def)
  then have "?i < length (chat_history s)" using assms by (cases "chat_history s") auto
  then show ?thesis using assms
    by (rule_tac x = "take ?i (chat_history s)" in exI, rule_tac x = "drop ?i (chat_history s)" in exI)
      (auto simp: render_chat_history_def Let_def simp flip: m_def One_nat_def)
qed

section \<open>The address in the query\<close>

fun query :: "(utext \<times> utext) list \<Rightarrow> utext" where
  "query [] = []"
| "query [(k, v)] = k @ 61 # v"
| "query ((k, v) # ps) = (k @ 61 # v) @ 38 # query ps"

lemma split_on_append: "d \<notin> set x \<Longrightarrow> split_on d (x @ d # y) = x # split_on d y"
  by (induction x) (auto split: list.split)

lemma split_on_none: "d \<notin> set x \<Longrightarrow> split_on d x = [x]"
  by (induction x) auto

lemma split_query:
  "ps \<noteq> [] \<Longrightarrow> \<forall>(k, v) \<in> set ps. 38 \<notin> set k \<and> 38 \<notin> set v \<Longrightarrow>
    split_on 38 (query ps) = map (\<lambda>(k, v). k @ 61 # v) ps"
proof (induction ps rule: query.induct)
  case (2 k v)
  then show ?case by (simp add: split_on_none)
next
  case (3 k v p ps)
  then show ?case using split_on_append[of 38 "k @ 61 # v" "query (p # ps)"] by auto
qed simp

lemma split_once_pair: "d \<notin> set k \<Longrightarrow> split_once d (k @ d # v) = Some (k, v)"
proof -
  assume "d \<notin> set k"
  then have "\<forall>x \<in> set k. x \<noteq> d" by auto
  then show ?thesis by (simp add: split_once_def takeWhile_append2 dropWhile_append2)
qed

lemma find_server:
  "find_map (\<lambda>(key, val). if key = k0 then Some (f val) else None) ps = map_option f (map_of ps k0)"
  by (induction ps) auto

lemma url_of_query:
  assumes "ps \<noteq> []" and "\<forall>(k, v) \<in> set ps. 38 \<notin> set k \<and> 61 \<notin> set k \<and> 38 \<notin> set v" and "hd (query ps) \<noteq> 63"
  shows "websocket_url_from_location decode (Some (63 # query ps)) =
    (case map_of ps (lit ''server'') of
       Some v \<Rightarrow> (case decode v of Some url \<Rightarrow> url | None \<Rightarrow> v) | None \<Rightarrow> lit ''.'')"
proof -
  have "query ps \<noteq> []" using assms(1) by (cases ps rule: query.cases) auto
  then have q: "dropWhile (\<lambda>c. c = 63) (63 # query ps) = query ps" using assms(3) by (cases "query ps") auto
  have "List.map_filter (split_once 61) (map (\<lambda>(k, v). k @ 61 # v) ps) = ps"
    using assms(2) by (induction ps) (auto simp: map_filter_simps split_once_pair)
  moreover have "split_on 38 (query ps) = map (\<lambda>(k, v). k @ 61 # v) ps"
    using assms(2) by (intro split_query assms(1)) auto
  ultimately show ?thesis
    unfolding websocket_url_from_location_def option.case q
    by (simp add: find_server split: option.split)
qed

end
