(* ===== verification/Chat_Join.thy ===== *)
theory Chat_Join
  imports Chat_Client
begin

text \<open>
  How a client joins the chat: what the server does with a portal the nexus announces
  (\<open>chat_app/server/src/lib.rs\<close>), and what the clients do (\<open>run\<close> of \<open>chat_app/client/src/main.rs\<close>,
  \<open>init\<close> of \<open>chat_app/wasm_client/src/main.rs\<close>). Every \<open>node\<close> is that of one portal; how an
  awaited answer comes out is an argument.
\<close>

section \<open>The server\<close>

definition hub_name :: rstring where
  "hub_name = str_lit ''hub''"

text \<open>\<open>handshake\<close>: how the wait for the handshake ends, \<open>None\<close> while it lasts.\<close>

definition handle_connected_client ::
    "actor_id outcome \<Rightarrow> 'rm \<Rightarrow> unit awaited option \<Rightarrow> ('rm, 'f) node \<Rightarrow> unit outcome option \<times> ('rm, 'f) node" where
  "handle_connected_client spawned receiver handshake n =
     (case seq (lift spawned) (\<lambda>hub_actor. publish_named_actor hub_name hub_actor receiver) n of
        (Ok _, n') \<Rightarrow>
          (case handshake of
             Some rx \<Rightarrow> map_prod Some id (ask WaitForHandshake (Some 5000) rx n')
           | None \<Rightarrow> (None, snd (ask WaitForHandshake (Some 5000) (TimedOut :: unit awaited) n')))
      | (r, n') \<Rightarrow> (Some (case r of Ok _ \<Rightarrow> Ok () | Err e \<Rightarrow> Err e | Panic p \<Rightarrow> Panic p), n'))"

text \<open>The loop over the announced portals: one after the other, and no further than a wait that lasts.\<close>

fun connected_loop ::
    "'rm \<Rightarrow> (actor_id outcome \<times> unit awaited option \<times> ('rm, 'f) node) list \<Rightarrow> ('rm, 'f) node list" where
  "connected_loop receiver [] = []"
| "connected_loop receiver ((spawned, handshake, n) # rx) =
     (case handle_connected_client spawned receiver handshake n of
        (None, n') \<Rightarrow> n' # map (\<lambda>(_, _, m). m) rx
      | (Some (Panic p), n') \<Rightarrow> n' # map (\<lambda>(_, _, m). m) rx
      | (Some _, n') \<Rightarrow> n' # connected_loop receiver rx)"

section \<open>The clients\<close>

text \<open>
  Both ask for the handshake, for the hub's address, for a proxy, and the hub for an alias and a
  server; only then does the user interface hear of it. The browser's client takes a
  handshake that fails as impossible.
\<close>

definition find_hub :: "remote_actor_id outcome awaited \<Rightarrow> ('rm, 'f, actor_id) node_eff" where
  "find_hub address =
     seq (ask (QueryNamedRemoteActor hub_name) None address) (\<lambda>result.
     seq (lift result) (\<lambda>remote_hub_address.
     instantiate_proxy remote_hub_address))"

definition connect_hub ::
    "actor_id outcome \<Rightarrow> bool \<Rightarrow> port \<Rightarrow> (rstring \<times> actor_id) awaited \<Rightarrow> (rstring \<times> actor_id) outcome \<times> hub_message list" where
  "connect_hub local_chat_client takes rpc rx = (case local_chat_client of
     Ok client \<Rightarrow> ask_actor takes (HubConnect client) rpc rx
   | Err e \<Rightarrow> (Err e, [])
   | Panic p \<Rightarrow> (Panic p, []))"

definition client_run ::
    "unit awaited \<Rightarrow> remote_actor_id outcome awaited \<Rightarrow> actor_id outcome \<Rightarrow> bool \<Rightarrow> port \<Rightarrow> (rstring \<times> actor_id) awaited \<Rightarrow>
     ('rm, 'f) node \<times> terminal \<Rightarrow> unit outcome \<times> ('rm, 'f) node \<times> terminal" where
  "client_run handshake address local_chat_client takes rpc rx = (\<lambda>(n, t).
     case seq (ask WaitForHandshake (Some 5000) handshake) (\<lambda>_. find_hub address) n of
       (Ok remote_hub, n') \<Rightarrow>
         (case fst (connect_hub local_chat_client takes rpc rx) of
            Ok (al, remote_chat_server) \<Rightarrow>
              (if ui_takes t then Ok () else Err SendError, n', terminal_step (Joined al remote_chat_server) t)
          | Err e \<Rightarrow> (Err e, n', t) | Panic p \<Rightarrow> (Panic p, n', t))
     | (Err e, n') \<Rightarrow> (Err e, n', t)
     | (Panic p, n') \<Rightarrow> (Panic p, n', t))"

definition browser_init ::
    "unit awaited \<Rightarrow> remote_actor_id outcome awaited \<Rightarrow> actor_id outcome \<Rightarrow> bool \<Rightarrow> port \<Rightarrow> (rstring \<times> actor_id) awaited \<Rightarrow>
     ('rm, 'f) node \<times> browser \<Rightarrow> unit outcome \<times> ('rm, 'f) node \<times> browser" where
  "browser_init handshake address local_chat_client takes rpc rx = (\<lambda>(n, b).
     case (case wait_for_opened 5000 handshake n of (Err e, n') \<Rightarrow> (Panic UnwrapErr, n') | r \<Rightarrow> r) of
       (Ok _, n1) \<Rightarrow>
         (case find_hub address n1 of
            (Ok remote_hub, n') \<Rightarrow>
              (case fst (connect_hub local_chat_client takes rpc rx) of
                 Ok (al, remote_chat_server) \<Rightarrow> (Ok (), n', browser_step (WebJoined al remote_chat_server) b)
               | Err e \<Rightarrow> (Err e, n', b) | Panic p \<Rightarrow> (Panic p, n', b))
          | (Err e, n') \<Rightarrow> (Err e, n', b)
          | (Panic p, n') \<Rightarrow> (Panic p, n', b))
     | (Err e, n') \<Rightarrow> (Err e, n', b)
     | (Panic p, n') \<Rightarrow> (Panic p, n', b))"

end
