(* ===== verification/Chat_Join_Props.thy ===== *)
theory Chat_Join_Props
  imports Chat_Join Portal_Props
begin

text \<open>
  The clients that join the chat: what the server's portal publishes before it answers the
  first request, what a client asks and in which order, and the client that comes while
  another one's handshake is awaited.
\<close>

section \<open>The server\<close>

lemma handle_connected_client_takes:
  assumes "taking_messages n"
  shows "handle_connected_client (Ok hub) rm hs n =
    (case hs of None \<Rightarrow> None | Some (Replied _) \<Rightarrow> Some (Ok ()) | Some PortDropped \<Rightarrow> Some (Err RecvError)
       | Some TimedOut \<Rightarrow> Some (Err TimeoutElapsed),
     n\<lparr>mailbox := mailbox n @ [PublishNamedActor hub_name hub rm None, WaitForHandshake (next_port n)],
       next_port := next_port n + 1\<rparr>)"
  using assms
  by (cases n) (simp add: handle_connected_client_def publish_named_actor_def ask_def send_to_portal_def seq_def
      throw_def ret_def split: option.splits awaited.splits)

text \<open>
  A portal that is announced to the chat server gets the hub under the name \<open>hub\<close> before it
  gets the question for the handshake; once it has handled the first, a peer that asks for
  \<open>hub\<close> is answered with the hub's address.
\<close>

theorem hub_published_first:
  assumes "working E" and "portal_inv (portal_of n)" and "uuid_new E (portal_of n)" and "taking_messages n"
  shows "\<exists>p st' k rm'.
    mailbox (snd (handle_connected_client (Ok hub) rm hs n)) =
      mailbox n @ [PublishNamedActor hub_name hub rm None, WaitForHandshake p] \<and>
    handle E (PublishNamedActor hub_name hub rm None) (portal_of n) = (Ok (), st') \<and>
    hm_get (published_actors st') k = Some (hub, rm') \<and>
    handle_cross_message E c (RequestActorByName i hub_name) st' =
      (Ok (), st'\<lparr>outs := outs st' @ [SinkSend (CmContent (encoded E (answer_of c st' k i)))]\<rparr>)"
proof -
  obtain r st' where run: "handle E (PublishNamedActor hub_name hub rm None) (portal_of n) = (r, st')" by fastforce
  from publish_named_effect[OF assms(2,3) run] obtain k rm' where
    "r = Ok ()" "hm_get (named_actors st') hub_name = Some k" "hm_get (published_actors st') k = Some (hub, rm')"
    by blast
  then show ?thesis
    using run request_named[OF assms(1), of st' hub_name k c i] handle_connected_client_takes[OF assms(4), of hub rm hs]
    by (rule_tac exI[of _ "next_port n"], rule_tac exI[of _ st'], rule_tac exI[of _ k], rule_tac exI[of _ rm']) simp
qed

theorem hub_published_first_witness:
  "\<exists>p st' k rm'.
     mailbox (snd (handle_connected_client (Ok 51) 4 None (sample_node 6))) =
       [PublishNamedActor hub_name 51 4 None, WaitForHandshake p] \<and>
     handle (sample_env 9) (PublishNamedActor hub_name 51 4 None) (sample_open 6) = (Ok (), st') \<and>
     hm_get (published_actors st') k = Some (51, rm') \<and>
     handle_cross_message (sample_env 9) (ConduitID 3) (RequestActorByName 1 hub_name) st' =
       (Ok (), st'\<lparr>outs := outs st' @ [SinkSend (CmContent (encoded (sample_env 9 :: nat env) (answer_of (ConduitID 3) st' k 1)))]\<rparr>)"
proof -
  have "portal_of (sample_node 6) = sample_open 6" "taking_messages (sample_node 6)" "mailbox (sample_node 6) = []"
    by (simp_all add: sample_node_def)
  with hub_published_first[OF sample_working[of 9], where n = "sample_node 6" and hub = 51 and rm = 4 and hs = None and
      c = "ConduitID 3" and i = 1] sample_open_inv sample_uuid_new
  show ?thesis by simp
qed

section \<open>The clients\<close>

definition sample_rid :: remote_actor_id where
  "sample_rid = \<lparr>connection_key = ConduitID 3, side = LocalPortalId 6, opaque_id = OpaqueActorId 9\<rparr>"

text \<open>
  Up to the point where the user interface hears of the chat, the clients talk to the
  portal and the hub alike.
\<close>

lemma find_hub_takes:
  assumes "taking_messages n"
  shows "find_hub (Replied (Ok rid)) n = (Ok (next_actor n),
    n\<lparr>mailbox := mailbox n @ [QueryNamedRemoteActor hub_name (next_port n), RegisterProxyForRemoteActor rid (next_actor n)],
      next_port := next_port n + 1, next_actor := next_actor n + 1, proxies := (next_actor n, rid) # proxies n\<rparr>)"
  using assms
  by (cases n) (simp add: find_hub_def instantiate_proxy_def ask_def send_to_portal_def seq_def ret_def lift_def)



text \<open>A failed wait or a hub that is not there ends the client, and the user interface does not hear of the chat.\<close>

lemma client_run_fails:
  assumes "taking_messages n" and "hs \<noteq> Replied () \<or> (\<forall>rid. addr \<noteq> Replied (Ok rid))"
  shows "\<exists>r n'. client_run hs addr local_client takes rpc rx (n, t) = (r, n', t) \<and> r \<noteq> Ok ()"
  using assms
  by (cases n; cases hs; cases addr)
    (auto simp: client_run_def find_hub_def ask_def send_to_portal_def seq_def ret_def throw_def lift_def split: outcome.splits)

section \<open>Two clients at once\<close>

text \<open>
  C29: While the server awaits one client's handshake, a second client's portal has no hub: its request
  is answered with \<open>ActorNotFound\<close>, and with this answer the client gives up.
\<close>

theorem second_client_misses_hub:
  assumes "working E" and "nexus_query E hub_name = Ok None" and "hm_get (named_actors (portal_of n2)) hub_name = None"
    and "taking_messages n1" and "taking_messages n"
  shows "\<exists>n1'. connected_loop rm [(Ok hub, None, n1), (Ok hub', hs, n2)] = [n1', n2] \<and>
    handle_cross_message E c (RequestActorByName i hub_name) (portal_of n2) =
      (Ok (), (portal_of n2)\<lparr>outs := outs (portal_of n2) @
         [SinkSend (CmContent (encoded E (ResponseActorByName i (RErr ActorNotFound))))]\<rparr>) \<and>
    (\<exists>n'. client_run (Replied ()) (Replied (Err e)) local_client takes rpc rx (n, t) = (Err e, n', t))"
  using assms request_unknown[OF assms(1), of "portal_of n2" hub_name c i] handle_connected_client_takes[of n1 hub rm None]
  by (cases n) (simp add: client_run_def find_hub_def ask_def send_to_portal_def seq_def ret_def lift_def)

theorem second_client_misses_hub_witness:
  "\<exists>n1'. connected_loop (4 :: nat) [(Ok 51, None, sample_node 5), (Ok 52, None, sample_node 6)] = [n1', sample_node 6] \<and>
     (\<exists>n'. client_run (Replied ()) (Replied (Err RecvError)) (Ok 13) True 2 (Replied ([], 0)) (sample_node 7, terminal_start) =
       (Err RecvError, n', terminal_start))"
proof -
  have "taking_messages (sample_node 5)" "taking_messages (sample_node 7)"
    "nexus_query (sample_env 9) hub_name = Ok None" "hm_get (named_actors (portal_of (sample_node 6))) hub_name = None"
    by (simp_all add: sample_node_def sample_env_def sample_open_def sample_start_def)
  from second_client_misses_hub[OF sample_working this(3,4,1,2), where rm = 4 and hub = 51 and hub' = 52 and hs = None and
      c = "ConduitID 3" and i = 1 and e = RecvError and local_client = "Ok 13" and takes = True and rpc = 2 and
      rx = "Replied ([], 0)" and t = terminal_start]
  show ?thesis by (elim exE conjE) (intro exI conjI, assumption+)
qed

end
