(* ===== verification/Decimal.thy ===== *)
theory Decimal
  imports Utext
begin

text \<open>
  \<open>u128::to_string\<close> and \<open>str::parse::<u128>\<close> of the standard library, which carry an
  \<open>u128\<close> over the foreign-function interface, and their round trip.
\<close>

fun dec_digits :: "nat \<Rightarrow> rstring" where
  "dec_digits n = (if n < 10 then [byte_of (48 + n)] else dec_digits (n div 10) @ [byte_of (48 + n mod 10)])"

declare dec_digits.simps [simp del]

text \<open>One sign \<open>+\<close> may stand before the digits; every step is checked for overflow.\<close>

fun parse_digits :: "nat \<Rightarrow> nat \<Rightarrow> rstring \<Rightarrow> nat option" where
  "parse_digits bound acc [] = Some acc"
| "parse_digits bound acc (b # bs) =
     (if 48 \<le> b \<and> b \<le> 57 \<and> acc * 10 < bound \<and> acc * 10 + (unat b - 48) < bound
      then parse_digits bound (acc * 10 + (unat b - 48)) bs else None)"

definition parse_dec :: "nat \<Rightarrow> rstring \<Rightarrow> nat option" where
  "parse_dec bound s =
     (let digits = (case s of b # bs \<Rightarrow> if b = 43 then bs else s | [] \<Rightarrow> [])
      in if digits = [] then None else parse_digits bound 0 digits)"

lemma parse_digits_append:
  "parse_digits bound acc (xs @ ys) =
     (case parse_digits bound acc xs of Some a \<Rightarrow> parse_digits bound a ys | None \<Rightarrow> None)"
  by (induction bound acc xs rule: parse_digits.induct) simp_all

lemma parse_dec_digits: "n < bound \<Longrightarrow> parse_digits bound 0 (dec_digits n) = Some n"
proof (induction n rule: less_induct)
  case (less n)
  show ?case
  proof (cases "n < 10")
    case True
    then show ?thesis using less.prems by (subst dec_digits.simps) (simp add: byte_compare)
  next
    case False
    then have "parse_digits bound 0 (dec_digits (n div 10)) = Some (n div 10)"
      using less.prems by (intro less.IH) auto
    moreover have "n div 10 * 10 + n mod 10 = n" "n mod 10 \<le> 9" "n div 10 * 10 < bound"
      using less.prems by (simp_all add: div_mult_mod_eq)
    ultimately show ?thesis
      using False less.prems by (subst dec_digits.simps) (simp add: parse_digits_append byte_compare)
  qed
qed

lemma dec_digits_head: "\<exists>b bs. dec_digits n = b # bs \<and> b \<noteq> 43 \<and> (b = 48 \<longrightarrow> n = 0)"
proof (induction n rule: dec_digits.induct)
  case (1 n)
  show ?case
  proof (cases "n < 10")
    case True
    then show ?thesis by (subst dec_digits.simps) (simp add: byte_compare)
  next
    case False
    with 1 show ?thesis by (subst dec_digits.simps) auto
  qed
qed

lemma dec_roundtrip: "n < bound \<Longrightarrow> parse_dec bound (dec_digits n) = Some n"
  using dec_digits_head[of n] parse_dec_digits[of n bound] by (auto simp: parse_dec_def)

lemma parse_digits_bound: "parse_digits bound acc s = Some n \<Longrightarrow> acc < bound \<Longrightarrow> n < bound"
  by (induction bound acc s rule: parse_digits.induct) (auto split: if_splits)

lemma parse_dec_bound: "parse_dec bound s = Some n \<Longrightarrow> 0 < bound \<Longrightarrow> n < bound"
  using parse_digits_bound[of bound 0] by (auto simp: parse_dec_def Let_def split: if_splits)

lemma dec_digits_inj:
  assumes "dec_digits m = dec_digits n"
  shows "m = n"
proof -
  have "parse_digits (m + n + 1) 0 (dec_digits m) = Some m" "parse_digits (m + n + 1) 0 (dec_digits n) = Some n"
    by (rule parse_dec_digits, simp)+
  with assms have "Some m = Some n" by (simp only:)
  then show ?thesis by (rule option.inject[THEN iffD1])
qed

lemma dec_digits_ascii: "list_all (\<lambda>b. 48 \<le> b \<and> b \<le> 57) (dec_digits n)"
proof (induction n rule: dec_digits.induct)
  case (1 n)
  show ?case
  proof (cases "n < 10")
    case True
    then show ?thesis by (subst dec_digits.simps) (simp add: byte_compare)
  next
    case False
    with 1 show ?thesis by (subst dec_digits.simps) (simp add: byte_compare)
  qed
qed

end
