(* ===== verification/Establish.thy ===== *)
theory Establish
  imports Decimal Conduit Websocket Nexus
begin

text \<open>
  How the transports come to a portal: the parts of \<open>conduit/{unix_socket,websocket,ssh}\<close>
  that connect or accept. The network (tokio, tungstenite, ewebsock, russh) is given by its
  answers; what the code asks of it, of the nexus and of the runtime is recorded in order.
\<close>

section \<open>Registering with the nexus\<close>

datatype link_action =
    SshConnect rstring nat
  | AuthPassword rstring rstring
  | LoadKey rstring "rstring option"
  | AuthPublicKey rstring
  | OpenStreamlocal rstring
  | OpenSession
  | ExecCommand rstring
  | OpenTcpip rstring nat
  | AskNexus rstring
  | SpawnReceiveLoop rstring actor_id

text \<open>\<open>nexus_world\<close> is whatever the nexus works on.\<close>

record 'w link_world =
  nexus_world :: 'w
  link_trace :: "link_action list"

type_synonym ('w, 'a) link_eff = "('w link_world, 'a) eff"

definition act :: "link_action \<Rightarrow> ('w, unit) link_eff" where
  "act x = (\<lambda>w. (Ok (), w\<lparr>link_trace := link_trace w @ [x]\<rparr>))"

definition ask_nexus :: "(rstring \<Rightarrow> ('w, actor_id) eff) \<Rightarrow> rstring \<Rightarrow> ('w, actor_id) link_eff" where
  "ask_nexus connected portal_identifier =
     seq (act (AskNexus portal_identifier)) (\<lambda>_ w.
     let (r, n) = connected portal_identifier (nexus_world w) in (r, w\<lparr>nexus_world := n\<rparr>))"

text \<open>The end of every connecting function, and \<open>from_sink_source\<close>.\<close>

definition register :: "(rstring \<Rightarrow> ('w, actor_id) eff) \<Rightarrow> rstring \<Rightarrow> ('w, actor_id) link_eff" where
  "register connected portal_identifier =
     seq (ask_nexus connected portal_identifier) (\<lambda>portal_actor.
     seq (act (SpawnReceiveLoop portal_identifier portal_actor)) (\<lambda>_.
     ret portal_actor))"

section \<open>Unix sockets\<close>

definition unix_connect :: "(rstring \<Rightarrow> ('w, actor_id) eff) \<Rightarrow> unit outcome \<Rightarrow> rstring \<Rightarrow> ('w, actor_id) link_eff" where
  "unix_connect connected stream socket_path =
     seq (lift stream) (\<lambda>_. register connected (str_lit ''unix://'' @ socket_path))"

definition unix_identifier :: "rstring \<Rightarrow> nat \<Rightarrow> rstring" where
  "unix_identifier socket_path connection_id = str_lit ''unix://'' @ socket_path @ str_lit ''#'' @ dec_digits connection_id"

text \<open>A failure to create the portal is logged.\<close>

definition unix_handle_connection :: "(rstring \<Rightarrow> ('w, actor_id) eff) \<Rightarrow> rstring \<Rightarrow> nat \<Rightarrow> ('w, unit) link_eff" where
  "unix_handle_connection connected socket_path connection_id = (\<lambda>w.
     case register connected (unix_identifier socket_path connection_id) w of
       (Panic p, w') \<Rightarrow> (Panic p, w') | (_, w') \<Rightarrow> (Ok (), w'))"

text \<open>The accept loop, on the results of \<open>accept\<close>; it ends at the first that fails.\<close>

fun unix_accept_loop :: "(rstring \<Rightarrow> ('w, actor_id) eff) \<Rightarrow> rstring \<Rightarrow> nat \<Rightarrow> unit outcome list \<Rightarrow> ('w, unit) link_eff" where
  "unix_accept_loop connected socket_path connection_counter [] = ret ()"
| "unix_accept_loop connected socket_path connection_counter (accept # listener) = (case accept of
     Ok stream \<Rightarrow>
       seq (unix_handle_connection connected socket_path (connection_counter + 1)) (\<lambda>_.
       unix_accept_loop connected socket_path (connection_counter + 1) listener)
   | _ \<Rightarrow> ret ())"

text \<open>\<open>existed\<close>: there was a file at the path; then its removal must succeed.\<close>

definition unix_start_server :: "bool \<Rightarrow> unit outcome \<Rightarrow> unit outcome \<Rightarrow> unit outcome" where
  "unix_start_server existed removed bound = and_then (if existed then removed else Ok ()) (\<lambda>_. bound)"

section \<open>WebSockets\<close>

text \<open>\<open>uri\<close>: the request's, if it is one.\<close>

definition ws_connect :: "(rstring \<Rightarrow> ('w, actor_id) eff) \<Rightarrow> rstring outcome \<Rightarrow> unit outcome \<Rightarrow> ('w, actor_id) link_eff" where
  "ws_connect connected uri conn =
     seq (lift uri) (\<lambda>uri. seq (lift conn) (\<lambda>_. register connected uri))"

text \<open>
  The server. What accepting yields is a peer's address and the outcome of its WebSocket
  handshake, which is \<open>None\<close> if the peer never finishes it; the loop waits for it.
\<close>

fun ws_accept_loop ::
    "(rstring \<Rightarrow> ('w, actor_id) eff) \<Rightarrow> (rstring \<times> unit outcome option) outcome list \<Rightarrow> ('w, unit) link_eff" where
  "ws_accept_loop connected [] = ret ()"
| "ws_accept_loop connected (accept # listener) = (case accept of
     Ok (addr, ws_stream) \<Rightarrow>
       (case ws_stream of
          None \<Rightarrow> ret ()
        | Some (Ok _) \<Rightarrow>
            seq (\<lambda>w. case register connected (str_lit ''ws://'' @ addr) w of
                   (Panic p, w') \<Rightarrow> (Panic p, w') | (_, w') \<Rightarrow> (Ok (), w')) (\<lambda>_.
            ws_accept_loop connected listener)
        | Some _ \<Rightarrow> ws_accept_loop connected listener)
   | _ \<Rightarrow> ret ())"

text \<open>
  The client on ewebsock waits until the handler has signalled the opening, and takes a
  handler that is gone without it (\<open>dropped\<close>) as impossible. \<open>None\<close>: it waits for ever.
\<close>

definition ews_connect ::
    "(rstring \<Rightarrow> ('w, actor_id) eff) \<Rightarrow> rstring \<Rightarrow> unit outcome \<Rightarrow> ews_event list \<Rightarrow> bool \<Rightarrow>
     'w link_world \<Rightarrow> (actor_id outcome \<times> 'w link_world) option" where
  "ews_connect connected url ws_tx evts dropped w = (case ws_tx of
     Ok _ \<Rightarrow>
       (if 0 < snd (ews_events True evts) then Some (register connected url w)
        else if dropped then Some (Panic UnwrapErr, w) else None)
   | Err e \<Rightarrow> Some (Err e, w)
   | Panic p \<Rightarrow> Some (Panic p, w))"

section \<open>SSH\<close>

datatype ssh_auth_method = Password rstring | PublicKey rstring "rstring option" | Agent

record ssh_config =
  ssh_host :: rstring
  ssh_port :: nat
  ssh_username :: rstring
  auth_method :: ssh_auth_method

text \<open>
  What russh and the server answer. An authentication's value says whether the server
  accepted it; connecting depends on what the client's handler says of the server's key.
\<close>

record 'k ssh_answers =
  server_key :: 'k
  ssh_connected :: "bool \<Rightarrow> unit outcome"
  password_auth :: "rstring \<Rightarrow> rstring \<Rightarrow> bool outcome"
  key_loaded :: "rstring \<Rightarrow> rstring option \<Rightarrow> unit outcome"
  rsa_hash :: "unit outcome"
  publickey_auth :: "rstring \<Rightarrow> bool outcome"
  streamlocal_opened :: "rstring \<Rightarrow> unit outcome"
  session_opened :: "unit outcome"
  command_started :: "rstring \<Rightarrow> unit outcome"
  tcpip_opened :: "rstring \<Rightarrow> nat \<Rightarrow> unit outcome"
  rendered :: "werror \<Rightarrow> rstring"

definition check_server_key :: "'k \<Rightarrow> bool" where
  "check_server_key server_public_key = True"

text \<open>\<open>map_err(|e| anyhow!(\"\<dots>: {}\", e))\<close>\<close>

definition explain :: "'k ssh_answers \<Rightarrow> rstring \<Rightarrow> 'a outcome \<Rightarrow> 'a outcome" where
  "explain A context r = (case r of Err e \<Rightarrow> Err (AnyhowMsg (context @ rendered A e)) | _ \<Rightarrow> r)"

definition ssh_step :: "link_action \<Rightarrow> 'a outcome \<Rightarrow> ('w, 'a) link_eff" where
  "ssh_step x r = seq (act x) (\<lambda>_. lift r)"

definition ssh_authenticate :: "'k ssh_answers \<Rightarrow> ssh_config \<Rightarrow> ('w, bool) link_eff" where
  "ssh_authenticate A config = (case auth_method config of
     Password password \<Rightarrow>
       ssh_step (AuthPassword (ssh_username config) password)
         (explain A (str_lit ''Password authentication failed: '') (password_auth A (ssh_username config) password))
   | PublicKey private_key_path passphrase \<Rightarrow>
       seq (ssh_step (LoadKey private_key_path passphrase)
         (explain A (str_lit ''Failed to load private key: '') (key_loaded A private_key_path passphrase))) (\<lambda>_.
       seq (lift (explain A (str_lit ''Failed to get RSA hash algorithm: '') (rsa_hash A))) (\<lambda>_.
       ssh_step (AuthPublicKey (ssh_username config))
         (explain A (str_lit ''Public key authentication failed: '') (publickey_auth A (ssh_username config)))))
   | Agent \<Rightarrow> lift (Panic NotYetImplemented))"

definition connect_ssh :: "'k ssh_answers \<Rightarrow> ssh_config \<Rightarrow> ('w, unit) link_eff" where
  "connect_ssh A config =
     seq (ssh_step (SshConnect (ssh_host config) (ssh_port config))
       (explain A (str_lit ''Failed to connect to SSH server: '') (ssh_connected A (check_server_key (server_key A))))) (\<lambda>_.
     seq (ssh_authenticate A config) (\<lambda>authenticated.
     if \<not> authenticated then throw (AnyhowMsg (str_lit ''SSH authentication failed'')) else ret ()))"

definition ssh_unix_socket_channel :: "'k ssh_answers \<Rightarrow> rstring \<Rightarrow> ('w, unit) link_eff" where
  "ssh_unix_socket_channel A socket_path =
     ssh_step (OpenStreamlocal socket_path) (case streamlocal_opened A socket_path of
       Err e \<Rightarrow> Err (AnyhowMsg (str_lit ''Failed to open direct-streamlocal channel to '' @ socket_path @ str_lit '': '' @
         rendered A e @ str_lit ''. Ensure OpenSSH is used on the remote side.''))
     | r \<Rightarrow> r)"

definition socat_command :: "rstring \<Rightarrow> rstring" where
  "socat_command socket_path = str_lit ''socat STDIO UNIX-CONNECT:'' @ socket_path"

definition ssh_exec_socat_unix_socket :: "'k ssh_answers \<Rightarrow> rstring \<Rightarrow> ('w, unit) link_eff" where
  "ssh_exec_socat_unix_socket A socket_path =
     seq (ssh_step OpenSession (explain A (str_lit ''Failed to open SSH session channel: '') (session_opened A))) (\<lambda>_.
     let command = socat_command socket_path
     in ssh_step (ExecCommand command) (explain A (str_lit ''Failed to execute socat command: '') (command_started A command)))"

definition ssh_tcp_channel :: "'k ssh_answers \<Rightarrow> rstring \<Rightarrow> nat \<Rightarrow> ('w, unit) link_eff" where
  "ssh_tcp_channel A remote_host remote_port =
     ssh_step (OpenTcpip remote_host remote_port)
       (explain A (str_lit ''Failed to open direct-tcpip channel to '' @ remote_host @ str_lit '':'' @ dec_digits remote_port @ str_lit '': '')
         (tcpip_opened A remote_host remote_port))"

definition ssh_origin :: "ssh_config \<Rightarrow> rstring" where
  "ssh_origin config = str_lit ''ssh://'' @ ssh_username config @ str_lit ''@'' @ ssh_host config @ str_lit '':'' @ dec_digits (ssh_port config)"

text \<open>\<open>match\<close> on the first channel: any error leads to the second way.\<close>

definition or_else :: "('s, 'a) eff \<Rightarrow> ('s, 'a) eff \<Rightarrow> ('s, 'a) eff" where
  "or_else m k = (\<lambda>s. case m s of (Err e, s') \<Rightarrow> k s' | r \<Rightarrow> r)"

definition connect_via_ssh_to_unix_socket ::
    "(rstring \<Rightarrow> ('w, actor_id) eff) \<Rightarrow> 'k ssh_answers \<Rightarrow> ssh_config \<Rightarrow> rstring \<Rightarrow> ('w, actor_id) link_eff" where
  "connect_via_ssh_to_unix_socket connected A config remote_socket_path =
     seq (connect_ssh A config) (\<lambda>_.
     seq (or_else (ssh_unix_socket_channel A remote_socket_path) (ssh_exec_socat_unix_socket A remote_socket_path)) (\<lambda>_.
     register connected (ssh_origin config @ str_lit ''/unix:'' @ remote_socket_path)))"

definition connect_via_ssh_to_tcp ::
    "(rstring \<Rightarrow> ('w, actor_id) eff) \<Rightarrow> 'k ssh_answers \<Rightarrow> ssh_config \<Rightarrow> rstring \<Rightarrow> nat \<Rightarrow> ('w, actor_id) link_eff" where
  "connect_via_ssh_to_tcp connected A config remote_host remote_port =
     seq (connect_ssh A config) (\<lambda>_.
     seq (ssh_tcp_channel A remote_host remote_port) (\<lambda>_.
     register connected (ssh_origin config @ str_lit ''/tcp/'' @ remote_host @ str_lit '':'' @ dec_digits remote_port)))"

section \<open>The nexus behind it\<close>

text \<open>
  \<open>nexus.ask(|rpc| Connected(\<dots>, rpc), None)\<close> on the model of the nexus. A nexus that has
  failed takes nothing; the surroundings of a call may depend on the nexus's state.
\<close>

fun portal_reply :: "port \<Rightarrow> 'rm nexus_output list \<Rightarrow> actor_id option" where
  "portal_reply p [] = None"
| "portal_reply p (x # xs) = (case x of
     ReplyPortal q a \<Rightarrow> if q = p then Some a else portal_reply p xs
   | _ \<Rightarrow> portal_reply p xs)"

definition nexus_connected ::
    "('rm nexus_state \<Rightarrow> nexus_env) \<Rightarrow> conduit_sink \<Rightarrow> port \<Rightarrow> rstring \<Rightarrow> (bool \<times> 'rm nexus_state, actor_id) eff" where
  "nexus_connected envs sink rpc ident = (\<lambda>(alive, st).
     if \<not> alive then (Err SendError, (alive, st))
     else let (r, st') = nexus_handle (envs st) (Connected ident sink rpc) st
          in (case portal_reply rpc (drop (length (nexus_outs st)) (nexus_outs st')) of
                Some a \<Rightarrow> Ok a | None \<Rightarrow> Err RecvError, (r = Ok (), st')))"

end
