(* ===== verification/Establish_Props.thy ===== *)
theory Establish_Props
  imports Establish Nexus_Props
begin

text \<open>
  The properties of connecting and accepting: a portal is asked for only over a connection
  that stands, every accepted connection has its own, and what keeps others waiting.
\<close>

section \<open>SSH\<close>

text \<open>What has to go well before a channel is asked for, and for a channel to a socket or a port.\<close>

definition ssh_ready :: "'k ssh_answers \<Rightarrow> ssh_config \<Rightarrow> bool" where
  "ssh_ready A config \<longleftrightarrow> ssh_connected A True = Ok () \<and> (case auth_method config of
     Password password \<Rightarrow> password_auth A (ssh_username config) password = Ok True
   | PublicKey path passphrase \<Rightarrow>
       key_loaded A path passphrase = Ok () \<and> rsa_hash A = Ok () \<and> publickey_auth A (ssh_username config) = Ok True
   | Agent \<Rightarrow> False)"

definition socket_ready :: "'k ssh_answers \<Rightarrow> rstring \<Rightarrow> bool" where
  "socket_ready A path \<longleftrightarrow> streamlocal_opened A path = Ok () \<or>
     (\<exists>e. streamlocal_opened A path = Err e) \<and> session_opened A = Ok () \<and> command_started A (socat_command path) = Ok ()"

definition asks_nexus :: "link_action list \<Rightarrow> rstring list" where
  "asks_nexus = List.map_filter (\<lambda>x. case x of AskNexus i \<Rightarrow> Some i | _ \<Rightarrow> None)"

lemma asks_nexus_append: "asks_nexus (xs @ ys) = asks_nexus xs @ asks_nexus ys"
  by (simp add: asks_nexus_def map_filter_def)

text \<open>\<open>quietly m r\<close>: \<open>m\<close> ends in \<open>r\<close>, wherever it starts, and never asks the nexus.\<close>

definition quietly :: "('w, 'a) link_eff \<Rightarrow> 'a outcome \<Rightarrow> bool" where
  "quietly m r \<longleftrightarrow> (\<forall>w. \<exists>xs. asks_nexus xs = [] \<and> m w = (r, w\<lparr>link_trace := link_trace w @ xs\<rparr>))"

lemma quietly_step: "asks_nexus [x] = [] \<Longrightarrow> quietly (ssh_step x r) r"
  by (auto simp: quietly_def ssh_step_def act_def seq_def)

lemma quietly_ret: "quietly (lift r) r" "quietly (ret a) (Ok a)" "quietly (throw e) (Err e)"
  by (auto simp: quietly_def asks_nexus_def map_filter_simps intro: exI[of _ "[]"])

lemma quietly_seq:
  assumes "quietly m r" and "\<And>a. quietly (k a) (f a)"
  shows "quietly (seq m k) (and_then r f)"
  unfolding quietly_def
proof
  fix w
  obtain xs where 1: "asks_nexus xs = []" "m w = (r, w\<lparr>link_trace := link_trace w @ xs\<rparr>)"
    using assms(1) unfolding quietly_def by blast
  show "\<exists>xs. asks_nexus xs = [] \<and> seq m k w = (and_then r f, w\<lparr>link_trace := link_trace w @ xs\<rparr>)"
  proof (cases r)
    case (Ok a)
    obtain ys where "asks_nexus ys = []"
      "k a (w\<lparr>link_trace := link_trace w @ xs\<rparr>) = (f a, w\<lparr>link_trace := (link_trace w @ xs) @ ys\<rparr>)"
      using assms(2)[of a] unfolding quietly_def by (metis (no_types) link_world.ext_inject link_world.surjective link_world.update_convs(2))
    then show ?thesis using 1 Ok by (intro exI[of _ "xs @ ys"]) (simp add: seq_OkD asks_nexus_append)
  qed (use 1 in \<open>auto simp: seq_ErrD seq_PanicD\<close>)
qed

lemma quietly_or_else:
  assumes "quietly m r" and "quietly k q"
  shows "quietly (or_else m k) (case r of Err e \<Rightarrow> q | _ \<Rightarrow> r)"
  unfolding quietly_def
proof
  fix w
  obtain xs where 1: "asks_nexus xs = []" "m w = (r, w\<lparr>link_trace := link_trace w @ xs\<rparr>)"
    using assms(1) unfolding quietly_def by blast
  obtain ys where "asks_nexus ys = []"
    "k (w\<lparr>link_trace := link_trace w @ xs\<rparr>) = (q, w\<lparr>link_trace := link_trace w @ xs\<rparr>\<lparr>link_trace := link_trace (w\<lparr>link_trace := link_trace w @ xs\<rparr>) @ ys\<rparr>)"
    using assms(2) unfolding quietly_def by blast
  note 2 = this
  show "\<exists>xs. asks_nexus xs = [] \<and> or_else m k w = (case r of Err e \<Rightarrow> q | _ \<Rightarrow> r, w\<lparr>link_trace := link_trace w @ xs\<rparr>)"
  proof (cases r)
    case (Err e)
    then show ?thesis using 1 2 by (intro exI[of _ "xs @ ys"]) (simp add: or_else_def asks_nexus_append)
  qed (use 1 in \<open>auto simp: or_else_def\<close>)
qed

lemma explain_Ok [simp]: "explain A c r = Ok a \<longleftrightarrow> r = Ok a"
  by (cases r) (simp_all add: explain_def)

lemma explain_panic [simp]: "explain A c r = Panic p \<longleftrightarrow> r = Panic p"
  by (cases r) (simp_all add: explain_def)

lemma connect_ssh_quietly: "\<exists>r. quietly (connect_ssh A config :: ('w, unit) link_eff) r \<and> (r = Ok () \<longleftrightarrow> ssh_ready A config)"
proof -
  have auth: "\<exists>r. quietly (ssh_authenticate A config :: ('w, bool) link_eff) r \<and> (ssh_connected A True = Ok () \<longrightarrow> (r = Ok True \<longleftrightarrow> ssh_ready A config))"
  proof (cases "auth_method config")
    case (Password password)
    let ?r = "explain A (str_lit ''Password authentication failed: '') (password_auth A (ssh_username config) password)"
    have "quietly (ssh_authenticate A config :: ('w, bool) link_eff) ?r"
      unfolding ssh_authenticate_def Password ssh_auth_method.case by (rule quietly_step) (simp add: asks_nexus_def map_filter_simps)
    then show ?thesis using Password by (intro exI[of _ ?r]) (auto simp: ssh_ready_def)
  next
    case (PublicKey path passphrase)
    let ?r = "and_then (explain A (str_lit ''Failed to load private key: '') (key_loaded A path passphrase)) (\<lambda>_.
      and_then (explain A (str_lit ''Failed to get RSA hash algorithm: '') (rsa_hash A)) (\<lambda>_.
      explain A (str_lit ''Public key authentication failed: '') (publickey_auth A (ssh_username config))))"
    have "quietly (ssh_authenticate A config :: ('w, bool) link_eff) ?r"
      unfolding ssh_authenticate_def PublicKey ssh_auth_method.case
      by (intro quietly_seq quietly_step quietly_ret) (simp_all add: asks_nexus_def map_filter_simps)
    then show ?thesis using PublicKey by (intro exI[of _ ?r]) (auto simp: ssh_ready_def and_then_eq_Ok)
  next
    case Agent
    then show ?thesis using quietly_ret(1)[of "Panic NotYetImplemented"]
      by (intro exI[of _ "Panic NotYetImplemented"]) (auto simp: ssh_authenticate_def ssh_ready_def)
  qed
  then obtain r where r: "quietly (ssh_authenticate A config :: ('w, bool) link_eff) r" "ssh_connected A True = Ok () \<longrightarrow> (r = Ok True \<longleftrightarrow> ssh_ready A config)"
    by blast
  let ?e = "AnyhowMsg (str_lit ''SSH authentication failed'')"
  have ite: "quietly (if \<not> a then throw ?e else ret () :: ('w, unit) link_eff) (if a then Ok () else Err ?e)" for a
    by (cases a) (simp_all only: quietly_ret if_True if_False not_True_eq_False not_False_eq_True)
  have "quietly (connect_ssh A config :: ('w, unit) link_eff) (and_then (explain A (str_lit ''Failed to connect to SSH server: '') (ssh_connected A True))
      (\<lambda>_. and_then r (\<lambda>a. if a then Ok () else Err ?e)))"
    unfolding connect_ssh_def check_server_key_def
    by (rule quietly_seq[OF quietly_step quietly_seq[OF r(1) ite]]) (simp add: asks_nexus_def map_filter_simps)
  moreover have "and_then (explain A (str_lit ''Failed to connect to SSH server: '') (ssh_connected A True))
      (\<lambda>_. and_then r (\<lambda>a. if a then Ok () else Err ?e)) = Ok () \<longleftrightarrow> ssh_ready A config"
    using r(2) by (auto simp: and_then_eq_Ok ssh_ready_def split: if_splits)
  ultimately show ?thesis by blast
qed

lemma socket_channel_quietly:
  "\<exists>r. quietly (or_else (ssh_unix_socket_channel A path) (ssh_exec_socat_unix_socket A path) :: ('w, unit) link_eff) r \<and> (r = Ok () \<longleftrightarrow> socket_ready A path)"
proof -
  let ?m = "\<lambda>e. AnyhowMsg (str_lit ''Failed to open direct-streamlocal channel to '' @ path @ str_lit '': '' @
         rendered A e @ str_lit ''. Ensure OpenSSH is used on the remote side.'')"
  let ?r = "case streamlocal_opened A path of Err e \<Rightarrow> Err (?m e) | r \<Rightarrow> r"
  let ?q = "and_then (explain A (str_lit ''Failed to open SSH session channel: '') (session_opened A))
    (\<lambda>_. explain A (str_lit ''Failed to execute socat command: '') (command_started A (socat_command path)))"
  have "quietly (ssh_unix_socket_channel A path :: ('w, unit) link_eff) ?r"
    unfolding ssh_unix_socket_channel_def by (rule quietly_step) (simp add: asks_nexus_def map_filter_simps)
  moreover have "quietly (ssh_exec_socat_unix_socket A path :: ('w, unit) link_eff) ?q"
    unfolding ssh_exec_socat_unix_socket_def Let_def
    by (intro quietly_seq quietly_step) (simp_all add: asks_nexus_def map_filter_simps)
  ultimately have "quietly (or_else (ssh_unix_socket_channel A path) (ssh_exec_socat_unix_socket A path) :: ('w, unit) link_eff)
      (case ?r of Err e \<Rightarrow> ?q | _ \<Rightarrow> ?r)" by (rule quietly_or_else)
  moreover have "(case ?r of Err e \<Rightarrow> ?q | _ \<Rightarrow> ?r) = Ok () \<longleftrightarrow> socket_ready A path"
    by (cases "streamlocal_opened A path") (auto simp: socket_ready_def and_then_eq_Ok)
  ultimately show ?thesis by blast
qed

lemma tcp_channel_quietly: "\<exists>r. quietly (ssh_tcp_channel A host port) r \<and> (r = Ok () \<longleftrightarrow> tcpip_opened A host port = Ok ())"
  unfolding ssh_tcp_channel_def
  by (intro exI conjI, rule quietly_step) (simp_all add: asks_nexus_def map_filter_simps)

text \<open>A portal is asked for with \<open>ident\<close>, last of all, exactly if all went well before.\<close>

definition portal_last :: "(rstring \<Rightarrow> ('w, actor_id) eff) \<Rightarrow> rstring \<Rightarrow> bool \<Rightarrow> ('w, actor_id) link_eff \<Rightarrow> bool" where
  "portal_last connected ident ok m \<longleftrightarrow> (\<forall>w. \<exists>xs. asks_nexus xs = [] \<and>
     (if ok then
        (case connected ident (nexus_world w) of
           (Ok p, n) \<Rightarrow> m w = (Ok p, \<lparr>nexus_world = n, link_trace = link_trace w @ xs @ [AskNexus ident, SpawnReceiveLoop ident p]\<rparr>)
         | (r, n) \<Rightarrow> m w = (r, \<lparr>nexus_world = n, link_trace = link_trace w @ xs @ [AskNexus ident]\<rparr>))
      else \<not> is_ok (fst (m w)) \<and> snd (m w) = w\<lparr>link_trace := link_trace w @ xs\<rparr>))"

lemma register_eq:
  "register connected ident w = (case connected ident (nexus_world w) of
     (Ok p, n) \<Rightarrow> (Ok p, w\<lparr>nexus_world := n, link_trace := link_trace w @ [AskNexus ident, SpawnReceiveLoop ident p]\<rparr>)
   | (r, n) \<Rightarrow> (r, w\<lparr>nexus_world := n, link_trace := link_trace w @ [AskNexus ident]\<rparr>))"
  by (auto simp: register_def ask_nexus_def act_def seq_def Let_def split: prod.split outcome.split)

lemma portal_last_quietly:
  assumes "quietly m r" and "r = Ok () \<longleftrightarrow> ok"
  shows "portal_last connected ident ok (seq m (\<lambda>_. register connected ident))"
  unfolding portal_last_def
proof
  fix w
  obtain xs where 1: "asks_nexus xs = []" "m w = (r, w\<lparr>link_trace := link_trace w @ xs\<rparr>)"
    using assms(1) unfolding quietly_def by blast
  show "\<exists>xs. asks_nexus xs = [] \<and>
     (if ok then
        (case connected ident (nexus_world w) of
           (Ok p, n) \<Rightarrow> seq m (\<lambda>_. register connected ident) w =
             (Ok p, \<lparr>nexus_world = n, link_trace = link_trace w @ xs @ [AskNexus ident, SpawnReceiveLoop ident p]\<rparr>)
         | (r, n) \<Rightarrow> seq m (\<lambda>_. register connected ident) w = (r, \<lparr>nexus_world = n, link_trace = link_trace w @ xs @ [AskNexus ident]\<rparr>))
      else \<not> is_ok (fst (seq m (\<lambda>_. register connected ident) w)) \<and>
        snd (seq m (\<lambda>_. register connected ident) w) = w\<lparr>link_trace := link_trace w @ xs\<rparr>)"
  proof (cases r)
    case (Ok u)
    then have ok using assms(2) by simp
    then show ?thesis using 1 Ok
      by (intro exI[of _ xs]) (cases w, auto simp: seq_OkD register_eq split: prod.split outcome.split)
  qed (use 1 assms(2) in \<open>auto simp: seq_ErrD seq_PanicD\<close>)
qed


text \<open>The agent's method is declared but not there: choosing it panics once connected.\<close>

lemma ssh_agent_panics:
  "auth_method config = Agent \<Longrightarrow> ssh_connected A True = Ok () \<Longrightarrow>
    fst (connect_via_ssh_to_tcp connected A config host port w) = Panic NotYetImplemented"
  by (simp add: connect_via_ssh_to_tcp_def connect_ssh_def ssh_authenticate_def ssh_step_def act_def seq_def explain_def
      check_server_key_def)

text \<open>Any server's key is accepted, and a password goes to whatever server answers.\<close>

lemma ssh_password_to_any_server:
  "auth_method config = Password pw \<Longrightarrow> ssh_connected A True = Ok () \<Longrightarrow>
    AuthPassword (ssh_username config) pw \<in> set (link_trace (snd (connect_ssh (A\<lparr>server_key := k\<rparr>) config w)))"
  by (auto simp: connect_ssh_def ssh_authenticate_def ssh_step_def act_def seq_def explain_def check_server_key_def
      split: outcome.split)

text \<open>The path of the socket is part of the command as it is.\<close>

lemma socat_path_unquoted:
  "socat_command (str_lit ''/tmp/s; reboot'') = str_lit ''socat STDIO UNIX-CONNECT:/tmp/s; reboot''"
  by (simp add: socat_command_def str_lit_def)

section \<open>Accepting\<close>

text \<open>The surroundings of the nexus, when accepted connections can be served.\<close>

definition serves :: "('rm nexus_state \<Rightarrow> nexus_env) \<Rightarrow> conduit_sink \<Rightarrow> port \<Rightarrow> bool" where
  "serves envs sink rpc \<longleftrightarrow> (\<forall>st. spawns_new (envs st) st \<and> nexus_port_open (envs st) rpc \<and>
     (\<forall>g. \<exists>a. spawn_portal (envs st) g sink = Ok a) \<and> (\<forall>cb. callback_alive (envs st) cb))"

lemma connected_run:
  assumes "nexus_reach st live True" and "serves envs sink rpc"
  shows "\<exists>a st'. nexus_connected envs sink rpc ident (True, st) = (Ok a, (True, st')) \<and> a \<notin> live \<and>
    nexus_reach st' (insert a live) True \<and> portals st' = hm_insert a (ident, a) (portals st)"
proof -
  let ?E = "envs st" and ?g = "portal_args_of (envs st) ident"
  have new: "spawns_new ?E st" and op: "nexus_port_open ?E rpc" and cb: "\<And>c. callback_alive ?E c"
    and "\<exists>a. spawn_portal ?E ?g sink = Ok a" using assms(2) unfolding serves_def by blast+
  then obtain a where a: "spawn_portal ?E ?g sink = Ok a" by blast
  then have fresh: "a \<notin> spawned (nexus_outs st)" using new by (simp add: spawns_new_def)
  then have "a \<notin> live" using nexus_reach_inv[OF assms(1)] by (auto simp: nexus_inv_def)
  define st' where "st' = (let s1 = with_portal ?g ident a st; s2 = (case on_client_connected st of None \<Rightarrow> s1
      | Some c \<Rightarrow> s1\<lparr>nexus_outs := nexus_outs s1 @ [NotifyConnected c ident a]\<rparr>)
    in s2\<lparr>nexus_outs := nexus_outs s2 @ [ReplyPortal rpc a]\<rparr>)"
  have h: "nexus_handle ?E (Connected ident sink rpc) st = (Ok (), st')"
    by (simp add: nexus_handle_def handle_connected_cases a cb op nexus_reply_def nexus_emit_def st'_def Let_def split: option.split)
  have "spawned (nexus_outs st') = insert a (spawned (nexus_outs st))"
    by (auto simp: st'_def with_portal_def Let_def split: option.split)
  then have "nexus_reach st' (insert a live) True"
    using nexus_reach.message[OF assms(1) new h] fresh by (simp add: insert_Diff_if)
  moreover have "portal_reply rpc (drop (length (nexus_outs st)) (nexus_outs st')) = Some a"
    by (auto simp: st'_def with_portal_def Let_def split: option.split)
  moreover have "portals st' = hm_insert a (ident, a) (portals st)"
    by (simp add: st'_def with_portal_def Let_def split: option.split)
  ultimately show ?thesis
    using h \<open>a \<notin> live\<close> by (intro exI[of _ a] exI[of _ st']) (simp add: nexus_connected_def Let_def)
qed

lemma unix_identifier_inj: "unix_identifier path m = unix_identifier path n \<Longrightarrow> m = n"
  by (simp add: unix_identifier_def dec_digits_inj)

lemma accept_run:
  assumes "nexus_reach st live True" and "serves envs sink rpc" and "rest = [] \<or> (\<exists>r more. rest = r # more \<and> \<not> is_ok r)"
  shows "\<exists>as st' tr'. unix_accept_loop (nexus_connected envs sink rpc) path k (replicate n (Ok ()) @ rest)
      \<lparr>nexus_world = (True, st), link_trace = tr\<rparr> = (Ok (), \<lparr>nexus_world = (True, st'), link_trace = tr'\<rparr>) \<and>
    length as = n \<and> distinct as \<and> set as \<inter> live = {} \<and> nexus_reach st' (live \<union> set as) True \<and>
    (\<forall>i < n. hm_get (portals st') (as ! i) = Some (unix_identifier path (k + 1 + i), as ! i)) \<and>
    (\<forall>a \<in> live. hm_get (portals st') a = hm_get (portals st) a) \<and>
    tr' = tr @ concat (map (\<lambda>i. [AskNexus (unix_identifier path (k + 1 + i)),
      SpawnReceiveLoop (unix_identifier path (k + 1 + i)) (as ! i)]) [0..<n])"
  using assms(1)
proof (induction n arbitrary: k st live tr)
  case 0
  then show ?case using assms(3) by (auto split: outcome.split)
next
  case (Suc n)
  let ?id = "unix_identifier path (k + 1)"
  obtain a st1 where 1: "nexus_connected envs sink rpc ?id (True, st) = (Ok a, (True, st1))" "a \<notin> live"
    "nexus_reach st1 (insert a live) True" "portals st1 = hm_insert a (?id, a) (portals st)"
    using connected_run[OF Suc.prems assms(2)] by blast
  let ?tr = "tr @ [AskNexus ?id, SpawnReceiveLoop ?id a]"
  obtain as st' tr' where 2: "unix_accept_loop (nexus_connected envs sink rpc) path (k + 1) (replicate n (Ok ()) @ rest)
      \<lparr>nexus_world = (True, st1), link_trace = ?tr\<rparr> = (Ok (), \<lparr>nexus_world = (True, st'), link_trace = tr'\<rparr>)"
    "length as = n" "distinct as" "set as \<inter> insert a live = {}" "nexus_reach st' (insert a live \<union> set as) True"
    "\<forall>i < n. hm_get (portals st') (as ! i) = Some (unix_identifier path (k + 1 + 1 + i), as ! i)"
    "\<forall>b \<in> insert a live. hm_get (portals st') b = hm_get (portals st1) b"
    "tr' = ?tr @ concat (map (\<lambda>i. [AskNexus (unix_identifier path (k + 1 + 1 + i)),
      SpawnReceiveLoop (unix_identifier path (k + 1 + 1 + i)) (as ! i)]) [0..<n])"
    using Suc.IH[OF 1(3), of "k + 1" ?tr] by blast
  have run: "unix_accept_loop (nexus_connected envs sink rpc) path k (replicate (Suc n) (Ok ()) @ rest)
      \<lparr>nexus_world = (True, st), link_trace = tr\<rparr> = (Ok (), \<lparr>nexus_world = (True, st'), link_trace = tr'\<rparr>)"
    using 1(1) 2(1) by (simp add: unix_handle_connection_def register_eq seq_def)
  have upt: "[0..<Suc n] = 0 # map Suc [0..<n]" by (simp add: upt_conv_Cons map_Suc_upt del: upt_Suc)
  have "\<forall>i < Suc n. hm_get (portals st') ((a # as) ! i) = Some (unix_identifier path (k + 1 + i), (a # as) ! i)"
    using 2(6,7) 1(4) by (auto simp: less_Suc_eq_0_disj hm_get_insert)
  moreover have "\<forall>b \<in> live. hm_get (portals st') b = hm_get (portals st) b"
    using 2(7) 1(2,4) by (auto simp: hm_get_insert)
  moreover have "tr' = tr @ concat (map (\<lambda>i. [AskNexus (unix_identifier path (k + 1 + i)),
      SpawnReceiveLoop (unix_identifier path (k + 1 + i)) ((a # as) ! i)]) [0..<Suc n])"
    unfolding upt 2(8) by (simp add: comp_def)
  moreover have "nexus_reach st' (live \<union> set (a # as)) True" using 2(5) by (simp add: insert_commute Un_commute)
  ultimately show ?case
    using run 1(2) 2(2,3,4) by (rule_tac exI[of _ "a # as"], rule_tac exI[of _ st'], rule_tac exI[of _ tr']) auto
qed


definition next_portal_env :: "nat nexus_state \<Rightarrow> nexus_env" where
  "next_portal_env st = \<lparr>random_id = 1, spawn_portal = (\<lambda>_ _. Ok (Suc (Max (insert 0 (spawned (nexus_outs st)))))),
     callback_alive = (\<lambda>_. True), nexus_port_open = (\<lambda>_. True)\<rparr>"

lemma finite_spawned: "finite (spawned os)"
proof (induction os)
  case (Cons x os)
  then show ?case by (cases x) simp_all
qed simp

lemma next_portal_serves: "serves next_portal_env sink rpc"
proof -
  have "Suc (Max (insert 0 (spawned os))) \<notin> spawned os" for os :: "nat nexus_output list"
    using Max_ge[of "insert 0 (spawned os)"] finite_spawned[of os] by (metis Suc_n_not_le_n finite_insert insertCI)
  then show ?thesis by (auto simp: serves_def spawns_new_def next_portal_env_def)
qed


text \<open>A peer that connects and never finishes its WebSocket handshake keeps every later one waiting.\<close>

lemma ws_handshake_blocks: "ws_accept_loop connected (Ok (addr, None) # listener) w = (Ok (), w)"
  by simp

text \<open>Over ewebsock a server that cannot be reached is a panic, not an error.\<close>

lemma ews_unreachable_panics:
  "EwsOpened \<notin> set evts \<Longrightarrow> ews_connect connected url (Ok ()) evts True w = Some (Panic UnwrapErr, w)"
proof -
  have "EwsOpened \<notin> set evts \<Longrightarrow> snd (ews_events b evts) = 0" for b
    by (induction evts arbitrary: b) (auto simp: ews_handler_def Let_def case_prod_beta split: ews_event.split)
  then show "EwsOpened \<notin> set evts \<Longrightarrow> ?thesis" by (simp add: ews_connect_def)
qed

end
