(* ===== verification/Http.thy ===== *)
theory Http
  imports Establish
begin

text \<open>
  The three HTTP servers of the chat: \<open>chat_app/server/src/http_server.rs\<close>, and
  \<open>chat_app/wasm_server/src/main.rs\<close> and \<open>chat_app/wasmer_server/src/main.rs\<close>, which also
  serve the files of the browser's client. hyper is given by its documented behaviour: it
  completes an upgrade to a WebSocket after the response to the request was sent, that is after the
  handler has returned it. The embedded files are an argument.
\<close>

section \<open>Requests and responses\<close>

datatype http_method = Get | Head | OtherMethod

text \<open>An upgrade carries the result of \<open>hyper_tungstenite::upgrade\<close>.\<close>

datatype http_request = Upgrade "unit outcome" | Request http_method utext

record http_response =
  status :: nat
  content_type_header :: "rstring option"
  body :: bytes

definition plain_response :: "nat \<Rightarrow> bytes \<Rightarrow> http_response" where
  "plain_response s b = \<lparr>status = s, content_type_header = None, body = b\<rparr>"

definition switching_protocols :: http_response where
  "switching_protocols = plain_response 101 []"

definition not_found :: "utext \<Rightarrow> http_response" where
  "not_found path = plain_response 404 (str_lit ''404 Not Found: '' @ utf8_encode path)"

definition method_not_supported :: bytes where
  "method_not_supported = str_lit ''Method not supported''"

section \<open>The chat server\<close>

text \<open>The end of \<open>serve_websocket\<close>, once the upgrade is complete.\<close>

definition serve_websocket ::
    "(rstring \<Rightarrow> ('w, actor_id) eff) \<Rightarrow> nat \<Rightarrow> unit outcome \<Rightarrow> ('w, unit) link_eff" where
  "serve_websocket connected random websocket =
     seq (lift websocket) (\<lambda>_.
     seq (register connected (str_lit ''ws-client://'' @ dec_digits random)) (\<lambda>_. ret ()))"

text \<open>
  \<open>hello\<close> is polled by the connection that serves its request; \<open>upgraded\<close> is the upgrade's
  outcome, if it is complete. Its state: not begun, waiting for the upgrade, or done.
\<close>

datatype hello_state = Begun http_request | AwaitingUpgrade | Done "http_response outcome"

definition hello_poll ::
    "(rstring \<Rightarrow> ('w, actor_id) eff) \<Rightarrow> nat \<Rightarrow> unit outcome option \<Rightarrow> hello_state \<times> 'w link_world \<Rightarrow> hello_state \<times> 'w link_world" where
  "hello_poll connected random upgraded = (\<lambda>(s, w). case s of
     Begun req \<Rightarrow> (case req of
       Upgrade (Ok _) \<Rightarrow> (AwaitingUpgrade, w)
     | Upgrade (Err e) \<Rightarrow> (Done (Err e), w)
     | Upgrade (Panic p) \<Rightarrow> (Done (Panic p), w)
     | Request Get path \<Rightarrow> (Done (Ok (plain_response 200 (str_lit ''https://www.youtube.com/watch?v=SXRteMSSZ14''))), w)
     | Request _ path \<Rightarrow> (Done (Ok (plain_response 400 method_not_supported)), w))
   | AwaitingUpgrade \<Rightarrow> (case upgraded of
       None \<Rightarrow> (AwaitingUpgrade, w)
     | Some websocket \<Rightarrow> (case serve_websocket connected random websocket w of
         (Panic p, w') \<Rightarrow> (Done (Panic p), w') | (_, w') \<Rightarrow> (Done (Ok switching_protocols), w')))
   | Done r \<Rightarrow> (Done r, w))"

definition hello_done :: "hello_state \<Rightarrow> bool" where
  "hello_done s = (case s of Done _ \<Rightarrow> True | _ \<Rightarrow> False)"

text \<open>\<open>n\<close> polls; \<open>upgrade s\<close> is hyper's outcome of the upgrade while \<open>hello\<close> is in the state \<open>s\<close>.\<close>

fun hello_run ::
    "(rstring \<Rightarrow> ('w, actor_id) eff) \<Rightarrow> nat \<Rightarrow> (hello_state \<Rightarrow> unit outcome option) \<Rightarrow> nat \<Rightarrow>
     hello_state \<times> 'w link_world \<Rightarrow> hello_state \<times> 'w link_world" where
  "hello_run connected random upgrade 0 x = x"
| "hello_run connected random upgrade (Suc n) x =
     hello_run connected random upgrade n (hello_poll connected random (upgrade (fst x)) x)"

section \<open>The servers with files\<close>

text \<open>Both spawn \<open>serve_websocket\<close> and return: the second component says whether they have.\<close>

definition rsplit_once :: "nat \<Rightarrow> utext \<Rightarrow> (utext \<times> utext) option" where
  "rsplit_once d s = (case dropWhile (\<lambda>c. c \<noteq> d) (rev s) of
     [] \<Rightarrow> None | _ # rest \<Rightarrow> Some (rev rest, rev (takeWhile (\<lambda>c. c \<noteq> d) (rev s))))"

definition trim_slashes :: "utext \<Rightarrow> utext" where
  "trim_slashes = dropWhile (\<lambda>c. c = 47)"

definition wasm_content_type :: "utext \<Rightarrow> rstring" where
  "wasm_content_type ext =
     (if ext = lit ''html'' then str_lit ''text/html''
      else if ext = lit ''js'' then str_lit ''application/javascript''
      else if ext = lit ''css'' then str_lit ''text/css''
      else if ext = lit ''wasm'' then str_lit ''application/wasm''
      else if ext = lit ''json'' then str_lit ''application/json''
      else if ext = lit ''png'' then str_lit ''image/png''
      else if ext = lit ''ico'' then str_lit ''image/x-icon''
      else str_lit ''application/octet-stream'')"

definition wasm_hello :: "(utext \<Rightarrow> bytes option) \<Rightarrow> http_request \<Rightarrow> http_response outcome \<times> bool" where
  "wasm_hello assets req = (case req of
     Upgrade (Ok _) \<Rightarrow> (Ok switching_protocols, True)
   | Upgrade (Err e) \<Rightarrow> (Err e, False)
   | Upgrade (Panic p) \<Rightarrow> (Panic p, False)
   | Request Get path \<Rightarrow>
       (case assets (trim_slashes path) of
          Some embedded \<Rightarrow>
            (case rsplit_once 46 path of
               Some (_, ext) \<Rightarrow> Ok \<lparr>status = 200, content_type_header = Some (wasm_content_type ext), body = embedded\<rparr>
             | None \<Rightarrow> Panic UnwrapNone)
        | None \<Rightarrow>
            if path = [] \<or> path = lit ''/'' then
              (case assets (lit ''index.html'') of
                 Some index \<Rightarrow> Ok (plain_response 200 index) | None \<Rightarrow> Panic UnwrapNone)
            else if path = lit ''/healthz'' then Ok (plain_response 200 (str_lit ''OK''))
            else Ok (not_found path), False)
   | Request _ path \<Rightarrow> (Ok (plain_response 400 method_not_supported), False))"

definition wasmer_content_type :: "utext \<Rightarrow> rstring" where
  "wasmer_content_type path = (case map_option snd (rsplit_once 46 path) of
     Some ext \<Rightarrow>
       (if ext = lit ''html'' then str_lit ''text/html; charset=utf-8''
        else if ext = lit ''js'' then str_lit ''application/javascript''
        else if ext = lit ''css'' then str_lit ''text/css''
        else if ext = lit ''wasm'' then str_lit ''application/wasm''
        else if ext = lit ''json'' then str_lit ''application/json''
        else if ext = lit ''png'' then str_lit ''image/png''
        else if ext = lit ''ico'' then str_lit ''image/x-icon''
        else if ext = lit ''svg'' then str_lit ''image/svg+xml''
        else str_lit ''application/octet-stream'')
   | None \<Rightarrow> str_lit ''application/octet-stream'')"

definition serve_static :: "(utext \<Rightarrow> bytes option) \<Rightarrow> utext \<Rightarrow> http_response outcome" where
  "serve_static assets path =
     (if path = lit ''/healthz'' then Ok (plain_response 200 (str_lit ''OK''))
      else let asset_path = (if path = lit ''/'' \<or> path = [] then lit ''index.html'' else trim_slashes path)
           in case assets asset_path of
                Some asset \<Rightarrow> Ok \<lparr>status = 200, content_type_header = Some (wasmer_content_type asset_path), body = asset\<rparr>
              | None \<Rightarrow> Ok (not_found path))"

definition serve_request :: "(utext \<Rightarrow> bytes option) \<Rightarrow> http_request \<Rightarrow> http_response outcome \<times> bool" where
  "serve_request assets req = (case req of
     Upgrade (Ok _) \<Rightarrow> (Ok switching_protocols, True)
   | Upgrade (Err e) \<Rightarrow> (Err e, False)
   | Upgrade (Panic p) \<Rightarrow> (Panic p, False)
   | Request method path \<Rightarrow>
       (if method = Get \<or> method = Head then serve_static assets path
        else Ok (plain_response 405 method_not_supported), False))"

end
