(* ===== verification/Http_Props.thy ===== *)
theory Http_Props
  imports Http
begin

text \<open>The properties of the HTTP servers: which of them complete an upgrade, and what they serve.\<close>

section \<open>Upgrading\<close>

text \<open>hyper's documented behaviour: no upgrade is complete before the response was returned.\<close>

definition upgrades_after_response :: "(hello_state \<Rightarrow> unit outcome option) \<Rightarrow> bool" where
  "upgrades_after_response upgrade \<longleftrightarrow> (\<forall>s. \<not> hello_done s \<longrightarrow> upgrade s = None)"

text \<open>
  C22: The chat server never completes a WebSocket upgrade. hyper completes it once the handler
  has returned its response, and the handler waits for it before it returns: however often it is
  polled, it is not done, and the nexus is never asked for a portal. The other two servers spawn
  the waiting and answer at once, and their task then registers the connection.
\<close>

theorem upgrade_deadlocks:
  assumes "upgrades_after_response upgrade"
  shows "\<not> hello_done (fst (hello_run connected random upgrade n (Begun (Upgrade (Ok ())), w))) \<and>
    snd (hello_run connected random upgrade n (Begun (Upgrade (Ok ())), w)) = w \<and>
    wasm_hello assets (Upgrade (Ok ())) = (Ok switching_protocols, True) \<and>
    serve_request assets (Upgrade (Ok ())) = (Ok switching_protocols, True) \<and>
    (connected (str_lit ''ws-client://'' @ dec_digits random) (nexus_world w) = (Ok p, x) \<longrightarrow>
      serve_websocket connected random (Ok ()) w = (Ok (), w\<lparr>nexus_world := x, link_trace := link_trace w @
        [AskNexus (str_lit ''ws-client://'' @ dec_digits random), SpawnReceiveLoop (str_lit ''ws-client://'' @ dec_digits random) p]\<rparr>))"
proof -
  have wait: "hello_run connected random upgrade n (AwaitingUpgrade, w) = (AwaitingUpgrade, w)" for n
    using assms by (induction n) (simp_all add: hello_poll_def hello_done_def upgrades_after_response_def)
  have "\<not> hello_done (fst (hello_run connected random upgrade n (Begun (Upgrade (Ok ())), w))) \<and>
      snd (hello_run connected random upgrade n (Begun (Upgrade (Ok ())), w)) = w"
    by (cases n) (simp_all add: hello_poll_def wait hello_done_def)
  then show ?thesis
    by (simp add: wasm_hello_def serve_request_def serve_websocket_def register_def ask_nexus_def act_def seq_def)
qed

theorem upgrade_deadlocks_witness:
  "\<not> hello_done (fst (hello_run (\<lambda>_ n. (Ok 7, n)) 3 (\<lambda>s. if hello_done s then Some (Ok ()) else None) 1000
      (Begun (Upgrade (Ok ())), \<lparr>nexus_world = (), link_trace = []\<rparr>)))"
proof -
  have "upgrades_after_response (\<lambda>s. if hello_done s then Some (Ok ()) else None)" by (simp add: upgrades_after_response_def)
  from upgrade_deadlocks[OF this] show ?thesis by (rule conjunct1)
qed

lemma other_requests_answered:
  "hello_run connected random upgrade (Suc n) (Begun (Request m path), w) =
    (Done (Ok (if m = Get then plain_response 200 (str_lit ''https://www.youtube.com/watch?v=SXRteMSSZ14'')
       else plain_response 400 method_not_supported)), w)"
proof -
  have fin: "hello_run connected random upgrade n (Done r, w) = (Done r, w)" for r
    by (induction n) (simp_all add: hello_poll_def)
  show ?thesis by (cases m) (simp_all add: hello_poll_def fin)
qed

section \<open>Files\<close>

text \<open>What the two servers take for granted of the embedded files: there is a page, and every name has an extension.\<close>

definition site :: "(utext \<Rightarrow> bytes option) \<Rightarrow> bool" where
  "site assets \<longleftrightarrow> assets (lit ''index.html'') \<noteq> None \<and> assets (lit ''healthz'') = None \<and>
     (\<forall>name. assets name \<noteq> None \<longrightarrow> 46 \<in> set name)"

lemma set_trim_slashes: "set (trim_slashes path) \<subseteq> set path"
  by (auto simp: trim_slashes_def dest: set_dropWhileD)

lemma rsplit_once_some: "d \<in> set s \<Longrightarrow> \<exists>a b. rsplit_once d s = Some (a, b)"
proof -
  assume "d \<in> set s"
  then have "dropWhile (\<lambda>c. c \<noteq> d) (rev s) \<noteq> []" by (auto simp: dropWhile_eq_Nil_conv)
  then show ?thesis by (auto simp: rsplit_once_def split: list.split)
qed

lemma lit_slash: "lit ''/'' = [47]" "trim_slashes [47] = []" "trim_slashes [] = []"
    "trim_slashes (lit ''/healthz'') = lit ''healthz''"
  by (simp_all add: lit_def trim_slashes_def)

text \<open>
  The two servers with files serve the same site: for every path, a GET is answered by both
  with the same status and the same bytes, the file of that name or the page for the root, and
  otherwise 404; neither fails. The wasmer server answers every request but a failed upgrade.
\<close>

theorem static_servers_agree:
  assumes "site assets"
  shows "\<exists>r r'. wasm_hello assets (Request Get path) = (Ok r, False) \<and> serve_request assets (Request Get path) = (Ok r', False) \<and>
    status r = status r' \<and> body r = body r' \<and>
    (case assets (if path = [] \<or> path = lit ''/'' then lit ''index.html'' else trim_slashes path) of
       Some f \<Rightarrow> status r = 200 \<and> body r = f
     | None \<Rightarrow> status r = (if path = lit ''/healthz'' then 200 else 404))"
proof (cases "path = [] \<or> path = lit ''/''")
  case True
  obtain index where i: "assets (lit ''index.html'') = Some index" using assms by (auto simp: site_def)
  have n: "assets [] = None" using assms by (force simp: site_def)
  have "path \<noteq> lit ''/healthz''" using True by (auto simp: lit_def)
  then show ?thesis using True i n
    by (auto simp: wasm_hello_def serve_request_def serve_static_def lit_slash plain_response_def Let_def)
next
  case False
  show ?thesis
  proof (cases "assets (trim_slashes path)")
    case None
    then show ?thesis using False
      by (auto simp: wasm_hello_def serve_request_def serve_static_def plain_response_def not_found_def Let_def)
  next
    case (Some f)
    then have "46 \<in> set (trim_slashes path)" using assms by (auto simp: site_def)
    then obtain a b where ab: "rsplit_once 46 path = Some (a, b)" using rsplit_once_some set_trim_slashes by blast
    have "path \<noteq> lit ''/healthz''" using Some assms by (auto simp: site_def lit_slash)
    then show ?thesis using False Some ab
      by (simp add: wasm_hello_def serve_request_def serve_static_def Let_def)
  qed
qed

theorem static_servers_agree_witness:
  "\<exists>r r'. wasm_hello ([lit ''index.html'' \<mapsto> [1], lit ''a/b.js'' \<mapsto> [2, 3]]) (Request Get (lit ''/a/b.js'')) = (Ok r, False) \<and>
    serve_request ([lit ''index.html'' \<mapsto> [1], lit ''a/b.js'' \<mapsto> [2, 3]]) (Request Get (lit ''/a/b.js'')) = (Ok r', False) \<and>
    body r = body r' \<and> status r = 200 \<and> body r = [2, 3]"
proof -
  let ?assets = "[lit ''index.html'' \<mapsto> [1], lit ''a/b.js'' \<mapsto> [2, 3]]"
  have "site ?assets" by (auto simp: site_def lit_def)
  from static_servers_agree[OF this, of "lit ''/a/b.js''"] show ?thesis
    by (auto simp: lit_def trim_slashes_def)
qed

text \<open>An embedded file without an extension makes the wasm server's handler panic.\<close>

lemma dotless_asset_panics:
  assumes "assets (trim_slashes path) \<noteq> None" and "46 \<notin> set path"
  shows "wasm_hello assets (Request Get path) = (Panic UnwrapNone, False)"
proof -
  have "dropWhile (\<lambda>c. c \<noteq> 46) (rev path) = []" using assms(2) by (auto simp: dropWhile_eq_Nil_conv)
  then have "rsplit_once 46 path = None" unfolding rsplit_once_def by (simp only: list.case)
  then show ?thesis using assms(1) by (auto simp: wasm_hello_def)
qed

end
