(* ===== verification/Ffi.thy ===== *)
theory Ffi
  imports Decimal Chat_Protocol
begin

text \<open>
  The foreign-function interface of \<open>uniffi_test/rust_project/src\<close>, through which a
  program in another language uses the library: its errors (\<open>error.rs\<close>), its messages and
  their conversions (\<open>messages.rs\<close>, \<open>ffi_messages.rs\<close>, \<open>callbacks.rs\<close>), reply ports
  (\<open>ffi_rpc.rs\<close>), actors (\<open>ffi_actors.rs\<close>), runtime and connections (\<open>ffi_core.rs\<close>). A
  foreign program is a sequence of calls; what its handlers are called with is recorded.
\<close>

section \<open>Errors\<close>

text \<open>The text of an error: one the code writes, or the rendering of another error.\<close>

datatype reason = Said rstring | Rendered werror

datatype wormhole_error =
    RuntimeNotInitialized
  | ConnectionFailed reason
  | HandshakeTimeout
  | ActorNotFound rstring
  | SendFailed reason
  | SerializationError reason
  | InternalError reason
  | ReplyPortConsumed
  | ActorStopped

datatype 'a ffi = Value 'a | Fails wormhole_error | Panics panic

text \<open>\<open>map_err\<close> on the result of an inner call, and \<open>?\<close>.\<close>

definition map_err :: "(werror \<Rightarrow> wormhole_error) \<Rightarrow> 'a outcome \<Rightarrow> 'a ffi" where
  "map_err f r = (case r of Ok a \<Rightarrow> Value a | Err e \<Rightarrow> Fails (f e) | Panic p \<Rightarrow> Panics p)"

definition ffi_seq :: "'a ffi \<times> 's \<Rightarrow> ('a \<Rightarrow> 's \<Rightarrow> 'b ffi \<times> 's) \<Rightarrow> 'b ffi \<times> 's" where
  "ffi_seq r f = (case r of
     (Value a, s) \<Rightarrow> f a s | (Fails e, s) \<Rightarrow> (Fails e, s) | (Panics p, s) \<Rightarrow> (Panics p, s))"

lemma ffi_seq_simps [simp]:
  "ffi_seq (Value a, s) f = f a s" "ffi_seq (Fails e, s) f = (Fails e, s)" "ffi_seq (Panics p, s) f = (Panics p, s)"
  by (simp_all add: ffi_seq_def)

lemma map_err_simps [simp]:
  "map_err f (Ok a) = Value a" "map_err f (Err e) = Fails (f e)" "map_err f (Panic p) = Panics p"
  by (simp_all add: map_err_def)

text \<open>\<open>opt.ok_or(e)?\<close>\<close>

definition ok_or :: "'a option \<Rightarrow> wormhole_error \<Rightarrow> 'a ffi" where
  "ok_or x e = (case x of Some a \<Rightarrow> Value a | None \<Rightarrow> Fails e)"

lemma ok_or_simps [simp]: "ok_or (Some a) e = Value a" "ok_or None e = Fails e"
  by (simp_all add: ok_or_def)

section \<open>Messages\<close>

datatype client_message =
    CmUserConnected rstring
  | CmUserDisconnected rstring
  | CmMessageReceived rstring rstring
  | CmServerShutdown

datatype ffi_client_message =
    FfiUserConnected rstring
  | FfiUserDisconnected rstring
  | FfiMessageReceived rstring rstring
  | FfiServerShutdown

definition client_of_ffi :: "ffi_client_message \<Rightarrow> client_message" where
  "client_of_ffi msg = (case msg of
     FfiUserConnected al \<Rightarrow> CmUserConnected al
   | FfiUserDisconnected al \<Rightarrow> CmUserDisconnected al
   | FfiMessageReceived sender content \<Rightarrow> CmMessageReceived sender content
   | FfiServerShutdown \<Rightarrow> CmServerShutdown)"

definition ffi_of_client :: "client_message \<Rightarrow> ffi_client_message" where
  "ffi_of_client msg = (case msg of
     CmUserConnected al \<Rightarrow> FfiUserConnected al
   | CmUserDisconnected al \<Rightarrow> FfiUserDisconnected al
   | CmMessageReceived sender content \<Rightarrow> FfiMessageReceived sender content
   | CmServerShutdown \<Rightarrow> FfiServerShutdown)"

text \<open>Messages for a server and a hub carry reply ports and references.\<close>

datatype server_message = SmPostMessage rstring port | SmListUsers port

datatype hub_msg = HmConnect actor_id port

datatype ffi_conduit_message = FfiText rstring | FfiBinary bytes | FfiClose "rstring option"

definition ffi_of_conduit :: "conduit_message \<Rightarrow> ffi_conduit_message" where
  "ffi_of_conduit msg = (case msg of
     CmHandshake s \<Rightarrow> FfiText s | CmContent d \<Rightarrow> FfiBinary d | CmClose r \<Rightarrow> FfiClose r)"

definition conduit_of_ffi :: "ffi_conduit_message \<Rightarrow> conduit_message" where
  "conduit_of_ffi msg = (case msg of
     FfiText content \<Rightarrow> CmHandshake content | FfiBinary d \<Rightarrow> CmContent d | FfiClose r \<Rightarrow> CmClose r)"

section \<open>The protocol on the wire\<close>

text \<open>The types of \<open>messages.rs\<close> as items of the derive macro.\<close>

datatype ffi_ty = FString | FUserAlias | FContent | FClientRef | FConnectReply | FAckReply | FUserListReply

definition ffi_user_alias :: "ffi_ty fields" where "ffi_user_alias = TupleFields [FString]"
definition ffi_message_content :: "ffi_ty fields" where "ffi_message_content = TupleFields [FString]"

definition ffi_hub_item :: "(rstring \<times> ffi_ty fields) list" where
  "ffi_hub_item = [(str_lit ''Connect'', TupleFields [FClientRef, FConnectReply])]"

definition ffi_server_item :: "(rstring \<times> ffi_ty fields) list" where
  "ffi_server_item =
     [(str_lit ''PostMessage'', TupleFields [FContent, FAckReply]), (str_lit ''ListUsers'', TupleFields [FUserListReply])]"

definition ffi_client_item :: "(rstring \<times> ffi_ty fields) list" where
  "ffi_client_item =
     [(str_lit ''UserConnected'', TupleFields [FUserAlias]),
      (str_lit ''UserDisconnected'', TupleFields [FUserAlias]),
      (str_lit ''MessageReceived'', TupleFields [FUserAlias, FContent]),
      (str_lit ''ServerShutdown'', UnitFields)]"

definition ffi_string_imm :: "ffi_ty \<Rightarrow> ('s, chat_value) immat" where
  "ffi_string_imm ty = embed_imm the_str immaterialize_string"

definition ffi_string_rem :: "platform \<Rightarrow> ffi_ty \<Rightarrow> ('t, chat_value) remat" where
  "ffi_string_rem P ty = embed_rem VStr (rematerialize_string P)"

definition ffi_imm :: "'rm protocol \<Rightarrow> (ffi_ty \<Rightarrow> 'rm) \<Rightarrow> ffi_ty \<Rightarrow> (('rm, 'f) node, chat_value) immat" where
  "ffi_imm X receiver ty = (case ty of
     FString \<Rightarrow> ffi_string_imm ty
   | FUserAlias \<Rightarrow> embed_imm the_struct (immaterialize_struct ffi_string_imm ffi_user_alias)
   | FContent \<Rightarrow> embed_imm the_struct (immaterialize_struct ffi_string_imm ffi_message_content)
   | FClientRef \<Rightarrow> embed_imm the_actor (immaterialize_actor_ref (proto_env X) (rid_enc X) (receiver ty))
   | _ \<Rightarrow> embed_imm the_port (immaterialize_replychannel (proto_env X) (rpc_enc X) (rpc_timeout X) (receiver ty)))"

definition ffi_rem :: "platform \<Rightarrow> 'rm protocol \<Rightarrow> ffi_ty \<Rightarrow> (('rm, 'f) node, chat_value) remat" where
  "ffi_rem P X ty = (case ty of
     FString \<Rightarrow> ffi_string_rem P ty
   | FUserAlias \<Rightarrow> embed_rem VStruct (rematerialize_struct P (\<lambda>_ _. None) (ffi_string_rem P) ffi_user_alias)
   | FContent \<Rightarrow> embed_rem VStruct (rematerialize_struct P (\<lambda>_ _. None) (ffi_string_rem P) ffi_message_content)
   | FClientRef \<Rightarrow> embed_rem VActor (rematerialize_actor_ref (rid_dec X))
   | _ \<Rightarrow> embed_rem VPort (rematerialize_replychannel (rpc_dec X)))"

text \<open>A message for a client as a value of its item, and back.\<close>

definition client_value :: "client_message \<Rightarrow> rstring \<times> chat_value list" where
  "client_value msg = (case msg of
     CmUserConnected al \<Rightarrow> (str_lit ''UserConnected'', [VStruct [VStr al]])
   | CmUserDisconnected al \<Rightarrow> (str_lit ''UserDisconnected'', [VStruct [VStr al]])
   | CmMessageReceived sender content \<Rightarrow> (str_lit ''MessageReceived'', [VStruct [VStr sender], VStruct [VStr content]])
   | CmServerShutdown \<Rightarrow> (str_lit ''ServerShutdown'', []))"

section \<open>Remote actor ids\<close>

record ffi_remote_actor_id =
  ffi_connection_key :: "128 word"
  ffi_side :: "128 word"
  ffi_id :: "128 word"

definition ffi_of_remote_id :: "remote_actor_id \<Rightarrow> ffi_remote_actor_id" where
  "ffi_of_remote_id rid =
     \<lparr>ffi_connection_key = (case connection_key rid of ConduitID k \<Rightarrow> k),
      ffi_side = (case side rid of LocalPortalId l \<Rightarrow> l),
      ffi_id = (case opaque_id rid of OpaqueActorId i \<Rightarrow> i)\<rparr>"

definition remote_id_of_ffi :: "ffi_remote_actor_id \<Rightarrow> remote_actor_id" where
  "remote_id_of_ffi f =
     \<lparr>connection_key = ConduitID (ffi_connection_key f), side = LocalPortalId (ffi_side f),
      opaque_id = OpaqueActorId (ffi_id f)\<rparr>"

text \<open>\<open>custom_type!(u128, String, \<dots>)\<close>\<close>

definition u128_lower :: "128 word \<Rightarrow> rstring" where
  "u128_lower obj = dec_digits (unat obj)"

definition u128_try_lift :: "rstring \<Rightarrow> 128 word option" where
  "u128_try_lift val = map_option of_nat (parse_dec (2 ^ 128) val)"

section \<open>Reply ports\<close>

text \<open>
  All three wrappers hold the port in an option. A reply returns its result, what the wrapper
  still holds, and what went through the port; \<open>is_open p\<close>: the asker still waits.
\<close>

type_synonym 'r port_reply = "unit ffi \<times> port option \<times> (port \<times> 'r) list"

definition take_port :: "port option \<Rightarrow> (port \<Rightarrow> unit ffi \<times> (port \<times> 'r) list) \<Rightarrow> 'r port_reply" where
  "take_port inner k = (case ok_or inner ReplyPortConsumed of
     Value port \<Rightarrow> (let (r, sent) = k port in (r, None, sent))
   | Fails e \<Rightarrow> (Fails e, None, [])
   | Panics p \<Rightarrow> (Panics p, None, []))"

definition port_send :: "(port \<Rightarrow> bool) \<Rightarrow> rstring \<Rightarrow> port \<Rightarrow> 'r \<Rightarrow> unit ffi \<times> (port \<times> 'r) list" where
  "port_send open_port failure port r =
     (if open_port port then (Value (), [(port, r)]) else (Fails (SendFailed (Said failure)), []))"

definition connect_reply ::
    "(port \<Rightarrow> bool) \<Rightarrow> rstring \<Rightarrow> actor_id option \<Rightarrow> port option \<Rightarrow> (rstring \<times> actor_id) port_reply" where
  "connect_reply open_port al server_actor inner =
     take_port inner (\<lambda>port. case ok_or server_actor ActorStopped of
       Value server_ref \<Rightarrow> port_send open_port (str_lit ''Failed to send connect reply'') port (al, server_ref)
     | Fails e \<Rightarrow> (Fails e, [])
     | Panics p \<Rightarrow> (Panics p, []))"

definition ack_reply :: "(port \<Rightarrow> bool) \<Rightarrow> port option \<Rightarrow> unit port_reply" where
  "ack_reply open_port inner =
     take_port inner (\<lambda>port. port_send open_port (str_lit ''Failed to send ack'') port ())"

definition user_list_reply :: "(port \<Rightarrow> bool) \<Rightarrow> rstring list \<Rightarrow> port option \<Rightarrow> rstring list port_reply" where
  "user_list_reply open_port users inner =
     take_port inner (\<lambda>port. port_send open_port (str_lit ''Failed to send user list'') port users)"

definition is_consumed :: "port option \<Rightarrow> bool" where
  "is_consumed inner \<longleftrightarrow> inner = None"

section \<open>Actors of the foreign program\<close>

text \<open>
  A local actor is held in an option too. \<open>stopped\<close> collects the actors that \<open>stop\<close> was
  called on.
\<close>

definition local_stop :: "actor_id option \<times> actor_id list \<Rightarrow> actor_id option \<times> actor_id list" where
  "local_stop = (\<lambda>(actor_ref, stopped). case actor_ref of
     Some actor \<Rightarrow> (None, stopped @ [actor]) | None \<Rightarrow> (None, stopped))"

definition local_is_running :: "actor_id option \<Rightarrow> bool" where
  "local_is_running actor_ref \<longleftrightarrow> actor_ref \<noteq> None"

definition local_to_ref :: "actor_id option \<Rightarrow> actor_id ffi" where
  "local_to_ref actor_ref = ok_or actor_ref ActorStopped"

text \<open>What the three kinds of actor make of their messages, one after the other.\<close>

fun chat_client_actor :: "client_message list \<Rightarrow> ffi_client_message list" where
  "chat_client_actor [] = []"
| "chat_client_actor (msg # rx) = (let ffi_msg = ffi_of_client msg in ffi_msg # chat_client_actor rx)"

datatype server_call = ReceivePostMessage rstring "port option" | ReceiveListUsers "port option"

fun chat_server_actor :: "server_message list \<Rightarrow> server_call list" where
  "chat_server_actor [] = []"
| "chat_server_actor (msg # rx) = (case msg of
     SmPostMessage content rpc \<Rightarrow> ReceivePostMessage content (Some rpc)
   | SmListUsers rpc \<Rightarrow> ReceiveListUsers (Some rpc)) # chat_server_actor rx"

datatype hub_call = ReceiveConnect actor_id "port option"

fun hub_actor :: "hub_msg list \<Rightarrow> hub_call list" where
  "hub_actor [] = []"
| "hub_actor (msg # rx) = (case msg of
     HmConnect client_ref rpc \<Rightarrow> ReceiveConnect client_ref (Some rpc)) # hub_actor rx"

text \<open>
  Sending through a reference. \<open>takes\<close>: the actor behind it takes messages; a call returns
  its result and what was sent.
\<close>

definition client_ref_send :: "bool \<Rightarrow> ffi_client_message \<Rightarrow> unit ffi \<times> client_message list" where
  "client_ref_send takes msg =
     (let internal_msg = client_of_ffi msg
      in if takes then (Value (), [internal_msg]) else (Fails (SendFailed (Rendered SendError)), []))"

definition send_user_connected :: "bool \<Rightarrow> rstring \<Rightarrow> unit ffi \<times> client_message list" where
  "send_user_connected takes al = client_ref_send takes (FfiUserConnected al)"

definition send_user_disconnected :: "bool \<Rightarrow> rstring \<Rightarrow> unit ffi \<times> client_message list" where
  "send_user_disconnected takes al = client_ref_send takes (FfiUserDisconnected al)"

definition send_chat_message :: "bool \<Rightarrow> rstring \<Rightarrow> rstring \<Rightarrow> unit ffi \<times> client_message list" where
  "send_chat_message takes sender content = client_ref_send takes (FfiMessageReceived sender content)"

definition send_server_shutdown :: "bool \<Rightarrow> unit ffi \<times> client_message list" where
  "send_server_shutdown takes = client_ref_send takes FfiServerShutdown"

definition post_message :: "bool \<Rightarrow> rstring \<Rightarrow> port \<Rightarrow> unit awaited \<Rightarrow> unit ffi \<times> server_message list" where
  "post_message takes content rpc rx =
     (let (r, sent) = ask_actor takes (SmPostMessage content) rpc rx
      in (map_err (\<lambda>e. SendFailed (Rendered e)) r, sent))"

definition list_users :: "bool \<Rightarrow> port \<Rightarrow> rstring list awaited \<Rightarrow> rstring list ffi \<times> server_message list" where
  "list_users takes rpc rx =
     (let (r, sent) = ask_actor takes SmListUsers rpc rx
      in (map_err (\<lambda>e. SendFailed (Rendered e)) r, sent))"

definition hub_ref_connect ::
    "bool \<Rightarrow> actor_id option \<Rightarrow> port \<Rightarrow> (rstring \<times> actor_id) awaited \<Rightarrow> (rstring \<times> actor_id) ffi \<times> hub_msg list" where
  "hub_ref_connect takes client_actor rpc rx = (case ok_or client_actor ActorStopped of
     Value client_ref \<Rightarrow>
       (let (r, sent) = ask_actor takes (HmConnect client_ref) rpc rx
        in (map_err (\<lambda>e. SendFailed (Rendered e)) r, sent))
   | Fails e \<Rightarrow> (Fails e, [])
   | Panics p \<Rightarrow> (Panics p, []))"

section \<open>The runtime\<close>

record ffi_runtime =
  nexus_ref :: "actor_id option"
  nexus_stopped :: "actor_id list"

definition runtime_new :: "unit outcome \<Rightarrow> actor_id outcome \<Rightarrow> ffi_runtime ffi" where
  "runtime_new built started =
     fst (ffi_seq (map_err (\<lambda>e. InternalError (Rendered e)) built, ()) (\<lambda>_ _.
          ffi_seq (map_err (\<lambda>e. InternalError (Rendered e)) started, ()) (\<lambda>nexus _.
          (Value \<lparr>nexus_ref = Some nexus, nexus_stopped = []\<rparr>, ()))))"

definition runtime_shutdown :: "ffi_runtime \<Rightarrow> ffi_runtime" where
  "runtime_shutdown rt = (case nexus_ref rt of
     Some n \<Rightarrow> rt\<lparr>nexus_ref := None, nexus_stopped := nexus_stopped rt @ [n]\<rparr>
   | None \<Rightarrow> rt)"

section \<open>Connections\<close>

text \<open>
  \<open>tx_to_rust\<close>: the sender half is still held; \<open>fed\<close>: what went into the channel;
  \<open>portal_stopped\<close>: the portals that \<open>disconnect\<close> has stopped.
\<close>

record ffi_connection =
  portal_ref :: "actor_id option"
  tx_to_rust :: bool
  conn_identifier :: rstring
  fed :: "conduit_message list"
  portal_stopped :: "actor_id list"

text \<open>
  Towards the transport: the portal's sink sends into a channel, and a task hands on what it
  takes from there until the sink is gone; then it closes the transport.
\<close>

datatype transport_call = TransportSend ffi_conduit_message | TransportClose

definition sink_from_sender :: "bool \<Rightarrow> conduit_message \<Rightarrow> (conduit_message list, unit) eff" where
  "sink_from_sender receiver_there msg = (\<lambda>ch. if receiver_there then (Ok (), ch @ [msg]) else (Err SendError, ch))"

fun transport_task :: "conduit_message list \<Rightarrow> transport_call list" where
  "transport_task [] = [TransportClose]"
| "transport_task (msg # rx) = TransportSend (ffi_of_conduit msg) # transport_task rx"

definition source_from_receiver :: "conduit_message list \<Rightarrow> conduit_message outcome list" where
  "source_from_receiver rx = map Ok rx"

text \<open>\<open>connected\<close> is the nexus's answer; \<open>from_sink_source\<close> is that of the library.\<close>

definition create_connection :: "(rstring \<Rightarrow> actor_id outcome) \<Rightarrow> rstring \<Rightarrow> ffi_runtime \<Rightarrow> ffi_connection ffi" where
  "create_connection connected identifier rt = (case ok_or (nexus_ref rt) RuntimeNotInitialized of
     Value nexus \<Rightarrow>
       (case map_err (\<lambda>e. ConnectionFailed (Rendered e)) (fst (from_sink_source connected identifier ([] :: conduit_message list))) of
          Value portal_actor \<Rightarrow> Value \<lparr>portal_ref = Some portal_actor, tx_to_rust = True, conn_identifier = identifier,
             fed = [], portal_stopped = []\<rparr>
        | Fails e \<Rightarrow> Fails e
        | Panics p \<Rightarrow> Panics p)
   | Fails e \<Rightarrow> Fails e
   | Panics p \<Rightarrow> Panics p)"

definition connection_closed :: wormhole_error where
  "connection_closed = ConnectionFailed (Said (str_lit ''Connection closed''))"

text \<open>\<open>receiving\<close>: the receive loop still holds the other end.\<close>

definition on_message_received :: "bool \<Rightarrow> ffi_conduit_message \<Rightarrow> ffi_connection \<Rightarrow> unit ffi \<times> ffi_connection" where
  "on_message_received receiving message c =
     (if tx_to_rust c
      then if receiving then (Value (), c\<lparr>fed := fed c @ [conduit_of_ffi message]\<rparr>)
           else (Fails (SendFailed (Rendered SendError)), c)
      else (Fails connection_closed, c))"

definition disconnect :: "ffi_connection \<Rightarrow> ffi_connection" where
  "disconnect c = (let c = c\<lparr>tx_to_rust := False\<rparr> in case portal_ref c of
     Some p \<Rightarrow> c\<lparr>portal_ref := None, portal_stopped := portal_stopped c @ [p]\<rparr>
   | None \<Rightarrow> c)"

definition get_identifier :: "ffi_connection \<Rightarrow> rstring" where
  "get_identifier c = conn_identifier c"

definition get_portal :: "ffi_connection \<Rightarrow> actor_id ffi" where
  "get_portal c = ok_or (portal_ref c) connection_closed"

text \<open>What goes through the connection's portal runs on the node of that portal.\<close>

definition on_node :: "(werror \<Rightarrow> wormhole_error) \<Rightarrow> ('rm, 'f, 'a) node_eff \<Rightarrow> ('rm, 'f) node \<Rightarrow> 'a ffi \<times> ('rm, 'f) node" where
  "on_node f m n = (let (r, n') = m n in (map_err f r, n'))"

definition wait_for_handshake ::
    "ffi_connection \<Rightarrow> nat \<Rightarrow> unit awaited \<Rightarrow> ('rm, 'f) node \<Rightarrow> unit ffi \<times> ('rm, 'f) node" where
  "wait_for_handshake c timeout rx n =
     ffi_seq (get_portal c, n) (\<lambda>portal n.
     on_node (\<lambda>_. HandshakeTimeout) (ask WaitForHandshake (Some timeout) rx) n)"

text \<open>The three functions that publish an actor differ in its type alone; \<open>actor\<close> is what its wrapper holds.\<close>

definition publish_local_actor ::
    "ffi_connection \<Rightarrow> rstring \<Rightarrow> actor_id option \<Rightarrow> 'rm \<Rightarrow> ('rm, 'f) node \<Rightarrow> unit ffi \<times> ('rm, 'f) node" where
  "publish_local_actor c name actor receiver n =
     ffi_seq (get_portal c, n) (\<lambda>portal n.
     ffi_seq (ok_or actor ActorStopped, n) (\<lambda>actor_ref n.
     on_node (\<lambda>e. InternalError (Rendered e)) (publish_named_actor name actor_ref receiver) n))"

definition query_named_actor ::
    "rstring \<Rightarrow> remote_actor_id outcome awaited \<Rightarrow> ('rm, 'f) node \<Rightarrow> remote_actor_id ffi \<times> ('rm, 'f) node" where
  "query_named_actor name rx n =
     ffi_seq (on_node (\<lambda>e. InternalError (Rendered e)) (ask (QueryNamedRemoteActor name) None rx) n) (\<lambda>result n.
     (map_err (\<lambda>_. ActorNotFound name) result, n))"

text \<open>So do the three that look a remote actor up.\<close>

definition get_remote_actor ::
    "ffi_connection \<Rightarrow> rstring \<Rightarrow> remote_actor_id outcome awaited \<Rightarrow> ('rm, 'f) node \<Rightarrow> actor_id ffi \<times> ('rm, 'f) node" where
  "get_remote_actor c name rx n =
     ffi_seq (get_portal c, n) (\<lambda>portal n.
     ffi_seq (query_named_actor name rx n) (\<lambda>remote_id n.
     on_node (\<lambda>e. InternalError (Rendered e)) (instantiate_proxy remote_id) n))"

end
