(* ===== verification/Ffi_Props.thy ===== *)
theory Ffi_Props
  imports Ffi Chat_Props
begin

text \<open>
  The properties of the foreign-function interface: what crosses it comes out as it went in,
  a reply port replies once, and an error tells what went wrong.
\<close>

section \<open>Conversions\<close>

lemma client_conversions [simp]: "ffi_of_client (client_of_ffi m) = m" "client_of_ffi (ffi_of_client c) = c"
  by (cases m, simp_all add: ffi_of_client_def client_of_ffi_def, cases c, simp_all add: ffi_of_client_def client_of_ffi_def)

lemma conduit_conversions [simp]: "ffi_of_conduit (conduit_of_ffi f) = f" "conduit_of_ffi (ffi_of_conduit m) = m"
  by (cases f, simp_all add: ffi_of_conduit_def conduit_of_ffi_def, cases m, simp_all add: ffi_of_conduit_def conduit_of_ffi_def)

lemma chat_client_actor_map: "chat_client_actor ms = map ffi_of_client ms"
  by (induction ms) (simp_all add: Let_def)

lemma transport_task_map: "transport_task ms = map (\<lambda>m. TransportSend (ffi_of_conduit m)) ms @ [TransportClose]"
  by (induction ms) simp_all

lemma parse_dec_overflow: "bound \<le> n \<Longrightarrow> 0 < bound \<Longrightarrow> parse_digits bound 0 (dec_digits n) = None"
proof (induction n rule: dec_digits.induct)
  case (1 n)
  show ?case
  proof (cases "n < 10")
    case True
    then show ?thesis using 1(2) by (subst dec_digits.simps) (simp add: byte_compare)
  next
    case False
    show ?thesis
    proof (cases "n div 10 < bound")
      case True
      have "n mod 10 \<le> 9" "n div 10 * 10 + n mod 10 = n" by (simp_all add: div_mult_mod_eq)
      then show ?thesis using False 1(2) parse_dec_digits[OF True]
        by (subst dec_digits.simps) (simp add: parse_digits_append byte_compare)
    next
      case False
      with 1 \<open>\<not> n < 10\<close> show ?thesis by (subst dec_digits.simps) (simp add: parse_digits_append)
    qed
  qed
qed

text \<open>
  An actor's id survives its way through a foreign program: its three numbers are lowered
  to decimal texts, and lifting these gives the id again. No other decimal rendering is read as
  an id out of range: a number that needs more than 128 bits is refused.
\<close>

theorem ffi_id_roundtrip:
  "remote_id_of_ffi (ffi_of_remote_id rid) = rid \<and> ffi_of_remote_id (remote_id_of_ffi f) = f \<and>
   u128_try_lift (u128_lower w) = Some w \<and> utf8_valid (u128_lower w) \<and>
   u128_try_lift (dec_digits n) = (if n < 2 ^ 128 then Some (of_nat n) else None)"
proof -
  have ids: "remote_id_of_ffi (ffi_of_remote_id rid) = rid" "ffi_of_remote_id (remote_id_of_ffi f) = f"
    by (cases rid, simp add: remote_id_of_ffi_def ffi_of_remote_id_def split: conduit_id.split local_portal_id.split opaque_actor_id.split)
      (cases f, simp add: remote_id_of_ffi_def ffi_of_remote_id_def)
  have w: "unat w < 2 ^ 128" using unsigned_less[of w] by simp
  have lift: "u128_try_lift (dec_digits m) = (if m < 2 ^ 128 then Some (of_nat m) else None)" for m
    using dec_roundtrip[of m "2 ^ 128"] parse_dec_overflow[of "2 ^ 128" m] dec_digits_head[of m]
    by (auto simp: u128_try_lift_def parse_dec_def)
  have "list_all (\<lambda>b. 48 \<le> b \<and> b \<le> 57) bs \<Longrightarrow> utf8_valid bs" for bs :: rstring
    by (induction bs) (auto simp: word_le_nat_alt word_less_nat_alt)
  then have "utf8_valid (u128_lower w)" by (simp add: u128_lower_def dec_digits_ascii)
  then show ?thesis using ids lift[of "unat w"] lift[of n] w by (simp add: u128_lower_def)
qed

section \<open>A message from one foreign program to another\<close>

lemma ffi_string_table:
  assumes "wf_platform P"
  shows "derive_table P node_inv node_le node_inv node_le ffi_string_imm (ffi_string_rem P)
    (\<lambda>_. embed_good the_str utf8_valid) (\<lambda>_. embed_rel the_str VStr rel_eq)"
proof (intro derive_table.intro derive_table_axioms.intro)
  show "transmat_world P node_le node_le" by (rule node_world[OF assms])
  show "transmat P node_inv node_le node_inv node_le (ffi_string_imm ty) (ffi_string_rem P ty)
      (embed_good the_str utf8_valid) (embed_rel the_str VStr rel_eq)" for ty
    unfolding ffi_string_imm_def ffi_string_rem_def
    by (rule transmat_embed[OF transmat_string[OF node_world[OF assms]]])
qed

abbreviation "ffi_string_good \<equiv> \<lambda>_ :: ffi_ty. embed_good the_str utf8_valid"
abbreviation "ffi_string_rel \<equiv> \<lambda>_ :: ffi_ty. embed_rel the_str VStr rel_eq"

definition ffi_good :: "ffi_ty \<Rightarrow> chat_value \<Rightarrow> bool" where
  "ffi_good ty = (case ty of
     FString \<Rightarrow> embed_good the_str utf8_valid
   | FUserAlias \<Rightarrow> embed_good the_struct (good_fields ffi_string_good [FString])
   | FContent \<Rightarrow> embed_good the_struct (good_fields ffi_string_good [FString])
   | FClientRef \<Rightarrow> embed_good the_actor (\<lambda>_. True)
   | _ \<Rightarrow> embed_good the_port (\<lambda>_. True))"

definition ffi_rel :: "'rm protocol \<Rightarrow> ffi_ty \<Rightarrow> ('rm, 'f) node \<Rightarrow> ('rm, 'f) node \<Rightarrow> chat_value \<Rightarrow> chat_value \<Rightarrow> bool" where
  "ffi_rel X ty = (case ty of
     FString \<Rightarrow> embed_rel the_str VStr rel_eq
   | FUserAlias \<Rightarrow> embed_rel the_struct VStruct (rel_fields ffi_string_rel [FString])
   | FContent \<Rightarrow> embed_rel the_struct VStruct (rel_fields ffi_string_rel [FString])
   | FClientRef \<Rightarrow> embed_rel the_actor VActor rel_actor_ref
   | _ \<Rightarrow> embed_rel the_port VPort (rel_reply_port (rpc_timeout X)))"

lemma ffi_table:
  assumes "wf_platform P" and "bincode_law (rid_enc X) (rid_dec X)" and "bincode_law (rpc_enc X) (rpc_dec X)"
  shows "derive_table P node_inv node_le node_inv node_le (ffi_imm X receiver) (ffi_rem P X) ffi_good (ffi_rel X)"
proof (intro derive_table.intro derive_table_axioms.intro)
  show "transmat_world P node_le node_le" by (rule node_world[OF assms(1)])
  note S = derive_table.transmat_struct[OF ffi_string_table[OF assms(1)], where fs = "TupleFields [FString]" and of_usize = "\<lambda>_ _. None"]
  have struct: "transmat P node_inv node_le node_inv node_le (immaterialize_struct ffi_string_imm (TupleFields [FString]))
    (rematerialize_struct P (\<lambda>_ _. None) (ffi_string_rem P) (TupleFields [FString]))
    (good_fields ffi_string_good [FString]) (rel_fields ffi_string_rel [FString])"
    using S by (simp add: fields_ok_def field_types_def)
  note T = transmat_embed[OF struct] transmat_embed[OF transmat_actor_ref[OF assms(1,2)]]
    transmat_embed[OF transmat_replychannel[OF assms(1,3)]]
  show "transmat P node_inv node_le node_inv node_le (ffi_imm X receiver ty) (ffi_rem P X ty) (ffi_good ty) (ffi_rel X ty)" for ty
    using T derive_table.entry[OF ffi_string_table[OF assms(1)], of FString]
    by (cases ty) (simp_all add: ffi_imm_def ffi_rem_def ffi_good_def ffi_rel_def ffi_user_alias_def ffi_message_content_def)
qed

lemma ffi_items_ok: "variants_ok ffi_hub_item" "variants_ok ffi_server_item" "variants_ok ffi_client_item"
  by (simp_all add: variants_ok_def variant_ok_def fields_ok_def str_lit_def ffi_hub_item_def ffi_server_item_def ffi_client_item_def)

text \<open>The texts of a message.\<close>

definition ffi_texts :: "ffi_client_message \<Rightarrow> rstring list" where
  "ffi_texts m = (case m of
     FfiUserConnected al \<Rightarrow> [al] | FfiUserDisconnected al \<Rightarrow> [al]
   | FfiMessageReceived sender content \<Rightarrow> [sender, content] | FfiServerShutdown \<Rightarrow> [])"

lemma client_value_good:
  "list_all utf8_valid (ffi_texts m) \<Longrightarrow> good_enum ffi_good ffi_client_item (client_value (client_of_ffi m))"
  by (cases m) (auto simp: ffi_texts_def client_of_ffi_def client_value_def good_enum_def ffi_client_item_def field_types_def
      ffi_good_def embed_good_def str_lit_def)

lemma client_value_rel:
  "rel_enum (ffi_rel X) ffi_client_item s t (client_value c) v \<Longrightarrow> v = client_value c"
  by (cases v; cases c)
    (auto simp: rel_enum_def ffi_client_item_def field_types_def ffi_rel_def embed_rel_def client_value_def str_lit_def
      rel_eq_def elim!: rel_fields.elims split: if_splits)

text \<open>
  C33: What a foreign program sends through a reference to a client's actor is what the other
  foreign program's handler receives. The message becomes the library's, crosses the portals as
  the bytes the derived implementation writes, is read on the other side as the same message,
  and becomes the same foreign message again.
\<close>

theorem ffi_message_delivery:
  fixes s t :: "('rm, 'f) node"
  assumes "wf_platform P" and "bincode_law (rid_enc X) (rid_dec X)" and "bincode_law (rpc_enc X) (rpc_dec X)"
    and "node_inv s" and "node_inv t" and "list_all utf8_valid (ffi_texts m)"
    and "immaterialize_enum of_bytes (ffi_imm X receiver) ffi_client_item (client_value (client_of_ffi m)) s = (Ok bs, s')"
    and "fits P bs"
  shows "client_ref_send True m = (Value (), [client_of_ffi m]) \<and>
    wp (rematerialize_enum P of_usize (ffi_rem P X) nm ffi_client_item bs)
      (\<lambda>v t'. \<exists>d. v = client_value d \<and> chat_client_actor [d] = [m]) t"
proof -
  have E: "transmat P node_inv node_le node_inv node_le
      (immaterialize_enum of_bytes (ffi_imm X receiver) ffi_client_item) (rematerialize_enum P of_usize (ffi_rem P X) nm ffi_client_item)
      (good_enum ffi_good ffi_client_item) (rel_enum (ffi_rel X) ffi_client_item)"
    by (rule derive_table.transmat_enum[OF ffi_table ffi_items_ok(3)]) (fact assms)+
  have "wp (rematerialize_enum P of_usize (ffi_rem P X) nm ffi_client_item bs)
      (\<lambda>v t'. rel_enum (ffi_rel X) ffi_client_item s' t' (client_value (client_of_ffi m)) v) t"
    using assms(4) client_value_good[OF assms(6)] assms(7,8,5) by (rule transmat.delivers[OF E])
  then show ?thesis
    using client_value_rel by (fastforce simp: wp_iff chat_client_actor_map client_ref_send_def)
qed


definition sample_ffi_message :: ffi_client_message where
  "sample_ffi_message = FfiMessageReceived (str_lit ''Ann'') [195, 164]"

lemma sample_ffi_bytes:
  "\<exists>bs s'. immaterialize_enum (\<lambda>_ _. None) (ffi_imm sample_protocol (\<lambda>_. 0)) ffi_client_item
     (client_value (client_of_ffi sample_ffi_message)) (sample_node 5) = (Ok bs, s') \<and> fits host64 bs"
  by (simp add: immaterialize_enum_def immaterialize_variant_def ffi_client_item_def client_value_def client_of_ffi_def
      sample_ffi_message_def ffi_imm_def embed_imm_def ffi_user_alias_def ffi_message_content_def ffi_string_imm_def
      immaterialize_struct_def immaterialize_string_def seq_def fits_host64 str_lit_def)

theorem ffi_message_delivery_witness:
  "\<exists>bs. client_ref_send True sample_ffi_message = (Value (), [client_of_ffi sample_ffi_message]) \<and>
    wp (rematerialize_enum host64 (\<lambda>_ _. None) (ffi_rem host64 sample_protocol) (str_lit ''ChatClientMessage'') ffi_client_item bs)
      (\<lambda>v t'. \<exists>d. v = client_value d \<and> chat_client_actor [d] = [sample_ffi_message]) (sample_node 6)"
proof -
  obtain bs s' where run: "immaterialize_enum (\<lambda>_ _. None) (ffi_imm sample_protocol (\<lambda>_. 0)) ffi_client_item
      (client_value (client_of_ffi sample_ffi_message)) (sample_node 5) = (Ok bs, s')" and f: "fits host64 bs"
    using sample_ffi_bytes by blast
  have l: "bincode_law (rid_enc sample_protocol) (rid_dec sample_protocol)"
    "bincode_law (rpc_enc sample_protocol) (rpc_dec sample_protocol)"
    by (simp_all add: sample_protocol_def sample_rid_law sample_proxied_law)
  have v: "list_all utf8_valid (ffi_texts sample_ffi_message)"
    by (simp add: ffi_texts_def sample_ffi_message_def str_lit_def is_cont_def)
  from ffi_message_delivery[OF wf_host64 l sample_node_inv sample_node_inv v run f] show ?thesis by blast
qed

section \<open>A conversation over a foreign transport\<close>

text \<open>What the foreign program calls on a connection, with the state of the receive loop at that time.\<close>

datatype conn_call = OnMessage bool ffi_conduit_message | CallDisconnect | WaitFor nat | GetIdentifier

definition conn_call :: "conn_call \<Rightarrow> ffi_connection \<Rightarrow> unit ffi \<times> ffi_connection" where
  "conn_call call c = (case call of
     OnMessage receiving m \<Rightarrow> on_message_received receiving m c
   | CallDisconnect \<Rightarrow> (Value (), disconnect c)
   | _ \<Rightarrow> (Value (), c))"

fun conn_run :: "conn_call list \<Rightarrow> ffi_connection \<Rightarrow> unit ffi list \<times> ffi_connection" where
  "conn_run [] c = ([], c)"
| "conn_run (call # calls) c =
     (let (r, c') = conn_call call c; (rs, c'') = conn_run calls c' in (r # rs, c''))"

text \<open>The messages fed to a receive loop that is there.\<close>

definition fed_message :: "conn_call \<Rightarrow> ffi_conduit_message option" where
  "fed_message call = (case call of OnMessage True m \<Rightarrow> Some m | _ \<Rightarrow> None)"

lemma fed_message_simps [simp]:
  "fed_message (OnMessage b m) = (if b then Some m else None)" "fed_message CallDisconnect = None"
  "fed_message (WaitFor n) = None" "fed_message GetIdentifier = None"
  by (simp_all add: fed_message_def)

lemma conn_run_open:
  assumes "tx_to_rust c" and "CallDisconnect \<notin> set calls"
  shows "snd (conn_run calls c) = c\<lparr>fed := fed c @ map conduit_of_ffi (List.map_filter fed_message calls)\<rparr>"
  using assms
proof (induction calls arbitrary: c)
  case (Cons call calls)
  then show ?case
    by (cases call) (auto simp: conn_call_def on_message_received_def map_filter_simps Let_def case_prod_beta)
qed (simp add: map_filter_simps)

lemma disconnect_closed: "\<not> tx_to_rust c \<Longrightarrow> portal_ref c = None \<Longrightarrow> disconnect c = c"
  by (cases c) (simp add: disconnect_def)

lemma conn_run_closed:
  assumes "\<not> tx_to_rust c" and "portal_ref c = None"
  shows "snd (conn_run calls c) = c \<and>
    list_all2 (\<lambda>call r. case call of OnMessage _ _ \<Rightarrow> r = Fails connection_closed | _ \<Rightarrow> r = Value ()) calls (fst (conn_run calls c))"
  using assms
proof (induction calls)
  case (Cons call calls)
  then show ?case
    by (cases call) (auto simp: conn_call_def on_message_received_def disconnect_closed Let_def case_prod_beta)
qed simp

lemma conn_run_append:
  "conn_run (xs @ ys) c = (let (rs, c') = conn_run xs c; (rs', c'') = conn_run ys c' in (rs @ rs', c''))"
  by (induction xs arbitrary: c) (simp_all add: Let_def split: prod.split)

lemma disconnect_sel [simp]:
  "\<not> tx_to_rust (disconnect c)" "portal_ref (disconnect c) = None" "fed (disconnect c) = fed c"
  "portal_stopped (disconnect c) = portal_stopped c @ (case portal_ref c of Some p \<Rightarrow> [p] | None \<Rightarrow> [])"
  by (auto simp: disconnect_def Let_def split: option.split)

text \<open>The messages a program finds in the calls on its transport.\<close>

definition transport_message :: "transport_call \<Rightarrow> ffi_conduit_message option" where
  "transport_message call = (case call of TransportSend m \<Rightarrow> Some m | TransportClose \<Rightarrow> None)"

lemma transport_messages: "List.map_filter transport_message (transport_task ms) = map ffi_of_conduit ms"
  by (induction ms) (simp_all add: map_filter_simps transport_message_def)




section \<open>Reply ports\<close>

text \<open>Calls of one wrapper's reply function, one after the other.\<close>

fun reply_all :: "(port option \<Rightarrow> 'r port_reply) list \<Rightarrow> port option \<Rightarrow> unit ffi list \<times> (port \<times> 'r) list" where
  "reply_all [] inner = ([], [])"
| "reply_all (call # calls) inner =
     (let (r, inner', sent) = call inner; (rs, more) = reply_all calls inner' in (r # rs, sent @ more))"

definition one_shot :: "(port option \<Rightarrow> 'r port_reply) \<Rightarrow> bool" where
  "one_shot call \<longleftrightarrow> call None = (Fails ReplyPortConsumed, None, []) \<and>
     (\<forall>p. \<exists>r xs. call (Some p) = (r, None, xs) \<and> (\<forall>x \<in> set xs. fst x = p) \<and> length xs = (if r = Value () then 1 else 0))"

lemma take_port_one_shot:
  assumes "\<And>p. (\<forall>x \<in> set (snd (k p)). fst x = p) \<and> length (snd (k p)) = (if fst (k p) = Value () then 1 else 0)"
  shows "one_shot (\<lambda>inner. take_port inner k)"
  unfolding one_shot_def
proof (intro conjI allI)
  show "take_port None k = (Fails ReplyPortConsumed, None, [])" by (simp add: take_port_def)
  fix p
  show "\<exists>r xs. take_port (Some p) k = (r, None, xs) \<and> (\<forall>x \<in> set xs. fst x = p) \<and> length xs = (if r = Value () then 1 else 0)"
    using assms[of p] by (intro exI[of _ "fst (k p)"] exI[of _ "snd (k p)"]) (simp add: take_port_def case_prod_beta)
qed

lemma one_shot_calls:
  "one_shot (connect_reply open_port al srv)" "one_shot (ack_reply open_port)" "one_shot (user_list_reply open_port users)"
  unfolding connect_reply_def[abs_def] ack_reply_def[abs_def] user_list_reply_def[abs_def]
  by (rule take_port_one_shot, simp add: port_send_def ok_or_def split: option.split)+

lemma reply_all_None: "list_all one_shot calls \<Longrightarrow> reply_all calls None = (map (\<lambda>_. Fails ReplyPortConsumed) calls, [])"
  by (induction calls) (simp_all add: one_shot_def)

definition replies_once :: "(port option \<Rightarrow> 'r port_reply) set \<Rightarrow> bool" where
  "replies_once S \<longleftrightarrow> (\<forall>p call calls. set (call # calls) \<subseteq> S \<longrightarrow>
     (\<exists>r xs. reply_all (call # calls) (Some p) = (r # map (\<lambda>_. Fails ReplyPortConsumed) calls, xs) \<and>
        (\<forall>x \<in> set xs. fst x = p) \<and> length xs = (if r = Value () then 1 else 0)))"

lemma one_shot_once: "(\<And>call. call \<in> S \<Longrightarrow> one_shot call) \<Longrightarrow> replies_once S"
  unfolding replies_once_def
proof (intro allI impI)
  fix p call calls
  assume S: "\<And>call. call \<in> S \<Longrightarrow> one_shot call" and sub: "set (call # calls) \<subseteq> S"
  then have rest: "list_all one_shot calls" and "one_shot call" by (auto simp: list_all_iff)
  then obtain r xs where "call (Some p) = (r, None, xs)" "\<forall>x \<in> set xs. fst x = p" "length xs = (if r = Value () then 1 else 0)"
    unfolding one_shot_def by blast
  then show "\<exists>r xs. reply_all (call # calls) (Some p) = (r # map (\<lambda>_. Fails ReplyPortConsumed) calls, xs) \<and>
      (\<forall>x \<in> set xs. fst x = p) \<and> length xs = (if r = Value () then 1 else 0)"
    using reply_all_None[OF rest] by (intro exI[of _ r] exI[of _ xs]) simp
qed

text \<open>
  A reply port replies at most once, whichever of the three kinds it is and however often the
  foreign program calls: the first call decides, and every later one is told that the port is
  consumed. The asker gets a reply exactly when the first call succeeds, and on its own
  port; so does an alias with a running server. A server that was stopped uses the port up
  without a reply.
\<close>

theorem reply_ports_once:
  "replies_once {connect_reply open_port al srv | open_port al srv. True} \<and>
   replies_once {ack_reply open_port | open_port. True} \<and>
   replies_once {user_list_reply open_port users | open_port users. True} \<and>
   connect_reply (\<lambda>_. True) al (Some s) (Some p) = (Value (), None, [(p, al, s)]) \<and>
   ack_reply (\<lambda>_. True) (Some p) = (Value (), None, [(p, ())]) \<and>
   user_list_reply (\<lambda>_. True) users (Some p) = (Value (), None, [(p, users)]) \<and>
   connect_reply open_port al None (Some p) = (Fails ActorStopped, None, [])"
proof -
  have "replies_once {connect_reply open_port al srv | open_port al srv. True}" by (rule one_shot_once) (auto simp: one_shot_calls)
  moreover have "replies_once {ack_reply open_port | open_port. True}" by (rule one_shot_once) (auto simp: one_shot_calls)
  moreover have "replies_once {user_list_reply open_port users | open_port users. True}" by (rule one_shot_once) (auto simp: one_shot_calls)
  ultimately show ?thesis
    by (simp add: connect_reply_def ack_reply_def user_list_reply_def take_port_def port_send_def)
qed

section \<open>Errors\<close>

text \<open>
  Looking a remote actor up always returns, and the error tells the cause: the connection is
  closed (then the portal is not asked), the portal is gone or has dropped the question, or
  the other side has no such actor, with the name that was asked for. Otherwise the
  program gets a proxy for the id the portal found, which is on its way to be registered.
\<close>

theorem remote_lookup_errors:
  "get_remote_actor c name rx n =
    (case portal_ref c of
       None \<Rightarrow> (Fails (ConnectionFailed (Said (str_lit ''Connection closed''))), n)
     | Some _ \<Rightarrow>
         if \<not> taking_messages n then (Fails (InternalError (Rendered SendError)), n\<lparr>next_port := next_port n + 1\<rparr>)
         else (let n1 = n\<lparr>next_port := next_port n + 1, mailbox := mailbox n @ [QueryNamedRemoteActor name (next_port n)]\<rparr>
               in case rx of
                 Replied (Ok rid) \<Rightarrow> (Value (next_actor n), n1\<lparr>next_actor := next_actor n + 1,
                    proxies := (next_actor n, rid) # proxies n,
                    mailbox := mailbox n1 @ [RegisterProxyForRemoteActor rid (next_actor n)]\<rparr>)
               | Replied (Err e) \<Rightarrow> (Fails (ActorNotFound name), n1)
               | Replied (Panic q) \<Rightarrow> (Panics q, n1)
               | _ \<Rightarrow> (Fails (InternalError (Rendered RecvError)), n1)))"
  by (auto simp: get_remote_actor_def get_portal_def connection_closed_def query_named_actor_def on_node_def ask_def
      instantiate_proxy_def send_to_portal_def seq_def Let_def ffi_seq_def ok_or_def split: option.split awaited.split outcome.split)

text \<open>
  Waiting for the handshake calls every failure a timeout, even a portal that is gone at once.
\<close>

lemma handshake_error_masks:
  assumes "portal_ref c = Some p" and "\<not> taking_messages n"
  shows "fst (wait_for_handshake c timeout rx n) = Fails HandshakeTimeout"
  using assms by (simp add: wait_for_handshake_def get_portal_def on_node_def ask_def send_to_portal_def seq_def)

text \<open>A stopped actor cannot be used any more: not sent to, not published, not given to a hub.\<close>

lemma stopped_actor:
  assumes "local_stop (r, stopped) = (r', stopped')"
  shows "\<not> local_is_running r' \<and> local_to_ref r' = Fails ActorStopped \<and>
    (portal_ref c \<noteq> None \<longrightarrow> publish_local_actor c name r' rm n = (Fails ActorStopped, n)) \<and>
    hub_ref_connect takes r' rpc rx = (Fails ActorStopped, []) \<and>
    stopped' = stopped @ (case r of Some a \<Rightarrow> [a] | None \<Rightarrow> [])"
  using assms by (auto simp: local_stop_def local_is_running_def local_to_ref_def publish_local_actor_def get_portal_def
      hub_ref_connect_def ok_or_def ffi_seq_def split: option.splits)

text \<open>\<open>ask_actor\<close> is \<open>ask\<close> of the node's model where no timeout is given.\<close>

lemma ask_actor_ask: "fst (ask_actor (taking_messages n) mk rpc rx) = fst (ask mk' None rx n)"
  by (cases rx) (simp_all add: ask_actor_def ask_def send_to_portal_def seq_def)

text \<open>A runtime that was shut down makes no connection.\<close>

lemma shutdown_no_connection: "create_connection connected identifier (runtime_shutdown rt) = Fails RuntimeNotInitialized"
  by (auto simp: create_connection_def runtime_shutdown_def ok_or_def split: option.split)

end
