(* ===== verification/Gen_Deps.thy ===== *)
theory Gen_Deps
  imports Utext "HOL-Library.Multiset" "HOL-Library.Sublist"
begin

text \<open>
  \<open>ractor_wormhole_derive/src/derive_generate_deps.rs\<close>: the macro that re-exports the
  dependencies listed in a \<open>Cargo.toml\<close>. The line and search functions of \<open>str\<close> are written
  out on code points.
\<close>

section \<open>Functions on texts\<close>

abbreviation newline :: nat where "newline \<equiv> 10"
abbreviation hash_sign :: nat where "hash_sign \<equiv> 35"
abbreviation quote :: nat where "quote \<equiv> 34"
abbreviation comma :: nat where "comma \<equiv> 44"
abbreviation equals_sign :: nat where "equals_sign \<equiv> 61"
abbreviation bracket :: nat where "bracket \<equiv> 91"
abbreviation bracket_end :: nat where "bracket_end \<equiv> 93"

text \<open>\<open>str::lines\<close>: a line ends with a line feed, or with a carriage return and one.\<close>

definition strip_cr :: "utext \<Rightarrow> utext" where
  "strip_cr line = (if line \<noteq> [] \<and> last line = 13 then butlast line else line)"

function lines_of :: "utext \<Rightarrow> utext list" where
  "lines_of cs = (if cs = [] then []
     else case dropWhile (\<lambda>c. c \<noteq> newline) cs of
       [] \<Rightarrow> [cs]
     | _ # rest \<Rightarrow> strip_cr (takeWhile (\<lambda>c. c \<noteq> newline) cs) # lines_of rest)"
  by auto

termination
proof (relation "measure length")
  show "(rest, cs) \<in> measure length" if "dropWhile (\<lambda>c. c \<noteq> newline) cs = c # rest" for cs c rest
    using length_dropWhile_le[of "\<lambda>c. c \<noteq> newline" cs] that by simp
qed simp

declare lines_of.simps [simp del]

definition find_char :: "nat \<Rightarrow> utext \<Rightarrow> nat option" where
  "find_char c s = (if c \<in> set s then Some (length (takeWhile (\<lambda>x. x \<noteq> c) s)) else None)"

definition rfind_char :: "nat \<Rightarrow> utext \<Rightarrow> nat option" where
  "rfind_char c s = (if c \<in> set s then Some (length s - 1 - length (takeWhile (\<lambda>x. x \<noteq> c) (rev s))) else None)"

fun split_at :: "nat \<Rightarrow> utext \<Rightarrow> utext list" where
  "split_at c [] = [[]]"
| "split_at c (x # xs) =
     (if x = c then [] # split_at c xs
      else case split_at c xs of [] \<Rightarrow> [[x]] | p # ps \<Rightarrow> (x # p) # ps)"

fun contains :: "utext \<Rightarrow> utext \<Rightarrow> bool" where
  "contains p [] = (p = [])"
| "contains p (x # xs) = (prefix p (x # xs) \<or> contains p xs)"

fun join :: "utext \<Rightarrow> utext list \<Rightarrow> utext" where
  "join sep [] = []"
| "join sep [x] = x"
| "join sep (x # xs) = x @ sep @ join sep xs"

section \<open>Parsing the manifest\<close>

fun collect_section :: "utext list \<Rightarrow> utext" where
  "collect_section [] = []"
| "collect_section (l # ls) = (if prefix [bracket] (trim l) then [] else l @ [newline] @ collect_section ls)"

fun section_from :: "utext \<Rightarrow> utext list \<Rightarrow> utext option" where
  "section_from header_exact [] = None"
| "section_from header_exact (line # ls) =
     (if trim line = header_exact then Some (collect_section ls) else section_from header_exact ls)"

definition section_by_header :: "utext \<Rightarrow> utext \<Rightarrow> utext option" where
  "section_by_header content header_exact = section_from header_exact (lines_of content)"

definition parse_dep :: "utext \<Rightarrow> (utext \<times> utext) option" where
  "parse_dep raw_line =
     (let line = trim raw_line in
      if line = [] \<or> prefix [hash_sign] line then None
      else case find_char equals_sign line of
        None \<Rightarrow> None
      | Some eq \<Rightarrow>
          (let name_part = trim (take eq line) in
           if prefix [bracket] name_part \<or> prefix [quote] name_part then None
           else Some (name_part, drop (eq + 1) line)))"

definition parse_deps_ordered :: "utext \<Rightarrow> (utext \<times> utext) list" where
  "parse_deps_ordered sect = List.map_filter parse_dep (lines_of sect)"

text \<open>\<open>&val[a..b]\<close> panics when the range is not one.\<close>

definition text_slice :: "utext \<Rightarrow> nat \<Rightarrow> nat \<Rightarrow> utext outcome" where
  "text_slice s a b = (if a \<le> b \<and> b \<le> length s then Ok (drop a (take b s)) else Panic SliceOutOfRange)"

definition feature_items :: "utext \<Rightarrow> utext list" where
  "feature_items inside =
     filter (\<lambda>s. s \<noteq> []) (map (\<lambda>s. trim_by (\<lambda>c. c = quote) (trim s)) (split_at comma inside))"

definition parse_feature :: "utext \<Rightarrow> (utext \<times> utext list) option outcome" where
  "parse_feature raw_line =
     (let line = trim raw_line in
      if line = [] \<or> prefix [hash_sign] line then Ok None
      else case find_char equals_sign line of
        None \<Rightarrow> Ok None
      | Some eq \<Rightarrow>
          (let key = trim (take eq line);
               val = trim (drop (eq + 1) line)
           in case find_char bracket val of
                None \<Rightarrow> Ok (Some (key, []))
              | Some a \<Rightarrow> (case rfind_char bracket_end val of
                  None \<Rightarrow> Ok (Some (key, []))
                | Some b \<Rightarrow> and_then (text_slice val (a + 1) b) (\<lambda>inside. Ok (Some (key, feature_items inside))))))"

fun parse_features_loop :: "(utext, utext list) hmap \<Rightarrow> utext list \<Rightarrow> (utext, utext list) hmap outcome" where
  "parse_features_loop features [] = Ok features"
| "parse_features_loop features (l # ls) =
     and_then (parse_feature l) (\<lambda>r. case r of
       None \<Rightarrow> parse_features_loop features ls
     | Some (key, items) \<Rightarrow> parse_features_loop (hm_insert key items features) ls)"

definition parse_features :: "utext \<Rightarrow> (utext, utext list) hmap outcome" where
  "parse_features sect = parse_features_loop [] (lines_of sect)"

section \<open>The list of crates\<close>

definition mentions :: "utext \<Rightarrow> utext \<Rightarrow> bool" where
  "mentions dep_name item \<longleftrightarrow> item = dep_name \<or> prefix (dep_name @ lit ''/'') item"

definition features_referencing :: "(utext, utext list) hmap \<Rightarrow> utext \<Rightarrow> utext list" where
  "features_referencing features_map dep_name =
     map fst (filter (\<lambda>(feat, items). list_ex (mentions dep_name) items) features_map)"

definition crate_ident :: "utext \<Rightarrow> utext" where
  "crate_ident name = map (\<lambda>c. if c = 45 then 95 else c) name"

definition derive_crate :: utext where
  "derive_crate = lit ''ractor_wormhole_derive''"

definition feature_eq :: "utext \<Rightarrow> utext" where
  "feature_eq f = lit ''feature = '' @ [quote] @ f @ [quote]"

definition target_wasm :: utext where
  "target_wasm = lit ''target_arch = '' @ [quote] @ lit ''wasm32'' @ [quote]"

definition any_of :: "utext list \<Rightarrow> utext" where
  "any_of feats = lit ''any('' @ join (lit '', '') (map feature_eq feats) @ lit '')''"

definition all_of :: "utext \<Rightarrow> utext" where
  "all_of cfg = lit ''all('' @ target_wasm @ lit '', '' @ cfg @ lit '')''"

definition looks_optional :: "utext \<Rightarrow> bool" where
  "looks_optional rhs \<longleftrightarrow> contains (lit ''optional'') rhs \<and> contains (lit ''true'') rhs"

definition main_cfg :: "(utext, utext list) hmap \<Rightarrow> utext \<times> utext \<Rightarrow> utext" where
  "main_cfg features_map = (\<lambda>(dep, rhs).
     let feats = features_referencing features_map dep in
     if feats \<noteq> [] then (if length feats = 1 then feature_eq (feats ! 0) else any_of feats)
     else if looks_optional rhs then feature_eq (crate_ident dep)
     else [])"

definition wasm_cfg :: "(utext, utext list) hmap \<Rightarrow> utext \<times> utext \<Rightarrow> utext" where
  "wasm_cfg features_map = (\<lambda>(dep, rhs).
     let feats = features_referencing features_map dep in
     if feats \<noteq> [] then (if length feats = 1 then all_of (feature_eq (feats ! 0)) else all_of (any_of feats))
     else if looks_optional rhs then all_of (feature_eq (crate_ident dep))
     else target_wasm)"

definition wasm_header :: utext where
  "wasm_header = lit ''[target.'' @ [39] @ lit ''cfg('' @ target_wasm @ lit '')'' @ [39] @ lit ''.dependencies]''"

fun wasm_search :: "utext \<Rightarrow> utext list \<Rightarrow> utext" where
  "wasm_search content [] = []"
| "wasm_search content (line # ls) =
     (if contains target_wasm line \<and> prefix [bracket] (trim line)
      then (case section_by_header content (trim line) of Some s \<Rightarrow> s | None \<Rightarrow> wasm_search content ls)
      else wasm_search content ls)"

text \<open>
  \<open>order\<close> is the order in which the map of features is iterated, which is not determined.
\<close>

definition from_cargo_toml ::
    "((utext, utext list) hmap \<Rightarrow> (utext, utext list) hmap) \<Rightarrow> utext \<Rightarrow> (utext \<times> utext) list outcome" where
  "from_cargo_toml order content =
     (let main_section = case section_by_header content (lit ''[dependencies]'') of Some s \<Rightarrow> s | None \<Rightarrow> [];
          main_deps = parse_deps_ordered main_section;
          wasm_deps_section = (case section_by_header content wasm_header of
            Some s \<Rightarrow> s | None \<Rightarrow> wasm_search content (lines_of content));
          wasm_deps = if wasm_deps_section = [] then [] else parse_deps_ordered wasm_deps_section;
          features_section = case section_by_header content (lit ''[features]'') of Some s \<Rightarrow> s | None \<Rightarrow> []
      in and_then (parse_features features_section) (\<lambda>features_map.
         Ok (map (\<lambda>(dep, rhs). (crate_ident dep, main_cfg (order features_map) (dep, rhs)))
               (filter (\<lambda>(dep, rhs). dep \<noteq> derive_crate) main_deps) @
             map (\<lambda>(dep, rhs). (crate_ident dep, wasm_cfg (order features_map) (dep, rhs))) wasm_deps)))"

text \<open>\<open>generate_deps\<close>: the text of the generated module.\<close>

definition crate_lines :: "utext \<times> utext \<Rightarrow> utext list" where
  "crate_lines = (\<lambda>(dep, cfg_expr).
     if dep = derive_crate then []
     else (if cfg_expr \<noteq> [] then [lit ''    #[cfg('' @ cfg_expr @ lit '')]''] else []) @
       [lit ''    pub use '' @ dep @ lit '';'', []])"

definition generate_deps :: "((utext, utext list) hmap \<Rightarrow> (utext, utext list) hmap) \<Rightarrow> utext \<Rightarrow> utext outcome" where
  "generate_deps order cargo_toml = and_then (from_cargo_toml order cargo_toml) (\<lambda>crates.
     Ok (join [newline]
       ([lit ''/// re-export all dependencies'', lit ''pub mod deps {'',
         lit ''    //! Re-exports of direct dependencies used by ractor_wormhole.'',
         lit ''    //! These are gated to match Cargo.toml (optional features / target-specific crates).'', []] @
        concat (map crate_lines crates) @ [lit ''}''])))"

end
