(* ===== verification/Gen_Deps_Props.thy ===== *)
theory Gen_Deps_Props
  imports Gen_Deps
begin

text \<open>
  What the dependency macro makes of a manifest: manifests as data, their text, and that the
  macro recovers them.
\<close>

section \<open>Manifests\<close>

text \<open>
  The dependencies with what stands after the equals sign, and the features with their items.
\<close>

definition word_char :: "nat \<Rightarrow> bool" where
  "word_char c \<longleftrightarrow> 97 \<le> c \<and> c \<le> 122 \<or> 65 \<le> c \<and> c \<le> 90 \<or> 48 \<le> c \<and> c \<le> 57 \<or> c = 45 \<or> c = 95"

definition item_char :: "nat \<Rightarrow> bool" where
  "item_char c \<longleftrightarrow> word_char c \<or> c = 47 \<or> c = 58 \<or> c = 63"

definition is_name :: "utext \<Rightarrow> bool" where
  "is_name s \<longleftrightarrow> s \<noteq> [] \<and> list_all word_char s"

definition is_item :: "utext \<Rightarrow> bool" where
  "is_item s \<longleftrightarrow> s \<noteq> [] \<and> list_all item_char s"

definition one_line :: "utext \<Rightarrow> bool" where
  "one_line s \<longleftrightarrow> s \<noteq> [] \<and> newline \<notin> set s \<and> \<not> is_whitespace (hd s) \<and> \<not> is_whitespace (last s)"

definition manifest_ok :: "(utext \<times> utext) list \<Rightarrow> (utext \<times> utext list) list \<Rightarrow> bool" where
  "manifest_ok deps feats \<longleftrightarrow> list_all (\<lambda>(n, r). is_name n \<and> one_line r) deps \<and>
     list_all (\<lambda>(f, items). is_name f \<and> list_all is_item items) feats \<and> distinct (map fst feats)"

definition dep_line :: "utext \<times> utext \<Rightarrow> utext" where
  "dep_line = (\<lambda>(n, r). n @ lit '' = '' @ r)"

definition quoted :: "utext \<Rightarrow> utext" where
  "quoted s = [quote] @ s @ [quote]"

definition feature_line :: "utext \<times> utext list \<Rightarrow> utext" where
  "feature_line = (\<lambda>(f, items). f @ lit '' = ['' @ join (lit '', '') (map quoted items) @ lit '']'')"

definition unlines :: "utext list \<Rightarrow> utext" where
  "unlines ls = concat (map (\<lambda>l. l @ [newline]) ls)"

definition manifest_lines :: "(utext \<times> utext) list \<Rightarrow> (utext \<times> utext list) list \<Rightarrow> utext list" where
  "manifest_lines deps feats = lit ''[dependencies]'' # map dep_line deps @
     [] # lit ''[features]'' # map feature_line feats"

definition manifest_text :: "(utext \<times> utext) list \<Rightarrow> (utext \<times> utext list) list \<Rightarrow> utext" where
  "manifest_text deps feats = unlines (manifest_lines deps feats)"

section \<open>Lines and ends\<close>

lemma lit_simps [simp]: "lit [] = []" "lit (c # cs) = of_char c # lit cs"
  by (simp_all add: lit_def)

lemma char_not_white:
  "word_char c \<Longrightarrow> \<not> is_whitespace c" "item_char c \<Longrightarrow> \<not> is_whitespace c"
  by (auto simp: word_char_def item_char_def is_whitespace_def)

lemma char_not_mark:
  "word_char c \<Longrightarrow> c \<notin> {newline, hash_sign, quote, comma, equals_sign, bracket, bracket_end}"
  "item_char c \<Longrightarrow> c \<notin> {newline, hash_sign, quote, comma, equals_sign, bracket, bracket_end}"
  by (auto simp: word_char_def item_char_def)

lemma marks_not_white [simp]:
  "is_whitespace 32" "\<not> is_whitespace quote" "\<not> is_whitespace bracket" "\<not> is_whitespace bracket_end"
  by (simp_all add: is_whitespace_def)

lemma while_stop:
  "c \<notin> set a \<Longrightarrow> takeWhile (\<lambda>x. x \<noteq> c) (a @ c # b) = a"
  "c \<notin> set a \<Longrightarrow> dropWhile (\<lambda>x. x \<noteq> c) (a @ c # b) = c # b"
  by (induction a) auto

lemma lines_of_Nil [simp]: "lines_of [] = []"
  by (simp add: lines_of.simps)

lemma lines_of_line:
  assumes "newline \<notin> set l" and "l = [] \<or> last l \<noteq> 13"
  shows "lines_of (l @ newline # rest) = l # lines_of rest"
proof -
  have "takeWhile (\<lambda>c. c \<noteq> newline) (l @ newline # rest) = l" "dropWhile (\<lambda>c. c \<noteq> newline) (l @ newline # rest) = newline # rest"
    by (rule while_stop[OF assms(1)])+
  then show ?thesis using assms(2) by (subst lines_of.simps) (auto simp: strip_cr_def)
qed

lemma lines_of_unlines:
  "list_all (\<lambda>l. newline \<notin> set l \<and> (l = [] \<or> last l \<noteq> 13)) ls \<Longrightarrow> lines_of (unlines ls) = ls"
  by (induction ls) (simp_all add: unlines_def lines_of_line)

lemma trim_by_id: "s = [] \<or> \<not> p (hd s) \<and> \<not> p (last s) \<Longrightarrow> trim_by p s = s"
proof -
  assume a: "s = [] \<or> \<not> p (hd s) \<and> \<not> p (last s)"
  then have "dropWhile p s = s" by (cases s) auto
  moreover have "dropWhile p (rev s) = rev s"
    using a by (cases s rule: rev_cases) auto
  ultimately show ?thesis by (simp add: trim_by_def)
qed

lemma trim_id: "s = [] \<or> \<not> is_whitespace (hd s) \<and> \<not> is_whitespace (last s) \<Longrightarrow> trim s = s"
  unfolding trim_def by (rule trim_by_id)

lemma trim_space_before: "trim (32 # s) = trim s"
  by (simp add: trim_def trim_by_def)

lemma trim_space_after: "s \<noteq> [] \<Longrightarrow> \<not> is_whitespace (hd s) \<Longrightarrow> trim (s @ [32]) = trim s"
  by (cases s) (simp_all add: trim_def trim_by_def)

lemma is_nameD:
  assumes "is_name n"
  shows "n \<noteq> []" "\<not> is_whitespace (hd n)" "\<not> is_whitespace (last n)" "trim n = n"
    "newline \<notin> set n" "equals_sign \<notin> set n" "\<not> prefix [hash_sign] (n @ s)" "\<not> prefix [bracket] (n @ s)" "\<not> prefix [quote] (n @ s)"
proof -
  show n: "n \<noteq> []" and w: "\<not> is_whitespace (hd n)" "\<not> is_whitespace (last n)"
    using assms char_not_white(1) by (auto simp: is_name_def list_all_iff)
  then show "trim n = n" by (simp add: trim_id)
  show "newline \<notin> set n" "equals_sign \<notin> set n"
    using assms char_not_mark(1) by (fastforce simp: is_name_def list_all_iff)+
  have "hd n \<notin> {newline, hash_sign, quote, comma, equals_sign, bracket, bracket_end}"
    using assms n char_not_mark(1)[of "hd n"] by (simp add: is_name_def list_all_iff)
  then show "\<not> prefix [hash_sign] (n @ s)" "\<not> prefix [bracket] (n @ s)" "\<not> prefix [quote] (n @ s)"
    using n by (cases n; simp)+
qed

lemma find_char_append: "c \<notin> set a \<Longrightarrow> find_char c (a @ c # b) = Some (length a)"
  by (simp add: find_char_def while_stop)

lemma rfind_char_append: "c \<notin> set b \<Longrightarrow> rfind_char c (a @ c # b) = Some (length a)"
  by (simp add: rfind_char_def while_stop)

section \<open>A line of each section\<close>

lemma dep_line_whole:
  assumes "is_name n" and "one_line r"
  shows "newline \<notin> set (dep_line (n, r))" "last (dep_line (n, r)) = last r" "dep_line (n, r) = n @ 32 # equals_sign # 32 # r"
    "trim (dep_line (n, r)) = dep_line (n, r)"
proof -
  show e: "dep_line (n, r) = n @ 32 # equals_sign # 32 # r" by (simp add: dep_line_def)
  show "newline \<notin> set (dep_line (n, r))" "last (dep_line (n, r)) = last r"
    using assms is_nameD(5)[OF assms(1)] by (auto simp: e one_line_def)
  then show "trim (dep_line (n, r)) = dep_line (n, r)"
    using assms is_nameD(1,2)[OF assms(1)] by (intro trim_id) (simp add: e one_line_def)
qed

lemma parse_dep_line:
  assumes "is_name n" and "one_line r"
  shows "parse_dep (dep_line (n, r)) = Some (n, 32 # r)"
proof -
  note N = is_nameD[OF assms(1)] and L = dep_line_whole[OF assms]
  have "find_char equals_sign ((n @ [32]) @ equals_sign # 32 # r) = Some (length (n @ [32]))"
    using N(6) by (intro find_char_append) simp
  then have f: "find_char equals_sign (dep_line (n, r)) = Some (length n + 1)" by (simp add: L(3))
  have t: "trim (take (length n + 1) (dep_line (n, r))) = n"
    using N(1,2,4) by (simp add: L(3) trim_space_after)
  show ?thesis
    using N(1) N(7)[of "32 # equals_sign # 32 # r"] N(8)[of "[]"] N(9)[of "[]"]
    unfolding parse_dep_def Let_def L(4) f option.case t by (simp add: L(3))
qed

lemma is_itemD:
  assumes "is_item s"
  shows "s \<noteq> []" "quote \<notin> set s" "comma \<notin> set s" "newline \<notin> set s" "bracket_end \<notin> set s" "bracket \<notin> set s"
    "trim (quoted s) = quoted s" "trim_by (\<lambda>c. c = quote) (quoted s) = s"
proof -
  show s: "s \<noteq> []" "quote \<notin> set s" "comma \<notin> set s" "newline \<notin> set s" "bracket_end \<notin> set s" "bracket \<notin> set s"
    using assms char_not_mark(2) by (fastforce simp: is_item_def list_all_iff)+
  show "trim (quoted s) = quoted s" by (rule trim_id) (simp add: quoted_def)
  have "dropWhile (\<lambda>c. c = quote) (s @ [quote]) = s @ [quote]" using s(1,2) by (cases s) auto
  moreover have "dropWhile (\<lambda>c. c = quote) (rev s) = rev s" using s(1,2) by (cases s rule: rev_cases) auto
  ultimately show "trim_by (\<lambda>c. c = quote) (quoted s) = s" by (simp add: trim_by_def quoted_def)
qed

lemma split_at_none: "c \<notin> set s \<Longrightarrow> split_at c s = [s]"
  by (induction s) auto

lemma split_at_append: "c \<notin> set s \<Longrightarrow> split_at c (s @ c # t) = s # split_at c t"
  by (induction s) auto

lemma split_join:
  assumes "list_all is_item items" and "items \<noteq> []"
  shows "map trim (split_at comma (join (lit '', '') (map quoted items))) = map quoted items"
  using assms
proof (induction items rule: induct_list012)
  case (2 i)
  then show ?case using is_itemD[of i] by (simp add: split_at_none quoted_def)
next
  case (3 i j items)
  have i: "comma \<notin> set (quoted i)" "trim (quoted i) = quoted i"
    using 3 is_itemD[of i] by (auto simp: quoted_def)
  have head: "split_at comma (32 # t) = (32 # p) # ps" if "split_at comma t = p # ps" for t p ps
    using that by simp
  obtain p ps where t: "split_at comma (join (lit '', '') (map quoted (j # items))) = p # ps"
    by (cases "split_at comma (join (lit '', '') (map quoted (j # items)))")
      (use 3 in \<open>auto dest: arg_cong[of _ _ length]\<close>)
  have "join (lit '', '') (map quoted (i # j # items)) = quoted i @ comma # 32 # join (lit '', '') (map quoted (j # items))"
    by simp
  then have "split_at comma (join (lit '', '') (map quoted (i # j # items))) = quoted i # (32 # p) # ps"
    using split_at_append[OF i(1)] head[OF t] by simp
  then show ?case using 3 t i(2) by (simp add: trim_space_before)
qed simp

lemma feature_items_join:
  assumes "list_all is_item items"
  shows "feature_items (join (lit '', '') (map quoted items)) = items"
proof (cases "items = []")
  case True
  then show ?thesis by (simp add: feature_items_def trim_def trim_by_def)
next
  case False
  have "map (\<lambda>s. trim_by (\<lambda>c. c = quote) (trim s)) (split_at comma (join (lit '', '') (map quoted items))) =
      map (trim_by (\<lambda>c. c = quote)) (map quoted items)"
    using arg_cong[OF split_join[OF assms False], of "map (trim_by (\<lambda>c. c = quote))"] by (simp add: comp_def)
  also have "\<dots> = items"
    using assms is_itemD(8) by (induction items) auto
  finally show ?thesis
    using assms is_itemD(1) by (auto simp: feature_items_def list_all_iff intro!: filter_True)
qed

lemma join_chars:
  "set (join sep xs) \<subseteq> set sep \<union> \<Union> (set ` set xs)"
  by (induction sep xs rule: join.induct) auto

lemma quoted_chars:
  assumes "c \<notin> {comma, 32, quote}" and "\<And>i. i \<in> set items \<Longrightarrow> c \<notin> set i"
  shows "c \<notin> set (join (lit '', '') (map quoted items))"
proof -
  have "c \<notin> set (lit '', '')" using assms(1) by simp
  moreover have "c \<notin> set (quoted i)" if "i \<in> set items" for i using assms that by (simp add: quoted_def)
  ultimately show ?thesis using join_chars[of "lit '', ''" "map quoted items"] by auto
qed

lemma feature_line_whole:
  assumes "is_name f" and "list_all is_item items"
  defines "s \<equiv> join (lit '', '') (map quoted items)"
  shows "feature_line (f, items) = f @ 32 # equals_sign # 32 # bracket # s @ [bracket_end]"
    "newline \<notin> set s" "bracket \<notin> set s" "newline \<notin> set (feature_line (f, items))"
    "trim (feature_line (f, items)) = feature_line (f, items)"
proof -
  show e: "feature_line (f, items) = f @ 32 # equals_sign # 32 # bracket # s @ [bracket_end]"
    by (simp add: feature_line_def s_def)
  show s: "newline \<notin> set s" "bracket \<notin> set s"
    unfolding s_def by (rule quoted_chars; use assms(2) is_itemD(4,6) in \<open>auto simp: list_all_iff\<close>)+
  show "newline \<notin> set (feature_line (f, items))" using s is_nameD(5)[OF assms(1)] by (simp add: e)
  show "trim (feature_line (f, items)) = feature_line (f, items)"
    using is_nameD(1,2)[OF assms(1)] by (intro trim_id) (simp add: e)
qed

lemma parse_feature_line:
  assumes "is_name f" and "list_all is_item items"
  shows "parse_feature (feature_line (f, items)) = Ok (Some (f, items))"
proof -
  define s where "s = join (lit '', '') (map quoted items)"
  note N = is_nameD[OF assms(1)] and L = feature_line_whole[OF assms, folded s_def]
  have "find_char equals_sign ((f @ [32]) @ equals_sign # 32 # bracket # s @ [bracket_end]) = Some (length (f @ [32]))"
    using N(6) by (intro find_char_append) simp
  then have f: "find_char equals_sign (feature_line (f, items)) = Some (length f + 1)" by (simp add: L(1))
  have t: "trim (take (length f + 1) (feature_line (f, items))) = f"
    using N(1,2,4) by (simp add: L(1) trim_space_after)
  have v: "trim (drop (length f + 1 + 1) (feature_line (f, items))) = bracket # s @ [bracket_end]"
    by (simp add: L(1) trim_space_before) (rule trim_id, simp)
  have a: "find_char bracket (bracket # s @ [bracket_end]) = Some 0" by (simp add: find_char_def)
  have b: "rfind_char bracket_end (bracket # s @ [bracket_end]) = Some (length s + 1)"
    using rfind_char_append[of bracket_end "[]" "bracket # s"] by simp
  have i: "feature_items s = items" unfolding s_def by (rule feature_items_join[OF assms(2)])
  show ?thesis
    using N(1) N(7)[of "32 # equals_sign # 32 # bracket # s @ [bracket_end]"]
    unfolding parse_feature_def Let_def L(5) f option.case t v a b
    by (simp add: L(1) text_slice_def i)
qed

section \<open>The sections\<close>

lemma collect_lines:
  assumes "list_all (\<lambda>l. \<not> prefix [bracket] (trim l)) ls"
  shows "collect_section (ls @ rest) = unlines ls @ collect_section rest"
  using assms by (induction ls) (simp_all add: unlines_def)

lemma section_skip:
  assumes "list_all (\<lambda>l. trim l \<noteq> h) ls"
  shows "section_from h (ls @ rest) = section_from h rest"
  using assms by (induction ls) simp_all

lemma wasm_skip:
  "list_all (\<lambda>l. \<not> (contains target_wasm l \<and> prefix [bracket] (trim l))) ls \<Longrightarrow> wasm_search content ls = []"
  by (induction ls) auto

lemma headers:
  "trim (lit ''[dependencies]'') = lit ''[dependencies]''" "trim (lit ''[features]'') = lit ''[features]''"
  "\<not> contains target_wasm (lit ''[dependencies]'')" "\<not> contains target_wasm (lit ''[features]'')"
  "trim [] = []" "lit ''[dependencies]'' \<noteq> lit ''[features]''" "lit ''[dependencies]'' \<noteq> wasm_header"
  "lit ''[features]'' \<noteq> wasm_header" "prefix [bracket] (lit ''[features]'')" "prefix [bracket] wasm_header" "lit ''[features]'' \<noteq> []"
  "wasm_header \<noteq> []"
  by (simp_all add: trim_id is_whitespace_def target_wasm_def wasm_header_def)

definition plain_line :: "utext \<Rightarrow> bool" where
  "plain_line l \<longleftrightarrow> trim l = l \<and> \<not> prefix [bracket] l \<and> newline \<notin> set l \<and> (l = [] \<or> last l \<noteq> 13)"

lemma plain_dep: "is_name n \<Longrightarrow> one_line r \<Longrightarrow> plain_line (dep_line (n, r))"
  using dep_line_whole[of n r] is_nameD(8)[of n] by (auto simp: plain_line_def one_line_def is_whitespace_def)

lemma plain_feature: "is_name f \<Longrightarrow> list_all is_item is \<Longrightarrow> plain_line (feature_line (f, is))"
  using feature_line_whole[of f "is"] is_nameD(8)[of f] by (simp add: plain_line_def)

lemma manifest_line_cases:
  assumes "manifest_ok deps feats"
  shows "list_all plain_line (map dep_line deps)" "list_all plain_line (map feature_line feats)"
  using assms plain_dep plain_feature by (fastforce simp: manifest_ok_def list_all_iff)+

lemma plain_lines:
  assumes "list_all plain_line ls"
  shows "list_all (\<lambda>l. \<not> prefix [bracket] (trim l)) ls" "prefix [bracket] h \<Longrightarrow> list_all (\<lambda>l. trim l \<noteq> h) ls"
  using assms by (auto simp: list_all_iff plain_line_def)

lemma manifest_lines_of:
  assumes "manifest_ok deps feats"
  shows "lines_of (manifest_text deps feats) = manifest_lines deps feats"
  unfolding manifest_text_def using manifest_line_cases[OF assms]
  by (intro lines_of_unlines) (auto simp: manifest_lines_def list_all_iff plain_line_def)

lemma manifest_sections:
  assumes "manifest_ok deps feats"
  shows "section_by_header (manifest_text deps feats) (lit ''[dependencies]'') = Some (unlines (map dep_line deps @ [[]]))"
    "section_by_header (manifest_text deps feats) (lit ''[features]'') = Some (unlines (map feature_line feats))"
    "section_by_header (manifest_text deps feats) wasm_header = None"
    "wasm_search content (lines_of (manifest_text deps feats)) = []"
proof -
  note D = manifest_line_cases(1)[OF assms] and F = manifest_line_cases(2)[OF assms] and L = manifest_lines_of[OF assms]
  note open_line = plain_lines(1) and other = plain_lines(2)
  show "section_by_header (manifest_text deps feats) (lit ''[dependencies]'') = Some (unlines (map dep_line deps @ [[]]))"
    unfolding section_by_header_def L manifest_lines_def
    using collect_lines[OF open_line[OF D]] by (simp add: headers unlines_def del: lit_simps)
  show "section_by_header (manifest_text deps feats) (lit ''[features]'') = Some (unlines (map feature_line feats))"
    using collect_lines[OF open_line[OF F], of "[]"] section_skip[OF other[OF D headers(9)]]
    by (simp add: section_by_header_def L manifest_lines_def headers headers(11)[symmetric] del: lit_simps)
  show "section_by_header (manifest_text deps feats) wasm_header = None"
    using section_skip[OF other[OF D headers(10)]] section_skip[OF other[OF F headers(10)], of "[]"]
    by (simp add: section_by_header_def L manifest_lines_def headers headers(11,12)[symmetric] del: lit_simps)
  show "wasm_search content (lines_of (manifest_text deps feats)) = []"
    using open_line[OF D] open_line[OF F] headers
    by (intro wasm_skip) (auto simp: L manifest_lines_def list_all_iff simp del: lit_simps)
qed

lemma parse_dep_Nil: "parse_dep [] = None"
  by (simp add: parse_dep_def headers)

lemma parse_manifest_deps:
  "list_all (\<lambda>(n, r). is_name n \<and> one_line r) deps \<Longrightarrow>
     List.map_filter parse_dep (map dep_line deps @ [[]]) = map (\<lambda>(n, r). (n, 32 # r)) deps"
  by (induction deps) (auto simp: map_filter_simps parse_dep_line parse_dep_Nil)

lemma parse_manifest_features:
  assumes "list_all (\<lambda>(f, items). is_name f \<and> list_all is_item items) feats" and "distinct (map fst (acc @ feats))"
  shows "parse_features_loop acc (map feature_line feats) = Ok (acc @ feats)"
  using assms
proof (induction feats arbitrary: acc)
  case (Cons x feats)
  obtain f items where x: "x = (f, items)" by (cases x)
  have "hm_insert f items acc = acc @ [(f, items)]" if "f \<notin> fst ` set acc" for acc :: "(utext, utext list) hmap"
    using that by (induction acc) (auto simp: hm_insert_def)
  with Cons x show ?case by (simp add: parse_feature_line image_Un)
qed simp

section \<open>The generated list\<close>

lemma deps_of_manifest_eq:
  assumes "manifest_ok deps feats"
  shows "from_cargo_toml order (manifest_text deps feats) =
    Ok (map (\<lambda>(n, r). (crate_ident n, main_cfg (order feats) (n, 32 # r))) (filter (\<lambda>(n, r). n \<noteq> derive_crate) deps))"
proof -
  note S = manifest_sections[OF assms] and C = manifest_line_cases[OF assms]
  have "list_all plain_line (map dep_line deps @ [[]])" using C(1) by (simp add: plain_line_def headers)
  then have l: "lines_of (unlines (map dep_line deps @ [[]])) = map dep_line deps @ [[]]"
    "lines_of (unlines (map feature_line feats)) = map feature_line feats"
    using C(2) by (auto intro!: lines_of_unlines simp: list_all_iff plain_line_def)
  have d: "parse_deps_ordered (unlines (map dep_line deps @ [[]])) = map (\<lambda>(n, r). (n, 32 # r)) deps"
    using parse_manifest_deps[of deps] assms
    by (simp add: parse_deps_ordered_def l manifest_ok_def)
  have f: "parse_features (unlines (map feature_line feats)) = Ok feats"
    using parse_manifest_features[of feats "[]"] assms by (simp add: parse_features_def l manifest_ok_def)
  show ?thesis
    by (simp add: from_cargo_toml_def S d f filter_map case_prod_beta' comp_def del: lit_simps)
qed


definition sample_deps :: "(utext \<times> utext) list" where
  "sample_deps = [(lit ''ractor_wormhole_derive'', lit ''{ }''), (lit ''ractor'', quoted (lit ''0.15'')),
     (lit ''log'', quoted (lit ''0.4'')), (lit ''tungstenite'', lit ''{ optional = true }'')]"

definition sample_feats :: "(utext \<times> utext list) list" where
  "sample_feats = [(lit ''async-trait'', [lit ''ractor/async-trait'']), (lit ''websocket_server'', [lit ''tungstenite''])]"

lemma sample_manifest_ok: "manifest_ok sample_deps sample_feats"
  by (simp add: manifest_ok_def sample_deps_def sample_feats_def is_name_def one_line_def is_item_def
      word_char_def item_char_def is_whitespace_def quoted_def)


text \<open>
  A dependency is re-exported without a condition exactly when no feature mentions it and its
  line does not look optional. A feature that only turns on a feature of a mandatory
  dependency mentions it too: that dependency is then missing wherever the feature is off.
\<close>

theorem deps_unconditional:
  assumes "manifest_ok deps feats" and "mset (order feats) = mset feats" and "(n, r) \<in> set deps" and "n \<noteq> derive_crate"
  shows "\<exists>crates cfg. from_cargo_toml order (manifest_text deps feats) = Ok crates \<and> (crate_ident n, cfg) \<in> set crates \<and>
    (cfg = [] \<longleftrightarrow> (\<forall>(f, items) \<in> set feats. \<forall>item \<in> set items. item \<noteq> n \<and> \<not> prefix (n @ lit ''/'') item) \<and>
       \<not> looks_optional (32 # r))"
proof -
  have m: "set (order feats) = set feats" using assms(2) by (metis set_mset_mset)
  have "features_referencing (order feats) n = [] \<longleftrightarrow>
      (\<forall>(f, items) \<in> set feats. \<forall>item \<in> set items. item \<noteq> n \<and> \<not> prefix (n @ lit ''/'') item)"
    by (auto simp: features_referencing_def filter_empty_conv m list_ex_iff mentions_def simp del: lit_simps)
  moreover have "main_cfg (order feats) (n, 32 # r) = [] \<longleftrightarrow>
      features_referencing (order feats) n = [] \<and> \<not> looks_optional (32 # r)"
    by (auto simp: main_cfg_def Let_def feature_eq_def any_of_def)
  moreover have "(crate_ident n, main_cfg (order feats) (n, 32 # r)) \<in>
      set (map (\<lambda>(n, r). (crate_ident n, main_cfg (order feats) (n, 32 # r))) (filter (\<lambda>(n, r). n \<noteq> derive_crate) deps))"
    using assms(3,4) by force
  ultimately show ?thesis
    using deps_of_manifest_eq[OF assms(1), of order] by blast
qed

text \<open>The mandatory dependency \<open>ractor\<close>, in a manifest like the library's own.\<close>

theorem deps_unconditional_witness:
  "\<exists>crates cfg. from_cargo_toml rev (manifest_text sample_deps sample_feats) = Ok crates \<and>
     (lit ''ractor'', cfg) \<in> set crates \<and> cfg \<noteq> []"
proof -
  have "(lit ''ractor'', quoted (lit ''0.15'')) \<in> set sample_deps" "lit ''ractor'' \<noteq> derive_crate"
    by (simp_all add: sample_deps_def derive_crate_def)
  from deps_unconditional[where order = rev, OF sample_manifest_ok mset_rev this] obtain crates cfg where
    "from_cargo_toml rev (manifest_text sample_deps sample_feats) = Ok crates"
    "(crate_ident (lit ''ractor''), cfg) \<in> set crates"
    "cfg = [] \<longleftrightarrow> (\<forall>(f, items) \<in> set sample_feats. \<forall>item \<in> set items. item \<noteq> lit ''ractor'' \<and>
       \<not> prefix (lit ''ractor'' @ lit ''/'') item) \<and> \<not> looks_optional (32 # quoted (lit ''0.15''))" by blast
  then show ?thesis
    by (intro exI[of _ crates] exI[of _ cfg]) (simp add: crate_ident_def sample_feats_def)
qed

text \<open>
  The condition for an optional dependency that no feature mentions is a feature named after
  the crate's identifier. The feature that Cargo itself provides is named after the crate: the
  two differ for a name with a hyphen, and such a dependency is never re-exported.
\<close>

lemma hyphen_fallback:
  assumes "features_referencing features_map n = []" and "looks_optional r" and "45 \<in> set n"
  shows "main_cfg features_map (n, r) = feature_eq (crate_ident n) \<and> crate_ident n \<noteq> n"
proof -
  have "45 \<notin> set (crate_ident n)" by (auto simp: crate_ident_def)
  then show ?thesis using assms by (auto simp: main_cfg_def)
qed

text \<open>A features line whose last closing bracket stands before its first opening one makes the macro panic.\<close>

lemma parse_feature_panics:
  "parse_feature (lit ''f = ] ['') = Panic SliceOutOfRange"
  by (simp add: parse_feature_def trim_def trim_by_def is_whitespace_def find_char_def rfind_char_def text_slice_def)

end
