(* ===== verification/Derive_Example.thy ===== *)
theory Derive_Example
  imports Derive_Correct Transmat_Default
begin

text \<open>
  The two examples at the head of \<open>derive_wormhole_serializable.rs\<close>: a struct and an enum,
  each with the implementation written out that the macro is to emit. They are compared with
  what the macro really emits for the same items.
\<close>

section \<open>The example struct\<close>

record dummy_struct =
  dummy :: "32 word"

definition dummy_immaterialize :: "('s, dummy_struct) immat" where
  "dummy_immaterialize self =
     seq (immaterialize_le_bytes (dummy self)) (\<lambda>field_bytes_dummy.
     ret (len_u64 field_bytes_dummy @ field_bytes_dummy))"

text \<open>
  A length, cast with \<open>as usize\<close>, and as many bytes. Nothing is checked beforehand: the
  slice expressions panic where the bytes are not there.
\<close>

definition raw_slice :: "platform \<Rightarrow> bytes \<Rightarrow> nat \<Rightarrow> (bytes \<times> nat) outcome" where
  "raw_slice P data offset =
     and_then (usize_add P offset 8) (\<lambda>hdr_end.
     and_then (subslice data offset hdr_end) (\<lambda>hdr.
     if length hdr \<noteq> 8 then Err TryFromSliceError
     else
       let field_len = as_usize P (le_value hdr) in
       and_then (usize_add P hdr_end field_len) (\<lambda>field_end.
       and_then (subslice data hdr_end field_end) (\<lambda>field_bytes. Ok (field_bytes, field_end)))))"

definition dummy_rematerialize :: "platform \<Rightarrow> ('t, dummy_struct) remat" where
  "dummy_rematerialize P data =
     seq (lift (raw_slice P data 0)) (\<lambda>(field_bytes_dummy, offset).
     seq (rematerialize_le_bytes field_bytes_dummy) (\<lambda>field_dummy.
     if length data \<noteq> offset then throw (NotFullyConsumed (length data) offset)
     else ret \<lparr>dummy = field_dummy\<rparr>))"

section \<open>The example enum\<close>

datatype dummy_enum = Case1 "32 word" rstring | Case2 | Case3 "32 word" rstring

definition dummy_enum_immaterialize :: "('s, dummy_enum) immat" where
  "dummy_enum_immaterialize self =
     seq (case self of
       Case1 field1 field2 \<Rightarrow>
         seq (immaterialize_le_bytes field1) (\<lambda>field_bytes_field1.
         seq (immaterialize_string field2) (\<lambda>field_bytes_field2.
         ret (str_lit ''Case1'', len_u64 field_bytes_field1 @ field_bytes_field1 @
                                 len_u64 field_bytes_field2 @ field_bytes_field2)))
     | Case2 \<Rightarrow> ret (str_lit ''Case2'', [])
     | Case3 field1 field2 \<Rightarrow>
         seq (immaterialize_le_bytes field1) (\<lambda>field_bytes_field1.
         seq (immaterialize_string field2) (\<lambda>field_bytes_field2.
         ret (str_lit ''Case3'', len_u64 field_bytes_field1 @ field_bytes_field1 @
                                 len_u64 field_bytes_field2 @ field_bytes_field2)))) (\<lambda>(name, bytes).
     ret (len_u64 name @ name @ len_u64 bytes @ bytes))"

text \<open>Both arms with fields read the two fields alike, and do not look at what is left of the payload.\<close>

definition dummy_enum_fields :: "platform \<Rightarrow> bytes \<Rightarrow> ('t, 32 word \<times> rstring) eff" where
  "dummy_enum_fields P payload_data =
     seq (lift (raw_slice P payload_data 0)) (\<lambda>(field1_bytes, payload_offset).
     seq (rematerialize_le_bytes field1_bytes) (\<lambda>field1.
     seq (lift (raw_slice P payload_data payload_offset)) (\<lambda>(field2_bytes, payload_offset).
     seq (rematerialize_string P field2_bytes) (\<lambda>field2.
     ret (field1, field2)))))"

definition dummy_enum_rematerialize :: "platform \<Rightarrow> ('t, dummy_enum) remat" where
  "dummy_enum_rematerialize P data =
     seq (lift (raw_slice P data 0)) (\<lambda>(variant_name_bytes, offset).
     seq (lift (from_utf8 variant_name_bytes)) (\<lambda>variant_name.
     seq (lift (raw_slice P data offset)) (\<lambda>(payload_data, offset).
     seq (if variant_name = str_lit ''Case1'' then
            seq (dummy_enum_fields P payload_data) (\<lambda>(field1, field2). ret (Case1 field1 field2))
          else if variant_name = str_lit ''Case2'' then ret Case2
          else if variant_name = str_lit ''Case3'' then
            seq (dummy_enum_fields P payload_data) (\<lambda>(field1, field2). ret (Case3 field1 field2))
          else throw (UnknownVariant variant_name)) (\<lambda>result.
     if length data \<noteq> offset then throw (NotFullyConsumed (length data) offset)
     else ret result))))"

section \<open>The same items, given to the macro\<close>

datatype example_ty = TyU32 | TyString

datatype example_value = U32Value "32 word" | StringValue rstring

fun example_imm :: "example_ty \<Rightarrow> ('s, example_value) immat" where
  "example_imm TyU32 (U32Value w) = immaterialize_le_bytes w"
| "example_imm TyString (StringValue s) = immaterialize_string s"
| "example_imm _ _ = throw EncodeError"

fun example_rem :: "platform \<Rightarrow> example_ty \<Rightarrow> ('t, example_value) remat" where
  "example_rem P TyU32 data = seq (rematerialize_le_bytes data) (\<lambda>w. ret (U32Value w))"
| "example_rem P TyString data = seq (rematerialize_string P data) (\<lambda>s. ret (StringValue s))"

definition example_field :: "string \<Rightarrow> example_ty \<Rightarrow> example_ty named_field" where
  "example_field x ty = \<lparr>field_name = str_lit x, field_type = ty, field_attrs = []\<rparr>"

definition dummy_item :: "example_ty fields" where
  "dummy_item = Named [example_field ''dummy'' TyU32]"

definition dummy_enum_item :: "(rstring \<times> example_ty fields) list" where
  "dummy_enum_item =
     [(str_lit ''Case1'', TupleFields [TyU32, TyString]),
      (str_lit ''Case2'', UnitFields),
      (str_lit ''Case3'', Named [example_field ''field1'' TyU32, example_field ''field2'' TyString])]"

fun enum_value :: "dummy_enum \<Rightarrow> rstring \<times> example_value list" where
  "enum_value (Case1 a b) = (str_lit ''Case1'', [U32Value a, StringValue b])"
| "enum_value Case2 = (str_lit ''Case2'', [])"
| "enum_value (Case3 a b) = (str_lit ''Case3'', [U32Value a, StringValue b])"

abbreviation derived_dummy_rem :: "platform \<Rightarrow> ('t, example_value list) remat" where
  "derived_dummy_rem P \<equiv> rematerialize_struct P (\<lambda>_ _. None) (example_rem P) dummy_item"

abbreviation derived_enum_rem :: "platform \<Rightarrow> ('t, rstring \<times> example_value list) remat" where
  "derived_enum_rem P \<equiv> rematerialize_enum P (\<lambda>_ _. None) (example_rem P) (str_lit ''DummyEnum'') dummy_enum_item"

section \<open>One slice\<close>

lemma field_slice_iff:
  "field_slice P data offset = Ok (b, e) \<longleftrightarrow> (\<exists>h hdr. usize_add P offset 8 = Ok h \<and> subslice data offset h = Ok hdr \<and>
     length hdr = 8 \<and> le_value hdr \<le> usize_max P \<and> usize_add P h (le_value hdr) = Ok e \<and> subslice data h e = Ok b)"
  by (fastforce simp: field_slice_def and_then_eq_Ok not_less split: if_splits dest: slice_OkD)

lemma raw_slice_iff:
  "raw_slice P data offset = Ok (b, e) \<longleftrightarrow> (\<exists>h hdr. usize_add P offset 8 = Ok h \<and> subslice data offset h = Ok hdr \<and>
     length hdr = 8 \<and> usize_add P h (as_usize P (le_value hdr)) = Ok e \<and> subslice data h e = Ok b)"
  by (fastforce simp: raw_slice_def and_then_eq_Ok Let_def split: if_splits)

lemma as_usize_small: "v \<le> usize_max P \<Longrightarrow> as_usize P v = v"
proof -
  have "(0 :: nat) < 2 ^ usize_bits P" by simp
  then show "v \<le> usize_max P \<Longrightarrow> as_usize P v = v"
    unfolding as_usize_def usize_max_def by (intro mod_less) linarith
qed

lemma header_small: "usize_bits P = 64 \<Longrightarrow> length hdr = 8 \<Longrightarrow> le_value hdr \<le> usize_max P"
  using le_value_bound[of hdr] by (simp add: usize_max_def)

lemma raw_slice_of_field_slice: "field_slice P data offset = Ok (b, e) \<Longrightarrow> raw_slice P data offset = Ok (b, e)"
  unfolding field_slice_iff raw_slice_iff by (auto simp: as_usize_small)

lemma field_slice_of_raw_slice:
  "usize_bits P = 64 \<Longrightarrow> raw_slice P data offset = Ok (b, e) \<Longrightarrow> field_slice P data offset = Ok (b, e)"
  unfolding field_slice_iff raw_slice_iff using header_small[of P] by (auto simp: as_usize_small)

lemma add_8_exact:
  assumes "usize_bits P = 64" and "usize_add P offset 8 = Ok h" and "offset \<le> h"
  shows "h = offset + 8"
proof (rule ccontr)
  assume "h \<noteq> offset + 8"
  with assms have h: "h = (offset + 8) mod 2 ^ 64" and big: "2 ^ 64 \<le> offset + 8"
    by (auto simp: usize_add_def usize_max_def split: if_splits)
  have "h < 2 ^ 64" using h by simp
  with assms(3) have "offset + 8 < 2 ^ 64 + 8" by simp
  with big h have "h = offset + 8 - 2 ^ 64" by (simp add: le_mod_geq)
  with assms(3) big show False by simp
qed

text \<open>Where the emitted code reports an error, the example panics.\<close>

lemma raw_slice_panics:
  assumes "usize_bits P = 64" and "field_slice P data offset = Err e"
  shows "\<exists>p. raw_slice P data offset = Panic p"
proof (cases "raw_slice P data offset")
  case (Ok x)
  then have "field_slice P data offset = Ok x" using field_slice_of_raw_slice[OF assms(1)] by (cases x) simp
  with assms(2) show ?thesis by simp
next
  case (Err e')
  then obtain h where h: "usize_add P offset 8 = Ok h" "h \<noteq> offset + 8" "offset \<le> h"
    by (auto simp: raw_slice_def and_then_def usize_add_def subslice_def Let_def split: outcome.splits if_splits)
  then show ?thesis using add_8_exact[OF assms(1)] by blast
qed simp

section \<open>Writing\<close>

lemmas example_defs = dummy_item_def dummy_enum_item_def example_field_def

lemma str_lit_names [simp]:
  "str_lit ''Case1'' \<noteq> str_lit ''Case2''" "str_lit ''Case1'' \<noteq> str_lit ''Case3''" "str_lit ''Case2'' \<noteq> str_lit ''Case3''"
  "str_lit ''Case2'' \<noteq> str_lit ''Case1''" "str_lit ''Case3'' \<noteq> str_lit ''Case1''" "str_lit ''Case3'' \<noteq> str_lit ''Case2''"
  "str_lit ''field1'' \<noteq> str_lit ''field2''" "str_lit ''field2'' \<noteq> str_lit ''field1''"
  by (simp_all add: str_lit_def)

lemma dummy_immaterialize_eq: "dummy_immaterialize v = immaterialize_struct example_imm dummy_item [U32Value (dummy v)]"
  by (simp add: dummy_immaterialize_def immaterialize_struct_def example_defs fun_eq_iff seq_def immaterialize_le_bytes_def)

lemma dummy_enum_immaterialize_eq:
  "dummy_enum_immaterialize e = immaterialize_enum (\<lambda>_ _. None) example_imm dummy_enum_item (enum_value e)"
proof (cases e)
  case (Case3 a b)
  let ?fs = "Named [example_field ''field1'' TyU32, example_field ''field2'' TyString]"
  have "variant_ok ?fs"
    by (simp add: variant_ok_def fields_ok_def example_field_def str_lit_def ident_bytes_def)
  note imm = immaterialize_variant_eq[OF this, of "[U32Value a, StringValue b]" "\<lambda>_ _. None" example_imm]
  show ?thesis
    using Case3 by (simp add: dummy_enum_immaterialize_def immaterialize_enum_def dummy_enum_item_def immaterialize_struct_def
        fun_eq_iff seq_def immaterialize_le_bytes_def immaterialize_string_def imm field_types_def)
      (simp add: example_field_def immaterialize_le_bytes_def immaterialize_string_def seq_def)
qed (simp_all add: dummy_enum_immaterialize_def immaterialize_enum_def immaterialize_variant_def example_defs
    fun_eq_iff seq_def immaterialize_le_bytes_def immaterialize_string_def)

section \<open>Reading\<close>

lemma dummy_rem_ok:
  "derived_dummy_rem P data t = (Ok ws, t') \<Longrightarrow>
   \<exists>d. ws = [U32Value (dummy d)] \<and> dummy_rematerialize P data t = (Ok d, t')"
  by (auto simp: rematerialize_struct_def example_defs dummy_rematerialize_def seq_eq_Ok build_def
      dest!: raw_slice_of_field_slice split: if_splits)

lemma dummy_rem_exact:
  assumes "usize_bits P = 64" and "dummy_rematerialize P data t = (Ok d, t')"
  shows "derived_dummy_rem P data t = (Ok [U32Value (dummy d)], t')"
proof -
  from assms(2) obtain b off where r: "raw_slice P data 0 = Ok (b, off)" and w: "rematerialize_le_bytes b t = (Ok (dummy d), t')"
    and off: "length data = off"
    by (auto simp: dummy_rematerialize_def seq_eq_Ok split: if_splits)
  from w off field_slice_of_raw_slice[OF assms(1) r] show ?thesis
    by (simp add: rematerialize_struct_def example_defs build_def seq_def)
qed

lemma dummy_rem_panics:
  assumes "usize_bits P = 64" and "field_slice P data 0 = Err e"
  shows "derived_dummy_rem P data t = (Err e, t)" and "\<exists>p. dummy_rematerialize P data t = (Panic p, t)"
  using assms(2) raw_slice_panics[OF assms]
  by (auto simp: rematerialize_struct_def example_defs dummy_rematerialize_def seq_def)

text \<open>The two fields of \<open>Case1\<close> and \<open>Case3\<close>.\<close>

lemma fields_rem_ok:
  "deserialize_fields P (example_rem P) data 0 [TyU32, TyString] t = (Ok (ws, off), t') \<Longrightarrow>
   \<exists>a b. ws = [U32Value a, StringValue b] \<and> dummy_enum_fields P data t = (Ok (a, b), t')"
  by (auto simp: dummy_enum_fields_def seq_eq_Ok dest!: raw_slice_of_field_slice) 

lemma case1_rem_ok:
  assumes "rematerialize_variant P (\<lambda>_ _. None) (example_rem P) (TupleFields [TyU32, TyString]) data t = (Ok ws, t')"
  shows "\<exists>a b. ws = [U32Value a, StringValue b] \<and> dummy_enum_fields P data t = (Ok (a, b), t')"
  using assms by (auto simp: rematerialize_variant_def seq_eq_Ok simp del: deserialize_fields.simps split: if_splits
      dest: fields_rem_ok)

lemma case3_rem_ok:
  assumes "rematerialize_variant P (\<lambda>_ _. None) (example_rem P)
      (Named [example_field ''field1'' TyU32, example_field ''field2'' TyString]) data t = (Ok ws, t')"
  shows "\<exists>a b. ws = [U32Value a, StringValue b] \<and> dummy_enum_fields P data t = (Ok (a, b), t')"
proof -
  have [simp]: "str_lit ''field1'' \<noteq> str_lit ''len_'' @ str_lit ''field2''" "str_lit ''field1'' \<noteq> str_lit ''bytes_'' @ str_lit ''field2''"
    by (simp_all add: str_lit_def)
  from assms obtain x1 o1 a t1 x2 o2 b t2 where
    "field_slice P data 0 = Ok (x1, o1)" "rematerialize_le_bytes x1 t = (Ok a, t1)"
    "field_slice P data o1 = Ok (x2, o2)" "rematerialize_string P x2 t1 = (Ok b, t')"
    "ws = [U32Value a, StringValue b]"
    by (auto simp: rematerialize_variant_def example_field_def seq_eq_Ok build_def split: if_splits)
  then show ?thesis
    by (auto simp: dummy_enum_fields_def seq_eq_Ok dest!: raw_slice_of_field_slice) 
qed

lemma dummy_enum_rem_ok:
  assumes "derived_enum_rem P data t = (Ok w, t')"
  shows "\<exists>e. w = enum_value e \<and> dummy_enum_rematerialize P data t = (Ok e, t')"
proof -
  from assms obtain nb off name pay fs ws where n: "field_slice P data 0 = Ok (nb, off)" "from_utf8 nb = Ok name"
    and p: "field_slice P data off = Ok (pay, length data)" and m: "map_of dummy_enum_item name = Some fs"
    and ws: "rematerialize_variant P (\<lambda>_ _. None) (example_rem P) fs pay t = (Ok ws, t')" and w: "w = (name, ws)"
    by (auto simp: rematerialize_enum_def seq_eq_Ok split: if_splits option.splits)
  note read = raw_slice_of_field_slice[OF n(1)] n(2) raw_slice_of_field_slice[OF p]
  from m consider "name = str_lit ''Case1''" "fs = TupleFields [TyU32, TyString]"
    | "name = str_lit ''Case2''" "fs = UnitFields"
    | "name = str_lit ''Case3''" "fs = Named [example_field ''field1'' TyU32, example_field ''field2'' TyString]"
    by (auto simp: dummy_enum_item_def split: if_splits)
  then show ?thesis
  proof cases
    case 1
    from case1_rem_ok[OF ws[unfolded 1(2)]] obtain a b where
      "ws = [U32Value a, StringValue b]" "dummy_enum_fields P pay t = (Ok (a, b), t')" by blast
    with read w 1 show ?thesis by (intro exI[of _ "Case1 a b"]) (simp add: dummy_enum_rematerialize_def seq_def)
  next
    case 2
    with ws have "ws = []" "t' = t" by (auto simp: rematerialize_variant_def split: if_splits)
    with read w 2 show ?thesis by (intro exI[of _ Case2]) (simp add: dummy_enum_rematerialize_def seq_def)
  next
    case 3
    from case3_rem_ok[OF ws[unfolded 3(2)]] obtain a b where
      "ws = [U32Value a, StringValue b]" "dummy_enum_fields P pay t = (Ok (a, b), t')" by blast
    with read w 3 show ?thesis by (intro exI[of _ "Case3 a b"]) (simp add: dummy_enum_rematerialize_def seq_def)
  qed
qed

text \<open>
  A payload behind \<open>Case2\<close>: the example does not look at it, what the macro emits refuses it.
\<close>

lemma case2_payload:
  assumes "field_slice P data 0 = Ok (str_lit ''Case2'', off)" and "field_slice P data off = Ok (pay, length data)"
    and "pay \<noteq> []"
  shows "dummy_enum_rematerialize P data t = (Ok Case2, t)"
    and "derived_enum_rem P data t = (Err (UnitVariantNotEmpty (length pay)), t)"
proof -
  have u: "from_utf8 (str_lit ''Case2'') = Ok (str_lit ''Case2'')" by (simp add: from_utf8_def str_lit_def)
  show "dummy_enum_rematerialize P data t = (Ok Case2, t)"
    using raw_slice_of_field_slice[OF assms(1)] raw_slice_of_field_slice[OF assms(2)] u
    by (simp add: dummy_enum_rematerialize_def)
  show "derived_enum_rem P data t = (Err (UnitVariantNotEmpty (length pay)), t)"
    using assms u by (simp add: rematerialize_enum_def dummy_enum_item_def rematerialize_variant_def seq_def)
qed

text \<open>
  The examples in the macro's source and the macro. For the same struct and enum both write
  the same bytes, and what the emitted code reads the examples read, with the same result. Not
  conversely: where the emitted code finds the data too short the example panics, and it
  takes a unit variant with a payload, which the emitted code refuses.
\<close>

theorem derive_example:
  "dummy_immaterialize v s = immaterialize_struct example_imm dummy_item [U32Value (dummy v)] s \<and>
   dummy_enum_immaterialize e s = immaterialize_enum (\<lambda>_ _. None) example_imm dummy_enum_item (enum_value e) s \<and>
   (\<forall>ws t'. derived_dummy_rem P data t = (Ok ws, t') \<longrightarrow>
      (\<exists>d. ws = [U32Value (dummy d)] \<and> dummy_rematerialize P data t = (Ok d, t'))) \<and>
   (\<forall>w t'. derived_enum_rem P data t = (Ok w, t') \<longrightarrow>
      (\<exists>e. w = enum_value e \<and> dummy_enum_rematerialize P data t = (Ok e, t'))) \<and>
   (usize_bits P = 64 \<longrightarrow>
      (\<forall>d t'. dummy_rematerialize P data t = (Ok d, t') \<longrightarrow> derived_dummy_rem P data t = (Ok [U32Value (dummy d)], t')) \<and>
      (\<forall>err. field_slice P data 0 = Err err \<longrightarrow>
         derived_dummy_rem P data t = (Err err, t) \<and> (\<exists>p. dummy_rematerialize P data t = (Panic p, t)))) \<and>
   (field_slice P data 0 = Ok (str_lit ''Case2'', off) \<and> field_slice P data off = Ok (pay, length data) \<and> pay \<noteq> [] \<longrightarrow>
      dummy_enum_rematerialize P data t = (Ok Case2, t) \<and>
      derived_enum_rem P data t = (Err (UnitVariantNotEmpty (length pay)), t))"
  using dummy_rem_ok[of P data t] dummy_enum_rem_ok[of P data t] dummy_rem_exact[of P data t] dummy_rem_panics[of P data _ t]
    case2_payload[of P data off pay t]
  by (intro conjI) (simp_all add: dummy_immaterialize_eq dummy_enum_immaterialize_eq)

theorem derive_example_witness:
  "(\<exists>d. dummy d = 7 \<and> dummy_rematerialize host64 (len_u64 [7 :: byte, 0, 0, 0] @ [7, 0, 0, 0]) () = (Ok d, ())) \<and>
   (\<exists>p. dummy_rematerialize host64 [1] () = (Panic p, ())) \<and>
   dummy_enum_rematerialize host64 (len_u64 (str_lit ''Case2'') @ str_lit ''Case2'' @ len_u64 [9 :: byte] @ [9]) () = (Ok Case2, ())"
proof -
  let ?good = "len_u64 [7 :: byte, 0, 0, 0] @ [7, 0, 0, 0]"
  let ?odd = "len_u64 (str_lit ''Case2'') @ str_lit ''Case2'' @ len_u64 [9 :: byte] @ [9]"
  note eval = le_value_le_bytes field_slice_def usize_add_def usize_max_def subslice_def host64_def len_u64_def to_le_bytes_def str_lit_def
  have g: "derived_dummy_rem host64 ?good () = (Ok [U32Value 7], ())"
    by (simp add: rematerialize_struct_def example_defs eval build_def rematerialize_le_bytes_def require_buffer_size_def
        from_le_bytes_def seq_def)
  have b: "field_slice host64 [1] 0 = Err (UnexpectedEndOfData 8 1)" "usize_bits host64 = 64" by (simp_all add: eval)
  have o: "field_slice host64 ?odd 0 = Ok (str_lit ''Case2'', 13)" "field_slice host64 ?odd 13 = Ok ([9], length ?odd)"
    by (simp_all add: eval)
  from derive_example[where s = "()" and P = host64 and data = ?good and t = "()"] g
  have "\<exists>d. dummy d = 7 \<and> dummy_rematerialize host64 ?good () = (Ok d, ())" by auto
  moreover from derive_example[where s = "()" and P = host64 and data = "[1]" and t = "()"] b
  have "\<exists>p. dummy_rematerialize host64 [1] () = (Panic p, ())" by blast
  moreover from derive_example[where s = "()" and P = host64 and data = ?odd and t = "()" and off = 13 and pay = "[9]"] o
  have "dummy_enum_rematerialize host64 ?odd () = (Ok Case2, ())" by blast
  ultimately show ?thesis by blast
qed

end
