(* ===== verification/Derive_Tests.thy ===== *)
theory Derive_Tests
  imports Derive_Example Serial_Props
begin

text \<open>
  Bytes that no value gives: an encoded enum cut short, or with more behind its payload, is refused
  by the emitted code. The tests of \<open>ractor_wormhole_tests/src/derive_error_tests.rs\<close> are
  instances; their types, and the others of \<open>derive_tests.rs\<close>, are items the macro takes.
\<close>

section \<open>What an emitted enum decoder refuses\<close>

definition enum_bytes :: "rstring \<Rightarrow> bytes \<Rightarrow> bytes" where
  "enum_bytes name payload = len_u64 name @ name @ len_u64 payload @ payload"

lemma enum_slices:
  assumes "wf_platform P" and "fits P (enum_bytes name payload)"
  shows "field_slice P (enum_bytes name payload) 0 = Ok (name, 8 + length name)"
    and "field_slice P (enum_bytes name payload) (8 + length name) = Ok (payload, length (enum_bytes name payload))"
proof -
  let ?bs = "enum_bytes name payload"
  show "field_slice P ?bs 0 = Ok (name, 8 + length name)"
    unfolding field_slice_eq_Ok
    using elem_slice_Ok[OF assms, of 0 name "len_u64 payload @ payload"] by (simp add: enum_bytes_def)
  have "elem_slice P ?bs (8 + length name) = Ok (payload, 8 + length name + 8 + length payload)"
    by (rule elem_slice_Ok[OF assms, of _ payload "[]"]) (simp_all add: enum_bytes_def)
  then show "field_slice P ?bs (8 + length name) = Ok (payload, length ?bs)"
    unfolding field_slice_eq_Ok by (simp add: enum_bytes_def)
qed

text \<open>A slice of a buffer that was cut is the same, or an error.\<close>

lemma field_slice_take:
  assumes "field_slice P data n = Ok (b, e)" and "k \<le> length data"
  shows "field_slice P (take k data) n = Ok (b, e) \<and> e \<le> k \<or> (\<exists>err. field_slice P (take k data) n = Err err)"
proof -
  obtain h hdr where h: "usize_add P n 8 = Ok h" "subslice data n h = Ok hdr" "length hdr = 8" "le_value hdr \<le> usize_max P"
    "usize_add P h (le_value hdr) = Ok e" "subslice data h e = Ok b"
    using assms(1) unfolding field_slice_iff by blast
  have sub: "subslice (take k data) x y = subslice data x y" if "y \<le> k" "x \<le> y" for x y
    using that assms(2) by (auto simp: subslice_def drop_take min_def)
  have le: "n \<le> h" "h \<le> e" using slice_OkD[OF h(2)] slice_OkD[OF h(6)] by auto
  show ?thesis
  proof (cases "e \<le> k")
    case True
    then have "h \<le> k" using le by simp
    then have "field_slice P (take k data) n = Ok (b, e)"
      unfolding field_slice_iff using h sub[OF \<open>h \<le> k\<close> le(1)] sub[OF True le(2)] by metis
    with True show ?thesis by blast
  next
    case False
    then have "\<exists>err. field_slice P (take k data) n = Err err"
    proof (cases "h \<le> k")
      case True
      with False h sub[OF True le(1)] assms(2) show ?thesis by (simp add: field_slice_def)
    qed (use h assms(2) in \<open>simp add: field_slice_def\<close>)
    then show ?thesis by blast
  qed
qed

lemma enum_cut_refused:
  assumes "wf_platform P" and "fits P (enum_bytes name payload)" and "k < length (enum_bytes name payload)"
  shows "\<exists>err. rematerialize_enum P of_usize rem_of nm variants (take k (enum_bytes name payload)) t = (Err err, t)"
proof -
  let ?bs = "enum_bytes name payload"
  note s = enum_slices[OF assms(1,2)]
  from field_slice_take[OF s(1), of k] assms(3) consider
    (name) "field_slice P (take k ?bs) 0 = Ok (name, 8 + length name)" | (cut) err where "field_slice P (take k ?bs) 0 = Err err" by auto
  then show ?thesis
  proof cases
    case name
    from field_slice_take[OF s(2), of k] assms(3) obtain err where
      p: "field_slice P (take k ?bs) (8 + length name) = Err err" by auto
    with name show ?thesis by (cases "from_utf8 name") (auto simp: rematerialize_enum_def from_utf8_def split: if_splits)
  qed (simp add: rematerialize_enum_def)
qed

definition extra_error :: "(rstring \<times> 'ty fields) list \<Rightarrow> rstring \<Rightarrow> bytes \<Rightarrow> bytes \<Rightarrow> werror" where
  "extra_error variants name pay extra =
     (if map_of variants name = Some UnitFields then UnitVariantNotEmpty (length extra)
      else PayloadNotFullyConsumed (length (pay @ extra)) (length pay))"

context derive_table
begin

text \<open>More bytes behind the fields: the fields are read, and the rest is found.\<close>

lemma variant_extra_refused:
  assumes ok: "fields_ok fs" and s: "sinv s" and g: "good_fields good (field_types fs) vs"
    and w: "immaterialize_struct imm_of fs vs s = (Ok pay, s')" and f: "fits P (pay @ extra)" and t: "tinv t" and e: "extra \<noteq> []"
  shows "\<exists>err t'. rematerialize_variant P of_usize rem_of fs (pay @ extra) t = (Err err, t') \<and>
    err = (if fs = UnitFields then UnitVariantNotEmpty (length extra) else PayloadNotFullyConsumed (length (pay @ extra)) (length pay))"
proof (cases "fs = UnitFields")
  case True
  with w e show ?thesis by (simp add: rematerialize_variant_def immaterialize_struct_def)
next
  case False
  then have "serialize_fields imm_of (field_types fs) vs s = (Ok pay, s')" using w by (simp add: immaterialize_struct_eq)
  from fields_read[OF s g this f, of 0 extra t] t obtain ws t' where
    d: "deserialize_fields P rem_of (pay @ extra) 0 (field_types fs) t = (Ok (ws, length pay), t')" by (auto simp: wp_iff)
  show ?thesis
  proof (cases fs)
    case (Named nfs)
    with d have "deserialize_fields P rem_of (pay @ extra) 0 (map field_type nfs) t = (Ok (ws, length pay), t')"
      by (simp add: field_types_def)
    from deserialize_named_eq[OF this, of "[]"] obtain env where
      "deserialize_named P rem_of (pay @ extra) 0 [] nfs t = (Ok (env, length pay), t')" by blast
    then show ?thesis using e by (simp add: Named rematerialize_variant_def seq_OkD)
  qed (use d e False in \<open>simp_all add: rematerialize_variant_def field_types_def seq_OkD\<close>)
qed

lemma enum_extra_refused:
  assumes ok: "variants_ok variants" and s: "sinv s" and g: "good_enum good variants (name, vs)"
    and w: "immaterialize_enum of_bytes imm_of variants (name, vs) s = (Ok bs, s')" and t: "tinv t" and e: "extra \<noteq> []"
  shows "\<exists>pay. bs = enum_bytes name pay \<and> (fits P (enum_bytes name (pay @ extra)) \<longrightarrow>
    (\<exists>err t'. rematerialize_enum P of_usize rem_of nm variants (enum_bytes name (pay @ extra)) t = (Err err, t') \<and>
      err = extra_error variants name pay extra))"
proof -
  obtain fs where fs: "map_of variants name = Some fs" and gv: "good_fields good (field_types fs) vs"
    using g by (auto simp: good_enum_def split: option.splits)
  have okv: "utf8_valid name" "fields_ok fs" and vok: "variant_ok fs"
    using ok map_of_SomeD[OF fs] by (auto simp: variants_ok_def variant_ok_def list_all_iff)
  obtain pay where pay: "immaterialize_struct imm_of fs vs s = (Ok pay, s')" and bs: "bs = enum_bytes name pay"
    using w fs by (auto simp: immaterialize_enum_def immaterialize_variant_eq[OF vok good_fields_length[OF gv]] seq_eq_Ok enum_bytes_def)
  have "\<exists>err t'. rematerialize_enum P of_usize rem_of nm variants (enum_bytes name (pay @ extra)) t = (Err err, t') \<and>
      err = extra_error variants name pay extra"
    if f: "fits P (enum_bytes name (pay @ extra))"
  proof -
    have "fits P (pay @ extra)" using f by (simp add: enum_bytes_def fits_def)
    from variant_extra_refused[OF okv(2) s gv pay this t e, of of_usize] obtain err t' where
      "rematerialize_variant P of_usize rem_of fs (pay @ extra) t = (Err err, t')"
      "err = (if fs = UnitFields then UnitVariantNotEmpty (length extra) else PayloadNotFullyConsumed (length (pay @ extra)) (length pay))"
      by blast
    moreover have "variants \<noteq> []" using fs by auto
    ultimately show ?thesis
      using enum_slices[OF platform_wf f] okv(1) fs
      by (simp add: rematerialize_enum_def from_utf8_def seq_ErrD extra_error_def)
  qed
  with bs show ?thesis by blast
qed

end

lemma enum_trailing_refused:
  assumes T: "derive_table P sinv sle tinv tle imm_of rem_of good rel"
    and ok: "variants_ok variants" and s: "sinv s" and g: "good_enum good variants (name, vs)"
    and w: "immaterialize_enum of_bytes imm_of variants (name, vs) s = (Ok bs, s')" and t: "tinv t" and e: "extra \<noteq> []"
    and f: "fits P (bs @ extra)"
  shows "\<exists>t'. rematerialize_enum P of_usize rem_of nm variants (bs @ extra) t = (Err (NotFullyConsumed (length (bs @ extra)) (length bs)), t')"
proof -
  obtain fs where fs: "map_of variants name = Some fs" and gv: "good_fields good (field_types fs) vs"
    using g by (auto simp: good_enum_def split: option.splits)
  have okv: "utf8_valid name" "fields_ok fs" and vok: "variant_ok fs"
    using ok map_of_SomeD[OF fs] by (auto simp: variants_ok_def variant_ok_def list_all_iff)
  obtain pay where pay: "immaterialize_struct imm_of fs vs s = (Ok pay, s')" and bs: "bs = enum_bytes name pay"
    using w fs by (auto simp: immaterialize_enum_def immaterialize_variant_eq[OF vok good_fields_length[OF gv]] seq_eq_Ok enum_bytes_def)
  have wf: "wf_platform P" using T by (simp add: derive_table_def transmat_world_def)
  have "fits P pay" using f by (simp add: bs enum_bytes_def fits_def)
  from derive_table.struct_delivers(2)[OF T okv(2) s gv pay this t, of of_usize] obtain ws t' where
    v: "rematerialize_variant P of_usize rem_of fs pay t = (Ok ws, t')" by (auto simp: wp_iff)
  have 1: "field_slice P (bs @ extra) 0 = Ok (name, 8 + length name)"
    unfolding field_slice_eq_Ok
    using elem_slice_Ok[OF wf f, of 0 name "len_u64 pay @ pay @ extra"] by (simp add: bs enum_bytes_def)
  have "elem_slice P (bs @ extra) (8 + length name) = Ok (pay, 8 + length name + 8 + length pay)"
    by (rule elem_slice_Ok[OF wf f, of _ pay extra]) (simp_all add: bs enum_bytes_def)
  then have 2: "field_slice P (bs @ extra) (8 + length name) = Ok (pay, length bs)"
    unfolding field_slice_eq_Ok by (simp add: bs enum_bytes_def)
  have "variants \<noteq> []" using fs by auto
  with 1 2 v fs okv(1) e show ?thesis by (simp add: rematerialize_enum_def from_utf8_def seq_OkD)
qed


section \<open>The types of the tests\<close>

text \<open>A type argument of a generic type is \<open>ParamT\<close>; a discriminant has no part in the encoding.\<close>

datatype test_ty = U32T | F32T | F64T | BoolT | StringT | PairT test_ty test_ty | I32T | ParamT nat

definition field :: "string \<Rightarrow> 'ty \<Rightarrow> 'ty named_field" where
  "field x ty = \<lparr>field_name = str_lit x, field_type = ty, field_attrs = []\<rparr>"

definition mixed_enum :: "'ty \<Rightarrow> 'ty \<Rightarrow> (rstring \<times> 'ty fields) list" where
  "mixed_enum u32 str =
     [(str_lit ''Unit'', UnitFields), (str_lit ''Tuple'', TupleFields [u32, str]),
      (str_lit ''Struct'', Named [field ''a'' u32, field ''b'' str])]"

definition struct_enum :: "'ty \<Rightarrow> (rstring \<times> 'ty fields) list" where
  "struct_enum u32 = [(str_lit ''X'', Named [field ''a'' u32])]"

definition derive_tests :: "test_ty item list" where
  "derive_tests =
     [StructItem (str_lit ''UnitStruct'') UnitFields,
      StructItem (str_lit ''EmptyNamedStruct'') (Named []),
      StructItem (str_lit ''SingleFieldNamedStruct'') (Named [field ''a'' U32T]),
      StructItem (str_lit ''NamedStruct'') (Named [field ''a'' U32T, field ''b'' F32T]),
      StructItem (str_lit ''GenericNamedStruct'') (Named [field ''a'' (ParamT 1), field ''b'' (ParamT 2)]),
      StructItem (str_lit ''GenericNamedStructWithWhereClause'') (Named [field ''a'' (ParamT 1), field ''b'' (ParamT 2)]),
      StructItem (str_lit ''NamedStr'') (Named [field ''a'' (PairT I32T U32T), field ''b'' BoolT]),
      StructItem (str_lit ''EmptyTupleStruct'') (TupleFields []),
      StructItem (str_lit ''SingleTupleStruct'') (TupleFields [U32T]),
      StructItem (str_lit ''GenericSingleTupleStruct'') (TupleFields [ParamT 1]),
      StructItem (str_lit ''GenericSingleTupleStructWithWhereClause'') (TupleFields [ParamT 1]),
      StructItem (str_lit ''TwoTupleStruct'') (TupleFields [F32T, F64T]),
      EnumItem (str_lit ''EmptyEnum'') [],
      EnumItem (str_lit ''SingleCaseNoDataEnum'') [(str_lit ''A'', UnitFields)],
      EnumItem (str_lit ''TwoCaseNoDataEnum'') [(str_lit ''A'', UnitFields), (str_lit ''B'', UnitFields)],
      EnumItem (str_lit ''SingleCaseIntEnum'') [(str_lit ''B'', UnitFields)],
      EnumItem (str_lit ''SingleTupleVariantEnum'') [(str_lit ''A'', TupleFields [U32T])],
      EnumItem (str_lit ''EmptyVariantsEnum'') [(str_lit ''EmptyTuple'', TupleFields []), (str_lit ''EmptyStruct'', Named [])],
      EnumItem (str_lit ''StructEnum'') (struct_enum U32T),
      EnumItem (str_lit ''MultiStructVariantEnum'')
        [(str_lit ''First'', Named [field ''x'' U32T]), (str_lit ''Second'', Named [field ''y'' StringT, field ''z'' BoolT])],
      EnumItem (str_lit ''MixedEnum'') (mixed_enum U32T StringT),
      EnumItem (str_lit ''GenericEnum'') [(str_lit ''Value'', TupleFields [ParamT 1]), (str_lit ''None'', UnitFields)]]"

definition item_ok :: "'ty item \<Rightarrow> bool" where
  "item_ok it = (case it of StructItem nm fs \<Rightarrow> fields_ok fs | EnumItem nm vs \<Rightarrow> variants_ok vs | OtherItem \<Rightarrow> False)"

lemmas item_defs = item_ok_def derive_check_def fields_check_def for_field_check_def fields_ok_def variants_ok_def variant_ok_def
  field_def mixed_enum_def struct_enum_def

text \<open>The macro takes them all, and none has fields whose variables capture one another.\<close>

lemma derive_tests_ok: "list_all (\<lambda>it. derive_check it = None \<and> item_ok it) derive_tests"
  by (simp add: derive_tests_def item_defs str_lit_def ident_bytes_def)

section \<open>The error tests\<close>

definition u32_string_enum :: "(rstring \<times> example_ty fields) list" where
  "u32_string_enum = mixed_enum TyU32 TyString"

definition mixed_encode :: "('s, rstring \<times> example_value list) immat" where
  "mixed_encode = immaterialize_enum (\<lambda>_ _. None) example_imm u32_string_enum"

definition mixed_decode :: "platform \<Rightarrow> ('t, rstring \<times> example_value list) remat" where
  "mixed_decode P = rematerialize_enum P (\<lambda>_ _. None) (example_rem P) (str_lit ''MixedEnum'') u32_string_enum"

definition garbage4 :: bytes where
  "garbage4 = [0xDE, 0xAD, 0xBE, 0xEF]"

text \<open>\<open>tampered[a..b].copy_from_slice(bs)\<close> for a range as long as \<open>bs\<close>\<close>

definition overwrite :: "nat \<Rightarrow> bytes \<Rightarrow> bytes \<Rightarrow> bytes" where
  "overwrite a bs data = take a data @ bs @ drop (a + length bs) data"

text \<open>The tampering of the first test, and that of the next three.\<close>

definition tampered_unit :: "bytes \<Rightarrow> bytes" where
  "tampered_unit serialized =
     (let payload_len_offset = 8 + 4 in overwrite payload_len_offset (to_le_bytes (4 :: 64 word)) serialized @ garbage4)"

definition tampered :: "bytes \<Rightarrow> bytes" where
  "tampered serialized =
     (let name_len = le_value (take 8 serialized);
          payload_len_offset = 8 + name_len;
          payload_len = le_value (take 8 (drop payload_len_offset serialized));
          new_payload_len = of_nat (payload_len + 4) :: 64 word
      in overwrite payload_len_offset (to_le_bytes new_payload_len) serialized @ garbage4)"

text \<open>\<open>unwrap\<close>\<close>

definition unwrap :: "'a outcome \<Rightarrow> 'a outcome" where
  "unwrap r = (case r of Err e \<Rightarrow> Panic UnwrapErr | _ \<Rightarrow> r)"

definition test_unit_variant :: "platform \<Rightarrow> (rstring \<times> example_value list) outcome" where
  "test_unit_variant P = and_then (unwrap (fst (mixed_encode (str_lit ''Unit'', []) ()))) (\<lambda>serialized.
     fst (mixed_decode P (tampered_unit serialized) ()))"

definition test_tuple_variant :: "platform \<Rightarrow> (rstring \<times> example_value list) outcome" where
  "test_tuple_variant P =
     and_then (unwrap (fst (mixed_encode (str_lit ''Tuple'', [U32Value 42, StringValue (str_lit ''hello'')]) ()))) (\<lambda>serialized.
     fst (mixed_decode P (tampered serialized) ()))"

definition test_struct_variant :: "platform \<Rightarrow> (rstring \<times> example_value list) outcome" where
  "test_struct_variant P =
     and_then (unwrap (fst (mixed_encode (str_lit ''Struct'', [U32Value 123, StringValue (str_lit ''world'')]) ()))) (\<lambda>serialized.
     fst (mixed_decode P (tampered serialized) ()))"

definition test_struct_enum_variant :: "platform \<Rightarrow> (rstring \<times> example_value list) outcome" where
  "test_struct_enum_variant P =
     and_then (unwrap (fst (immaterialize_enum (\<lambda>_ _. None) example_imm (struct_enum TyU32) (str_lit ''X'', [U32Value 42]) ()))) (\<lambda>serialized.
     fst (rematerialize_enum P (\<lambda>_ _. None) (example_rem P) (str_lit ''StructEnum'') (struct_enum TyU32) (tampered serialized) ()))"

definition test_truncated_data :: "platform \<Rightarrow> (rstring \<times> example_value list) outcome list outcome" where
  "test_truncated_data P =
     and_then (unwrap (fst (mixed_encode (str_lit ''Struct'', [U32Value 123, StringValue (str_lit ''hello'')]) ()))) (\<lambda>serialized.
     Ok (map (\<lambda>truncate_at. fst (mixed_decode P (take truncate_at serialized) ()))
       (filter (\<lambda>truncate_at. truncate_at < length serialized)
          [0, 4, 8, 12, 16, length serialized div 2, length serialized - 1])))"

definition test_roundtrip :: "platform \<Rightarrow> ((rstring \<times> example_value list) \<times> (rstring \<times> example_value list) outcome) list" where
  "test_roundtrip P = map (\<lambda>v. (v, and_then (unwrap (fst (mixed_encode v ()))) (\<lambda>serialized. unwrap (fst (mixed_decode P serialized ())))))
     [(str_lit ''Unit'', []),
      (str_lit ''Tuple'', [U32Value 42, StringValue (str_lit ''hello'')]),
      (str_lit ''Struct'', [U32Value 123, StringValue (str_lit ''world'')])]"

section \<open>The tests pass\<close>

fun example_good :: "example_ty \<Rightarrow> example_value \<Rightarrow> bool" where
  "example_good TyU32 (U32Value w) = True"
| "example_good TyString (StringValue s) = utf8_valid s"
| "example_good _ _ = False"

abbreviation example_rel :: "example_ty \<Rightarrow> 's \<Rightarrow> 't \<Rightarrow> example_value \<Rightarrow> example_value \<Rightarrow> bool" where
  "example_rel \<equiv> \<lambda>ty. rel_eq"

lemma example_contract:
  assumes "wf_platform P"
  shows "transmat P always same always same (example_imm ty) (example_rem P ty) (example_good ty) (example_rel ty)"
proof (rule transmat.intro[OF unit_world[OF assms]], rule transmat_axioms.intro)
  show "keeps always same (example_imm ty v)" "keeps always same (example_rem P ty bs)" for v bs
    by (simp_all add: keeps_def)
  fix s s' t :: unit and v bs
  assume g: "example_good ty v" and i: "example_imm ty v s = (Ok bs, s')" and f: "fits P bs"
  note T = transmat_le_bytes[where 'n = 32, OF unit_world[OF assms], of always always] transmat_string[OF unit_world[OF assms], of always always]
  show "wp (example_rem P ty bs) (\<lambda>w t'. example_rel ty s' t' v w) t"
    using g i transmat.delivers[OF T(1) _ _ _ f, where s = s and s' = s' and t = t]
      transmat.delivers[OF T(2) _ _ _ f, where s = s and s' = s' and t = t]
    by (cases ty; cases v) (auto simp: wp_iff seq_def)
qed simp

lemma tampered_enum:
  assumes "length name + length pay < 1000"
  shows "tampered (enum_bytes name pay) = enum_bytes name (pay @ garbage4)"
proof -
  have "le_value (len_u64 name) = length name" "le_value (len_u64 pay) = length pay"
    using assms by (simp_all add: le_value_len_u64)
  then show ?thesis
    by (simp add: tampered_def enum_bytes_def overwrite_def len_u64_def garbage4_def Let_def add.commute)
qed

lemma tampered_unit_enum: "tampered_unit (enum_bytes (str_lit ''Unit'') []) = enum_bytes (str_lit ''Unit'') garbage4"
  by (simp add: tampered_unit_def enum_bytes_def overwrite_def len_u64_def garbage4_def str_lit_def Let_def)

lemma fits_small: "wf_platform P \<Longrightarrow> length xs \<le> 32767 \<Longrightarrow> fits P xs"
  using isize_max_ge[of P] by (simp add: fits_def)

lemma u32_string_ok: "variants_ok u32_string_enum" "variants_ok (struct_enum TyU32)"
  by (simp_all add: u32_string_enum_def item_defs str_lit_def ident_bytes_def)

text \<open>The values of the tests, and what they are encoded as.\<close>

definition pair_bytes :: "32 word \<Rightarrow> rstring \<Rightarrow> bytes" where
  "pair_bytes w x = len_u64 (to_le_bytes w) @ to_le_bytes w @ len_u64 (len_u64 x @ x) @ len_u64 x @ x"

lemma struct_variant_eq:
  "length vs = length nfs \<Longrightarrow> variant_ok (Named nfs) \<Longrightarrow>
   immaterialize_variant ofb imm_of (Named nfs) vs = serialize_fields imm_of (map field_type nfs) vs"
  by (simp add: immaterialize_variant_eq field_types_def immaterialize_struct_def)

lemma encoded:
  "mixed_encode (str_lit ''Unit'', []) () = (Ok (enum_bytes (str_lit ''Unit'') []), ())"
  "mixed_encode (str_lit ''Tuple'', [U32Value w, StringValue x]) () = (Ok (enum_bytes (str_lit ''Tuple'') (pair_bytes w x)), ())"
  "mixed_encode (str_lit ''Struct'', [U32Value w, StringValue x]) () = (Ok (enum_bytes (str_lit ''Struct'') (pair_bytes w x)), ())"
  "immaterialize_enum (\<lambda>_ _. None) example_imm (struct_enum TyU32) (str_lit ''X'', [U32Value w]) () =
     (Ok (enum_bytes (str_lit ''X'') (len_u64 (to_le_bytes w) @ to_le_bytes w)), ())"
proof -
  have n: "str_lit ''Unit'' \<noteq> str_lit ''Tuple''" "str_lit ''Unit'' \<noteq> str_lit ''Struct''" "str_lit ''Tuple'' \<noteq> str_lit ''Struct''"
    "str_lit ''Tuple'' \<noteq> str_lit ''Unit''" "str_lit ''Struct'' \<noteq> str_lit ''Unit''" "str_lit ''Struct'' \<noteq> str_lit ''Tuple''"
    by (simp_all add: str_lit_def)
  have v: "variant_ok (Named [field ''a'' TyU32, field ''b'' TyString])" "variant_ok (Named [field ''a'' TyU32])"
    by (simp_all add: item_defs str_lit_def ident_bytes_def)
  note d = mixed_encode_def u32_string_enum_def mixed_enum_def struct_enum_def immaterialize_enum_def enum_bytes_def pair_bytes_def
    immaterialize_le_bytes_def immaterialize_string_def seq_def
  show "mixed_encode (str_lit ''Unit'', []) () = (Ok (enum_bytes (str_lit ''Unit'') []), ())"
    "mixed_encode (str_lit ''Tuple'', [U32Value w, StringValue x]) () = (Ok (enum_bytes (str_lit ''Tuple'') (pair_bytes w x)), ())"
    by (simp_all add: d n immaterialize_variant_def)
  show "mixed_encode (str_lit ''Struct'', [U32Value w, StringValue x]) () = (Ok (enum_bytes (str_lit ''Struct'') (pair_bytes w x)), ())"
    "immaterialize_enum (\<lambda>_ _. None) example_imm (struct_enum TyU32) (str_lit ''X'', [U32Value w]) () =
     (Ok (enum_bytes (str_lit ''X'') (len_u64 (to_le_bytes w) @ to_le_bytes w)), ())"
    by (simp_all add: d n struct_variant_eq v) (simp_all add: field_def seq_def immaterialize_le_bytes_def immaterialize_string_def)
qed

lemma sample_good_values:
  "example_good TyString (StringValue (str_lit ''hello''))" "example_good TyString (StringValue (str_lit ''world''))"
  by (simp_all add: str_lit_def)

lemma good_values:
  "utf8_valid x \<Longrightarrow> good_enum example_good u32_string_enum (str_lit ''Tuple'', [U32Value w, StringValue x])"
  "utf8_valid x \<Longrightarrow> good_enum example_good u32_string_enum (str_lit ''Struct'', [U32Value w, StringValue x])"
  "good_enum example_good u32_string_enum (str_lit ''Unit'', [])"
  "good_enum example_good (struct_enum TyU32) (str_lit ''X'', [U32Value w])"
  by (simp_all add: good_enum_def u32_string_enum_def mixed_enum_def struct_enum_def field_types_def field_def str_lit_def)

lemma example_table: "wf_platform P \<Longrightarrow> derive_table P always same always same example_imm (example_rem P) example_good example_rel"
  using example_contract[of P] unit_world[of P] by (simp add: derive_table_def derive_table_axioms_def)

text \<open>A good value that is tampered with is refused for what was added.\<close>

lemma tampering_refused:
  assumes P: "wf_platform P" and ok: "variants_ok variants" and g: "good_enum example_good variants (name, vs)"
    and i: "immaterialize_enum (\<lambda>_ _. None) example_imm variants (name, vs) () = (Ok (enum_bytes name pay), ())"
    and l: "length name + length pay < 1000"
  shows "fst (rematerialize_enum P (\<lambda>_ _. None) (example_rem P) nm variants (enum_bytes name (pay @ garbage4)) ()) =
    Err (extra_error variants name pay garbage4)"
proof -
  have "garbage4 \<noteq> []" by (simp add: garbage4_def)
  from derive_table.enum_extra_refused[where t = "()" and of_usize = "\<lambda>_ _. None" and nm = nm, OF example_table[OF P] ok _ g i _ this]
  obtain pay' where p: "enum_bytes name pay = enum_bytes name pay'" "fits P (enum_bytes name (pay' @ garbage4)) \<longrightarrow>
      (\<exists>err t'. rematerialize_enum P (\<lambda>_ _. None) (example_rem P) nm variants (enum_bytes name (pay' @ garbage4)) () = (Err err, t') \<and>
        err = extra_error variants name pay' garbage4)" by auto
  have "pay' = pay" using p(1) arg_cong[OF p(1), of length] by (simp add: enum_bytes_def)
  moreover have "fits P (enum_bytes name (pay @ garbage4))"
    using l by (intro fits_small[OF P]) (simp add: enum_bytes_def garbage4_def)
  ultimately show ?thesis using p(2) by auto
qed

lemma read_back:
  assumes P: "wf_platform P" and g: "good_enum example_good u32_string_enum v"
    and i: "mixed_encode v () = (Ok bs, ())" and l: "length bs \<le> 32767"
  shows "fst (mixed_decode P bs ()) = Ok v"
proof -
  have w: "wp (mixed_decode P bs) (\<lambda>w t'. rel_enum example_rel u32_string_enum () t' v w) ()"
    unfolding mixed_decode_def
    by (rule derive_table.enum_delivers[OF example_table[OF P] u32_string_ok(1) _ g i[unfolded mixed_encode_def]])
      (simp_all add: fits_small[OF P l])
  have eq: "vs = ws" if "rel_fields example_rel tys () () vs ws" for tys vs ws
    using that
  proof (induction tys arbitrary: vs ws)
    case Nil
    then show ?case by (cases vs; cases ws) auto
  next
    case (Cons ty tys)
    then show ?case by (cases vs; cases ws) auto
  qed
  from w obtain w where "mixed_decode P bs () = (Ok w, ())" "rel_enum example_rel u32_string_enum () () v w" by (auto simp: wp_iff)
  then show ?thesis using eq by (cases v; cases w) (auto simp: rel_enum_def split: option.splits)
qed

text \<open>
  Every assertion of the tests holds, on every platform: the messages about the payload, an
  error for each truncation, and the round trips.
\<close>

theorem derive_error_tests_pass:
  assumes "wf_platform P"
  shows "test_unit_variant P = Err (UnitVariantNotEmpty 4) \<and>
    (\<exists>n m. test_tuple_variant P = Err (PayloadNotFullyConsumed n m)) \<and>
    (\<exists>n m. test_struct_variant P = Err (PayloadNotFullyConsumed n m)) \<and>
    (\<exists>n m. test_struct_enum_variant P = Err (PayloadNotFullyConsumed n m)) \<and>
    (\<exists>rs. test_truncated_data P = Ok rs \<and> rs \<noteq> [] \<and> list_all (\<lambda>r. \<exists>e. r = Err e) rs) \<and>
    list_all (\<lambda>(v, r). r = Ok v) (test_roundtrip P)"
proof -
  have hello: "utf8_valid (str_lit ''hello'')" "utf8_valid (str_lit ''world'')" using sample_good_values by simp_all
  have n: "map_of u32_string_enum (str_lit ''Unit'') = Some UnitFields" "map_of u32_string_enum (str_lit ''Tuple'') \<noteq> Some UnitFields"
    "map_of u32_string_enum (str_lit ''Struct'') \<noteq> Some UnitFields" "map_of (struct_enum TyU32) (str_lit ''X'') \<noteq> Some UnitFields"
    by (simp_all add: u32_string_enum_def mixed_enum_def struct_enum_def str_lit_def)
  note e = encoded[unfolded mixed_encode_def]
  note r = tampering_refused[OF assms u32_string_ok(1)] tampering_refused[OF assms u32_string_ok(2)]
  have len: "length (pair_bytes w x) = 28 + length x" for w x by (simp add: pair_bytes_def)
  have s: "length (str_lit x) = length x" for x by (simp add: str_lit_def)
  have 1: "test_unit_variant P = Err (UnitVariantNotEmpty 4)"
    using r(1)[OF good_values(3) e(1), of "str_lit ''MixedEnum''"]
    by (simp add: test_unit_variant_def encoded unwrap_def tampered_unit_enum mixed_decode_def extra_error_def n s) (simp add: garbage4_def)
  have 2: "test_tuple_variant P = Err (extra_error u32_string_enum (str_lit ''Tuple'') (pair_bytes 42 (str_lit ''hello'')) garbage4)"
    using r(1)[OF good_values(1)[OF hello(1)] e(2), of 42 "str_lit ''MixedEnum''"]
    by (simp add: test_tuple_variant_def encoded unwrap_def tampered_enum mixed_decode_def len s)
  have 3: "test_struct_variant P = Err (extra_error u32_string_enum (str_lit ''Struct'') (pair_bytes 123 (str_lit ''world'')) garbage4)"
    using r(1)[OF good_values(2)[OF hello(2)] e(3), of 123 "str_lit ''MixedEnum''"]
    by (simp add: test_struct_variant_def encoded unwrap_def tampered_enum mixed_decode_def len s)
  have 4: "test_struct_enum_variant P = Err (extra_error (struct_enum TyU32) (str_lit ''X'') (len_u64 (to_le_bytes (42 :: 32 word)) @ to_le_bytes (42 :: 32 word)) garbage4)"
    using r(2)[OF good_values(4) e(4), of 42 "str_lit ''StructEnum''"]
    by (simp add: test_struct_enum_variant_def encoded unwrap_def tampered_enum s)
  let ?bs = "enum_bytes (str_lit ''Struct'') (pair_bytes 123 (str_lit ''hello''))"
  have f: "fits P ?bs" by (rule fits_small[OF assms]) (simp add: enum_bytes_def len s)
  have L: "length ?bs = 55" by (simp add: enum_bytes_def len s)
  have cut: "\<exists>err. fst (mixed_decode P (take k ?bs) ()) = Err err" if "k < length ?bs" for k
    using enum_cut_refused[OF assms f that, of "\<lambda>_ _. None" "example_rem P" "str_lit ''MixedEnum''" u32_string_enum "()"]
    by (auto simp: mixed_decode_def)
  from cut[of 0] have "\<exists>err. fst (mixed_decode P [] ()) = Err err" by (simp add: L)
  with cut have 5: "\<exists>rs. test_truncated_data P = Ok rs \<and> rs \<noteq> [] \<and> list_all (\<lambda>r. \<exists>e. r = Err e) rs"
    using L by (auto simp: test_truncated_data_def encoded unwrap_def list_all_iff)
  have 6: "list_all (\<lambda>(v, r). r = Ok v) (test_roundtrip P)"
    using read_back[OF assms good_values(3) encoded(1)] read_back[OF assms good_values(1)[OF hello(1)] encoded(2)]
      read_back[OF assms good_values(2)[OF hello(2)] encoded(3)]
    by (simp add: test_roundtrip_def encoded unwrap_def enum_bytes_def len s)
  show ?thesis using 1 2 3 4 5 6 n by (simp add: extra_error_def)
qed


end
