(* ===== verification/Sample_App.thy ===== *)
theory Sample_App
  imports Chat_Join Http
begin

text \<open>
  The sample application, \<open>sample_app/src\<close>: two actors that send \<open>Ping\<close> and \<open>Pong\<close> to
  each other through a portal, the server that publishes one of them, and the client, over a
  socket or through SSH, with the target it parses from its arguments.
\<close>

section \<open>Ping and pong\<close>

datatype pingpong_msg = Ping actor_id | Pong actor_id

text \<open>
  One turn of the actor's loop: \<open>send_after\<close>, to the reference in the message, what it
  answers, after so many milliseconds.
\<close>

definition pingpong_handle :: "actor_id \<Rightarrow> pingpong_msg \<Rightarrow> actor_id \<times> nat \<times> pingpong_msg" where
  "pingpong_handle self_ref msg = (case msg of
     Ping reply_ref \<Rightarrow> (reply_ref, 500, Pong self_ref)
   | Pong reply_ref \<Rightarrow> (reply_ref, 500, Ping self_ref))"

text \<open>
  The actors together. \<open>pending\<close> are the timers with the time they are due, \<open>arrived\<close> the
  messages that wait, \<open>served\<close> those taken so far. A reference stands for the actor it leads to,
  through a proxy or not; a timer may fire late.
\<close>

record rally =
  clock :: nat
  pending :: "(nat \<times> actor_id \<times> pingpong_msg) list"
  arrived :: "(actor_id \<times> pingpong_msg) list"
  served :: "(actor_id \<times> pingpong_msg) list"

definition rally_turn :: "actor_id \<Rightarrow> pingpong_msg \<Rightarrow> rally \<Rightarrow> rally" where
  "rally_turn target msg w =
     (let (back_to, delay, answer) = pingpong_handle target msg
      in w\<lparr>pending := pending w @ [(clock w + delay, back_to, answer)], served := served w @ [(target, msg)]\<rparr>)"

inductive rally_step :: "rally \<Rightarrow> rally \<Rightarrow> bool" where
  Fire: "pending w = xs @ (due, target, msg) # ys \<Longrightarrow> due \<le> t \<Longrightarrow> clock w \<le> t \<Longrightarrow>
    rally_step w (w\<lparr>clock := t, pending := xs @ ys, arrived := arrived w @ [(target, msg)]\<rparr>)"
| Take: "arrived w = xs @ (target, msg) # ys \<Longrightarrow>
    rally_step w (rally_turn target msg (w\<lparr>arrived := xs @ ys\<rparr>))"

inductive_cases rally_stepE: "rally_step w w'"

text \<open>The client's first message has been sent.\<close>

definition rally_start :: "nat \<Rightarrow> actor_id \<Rightarrow> pingpong_msg \<Rightarrow> rally" where
  "rally_start t target msg = \<lparr>clock = t, pending = [], arrived = [(target, msg)], served = []\<rparr>"

section \<open>The server\<close>

definition pingpong_name :: rstring where
  "pingpong_name = str_lit ''pingpong''"

text \<open>
  The loop over the portals the nexus announces: it first waits for the handshake, then
  publishes; a wait that fails ends it.
\<close>

fun sample_server_loop ::
    "actor_id \<Rightarrow> 'rm \<Rightarrow> (unit awaited \<times> ('rm, 'f) node) list \<Rightarrow> unit outcome \<times> ('rm, 'f) node list" where
  "sample_server_loop pinpong receiver [] = (Ok (), [])"
| "sample_server_loop pinpong receiver ((handshake, n) # rx) =
     (case seq (ask WaitForHandshake (Some 5000) handshake) (\<lambda>_. publish_named_actor pingpong_name pinpong receiver) n of
        (Ok _, n') \<Rightarrow> (case sample_server_loop pinpong receiver rx of (r, ns) \<Rightarrow> (r, n' # ns))
      | (r, n') \<Rightarrow> (r, n' # map snd rx))"

section \<open>The client\<close>

text \<open>
  From the portal on. What it returns is the message it sends; after that the client sleeps
  for ever.
\<close>

definition pingpong_session ::
    "unit awaited \<Rightarrow> remote_actor_id outcome awaited \<Rightarrow> actor_id outcome \<Rightarrow> bool \<Rightarrow>
     ('rm, 'f, actor_id \<times> pingpong_msg) node_eff" where
  "pingpong_session handshake address started takes =
     seq (ask WaitForHandshake (Some 5000) handshake) (\<lambda>_.
     seq (ask (QueryNamedRemoteActor pingpong_name) None address) (\<lambda>result.
     seq (lift result) (\<lambda>remote_pingpong_actor_id.
     seq (instantiate_proxy remote_pingpong_actor_id) (\<lambda>remote_pingpong.
     seq (lift started) (\<lambda>local_pingpong.
     if takes then ret (remote_pingpong, Ping local_pingpong) else throw SendError)))))"

text \<open>\<open>connect\<close>: \<open>connect_to_server\<close> of the transport that was built in.\<close>

definition sample_client_run ::
    "('w, actor_id) link_eff \<Rightarrow> ('rm, 'f, actor_id \<times> pingpong_msg) node_eff \<Rightarrow>
     ('w link_world \<times> ('rm, 'f) node, actor_id \<times> pingpong_msg) eff" where
  "sample_client_run connect session = (\<lambda>(w, n).
     case connect w of
       (Ok portal, w') \<Rightarrow> (case session n of (r, n') \<Rightarrow> (r, w', n'))
     | (Err e, w') \<Rightarrow> (Err e, w', n)
     | (Panic p, w') \<Rightarrow> (Panic p, w', n))"

section \<open>The client through SSH\<close>

definition ssh_format_error :: werror where
  "ssh_format_error = AnyhowMsg (str_lit ''Invalid SSH connection string format. Expected: user@host:port/path/to/socket'')"

definition ssh_user_error :: werror where
  "ssh_user_error = AnyhowMsg (str_lit ''Invalid SSH connection string format. Expected: user@host'')"

definition ssh_port_error :: "utext \<Rightarrow> werror" where
  "ssh_port_error port_str = AnyhowMsg (str_lit ''Invalid port number: '' @ utf8_encode port_str)"

text \<open>The user, the host, the port, and the path of the socket.\<close>

definition parse_ssh_target :: "utext \<Rightarrow> (utext \<times> utext \<times> nat \<times> utext) outcome" where
  "parse_ssh_target ssh_connection_string = (case split_once 47 ssh_connection_string of
     None \<Rightarrow> Err ssh_format_error
   | Some (connection, socket_path) \<Rightarrow>
       (let (user_host, port_str) = (case rsplit_once 58 connection of Some (uh, p) \<Rightarrow> (uh, p) | None \<Rightarrow> (connection, lit ''22''))
        in case split_once 64 user_host of
             None \<Rightarrow> Err ssh_user_error
           | Some (username, host) \<Rightarrow>
               (case parse_dec (2 ^ 16) (utf8_encode port_str) of
                  None \<Rightarrow> Err (ssh_port_error port_str)
                | Some port \<Rightarrow> Ok (username, host, port, socket_path))))"

definition default_keys :: "rstring \<Rightarrow> rstring list" where
  "default_keys home = [home @ str_lit ''/.ssh/id_ed25519'', home @ str_lit ''/.ssh/id_rsa'',
     home @ str_lit ''/.ssh/id_ecdsa'', home @ str_lit ''/.ssh/id_dsa'']"

definition no_key_error :: werror where
  "no_key_error = AnyhowMsg (str_lit ''No SSH key found in default locations. Use --ssh-key to specify a key, --ssh-password for password auth, or load keys into ssh-agent and use --ssh-agent'')"

text \<open>\<open>home\<close>: the variable \<open>HOME\<close>, if it is set; \<open>on_disk\<close>: the files there are.\<close>

definition choose_auth ::
    "rstring option \<Rightarrow> rstring option \<Rightarrow> rstring option \<Rightarrow> rstring option \<Rightarrow> (rstring \<Rightarrow> bool) \<Rightarrow> ssh_auth_method outcome" where
  "choose_auth ssh_key ssh_key_passphrase ssh_password home on_disk = (case ssh_key of
     Some key_path \<Rightarrow> Ok (PublicKey key_path ssh_key_passphrase)
   | None \<Rightarrow> (case ssh_password of
       Some password \<Rightarrow> Ok (Password password)
     | None \<Rightarrow>
         (case find on_disk (default_keys (case home of Some h \<Rightarrow> h | None \<Rightarrow> str_lit ''.'')) of
            Some found_key \<Rightarrow> Ok (PublicKey found_key None)
          | None \<Rightarrow> Err no_key_error)))"

definition sample_run_ssh ::
    "(rstring \<Rightarrow> ('w, actor_id) eff) \<Rightarrow> 'k ssh_answers \<Rightarrow> utext \<Rightarrow> ssh_auth_method outcome \<Rightarrow>
     ('rm, 'f, actor_id \<times> pingpong_msg) node_eff \<Rightarrow> ('w link_world \<times> ('rm, 'f) node, actor_id \<times> pingpong_msg) eff" where
  "sample_run_ssh connected A ssh_connection_string auth session =
     seq (lift (parse_ssh_target ssh_connection_string)) (\<lambda>(username, host, port, socket_path).
     seq (lift auth) (\<lambda>method.
     let config = \<lparr>ssh_host = utf8_encode host, ssh_port = port, ssh_username = utf8_encode username, auth_method = method\<rparr>
     in sample_client_run (connect_via_ssh_to_unix_socket connected A config (utf8_encode socket_path)) session))"

end
