(* ===== verification/Sample_App_Props.thy ===== *)
theory Sample_App_Props
  imports Sample_App Chat_Join_Props
begin

text \<open>
  The sample application: the rally of its two actors never stops and never doubles, the
  server publishes after the handshake and ends with the first client that does not get that
  far, and the target of the SSH client is read back from its text, but for the slash before
  the socket's path.
\<close>

section \<open>The rally\<close>

text \<open>The message number \<open>i\<close> of a rally that \<open>a\<close> starts by a \<open>Ping\<close> to \<open>b\<close>.\<close>

definition rally_msg :: "actor_id \<Rightarrow> actor_id \<Rightarrow> nat \<Rightarrow> actor_id \<times> pingpong_msg" where
  "rally_msg a b i = (if even i then (b, Ping a) else (a, Pong b))"

text \<open>One message is on its way, and not before its time.\<close>

definition rally_inv :: "actor_id \<Rightarrow> actor_id \<Rightarrow> nat \<Rightarrow> rally \<Rightarrow> bool" where
  "rally_inv a b t w \<longleftrightarrow> (let n = length (served w) in
     served w = map (rally_msg a b) [0..<n] \<and>
     (pending w = [] \<and> arrived w = [rally_msg a b n] \<and> t + 500 * n \<le> clock w \<or>
      arrived w = [] \<and> n \<noteq> 0 \<and> t + 500 * (n - 1) \<le> clock w \<and>
        (\<exists>due. pending w = [(due, rally_msg a b n)] \<and> t + 500 * n \<le> due)))"

lemma rally_start_inv: "rally_inv a b t (rally_start t b (Ping a))"
  by (simp add: rally_inv_def rally_start_def rally_msg_def)

lemma rally_answer:
  "rally_msg a b n = (target, msg) \<Longrightarrow> pingpong_handle target msg = (fst (rally_msg a b (Suc n)), 500, snd (rally_msg a b (Suc n)))"
  by (auto simp: rally_msg_def pingpong_handle_def split: if_splits)

lemma rally_step_inv:
  assumes "rally_step w w'" and "rally_inv a b t w"
  shows "rally_inv a b t w'"
  using assms(1)
proof (cases rule: rally_step.cases)
  case (Fire xs due target msg ys s)
  then show ?thesis
    using assms(2) by (cases xs) (auto simp: rally_inv_def Let_def)
next
  case (Take xs target msg ys)
  let ?n = "length (served w)"
  from Take assms(2) have n: "xs = []" "ys = []" "pending w = []" "rally_msg a b ?n = (target, msg)"
    "served w = map (rally_msg a b) [0..<?n]" "t + 500 * ?n \<le> clock w"
    by (cases xs; auto simp: rally_inv_def Let_def)+
  from rally_answer[OF n(4)] n show ?thesis
    by (simp add: Take(1) rally_inv_def rally_turn_def Let_def)
qed

lemma rally_reaches: "rally_step\<^sup>*\<^sup>* (rally_start t b (Ping a)) w \<Longrightarrow> rally_inv a b t w"
  by (induction rule: rtranclp_induct) (auto intro: rally_start_inv rally_step_inv)

text \<open>From every state the next message is taken after at most two steps.\<close>

lemma rally_continues:
  assumes "rally_inv a b t w"
  shows "\<exists>w'. rally_step\<^sup>*\<^sup>* w w' \<and> length (served w') = Suc (length (served w))"
proof -
  have turn: "\<exists>w'. rally_step v w' \<and> length (served w') = Suc (length (served v))" if "arrived v = [m]" for v m
    using rally_step.Take[of v "[]" "fst m" "snd m" "[]"] that
    by (intro exI conjI, assumption?) (auto simp: rally_turn_def split: prod.split)
  show ?thesis
  proof (cases "arrived w = []")
    case True
    then obtain due where "pending w = [(due, rally_msg a b (length (served w)))]"
      using assms by (auto simp: rally_inv_def Let_def)
    then obtain m where p: "pending w = [] @ (due, fst m, snd m) # []" by (metis append_Nil prod.collapse)
    let ?v = "w\<lparr>clock := max due (clock w), pending := [] @ [], arrived := arrived w @ [(fst m, snd m)]\<rparr>"
    from rally_step.Fire[OF p, of "max due (clock w)"] have "rally_step w ?v" by simp
    moreover from turn[of ?v] True obtain w' where "rally_step ?v w'" "length (served w') = Suc (length (served ?v))"
      by auto
    ultimately show ?thesis by (intro exI[of _ w']) auto
  next
    case False
    with assms obtain m where "arrived w = [m]" by (auto simp: rally_inv_def Let_def)
    from turn[OF this] show ?thesis by blast
  qed
qed

text \<open>
  The sample's two actors. Whatever the timers do, what they take is \<open>Ping\<close> and \<open>Pong\<close> in
  turn, each from the other; exactly one message is on its way at any time; half a second at
  least lies between two; and the rally goes on: from every state the next message can be taken.
\<close>

theorem pingpong_rally:
  assumes "rally_step\<^sup>*\<^sup>* (rally_start t b (Ping a)) w"
  shows "served w = map (\<lambda>i. if even i then (b, Ping a) else (a, Pong b)) [0..<length (served w)] \<and>
    length (pending w) + length (arrived w) = 1 \<and>
    t + 500 * (length (served w) - 1) \<le> clock w \<and>
    (\<exists>w'. rally_step\<^sup>*\<^sup>* w w' \<and> length (served w') = Suc (length (served w)))"
  using rally_reaches[OF assms] rally_continues[of a b t w]
  by (auto simp: rally_inv_def Let_def rally_msg_def[abs_def])

theorem pingpong_rally_witness:
  "\<exists>w. rally_step\<^sup>*\<^sup>* (rally_start 0 7 (Ping 4)) w \<and> served w = [(7, Ping 4)] \<and> 
     (\<exists>w'. rally_step\<^sup>*\<^sup>* w w' \<and> length (served w') = 2)"
proof -
  let ?w = "rally_turn 7 (Ping 4) (rally_start 0 7 (Ping 4)\<lparr>arrived := [] @ []\<rparr>)"
  have "rally_step (rally_start 0 7 (Ping 4)) ?w"
    by (rule rally_step.Take) (simp add: rally_start_def)
  then have r: "rally_step\<^sup>*\<^sup>* (rally_start 0 7 (Ping 4)) ?w" by blast
  moreover have s: "served ?w = [(7, Ping 4)]" by (simp add: rally_turn_def rally_start_def pingpong_handle_def)
  moreover from pingpong_rally[OF r] s have "\<exists>w'. rally_step\<^sup>*\<^sup>* ?w w' \<and> length (served w') = 2" by (simp add: numeral_2_eq_2)
  ultimately show ?thesis by blast
qed

section \<open>The server\<close>

lemma sample_server_turn:
  assumes "taking_messages n"
  shows "seq (ask WaitForHandshake (Some 5000) hs) (\<lambda>_. publish_named_actor pingpong_name pinpong rm) n =
    (case hs of
       Replied _ \<Rightarrow> (Ok (), n\<lparr>next_port := next_port n + 1,
         mailbox := mailbox n @ [WaitForHandshake (next_port n), PublishNamedActor pingpong_name pinpong rm None]\<rparr>)
     | PortDropped \<Rightarrow> (Err RecvError, n\<lparr>next_port := next_port n + 1, mailbox := mailbox n @ [WaitForHandshake (next_port n)]\<rparr>)
     | TimedOut \<Rightarrow> (Err TimeoutElapsed, n\<lparr>next_port := next_port n + 1, mailbox := mailbox n @ [WaitForHandshake (next_port n)]\<rparr>))"
  using assms
  by (cases n; cases hs) (simp_all add: publish_named_actor_def ask_def send_to_portal_def seq_def)

text \<open>What the server sends a portal whose handshake comes about.\<close>

definition greeted :: "actor_id \<Rightarrow> 'rm \<Rightarrow> ('rm, 'f) node \<Rightarrow> ('rm, 'f) node" where
  "greeted pinpong rm n = n\<lparr>next_port := next_port n + 1,
     mailbox := mailbox n @ [WaitForHandshake (next_port n), PublishNamedActor pingpong_name pinpong rm None]\<rparr>"

lemma sample_server_good:
  assumes "list_all (\<lambda>(hs, n). hs = Replied () \<and> taking_messages n) xs"
  shows "sample_server_loop pinpong rm (xs @ ys) =
    (case sample_server_loop pinpong rm ys of (r, ns) \<Rightarrow> (r, map (greeted pinpong rm \<circ> snd) xs @ ns))"
  using assms
proof (induction xs)
  case (Cons x xs)
  then show ?case
    using sample_server_turn[of "snd x" "Replied ()" pinpong rm]
    by (cases x) (auto simp: greeted_def split: prod.splits)
qed (simp split: prod.split)

text \<open>
  The sample's server. A portal gets the actor only after its handshake, so that a client
  whose request the portal handles first is told that there is no such actor; and one client that
  does not complete the handshake ends the server: no later portal gets the actor.
\<close>

theorem sample_server_fragile:
  assumes "working E" and "nexus_query E pingpong_name = Ok None"
    and "hm_get (named_actors (portal_of n)) pingpong_name = None" and "taking_messages n" and "hs \<noteq> Replied ()"
    and "list_all (\<lambda>(hs, n). hs = Replied () \<and> taking_messages n) xs"
  shows "(\<exists>e n'. sample_server_loop pinpong rm (xs @ (hs, n) # ys) = (Err e, map (greeted pinpong rm \<circ> snd) xs @ n' # map snd ys) \<and>
      mailbox n' = mailbox n @ [WaitForHandshake (next_port n)]) \<and>
    mailbox (greeted pinpong rm n) =
      mailbox n @ [WaitForHandshake (next_port n), PublishNamedActor pingpong_name pinpong rm None] \<and>
    handle_cross_message E c (RequestActorByName i pingpong_name) (portal_of n) =
      (Ok (), (portal_of n)\<lparr>outs := outs (portal_of n) @
         [SinkSend (CmContent (encoded E (ResponseActorByName i (RErr ActorNotFound))))]\<rparr>)"
proof -
  have "\<exists>e n'. sample_server_loop pinpong rm ((hs, n) # ys) = (Err e, n' # map snd ys) \<and>
      mailbox n' = mailbox n @ [WaitForHandshake (next_port n)]"
    using sample_server_turn[OF assms(4), of hs pinpong rm] assms(5) by (cases hs) auto
  then show ?thesis
    using sample_server_good[OF assms(6), of pinpong rm "(hs, n) # ys"] request_unknown[OF assms(1,3,2), of c i]
    by (auto simp: greeted_def simp del: sample_server_loop.simps)
qed

theorem sample_server_fragile_witness:
  "\<exists>e n'. sample_server_loop 51 (4 :: nat) [(Replied (), sample_node 5), (TimedOut, sample_node 6), (Replied (), sample_node 7)] =
       (Err e, [greeted 51 4 (sample_node 5), n', sample_node 7]) \<and> mailbox n' = mailbox (sample_node 6) @ [WaitForHandshake 200]"
proof -
  have h: "nexus_query (sample_env 9) pingpong_name = Ok None" "hm_get (named_actors (portal_of (sample_node 6))) pingpong_name = None"
    "taking_messages (sample_node 6)" "list_all (\<lambda>(hs, n). hs = Replied () \<and> taking_messages n) [(Replied (), sample_node 5)]"
    "next_port (sample_node 6) = 200"
    by (simp_all add: sample_node_def sample_env_def sample_open_def sample_start_def)
  from sample_server_fragile[OF sample_working[of 9] h(1,2,3) _ h(4), where hs = TimedOut and pinpong = 51 and rm = "4 :: nat" and
      ys = "[(Replied (), sample_node 7)]" and c = "ConduitID 3" and i = 1] h(5)
  show ?thesis by simp
qed

section \<open>The target of the SSH client\<close>

definition port_text :: "nat \<Rightarrow> utext" where
  "port_text port = map unat (dec_digits port)"

lemma port_text_chars: "list_all (\<lambda>c. 48 \<le> c \<and> c \<le> 57) (port_text port)"
  using dec_digits_ascii[of port] by (auto simp: port_text_def list_all_iff word_le_nat_alt)

lemma port_text_free: "d < 48 \<or> 57 < d \<Longrightarrow> d \<notin> set (port_text port)"
  using port_text_chars[of port] by (force simp: list_all_iff)

lemma utf8_ascii: "list_all (\<lambda>b. b < 128) bs \<Longrightarrow> utf8_encode (map unat bs) = bs"
  by (induction bs) (auto simp: utf8_encode_def utf8_char_def byte_of_def word_less_nat_alt)

lemma encode_port: "utf8_encode (port_text port) = dec_digits port"
proof -
  have "list_all (\<lambda>b. b < 128) (dec_digits port)"
    using dec_digits_ascii[of port] by (auto simp: list_all_iff word_le_nat_alt word_less_nat_alt)
  then show ?thesis by (simp add: port_text_def utf8_ascii)
qed

lemma split_once_at: "d \<notin> set xs \<Longrightarrow> split_once d (xs @ d # ys) = Some (xs, ys)"
  by (simp add: split_once_def dropWhile_append takeWhile_append)

lemma rsplit_once_at: "d \<notin> set ys \<Longrightarrow> rsplit_once d (xs @ d # ys) = Some (xs, ys)"
proof -
  assume "d \<notin> set ys"
  then have "dropWhile (\<lambda>c. c \<noteq> d) (rev ys @ d # rev xs) = d # rev xs" "takeWhile (\<lambda>c. c \<noteq> d) (rev ys @ d # rev xs) = rev ys"
    by (subst dropWhile_append2 takeWhile_append2; auto)+
  then show ?thesis by (simp add: rsplit_once_def)
qed

lemma rsplit_once_none: "d \<notin> set xs \<Longrightarrow> rsplit_once d xs = None"
proof -
  assume "d \<notin> set xs"
  then have nil: "dropWhile (\<lambda>c. c \<noteq> d) (rev xs) = []" by (auto simp: dropWhile_eq_Nil_conv)
  show ?thesis unfolding rsplit_once_def nil by simp
qed

lemma parse_digits_mono: "parse_digits b acc s = Some n \<Longrightarrow> b \<le> b' \<Longrightarrow> parse_digits b' acc s = Some n"
  by (induction b acc s rule: parse_digits.induct) (auto split: if_splits)

lemma parse_dec_too_big: "bound \<le> n \<Longrightarrow> parse_dec bound (dec_digits n) = None"
proof (rule ccontr)
  assume "bound \<le> n" "parse_dec bound (dec_digits n) \<noteq> None"
  then obtain m where m: "parse_digits bound 0 (dec_digits n) = Some m"
    using dec_digits_head[of n] by (auto simp: parse_dec_def)
  from parse_digits_mono[OF m, of "Suc n"] parse_dec_digits[of n "Suc n"] \<open>bound \<le> n\<close> have "m = n" by simp
  moreover have "bound \<noteq> 0" using m dec_digits_head[of n] by (auto split: if_splits)
  ultimately show False using parse_digits_bound[OF m] \<open>bound \<le> n\<close> by simp
qed

text \<open>
  The target of the sample's SSH client, \<open>user@host:port/path\<close>, is read back: the user up to the
  first \<open>@\<close>, the port behind the last colon, 22 without one. The path is what stands behind the
  first slash, so that the socket \<open>/path\<close> of the usage text is looked for as \<open>path\<close>, relative to wherever
  the server starts; what is no port is an error.
\<close>

theorem ssh_target_roundtrip:
  assumes "47 \<notin> set user" and "64 \<notin> set user" and "47 \<notin> set host"
  shows "(port < 2 ^ 16 \<longrightarrow>
      parse_ssh_target (user @ [64] @ host @ [58] @ port_text port @ [47] @ path) = Ok (user, host, port, path)) \<and>
    (2 ^ 16 \<le> port \<longrightarrow>
      parse_ssh_target (user @ [64] @ host @ [58] @ port_text port @ [47] @ path) = Err (ssh_port_error (port_text port))) \<and>
    (58 \<notin> set user \<and> 58 \<notin> set host \<longrightarrow>
      parse_ssh_target (user @ [64] @ host @ [47] @ path) = Ok (user, host, 22, path))"
proof -
  let ?addr = "user @ [64] @ host"
  have split: "split_once 47 ((?addr @ [58] @ port_text port) @ 47 # path) = Some (?addr @ [58] @ port_text port, path)"
    "split_once 47 (?addr @ 47 # path) = Some (?addr, path)"
    using assms(1,3) port_text_free[of 47 port] by (intro split_once_at; auto)+
  have port: "rsplit_once 58 (?addr @ 58 # port_text port) = Some (?addr, port_text port)"
    using port_text_free[of 58 port] by (intro rsplit_once_at) simp
  have user: "split_once 64 (user @ 64 # host) = Some (user, host)"
    using assms(2) by (rule split_once_at)
  have "parse_dec (2 ^ 16) (utf8_encode (lit ''22'')) = Some 22"
    by (simp add: utf8_encode_def lit_def utf8_char_def byte_of_def parse_dec_def word_le_nat_alt)
  then show ?thesis
    using split port user encode_port[of port] dec_roundtrip[of port "2 ^ 16"] parse_dec_too_big[of "2 ^ 16" port]
    by (auto simp: parse_ssh_target_def rsplit_once_none)
qed

theorem ssh_target_roundtrip_witness:
  "parse_ssh_target (lit ''user@example.com:22/tmp/ractor_wormhole_sample_app'') =
     Ok (lit ''user'', lit ''example.com'', 22, lit ''tmp/ractor_wormhole_sample_app'')"
proof -
  have "47 \<notin> set (lit ''user'')" "64 \<notin> set (lit ''user'')" "47 \<notin> set (lit ''example.com'')" by (simp_all add: lit_def)
  from ssh_target_roundtrip[OF this, of 22 "lit ''tmp/ractor_wormhole_sample_app''"]
  have "parse_ssh_target (lit ''user'' @ [64] @ lit ''example.com'' @ [58] @ port_text 22 @ [47] @ lit ''tmp/ractor_wormhole_sample_app'') =
      Ok (lit ''user'', lit ''example.com'', 22, lit ''tmp/ractor_wormhole_sample_app'')" by simp
  moreover have "port_text 22 = [50, 50]" by (simp add: port_text_def dec_digits.simps byte_of_def)
  ultimately show ?thesis by (simp add: lit_def)
qed

section \<open>The client\<close>

text \<open>
  The client's session, if every wait is answered: it asks for the handshake, for the actor, has a
  proxy for just this actor registered, and sends it one \<open>Ping\<close> with its own actor. Through
  SSH it does so only on a portal over a channel to the socket that was parsed.
\<close>

theorem pingpong_session_runs:
  assumes "taking_messages n"
  shows "\<exists>n'. pingpong_session (Replied ()) (Replied (Ok rid)) (Ok me) True n = (Ok (next_actor n, Ping me), n') \<and>
    mailbox n' = mailbox n @ [WaitForHandshake (next_port n), QueryNamedRemoteActor pingpong_name (next_port n + 1),
      RegisterProxyForRemoteActor rid (next_actor n)] \<and>
    proxies n' = (next_actor n, rid) # proxies n"
  using assms
  by (cases n) (simp add: pingpong_session_def instantiate_proxy_def ask_def send_to_portal_def seq_def)

lemma sample_client_run_iff:
  "sample_client_run conn session (w, n) = (Ok x, w', n') \<longleftrightarrow> (\<exists>portal. conn w = (Ok portal, w') \<and> session n = (Ok x, n'))"
  by (auto simp: sample_client_run_def split: prod.splits outcome.splits)

lemma sample_ssh_parses:
  assumes "sample_run_ssh connected A s auth session (w, n) = (Ok x, w', n')"
  shows "\<exists>user host port path method portal w1. parse_ssh_target s = Ok (user, host, port, path) \<and> auth = Ok method \<and>
    connect_via_ssh_to_unix_socket connected A \<lparr>ssh_host = utf8_encode host, ssh_port = port,
      ssh_username = utf8_encode user, auth_method = method\<rparr> (utf8_encode path) w = (Ok portal, w') \<and>
    session n = (Ok x, n')"
  using assms
  by (auto simp: sample_run_ssh_def sample_client_run_iff seq_eq_Ok Let_def)

text \<open>The key that is tried without a key or a password is the first of the usual ones that is there.\<close>

lemma choose_auth_default:
  "choose_auth None passphrase None (Some home) on_disk = Ok m \<longleftrightarrow>
   (\<exists>i < 4. m = PublicKey (default_keys home ! i) None \<and> on_disk (default_keys home ! i) \<and>
      (\<forall>j < i. \<not> on_disk (default_keys home ! j)))"
proof -
  have "length (default_keys home) = 4" by (simp add: default_keys_def)
  then show ?thesis
    by (auto simp: choose_auth_def find_Some_iff find_None_iff split: option.split) (metis linorder_neqE_nat)
qed

end
