(* ===== verification/Host.thy ===== *)
theory Host
  imports Nexus Conduit
begin

text \<open>
  The nexus and its portals together, as they run in one process: a portal that ends is
  removed and reported to the nexus, a nexus that ends takes its portals with it, and a
  portal that is asked for a name it does not know asks the nexus. The actor runtime is
  given by its documented behaviour. On top of it, the tests of
  \<open>ractor_wormhole_tests/src/portal_isolation.rs\<close>.
\<close>

section \<open>The process\<close>

text \<open>\<open>ended_events\<close> are the ends of portals that the nexus has not been told of yet.\<close>

record ('rm, 'f) host =
  the_nexus :: "'rm nexus_state"
  nexus_runs :: bool
  the_portals :: "(actor_id, ('rm, 'f) portal_state) hmap"
  ended_events :: "supervision_event list"

definition host_start :: "actor_id option \<Rightarrow> ('rm, 'f) host" where
  "host_start callback =
     \<lparr>the_nexus = \<lparr>on_client_connected = callback, portals = [], nexus_named_actors = [], nexus_outs = []\<rparr>,
      nexus_runs = True, the_portals = [], ended_events = []\<rparr>"

text \<open>What a portal that is spawned meets: its id, and the surroundings of its \<open>pre_start\<close>.\<close>

record 'rm birth =
  birth_id :: actor_id
  birth_env :: "'rm env"
  birth_json :: "introduction \<Rightarrow> rstring outcome"
  birth_uuid :: bytes
  birth_pick :: nat

definition born :: "'rm birth \<Rightarrow> portal_args \<Rightarrow> ('rm, 'f) portal_state outcome" where
  "born B g = pre_start (birth_env B) (birth_json B) (birth_uuid B) (birth_pick B) g"

definition new_portals ::
    "'rm birth \<Rightarrow> 'rm nexus_output list \<Rightarrow> (actor_id, ('rm, 'f) portal_state) hmap \<Rightarrow> (actor_id, ('rm, 'f) portal_state) hmap" where
  "new_portals B xs ps = fold (\<lambda>x ps. case x of
       SpawnPortal g a \<Rightarrow> (case born B g of Ok st \<Rightarrow> hm_insert a st ps | _ \<Rightarrow> ps)
     | _ \<Rightarrow> ps) xs ps"

text \<open>The environment of the nexus, where spawning a portal runs its \<open>pre_start\<close>.\<close>

definition spawning :: "nexus_env \<Rightarrow> 'rm birth \<Rightarrow> 'f itself \<Rightarrow> nexus_env" where
  "spawning N B TYPE('f) = N\<lparr>spawn_portal := (\<lambda>g sink. and_then (born B g :: ('rm, 'f) portal_state outcome) (\<lambda>_. Ok (birth_id B)))\<rparr>"

definition nexus_turn :: "nexus_env \<Rightarrow> 'rm birth \<Rightarrow> 'rm nexus_message \<Rightarrow> ('rm, 'f) host \<Rightarrow> ('rm, 'f) host" where
  "nexus_turn N B m h =
     (if \<not> nexus_runs h then h
      else let (r, n') = nexus_handle (spawning N B TYPE('f)) m (the_nexus h);
               xs = drop (length (nexus_outs (the_nexus h))) (nexus_outs n')
           in h\<lparr>the_nexus := n', nexus_runs := (r = Ok ()),
                the_portals := (if r = Ok () then new_portals B xs (the_portals h) else [])\<rparr>)"

text \<open>A portal asks the nexus without a timeout, so its port is open when the nexus answers.\<close>

definition asking :: "'rm env \<Rightarrow> ('rm, 'f) host \<Rightarrow> 'rm env" where
  "asking E h = E\<lparr>nexus_query := (\<lambda>name.
     if nexus_runs h then Ok (hm_get (nexus_named_actors (the_nexus h)) name) else Err SendError)\<rparr>"

definition end_of :: "actor_id \<Rightarrow> unit outcome \<Rightarrow> supervision_event" where
  "end_of a r = (case r of Ok _ \<Rightarrow> ActorTerminated a | Err e \<Rightarrow> ActorFailed a e | Panic p \<Rightarrow> ActorFailed a (AnyhowMsg []))"

definition end_portal :: "actor_id \<Rightarrow> unit outcome \<Rightarrow> ('rm, 'f) host \<Rightarrow> ('rm, 'f) host" where
  "end_portal a r h = h\<lparr>the_portals := hm_remove a (the_portals h), ended_events := ended_events h @ [end_of a r]\<rparr>"

definition portal_turn :: "'rm env \<Rightarrow> actor_id \<Rightarrow> ('rm, 'f) portal_message \<Rightarrow> ('rm, 'f) host \<Rightarrow> ('rm, 'f) host" where
  "portal_turn E a m h = (case hm_get (the_portals h) a of
     None \<Rightarrow> h
   | Some st \<Rightarrow>
       (let (r, st') = handle (asking E h) m st
        in if r = Ok () \<and> running st' then h\<lparr>the_portals := hm_insert a st' (the_portals h)\<rparr>
           else end_portal a r h))"

definition supervise_turn :: "('rm, 'f) host \<Rightarrow> ('rm, 'f) host" where
  "supervise_turn h = (case ended_events h of
     [] \<Rightarrow> h
   | ev # evs \<Rightarrow>
       (if nexus_runs h then h\<lparr>the_nexus := snd (nexus_supervise ev (the_nexus h)), ended_events := evs\<rparr> else h))"

datatype ('rm, 'f) host_event =
    NexusMessage nexus_env "'rm birth" "'rm nexus_message"
  | PortalMessage "'rm env" actor_id "('rm, 'f) portal_message"
  | StopPortal actor_id
  | Supervise

definition host_step :: "('rm, 'f) host_event \<Rightarrow> ('rm, 'f) host \<Rightarrow> ('rm, 'f) host" where
  "host_step ev h = (case ev of
     NexusMessage N B m \<Rightarrow> nexus_turn N B m h
   | PortalMessage E a m \<Rightarrow> portal_turn E a m h
   | StopPortal a \<Rightarrow> (if hm_get (the_portals h) a = None then h else end_portal a (Ok ()) h)
   | Supervise \<Rightarrow> supervise_turn h)"

definition host_run :: "('rm, 'f) host_event list \<Rightarrow> ('rm, 'f) host \<Rightarrow> ('rm, 'f) host" where
  "host_run evs h = fold host_step evs h"

text \<open>
  What can happen: a spawned portal has a new id, a UUID that is drawn is new, and the count of
  requests stays below \<open>2 ^ 64\<close>. All else is free.
\<close>

definition event_ok :: "('rm, 'f) host_event \<Rightarrow> ('rm, 'f) host \<Rightarrow> bool" where
  "event_ok ev h = (case ev of
     NexusMessage N B m \<Rightarrow> birth_id B \<notin> spawned (nexus_outs (the_nexus h))
   | PortalMessage E a m \<Rightarrow> (case hm_get (the_portals h) a of None \<Rightarrow> True | Some st \<Rightarrow> uuid_new E st \<and> ids_left E st)
   | _ \<Rightarrow> True)"

inductive host_reach :: "('rm, 'f) host \<Rightarrow> bool" where
  initial: "host_reach (host_start callback)"
| step: "host_reach h \<Longrightarrow> event_ok ev h \<Longrightarrow> host_reach (host_step ev h)"

section \<open>The tests of isolation\<close>

text \<open>
  What the tests run on. \<open>to_text\<close> is \<open>serde_json::to_string\<close> on the peer's introduction,
  \<open>portal1\<close> and \<open>portal2\<close> are what the runtime makes of the two connections. The channels
  of a test take whatever the portals send.
\<close>

record 'rm test_setup =
  test_env :: "'rm env"
  test_nexus :: nexus_env
  portal1 :: "'rm birth"
  portal2 :: "'rm birth"
  to_text :: "introduction \<Rightarrow> rstring"

definition fake_intro :: "128 word \<Rightarrow> introduction" where
  "fake_intro this_side = \<lparr>channel_id_contribution = replicate 16 0, version = str_lit ''0.1'',
     info_text = str_lit ''Fake client'', this_side_id = LocalPortalId this_side\<rparr>"

definition conn_of :: "'rm test_setup \<Rightarrow> 'rm birth \<Rightarrow> rstring \<Rightarrow> port \<Rightarrow> ('rm, 'f) host_event" where
  "conn_of T B ident rpc = NexusMessage (test_nexus T) B (Connected ident 0 rpc)"

text \<open>What a test sends into \<open>tx_to_portal\<close>, the receive loop hands to the portal.\<close>

definition peer_sends :: "'rm test_setup \<Rightarrow> 'rm birth \<Rightarrow> conduit_message \<Rightarrow> ('rm, 'f) host_event" where
  "peer_sends T B m = PortalMessage (test_env T) (birth_id B) (portal_message_of m)"

definition opened_wait :: "'rm test_setup \<Rightarrow> 'rm birth \<Rightarrow> port \<Rightarrow> ('rm, 'f) host_event" where
  "opened_wait T B rpc = PortalMessage (test_env T) (birth_id B) (WaitForHandshake rpc)"

definition all_portals :: "'rm test_setup \<Rightarrow> port \<Rightarrow> ('rm, 'f) host_event" where
  "all_portals T rpc = NexusMessage (test_nexus T) (portal1 T) (GetAllPortals rpc)"

definition garbage :: bytes where
  "garbage = [0xFF, 0xFE, 0xFD, 0xFC, 0x00, 0x01, 0x02, 0x03, 0xFF, 0xFF]"

text \<open>Reply ports are numbered in the order of the requests.\<close>

definition test_garbage_data :: "'rm test_setup \<Rightarrow> actor_id \<Rightarrow> 'rm \<Rightarrow> ('rm, 'f) host_event list" where
  "test_garbage_data T ping_actor receiver =
     [conn_of T (portal1 T) (str_lit ''isolation-test: portal 1 (garbage target)'') 1,
      conn_of T (portal2 T) (str_lit ''isolation-test: portal 2 (survivor)'') 2,
      peer_sends T (portal1 T) (CmHandshake (to_text T (fake_intro 12345))),
      peer_sends T (portal2 T) (CmHandshake (to_text T (fake_intro 12345))),
      opened_wait T (portal1 T) 3,
      opened_wait T (portal2 T) 4,
      PortalMessage (test_env T) (birth_id (portal2 T)) (PublishNamedActor (str_lit ''ping'') ping_actor receiver None),
      peer_sends T (portal1 T) (CmContent garbage),
      Supervise,
      all_portals T 5,
      StopPortal (birth_id (portal2 T))]"

definition bad_json :: rstring where
  "bad_json = str_lit ''this is not valid json {{{''"

definition test_garbage_handshake :: "'rm test_setup \<Rightarrow> ('rm, 'f) host_event list" where
  "test_garbage_handshake T =
     [conn_of T (portal1 T) (str_lit ''handshake-test: portal 1'') 1,
      conn_of T (portal2 T) (str_lit ''handshake-test: portal 2'') 2,
      peer_sends T (portal1 T) (CmHandshake bad_json),
      peer_sends T (portal2 T) (CmHandshake (to_text T (fake_intro 99999))),
      Supervise,
      opened_wait T (portal2 T) 3,
      all_portals T 4,
      StopPortal (birth_id (portal2 T))]"

definition test_content_before_handshake :: "'rm test_setup \<Rightarrow> ('rm, 'f) host_event list" where
  "test_content_before_handshake T =
     [conn_of T (portal1 T) (str_lit ''violation-test: portal'') 1,
      peer_sends T (portal1 T) (CmContent [1, 2, 3]),
      Supervise,
      all_portals T 2]"

definition test_second_handshake :: "'rm test_setup \<Rightarrow> ('rm, 'f) host_event list" where
  "test_second_handshake T =
     [conn_of T (portal1 T) (str_lit ''violation-test: portal'') 1,
      peer_sends T (portal1 T) (CmHandshake (to_text T (fake_intro 424242))),
      opened_wait T (portal1 T) 2,
      peer_sends T (portal1 T) (CmHandshake (to_text T (fake_intro 424242))),
      Supervise,
      all_portals T 3]"

end
