(* ===== verification/Host_Props.thy ===== *)
theory Host_Props
  imports Host Nexus_Props
begin

text \<open>
  What holds of a process with its nexus and portals: every portal is one that a portal can
  become on its own, the nexus knows them all, and what a peer sends to one portal does not reach
  another; and the tests of isolation pass.
\<close>

section \<open>The invariant\<close>

definition end_ids :: "supervision_event \<Rightarrow> actor_id list" where
  "end_ids ev = (case ev of ActorTerminated a \<Rightarrow> [a] | ActorFailed a e \<Rightarrow> [a] | OtherEvent \<Rightarrow> [])"

lemma ended_end_ids: "ended ev = set (end_ids ev)"
  by (simp add: ended_def end_ids_def split: supervision_event.split)

definition ends :: "('rm, 'f) host \<Rightarrow> actor_id list" where
  "ends h = concat (map end_ids (ended_events h))"

definition live :: "('rm, 'f) host \<Rightarrow> actor_id set" where
  "live h = fst ` set (the_portals h)"

definition host_inv :: "('rm, 'f) host \<Rightarrow> bool" where
  "host_inv h \<longleftrightarrow> hm_ok (the_portals h) \<and> (\<forall>(a, st) \<in> set (the_portals h). portal_reach st True) \<and>
     (nexus_runs h \<longrightarrow> nexus_reach (the_nexus h) (live h \<union> set (ends h)) True \<and> distinct (ends h) \<and> live h \<inter> set (ends h) = {}) \<and>
     (\<not> nexus_runs h \<longrightarrow> the_portals h = [])"

lemma host_start_inv: "host_inv (host_start cb)"
proof -
  have "nexus_reach \<lparr>on_client_connected = cb, portals = [], nexus_named_actors = [], nexus_outs = []\<rparr> {} True"
    by (rule nexus_reach.start) (simp add: nexus_pre_start_def)
  then show ?thesis by (simp add: host_inv_def host_start_def ends_def live_def)
qed

section \<open>The nexus's turn\<close>

text \<open>A call of the nexus spawns at most one portal, as the runtime says.\<close>

lemma nexus_reply_outs:
  "nexus_reply E p x st = (r, st') \<Longrightarrow> \<exists>xs. nexus_outs st' = nexus_outs st @ xs \<and> set xs \<subseteq> {x}"
  by (cases "nexus_port_open E p") (auto simp: nexus_reply_def nexus_emit_def intro: exI[of _ "[]"])

lemma connected_outs:
  assumes "handle_connected E ident s p st = (r, st')"
  shows "\<exists>xs. nexus_outs st' = nexus_outs st @ xs \<and>
    (case spawn_portal E (portal_args_of E ident) s of
       Ok a \<Rightarrow> (\<exists>ys. xs = SpawnPortal (portal_args_of E ident) a # ys \<and> (\<forall>g b. SpawnPortal g b \<notin> set ys))
     | _ \<Rightarrow> xs = [])"
proof (cases "spawn_portal E (portal_args_of E ident) s")
  case (Ok a)
  let ?g = "portal_args_of E ident"
  let ?st = "with_portal ?g ident a st"
  have outs: "nexus_outs ?st = nexus_outs st @ [SpawnPortal ?g a]" by (simp add: with_portal_def)
  consider (none) "nexus_reply E p (ReplyPortal p a) ?st = (r, st')"
    | (told) cb where "nexus_reply E p (ReplyPortal p a) (?st\<lparr>nexus_outs := nexus_outs ?st @ [NotifyConnected cb ident a]\<rparr>) = (r, st')"
    | (dead) "st' = ?st"
    using assms Ok by (auto simp: handle_connected_cases Let_def split: option.splits if_splits)
  then show ?thesis
  proof cases
    case none
    from nexus_reply_outs[OF this] Ok outs show ?thesis by fastforce
  next
    case told
    from nexus_reply_outs[OF this] Ok outs show ?thesis by fastforce
  next
    case dead
    with Ok outs show ?thesis by simp
  qed
qed (use assms in \<open>simp_all add: handle_connected_cases\<close>)

lemma nexus_handle_outs:
  assumes "nexus_handle E m st = (r, st')"
  shows "\<exists>xs. nexus_outs st' = nexus_outs st @ xs \<and>
    ((\<forall>g b. SpawnPortal g b \<notin> set xs) \<or>
     (\<exists>g a s ys. xs = SpawnPortal g a # ys \<and> (\<forall>g b. SpawnPortal g b \<notin> set ys) \<and> spawn_portal E g s = Ok a))"
proof (cases m)
  case (Connected ident s p)
  then have "handle_connected E ident s p st = (r, st')" using assms by (simp add: nexus_handle_def)
  from connected_outs[OF this] obtain xs where xs: "nexus_outs st' = nexus_outs st @ xs"
    and c: "case spawn_portal E (portal_args_of E ident) s of
       Ok a \<Rightarrow> (\<exists>ys. xs = SpawnPortal (portal_args_of E ident) a # ys \<and> (\<forall>g b. SpawnPortal g b \<notin> set ys))
     | _ \<Rightarrow> xs = []" by blast
  show ?thesis
  proof (cases "spawn_portal E (portal_args_of E ident) s")
    case (Ok a)
    with xs c show ?thesis by auto
  qed (use xs c in simp_all)
next
  case (NexusPublishNamedActor name a rm)
  then show ?thesis using assms by (auto simp: nexus_handle_def handle_nexus_publish_eq split: if_splits)
next
  case (GetAllPortals p)
  from nexus_reply_outs[OF assms[unfolded nexus_handle_def GetAllPortals nexus_message.case handle_get_all_portals_def]]
  show ?thesis by auto
next
  case (QueryNamedActor name p)
  from nexus_reply_outs[OF assms[unfolded nexus_handle_def QueryNamedActor nexus_message.case handle_query_named_actor_def]]
  show ?thesis by auto
qed

lemma new_portals_none: "(\<forall>g b. SpawnPortal g b \<notin> set xs) \<Longrightarrow> new_portals B xs ps = ps"
  by (induction xs arbitrary: ps) (auto simp: new_portals_def split: nexus_output.split)

lemma new_portals_Cons:
  "born B g = Ok st \<Longrightarrow> (\<forall>g b. SpawnPortal g b \<notin> set ys) \<Longrightarrow>
   new_portals B (SpawnPortal g a # ys) ps = hm_insert a st ps"
  using new_portals_none[of ys B "hm_insert a st ps"] by (simp add: new_portals_def)

text \<open>Such a call, if the nexus lives on, leaves the portals there are alone and adds at most one.\<close>

lemma nexus_turn_portals:
  assumes "nexus_runs h" and "nexus_runs (nexus_turn N B m h)"
  shows "\<exists>r n'. nexus_handle (spawning N B TYPE('f)) m (the_nexus h) = (Ok (), n') \<and>
    (let h' = nexus_turn N B m (h :: ('rm, 'f) host) in the_nexus h' = n' \<and> ended_events h' = ended_events h \<and>
      (the_portals h' = the_portals h \<and> spawned (nexus_outs n') = spawned (nexus_outs (the_nexus h)) \<or>
       (\<exists>st. portal_reach st True \<and> the_portals h' = hm_insert (birth_id B) st (the_portals h) \<and>
          spawned (nexus_outs n') = insert (birth_id B) (spawned (nexus_outs (the_nexus h))))))"
proof -
  obtain r n' where run: "nexus_handle (spawning N B TYPE('f)) m (the_nexus h) = (r, n')" by fastforce
  then have r: "r = Ok ()" using assms by (simp add: nexus_turn_def Let_def split: if_splits)
  from nexus_handle_outs[OF run] obtain xs where xs: "nexus_outs n' = nexus_outs (the_nexus h) @ xs"
    and c: "(\<forall>g b. SpawnPortal g b \<notin> set xs) \<or>
      (\<exists>g a s ys. xs = SpawnPortal g a # ys \<and> (\<forall>g b. SpawnPortal g b \<notin> set ys) \<and> spawn_portal (spawning N B TYPE('f)) g s = Ok a)"
    by blast
  have t: "the_nexus (nexus_turn N B m h) = n'" "ended_events (nexus_turn N B m h) = ended_events h"
    "the_portals (nexus_turn N B m h) = new_portals B xs (the_portals h)"
    using assms(1) run r xs by (simp_all add: nexus_turn_def Let_def)
  from c show ?thesis
  proof (elim disjE exE conjE)
    assume n: "\<forall>g b. SpawnPortal g b \<notin> set xs"
    then have "spawned xs = {}" by (auto simp: spawned_def)
    with n t run r xs show ?thesis by (simp add: new_portals_none Let_def)
  next
    fix g a s ys assume ys: "xs = SpawnPortal g a # ys" "\<forall>g b. SpawnPortal g b \<notin> set ys"
      and sp: "spawn_portal (spawning N B TYPE('f)) g s = Ok a"
    from sp obtain st :: "('rm, 'f) portal_state" where st: "born B g = Ok st" "a = birth_id B"
      by (auto simp: spawning_def and_then_eq_Ok)
    have "portal_reach st True" using st(1) unfolding born_def by (rule portal_reach.start)
    moreover have "spawned ys = {}" using ys(2) by (auto simp: spawned_def)
    ultimately show ?thesis
      using t run r xs ys st new_portals_Cons[OF st(1) ys(2), of a "the_portals h"] by (auto simp: Let_def)
  qed
qed

lemma nexus_turn_dead: "nexus_runs h \<Longrightarrow> \<not> nexus_runs (nexus_turn N B m h) \<Longrightarrow> the_portals (nexus_turn N B m h) = []"
  by (simp add: nexus_turn_def Let_def split: prod.splits)

lemma reach_spawned: "nexus_reach st l alive \<Longrightarrow> l \<subseteq> spawned (nexus_outs st)"
  using nexus_reach_inv[of st l alive] by (simp add: nexus_inv_def)

lemma nexus_turn_inv:
  assumes inv: "host_inv h" and new: "birth_id B \<notin> spawned (nexus_outs (the_nexus h))"
  shows "host_inv (nexus_turn N B m (h :: ('rm, 'f) host))"
proof (cases "nexus_runs h \<and> nexus_runs (nexus_turn N B m h)")
  case True
  let ?h = "nexus_turn N B m h" and ?N = "spawning N B TYPE('f)"
  from nexus_turn_portals[of h N B m] True obtain n' where run: "nexus_handle ?N m (the_nexus h) = (Ok (), n')"
    and t: "the_nexus ?h = n'" "ended_events ?h = ended_events h"
    and p: "the_portals ?h = the_portals h \<and> spawned (nexus_outs n') = spawned (nexus_outs (the_nexus h)) \<or>
       (\<exists>st. portal_reach st True \<and> the_portals ?h = hm_insert (birth_id B) st (the_portals h) \<and>
          spawned (nexus_outs n') = insert (birth_id B) (spawned (nexus_outs (the_nexus h))))"
    by (auto simp: Let_def)
  have reach: "nexus_reach (the_nexus h) (live h \<union> set (ends h)) True" "distinct (ends h)" "live h \<inter> set (ends h) = {}"
    and ok: "hm_ok (the_portals h)" "\<forall>(a, st) \<in> set (the_portals h). portal_reach st True"
    using inv True by (simp_all add: host_inv_def)
  have "spawns_new ?N (the_nexus h)" using new by (auto simp: spawns_new_def spawning_def and_then_eq_Ok)
  from nexus_reach.message[OF reach(1) this run]
  have r: "nexus_reach n' (live h \<union> set (ends h) \<union> (spawned (nexus_outs n') - spawned (nexus_outs (the_nexus h)))) True" by simp
  have e: "ends ?h = ends h" by (simp add: ends_def t)
  have fresh: "birth_id B \<notin> live h \<union> set (ends h)" using reach_spawned[OF reach(1)] new by blast
  from p show ?thesis
  proof (elim disjE exE conjE)
    assume "the_portals ?h = the_portals h" "spawned (nexus_outs n') = spawned (nexus_outs (the_nexus h))"
    then show ?thesis using r t e ok reach True by (simp add: host_inv_def live_def)
  next
    fix st assume st: "portal_reach st True" "the_portals ?h = hm_insert (birth_id B) st (the_portals h)"
      "spawned (nexus_outs n') = insert (birth_id B) (spawned (nexus_outs (the_nexus h)))"
    then have l: "live ?h = insert (birth_id B) (live h)" using ok(1) by (auto simp: live_def set_hm_insert rev_image_eqI)
    have "spawned (nexus_outs n') - spawned (nexus_outs (the_nexus h)) = {birth_id B}" using st(3) new by auto
    with r l have "nexus_reach n' (live ?h \<union> set (ends ?h)) True" by (simp add: e insert_is_Un[symmetric] Un_commute)
    then show ?thesis using t e ok reach True l fresh st(1,2) by (auto simp: host_inv_def set_hm_insert)
  qed
next
  case False
  show ?thesis
  proof (cases "nexus_runs h")
    case True
    with False nexus_turn_dead[OF True, of N B m] show ?thesis by (simp add: host_inv_def)
  qed (use inv in \<open>simp add: nexus_turn_def\<close>)
qed

section \<open>A portal's turn, and the news of its end\<close>

lemma asking_ok: "uuid_new E st \<Longrightarrow> uuid_new (asking E h) st" "ids_left E st \<Longrightarrow> ids_left (asking E h) st"
  by (simp_all add: uuid_new_def ids_left_def asking_def)

lemma end_portal_inv:
  assumes inv: "host_inv h" and a: "hm_get (the_portals h) a = Some st"
  shows "host_inv (end_portal a r h)"
proof -
  let ?h = "end_portal a r h"
  have al: "a \<in> live h" using hm_get_Some_in[OF a] by (force simp: live_def)
  have l: "live ?h = live h - {a}" by (auto simp: live_def end_portal_def set_hm_remove)
  have e: "ends ?h = ends h @ [a]" by (cases r) (simp_all add: ends_def end_portal_def end_of_def end_ids_def)
  have n: "the_nexus ?h = the_nexus h" "nexus_runs ?h = nexus_runs h" by (simp_all add: end_portal_def)
  have u: "live ?h \<union> set (ends ?h) = live h \<union> set (ends h)" using l e al by auto
  have runs: "nexus_runs h" using inv a by (auto simp: host_inv_def)
  have d: "distinct (ends h)" "live h \<inter> set (ends h) = {}" using inv runs by (simp_all add: host_inv_def)
  have "distinct (ends ?h) \<and> live ?h \<inter> set (ends ?h) = {}" using d al l e by auto
  moreover have "nexus_reach (the_nexus ?h) (live ?h \<union> set (ends ?h)) True"
    using inv runs unfolding u n(1) host_inv_def by blast
  moreover have "hm_ok (the_portals ?h)" "\<forall>(a, st) \<in> set (the_portals ?h). portal_reach st True"
    using inv by (auto simp: host_inv_def end_portal_def set_hm_remove)
  ultimately show ?thesis using runs n(2) unfolding host_inv_def by simp
qed

lemma portal_turn_inv:
  assumes inv: "host_inv h" and ok: "event_ok (PortalMessage E a m) h"
  shows "host_inv (portal_turn E a m h)"
proof (cases "hm_get (the_portals h) a")
  case None
  with inv show ?thesis by (simp add: portal_turn_def)
next
  case (Some st)
  obtain r st' where run: "handle (asking E h) m st = (r, st')" by fastforce
  have hm: "hm_ok (the_portals h)" "\<forall>(a, st) \<in> set (the_portals h). portal_reach st True"
    using inv by (simp_all add: host_inv_def)
  have st: "portal_reach st True" using hm(2) hm_get_Some_in[OF Some] by blast
  have "uuid_new E st" "ids_left E st" using ok Some by (simp_all add: event_ok_def)
  from portal_reach.step[OF st asking_ok(1)[OF this(1)] asking_ok(2)[OF this(2)] run]
  have st': "portal_reach st' (r = Ok () \<and> running st')" .
  show ?thesis
  proof (cases "r = Ok () \<and> running st'")
    case True
    let ?h = "h\<lparr>the_portals := hm_insert a st' (the_portals h)\<rparr>"
    have "a \<in> live h" using hm_get_Some_in[OF Some] by (force simp: live_def)
    then have l: "live ?h = live h" using hm(1) by (auto simp: live_def set_hm_insert)
    have e: "ends ?h = ends h" by (simp add: ends_def)
    have "portal_turn E a m h = ?h" using Some run True by (simp add: portal_turn_def)
    moreover have "nexus_runs h" using inv Some by (auto simp: host_inv_def)
    moreover have "\<forall>(a, st) \<in> set (hm_insert a st' (the_portals h)). portal_reach st True"
      using st' True hm by (auto simp: set_hm_insert)
    ultimately show ?thesis using inv hm(1) by (simp add: host_inv_def l e)
  next
    case False
    with end_portal_inv[OF inv Some, of r] Some run show ?thesis by (auto simp: portal_turn_def)
  qed
qed

lemma supervise_turn_inv:
  assumes inv: "host_inv h"
  shows "host_inv (supervise_turn h)"
proof (cases "ended_events h")
  case (Cons ev evs)
  show ?thesis
  proof (cases "nexus_runs h")
    case True
    let ?h = "h\<lparr>the_nexus := snd (nexus_supervise ev (the_nexus h)), ended_events := evs\<rparr>"
    have h: "supervise_turn h = ?h" using Cons True by (simp add: supervise_turn_def)
    have e: "ends h = end_ids ev @ ends ?h" "live ?h = live h" by (simp_all add: ends_def live_def Cons)
    have reach: "nexus_reach (the_nexus h) (live h \<union> set (ends h)) True" "distinct (ends h)" "live h \<inter> set (ends h) = {}"
      using inv True by (simp_all add: host_inv_def)
    have run: "nexus_supervise ev (the_nexus h) = (Ok (), the_nexus ?h)" by (simp add: nexus_supervise_def)
    have "nexus_reach (the_nexus ?h) (live h \<union> set (ends h) - set (end_ids ev)) True"
      using nexus_reach.event[OF reach(1) run] by (simp add: ended_end_ids)
    moreover have "live h \<union> set (ends h) - set (end_ids ev) = live ?h \<union> set (ends ?h)"
      using reach(2,3) e by auto
    ultimately have "nexus_reach (the_nexus ?h) (live ?h \<union> set (ends ?h)) True" by simp
    moreover have "distinct (ends ?h)" "live ?h \<inter> set (ends ?h) = {}" using reach(2,3) e by auto
    ultimately show ?thesis using inv True unfolding h host_inv_def by simp
  qed (use inv Cons in \<open>simp add: supervise_turn_def\<close>)
qed (use inv in \<open>simp add: supervise_turn_def\<close>)

lemma host_step_inv:
  assumes "host_inv h" and "event_ok ev h"
  shows "host_inv (host_step ev h)"
proof (cases ev)
  case (NexusMessage N B m)
  then show ?thesis using nexus_turn_inv[OF assms(1), of B N m] assms(2) by (simp add: host_step_def event_ok_def)
next
  case (PortalMessage E a m)
  then show ?thesis using portal_turn_inv[OF assms(1), of E a m] assms(2) by (simp add: host_step_def)
next
  case (StopPortal a)
  then show ?thesis using end_portal_inv[OF assms(1), of a] assms(1) by (auto simp: host_step_def)
next
  case Supervise
  then show ?thesis using supervise_turn_inv[OF assms(1)] by (simp add: host_step_def)
qed

lemma host_reach_inv: "host_reach h \<Longrightarrow> host_inv h"
  by (induction rule: host_reach.induct) (auto intro: host_start_inv host_step_inv)

section \<open>Isolation\<close>

fun run_ok :: "('rm, 'f) host_event list \<Rightarrow> ('rm, 'f) host \<Rightarrow> bool" where
  "run_ok [] h = True"
| "run_ok (ev # evs) h = (event_ok ev h \<and> run_ok evs (host_step ev h))"

text \<open>An event for the portal \<open>b\<close>.\<close>

definition meant_for :: "actor_id \<Rightarrow> ('rm, 'f) host_event \<Rightarrow> bool" where
  "meant_for b ev = (case ev of PortalMessage E a m \<Rightarrow> a = b | StopPortal a \<Rightarrow> a = b | _ \<Rightarrow> False)"

lemma host_run_Cons [simp]: "host_run (ev # evs) h = host_run evs (host_step ev h)" "host_run [] h = h"
  by (simp_all add: host_run_def)

lemma nexus_stays_down: "\<not> nexus_runs h \<Longrightarrow> \<not> nexus_runs (host_step ev h)"
  by (cases ev) (auto simp: host_step_def nexus_turn_def portal_turn_def end_portal_def supervise_turn_def Let_def
      split: option.split list.split prod.split)

lemma nexus_stays_down_run: "\<not> nexus_runs h \<Longrightarrow> \<not> nexus_runs (host_run evs h)"
  by (induction evs arbitrary: h) (auto dest: nexus_stays_down)

lemma host_step_other:
  assumes inv: "host_inv h" and ok: "event_ok ev h" and runs: "nexus_runs (host_step ev h)" and b: "\<not> meant_for b ev"
    and st: "hm_get (the_portals h) b = Some st"
  shows "hm_get (the_portals (host_step ev h)) b = Some st"
proof (cases ev)
  case (NexusMessage N B m)
  have h: "nexus_runs h" using nexus_stays_down[of h ev] runs by blast
  have "b \<in> live h" using hm_get_Some_in[OF st] by (force simp: live_def)
  moreover have "live h \<subseteq> spawned (nexus_outs (the_nexus h))"
    using inv h reach_spawned[of "the_nexus h"] by (auto simp: host_inv_def)
  ultimately have "b \<noteq> birth_id B" using ok NexusMessage by (auto simp: event_ok_def)
  then show ?thesis
    using nexus_turn_portals[of h N B m] h runs NexusMessage st
    by (auto simp: host_step_def Let_def hm_get_insert)
next
  case Supervise
  then show ?thesis using st by (simp add: host_step_def supervise_turn_def split: list.split)
qed (use b st in \<open>auto simp: meant_for_def host_step_def portal_turn_def end_portal_def Let_def hm_get_insert hm_get_remove
    split: option.split prod.split\<close>)

lemma host_run_other:
  assumes "host_inv h" and "run_ok evs h" and "nexus_runs (host_run evs h)" and "list_all (\<lambda>ev. \<not> meant_for b ev) evs"
    and "hm_get (the_portals h) b = Some st"
  shows "host_inv (host_run evs h) \<and> hm_get (the_portals (host_run evs h)) b = Some st"
  using assms
proof (induction evs arbitrary: h)
  case (Cons ev evs)
  have "nexus_runs (host_step ev h)" using nexus_stays_down_run[of "host_step ev h" evs] Cons.prems(3) by auto
  then have "hm_get (the_portals (host_step ev h)) b = Some st"
    using host_step_other[OF Cons.prems(1)] Cons.prems(2,4,5) by simp
  then show ?case using Cons.IH[of "host_step ev h"] host_step_inv[OF Cons.prems(1)] Cons.prems(2-4) by simp
qed simp

text \<open>
  C6: Portals of a nexus do not disturb each other. While the nexus lives, whatever peers send to
  other portals, and however those end, a portal that gets no message stays as it is and the nexus keeps it
  listed; once the nexus has heard of every end, it lists, each once, just the portals that run. Each of them
  is in a state that a portal on its own can reach.
\<close>

theorem host_isolation:
  assumes "host_reach h" and "run_ok evs h" and "nexus_runs (host_run evs h)" and "list_all (\<lambda>ev. \<not> meant_for b ev) evs"
    and "hm_get (the_portals h) b = Some st" and "nexus_port_open N p"
  shows "hm_get (the_portals (host_run evs h)) b = Some st \<and>
    (\<exists>as n'. nexus_handle N (GetAllPortals p) (the_nexus (host_run evs h)) = (Ok (), n') \<and>
       last (nexus_outs n') = ReplyAllPortals p as \<and> distinct as \<and> b \<in> set as \<and>
       (ended_events (host_run evs h) = [] \<longrightarrow> set as = fst ` set (the_portals (host_run evs h)))) \<and>
    (\<forall>a s. hm_get (the_portals (host_run evs h)) a = Some s \<longrightarrow> portal_reach s True)"
proof -
  let ?h = "host_run evs h"
  from host_run_other[OF host_reach_inv[OF assms(1)] assms(2-5)]
  have inv: "host_inv ?h" and b: "hm_get (the_portals ?h) b = Some st" by auto
  from inv have reach: "nexus_reach (the_nexus ?h) (live ?h \<union> set (ends ?h)) True"
    and ok: "\<forall>(a, st) \<in> set (the_portals ?h). portal_reach st True"
    using assms(3) by (simp_all add: host_inv_def)
  have inv': "nexus_inv (the_nexus ?h) (live ?h \<union> set (ends ?h))" by (rule nexus_reach_inv[OF reach])
  let ?as = "map (\<lambda>(_, _, a). a) (portals (the_nexus ?h))"
  have eq: "?as = map fst (portals (the_nexus ?h))" using inv' by (auto simp: nexus_inv_def)
  have as: "distinct ?as" "set ?as = live ?h \<union> set (ends ?h)"
    unfolding eq using inv' by (simp_all add: nexus_inv_def hm_ok_def)
  have "b \<in> live ?h" using hm_get_Some_in[OF b] by (force simp: live_def)
  moreover have "ended_events ?h = [] \<Longrightarrow> ends ?h = []" by (simp add: ends_def)
  moreover have "nexus_handle N (GetAllPortals p) (the_nexus ?h) =
      (Ok (), (the_nexus ?h)\<lparr>nexus_outs := nexus_outs (the_nexus ?h) @ [ReplyAllPortals p ?as]\<rparr>)"
    using assms(6) by (simp add: nexus_handle_def handle_get_all_portals_def nexus_reply_def nexus_emit_def)
  ultimately show ?thesis
    using b as ok by (auto simp: live_def dest!: hm_get_Some_in)
qed

section \<open>The tests pass\<close>

text \<open>
  What the tests rely on: both portals start, the channels take what is sent, the peer's
  introduction is read back, and neither the broken text nor the garbage can be decoded.
\<close>

definition good_birth :: "'rm birth \<Rightarrow> bool" where
  "good_birth B \<longleftrightarrow> sink_send_ok (birth_env B) \<and> sink_flush_ok (birth_env B) \<and> (\<forall>i. is_ok (birth_json B i))"

definition good_test :: "'rm test_setup \<Rightarrow> bool" where
  "good_test T \<longleftrightarrow> birth_id (portal1 T) \<noteq> birth_id (portal2 T) \<and> good_birth (portal1 T) \<and> good_birth (portal2 T) \<and>
     (\<forall>p. nexus_port_open (test_nexus T) p) \<and> (\<forall>p. port_open (test_env T) p) \<and>
     (\<forall>i. json_dec (test_env T) (to_text T i) = Ok i) \<and> (\<exists>e. json_dec (test_env T) bad_json = Err e) \<and>
     (\<exists>e. cpm_dec (test_env T) garbage = Err e)"

text \<open>The portal that a good birth gives.\<close>

definition intro_of :: "'rm birth \<Rightarrow> portal_args \<Rightarrow> introduction" where
  "intro_of B g = \<lparr>channel_id_contribution = birth_uuid B, version = str_lit ''0.1'',
     info_text = motivational_messages ! birth_pick B, this_side_id = local_id g\<rparr>"

definition fresh :: "'rm birth \<Rightarrow> portal_args \<Rightarrow> ('rm, 'f) portal_state" where
  "fresh B g = \<lparr>args = g, channel_state = Opening (intro_of B g), published_actors = [], proxies_for_remote_actors = [],
     named_actors = [], next_request_id = 1, open_requests = [], waiting_for_handshake = [],
     outs = [SinkSend (CmHandshake (case birth_json B (intro_of B g) of Ok t \<Rightarrow> t | _ \<Rightarrow> []))]\<rparr>"

lemma born_fresh: "good_birth B \<Longrightarrow> born B g = Ok (fresh B g)"
  by (auto simp: good_birth_def born_def pre_start_def fresh_def intro_of_def[symmetric] Let_def is_ok_def split: outcome.splits)

lemma fresh_simps:
  "channel_state (fresh B g) = Opening (intro_of B g)" "waiting_for_handshake (fresh B g) = []"
  "published_actors (fresh B g) = []" "StopSelf \<notin> set (outs (fresh B g))"
  by (simp_all add: fresh_def)

text \<open>The steps of the nexus in the tests.\<close>

lemma conn_step:
  assumes "good_birth B" and "\<forall>p. nexus_port_open (test_nexus T) p" and "nexus_runs h" and "on_client_connected (the_nexus h) = None"
  defines "g \<equiv> portal_args_of (test_nexus T)"
  shows "host_step (conn_of T B ident p) (h :: ('rm, 'f) host) = h\<lparr>
    the_nexus := (the_nexus h)\<lparr>portals := hm_insert (birth_id B) (ident, birth_id B) (portals (the_nexus h)),
      nexus_outs := nexus_outs (the_nexus h) @ [SpawnPortal (g ident) (birth_id B), ReplyPortal p (birth_id B)]\<rparr>,
    the_portals := hm_insert (birth_id B) (fresh B (g ident)) (the_portals h)\<rparr>"
proof -
  have "portal_args_of (spawning (test_nexus T) B TYPE('f)) ident = g ident"
    by (simp add: g_def portal_args_of_def spawning_def)
  then show ?thesis
    using assms(1-4) by (cases h) (simp add: host_step_def conn_of_def nexus_turn_def nexus_handle_def handle_connected_cases spawning_def
      born_fresh with_portal_def nexus_reply_def nexus_emit_def new_portals_def Let_def portal_args_of_def)
qed

lemma all_portals_step:
  assumes "\<forall>p. nexus_port_open (test_nexus T) p" and "nexus_runs h"
  shows "host_step (all_portals T p) h = h\<lparr>the_nexus := (the_nexus h)\<lparr>nexus_outs :=
    nexus_outs (the_nexus h) @ [ReplyAllPortals p (map (\<lambda>(_, _, a). a) (portals (the_nexus h)))]\<rparr>\<rparr>"
  using assms by (cases h) (simp add: host_step_def all_portals_def nexus_turn_def nexus_handle_def handle_get_all_portals_def
    nexus_reply_def nexus_emit_def new_portals_def spawning_def)

lemma stop_step: "hm_get (the_portals h) a = Some st \<Longrightarrow> host_step (StopPortal a) h = end_portal a (Ok ()) h"
  by (simp add: host_step_def)

lemma supervise_step:
  "nexus_runs h \<Longrightarrow> ended_events h = [end_of a r] \<Longrightarrow> host_step Supervise h =
     h\<lparr>the_nexus := (the_nexus h)\<lparr>portals := hm_remove a (portals (the_nexus h))\<rparr>, ended_events := []\<rparr>"
  by (cases r) (simp_all add: host_step_def supervise_turn_def nexus_supervise_def end_of_def)

text \<open>The steps of a portal in the tests.\<close>

lemma portal_step_stays:
  assumes "hm_get (the_portals h) a = Some st" and "handle (asking E h) m st = (Ok (), st')" and "running st'"
  shows "host_step (PortalMessage E a m) h = h\<lparr>the_portals := hm_insert a st' (the_portals h)\<rparr>"
  using assms by (simp add: host_step_def portal_turn_def)

lemma portal_step_ends:
  assumes "hm_get (the_portals h) a = Some st" and "handle (asking E h) m st = (r, st')" and "\<not> (r = Ok () \<and> running st')"
  shows "host_step (PortalMessage E a m) h = end_portal a r h"
  using assms by (auto simp: host_step_def portal_turn_def)

definition opened :: "('rm, 'f) portal_state \<Rightarrow> bool" where
  "opened st \<longleftrightarrow> is_open (channel_state st) \<and> running st"

definition before_open :: "('rm, 'f) portal_state \<Rightarrow> bool" where
  "before_open st \<longleftrightarrow> \<not> is_open (channel_state st) \<and> waiting_for_handshake st = [] \<and> running st"

lemma before_open_fresh: "before_open (fresh B g)"
  by (simp add: before_open_def fresh_simps running_def)

lemma handshake_opens:
  assumes "before_open st" and "json_dec E text = Ok i"
  shows "\<exists>st'. handle E (Handshake text) st = (Ok (), st') \<and> opened st'"
  using assms by (cases "channel_state st")
    (auto simp: before_open_def opened_def handle_def handle_handshake_def update_def running_def)

lemma wait_answered:
  assumes "opened st" and "port_open E p"
  shows "\<exists>st'. handle E (WaitForHandshake p) st = (Ok (), st') \<and> opened st' \<and> Reply p RUnit \<in> set (outs st')"
  using assms by (cases "channel_state st")
    (auto simp: opened_def handle_def handle_wait_for_handshake_def reply_send_def emit_def running_def)

lemma publish_stays:
  assumes "opened st"
  shows "\<exists>st'. handle E (PublishNamedActor name a rm None) st = (Ok (), st') \<and> opened st'"
  using assms by (auto simp: opened_def handle_def handle_publish_named_actor_def publish_actor_def update_def seq_def running_def
      Let_def split: option.split)

lemma second_handshake_stops:
  assumes "opened st"
  shows "\<exists>st'. handle E (Handshake text) st = (Ok (), st') \<and> \<not> running st'"
  using assms by (cases "channel_state st") (auto simp: opened_def handle_def handle_handshake_def emit_def running_def)

lemma early_content_stops:
  assumes "before_open st"
  shows "\<exists>st'. handle E (Content data) st = (Ok (), st') \<and> \<not> running st'"
  using assms by (cases "channel_state st") (auto simp: before_open_def handle_def handle_content_def emit_def running_def)

lemma garbage_fails:
  assumes "opened st" and "cpm_dec E data = Err e"
  shows "handle E (Content data) st = (Err e, st)"
  using assms by (cases "channel_state st")
    (auto simp: opened_def handle_def handle_content_def simple_rematerialize_def)

lemma bad_text_fails:
  assumes "before_open st" and "json_dec E text = Err e"
  shows "handle E (Handshake text) st = (Err e, st)"
  using assms by (cases "channel_state st") (auto simp: before_open_def handle_def handle_handshake_def)

text \<open>Where a test stands: the nexus's table, the portals that run, and the ends not yet heard of.\<close>

definition stands ::
    "('rm, 'f) host \<Rightarrow> (actor_id, rstring \<times> actor_id) hmap \<Rightarrow> (actor_id, ('rm, 'f) portal_state) hmap \<Rightarrow> supervision_event list \<Rightarrow> bool" where
  "stands h P S evs \<longleftrightarrow> nexus_runs h \<and> on_client_connected (the_nexus h) = None \<and> portals (the_nexus h) = P \<and>
     the_portals h = S \<and> ended_events h = evs"

definition listed :: "port \<Rightarrow> actor_id list \<Rightarrow> ('rm, 'f) host \<Rightarrow> bool" where
  "listed p as h \<longleftrightarrow> nexus_outs (the_nexus h) \<noteq> [] \<and> last (nexus_outs (the_nexus h)) = ReplyAllPortals p as"

definition answered :: "port \<Rightarrow> actor_id \<Rightarrow> ('rm, 'f) host \<Rightarrow> bool" where
  "answered p a h \<longleftrightarrow> (\<exists>st. hm_get (the_portals h) a = Some st \<and> Reply p RUnit \<in> set (outs st))"

lemma asking_simps:
  "json_dec (asking E h) = json_dec E" "cpm_dec (asking E h) = cpm_dec E" "port_open (asking E h) = port_open E"
  by (simp_all add: asking_def)

lemma stands_start: "stands (host_start None) [] [] []"
  by (simp add: stands_def host_start_def)

lemma stands_conn:
  assumes "stands h P S evs" and "good_birth B" and "\<forall>p. nexus_port_open (test_nexus T) p"
  shows "\<exists>st. before_open st \<and> stands (host_step (conn_of T B ident p) h)
    (hm_insert (birth_id B) (ident, birth_id B) P) (hm_insert (birth_id B) st S) evs"
  using assms before_open_fresh by (fastforce simp: stands_def conn_step)

lemma stands_ended:
  assumes "stands h P S evs" and "hm_get S a = Some st" and "handle (asking E h) m st = (r, st')" and "\<not> (r = Ok () \<and> running st')"
  shows "stands (host_step (PortalMessage E a m) h) P (hm_remove a S) (evs @ [end_of a r])"
  using assms portal_step_ends[of h a st E m r st'] by (simp add: stands_def end_portal_def)

lemma stands_stays:
  assumes "stands h P S evs" and "hm_get S a = Some st" and "handle (asking E h) m st = (Ok (), st')" and "running st'"
  shows "stands (host_step (PortalMessage E a m) h) P (hm_insert a st' S) evs"
  using assms portal_step_stays[of h a st E m st'] by (simp add: stands_def)

lemma stands_handshake:
  assumes "stands h P S evs" and "hm_get S (birth_id B) = Some st" and "before_open st" and "json_dec (test_env T) text = Ok i"
  shows "\<exists>st'. opened st' \<and> stands (host_step (peer_sends T B (CmHandshake text)) h) P (hm_insert (birth_id B) st' S) evs"
proof -
  from handshake_opens[OF assms(3), of "asking (test_env T) h" "text" i] assms(4) obtain st' where
    "handle (asking (test_env T) h) (Handshake text) st = (Ok (), st')" "opened st'" by (auto simp: asking_simps)
  with stands_stays[OF assms(1,2) this(1)] show ?thesis by (auto simp: peer_sends_def portal_message_of_def opened_def)
qed

lemma stands_wait:
  assumes "stands h P S evs" and "hm_get S (birth_id B) = Some st" and "opened st" and "\<forall>p. port_open (test_env T) p"
  shows "\<exists>st'. opened st' \<and> Reply p RUnit \<in> set (outs st') \<and>
    stands (host_step (opened_wait T B p) h) P (hm_insert (birth_id B) st' S) evs"
proof -
  from wait_answered[OF assms(3), of "asking (test_env T) h" p] assms(4) obtain st' where
    "handle (asking (test_env T) h) (WaitForHandshake p) st = (Ok (), st')" "opened st'" "Reply p RUnit \<in> set (outs st')"
    by (auto simp: asking_simps)
  with stands_stays[OF assms(1,2) this(1)] show ?thesis by (auto simp: opened_wait_def opened_def)
qed

lemma stands_publish:
  assumes "stands h P S evs" and "hm_get S a = Some st" and "opened st"
  shows "\<exists>st'. opened st' \<and> stands (host_step (PortalMessage E a (PublishNamedActor name x rm None)) h) P (hm_insert a st' S) evs"
proof -
  from publish_stays[OF assms(3), of "asking E h" name x rm] obtain st' where
    "handle (asking E h) (PublishNamedActor name x rm None) st = (Ok (), st')" "opened st'" by blast
  with stands_stays[OF assms(1,2) this(1)] show ?thesis by (auto simp: opened_def)
qed

lemma stands_ends:
  assumes "stands h P S []" and "hm_get S (birth_id B) = Some st"
    and "(\<exists>text. m = CmHandshake text \<and> (opened st \<or> before_open st \<and> (\<exists>e. json_dec (test_env T) text = Err e))) \<or>
      (\<exists>data. m = CmContent data \<and> (before_open st \<or> opened st \<and> (\<exists>e. cpm_dec (test_env T) data = Err e)))"
  shows "\<exists>r. stands (host_step (peer_sends T B m) h) P (hm_remove (birth_id B) S) [end_of (birth_id B) r]"
proof -
  have "\<exists>r st'. handle (asking (test_env T) h) (portal_message_of m) st = (r, st') \<and> \<not> (r = Ok () \<and> running st')"
    using assms(3) second_handshake_stops[of st "asking (test_env T) h"] early_content_stops[of st "asking (test_env T) h"]
      garbage_fails[of st "asking (test_env T) h"] bad_text_fails[of st "asking (test_env T) h"]
    by (fastforce simp: portal_message_of_def asking_simps)
  then show ?thesis using stands_ended[OF assms(1,2)] unfolding peer_sends_def by fastforce
qed

lemma stands_supervise:
  "stands h P S [end_of a r] \<Longrightarrow> stands (host_step Supervise h) (hm_remove a P) S []"
  using supervise_step[of h a r] by (simp add: stands_def)

lemma stands_listed:
  "stands h P S evs \<Longrightarrow> \<forall>p. nexus_port_open (test_nexus T) p \<Longrightarrow> listed p (map (\<lambda>(_, _, a). a) P) (host_step (all_portals T p) h)"
  by (simp add: stands_def listed_def all_portals_step)

lemma stands_gone: "stands h P S evs \<Longrightarrow> hm_get (the_portals h) a = hm_get S a"
  by (simp add: stands_def)

lemma run_take: "n < length evs \<Longrightarrow> host_run (take (Suc n) evs) h = host_step (evs ! n) (host_run (take n evs) h)"
  by (simp add: host_run_def take_Suc_conv_app_nth)

lemmas two_keys = hm_insert_def hm_get_def hm_remove_def

lemma good_testD:
  assumes "good_test T"
  shows "birth_id (portal1 T) \<noteq> birth_id (portal2 T)" "birth_id (portal2 T) \<noteq> birth_id (portal1 T)"
    "good_birth (portal1 T)" "good_birth (portal2 T)" "\<forall>p. nexus_port_open (test_nexus T) p"
    "\<forall>p. port_open (test_env T) p" "json_dec (test_env T) (to_text T i) = Ok i"
    "\<exists>e. json_dec (test_env T) bad_json = Err e" "\<exists>e. cpm_dec (test_env T) garbage = Err e"
  using assms by (auto simp: good_test_def)

text \<open>Both connections, and the first portal's message.\<close>

lemma two_connections:
  fixes T :: "'rm test_setup"
  assumes "good_test T"
  defines "a \<equiv> birth_id (portal1 T)" and "b \<equiv> birth_id (portal2 T)"
  shows "\<exists>(s :: ('rm, 'f) portal_state) t. before_open s \<and> before_open t \<and>
    stands (host_step (conn_of T (portal2 T) j q) (host_step (conn_of T (portal1 T) i p) (host_start None)))
      [(a, (i, a)), (b, (j, b))] [(a, s), (b, t)] []"
proof -
  from stands_conn[OF stands_start good_testD(3,5)[OF assms(1)], of i p] obtain s :: "('rm, 'f) portal_state" where s: "before_open s"
    "stands (host_step (conn_of T (portal1 T) i p) (host_start None)) [(a, (i, a))] [(a, s)] []"
    by (auto simp: a_def two_keys)
  from stands_conn[OF s(2) good_testD(4,5)[OF assms(1)], of j q] s(1) show ?thesis
    using good_testD(1)[OF assms(1)] by (auto simp: a_def b_def two_keys)
qed

text \<open>What the first test looks at.\<close>

lemma garbage_data_passes:
  fixes T :: "'rm test_setup" and ping :: actor_id and rm :: 'rm
  assumes "good_test T"
  defines "run \<equiv> \<lambda>n. host_run (take n (test_garbage_data T ping rm)) (host_start None :: ('rm, 'f) host)"
  shows "answered 3 (birth_id (portal1 T)) (run 5) \<and> answered 4 (birth_id (portal2 T)) (run 6) \<and>
    listed 5 [birth_id (portal2 T)] (run 10)"
proof -
  note T = good_testD[OF assms(1)]
  let ?a = "birth_id (portal1 T)" and ?b = "birth_id (portal2 T)"
  have step: "run (Suc n) = host_step (test_garbage_data T ping rm ! n) (run n)" if "n < 11" for n
    unfolding run_def using that by (intro run_take) (simp add: test_garbage_data_def)
  note nth = step[of 2] step[of 3] step[of 4] step[of 5] step[of 6] step[of 7] step[of 8] step[of 9]
  obtain P and s t :: "('rm, 'f) portal_state" where 2: "before_open s" "before_open t" "stands (run 2) P [(?a, s), (?b, t)] []"
    and P: "map (\<lambda>(_, _, a). a) (hm_remove ?a P) = [?b]"
    using two_connections[OF assms(1)] T(1,2) by (fastforce simp: run_def test_garbage_data_def two_keys take_Cons')
  from stands_handshake[OF 2(3) _ 2(1) T(7), of "portal1 T"] obtain s1 where
    3: "opened s1" "stands (run 3) P [(?a, s1), (?b, t)] []"
    using nth(1) by (auto simp: two_keys test_garbage_data_def)
  from stands_handshake[OF 3(2) _ 2(2) T(7), of "portal2 T"] obtain t1 where
    4: "opened t1" "stands (run 4) P [(?a, s1), (?b, t1)] []"
    using nth(2) T(1,2) by (auto simp: two_keys test_garbage_data_def)
  from stands_wait[OF 4(2) _ 3(1) T(6), of "portal1 T" 3] obtain s2 where
    5: "opened s2" "Reply 3 RUnit \<in> set (outs s2)" "stands (run 5) P [(?a, s2), (?b, t1)] []"
    using nth(3) T(1,2) by (auto simp: two_keys test_garbage_data_def)
  from stands_wait[OF 5(3) _ 4(1) T(6), of "portal2 T" 4] obtain t2 where
    6: "opened t2" "Reply 4 RUnit \<in> set (outs t2)" "stands (run 6) P [(?a, s2), (?b, t2)] []"
    using nth(4) T(1,2) by (auto simp: two_keys test_garbage_data_def)
  from stands_publish[OF 6(3) _ 6(1), of ?b "test_env T" "str_lit ''ping''" ping rm] obtain t3 where
    7: "opened t3" "stands (run 7) P [(?a, s2), (?b, t3)] []"
    using nth(5) T(1,2) by (auto simp: two_keys test_garbage_data_def)
  from stands_ends[OF 7(2), of "portal1 T" s2 "CmContent garbage"] 5(1) T(9) obtain r where
    8: "stands (run 8) P [(?b, t3)] [end_of ?a r]"
    using nth(6) T(1,2) by (auto simp: two_keys test_garbage_data_def)
  have 9: "stands (run 9) (hm_remove ?a P) [(?b, t3)] []"
    using stands_supervise[OF 8] nth(7) by (simp add: test_garbage_data_def)
  have "listed 5 [?b] (run 10)"
    using stands_listed[OF 9 T(5), of 5] nth(8) P by (simp add: test_garbage_data_def)
  moreover have "answered 3 ?a (run 5)" "answered 4 ?b (run 6)"
    using 5 6 T(1,2) by (simp_all add: answered_def stands_def two_keys)
  ultimately show ?thesis by simp
qed

lemma garbage_handshake_passes:
  fixes T :: "'rm test_setup"
  assumes "good_test T"
  defines "run \<equiv> \<lambda>n. host_run (take n (test_garbage_handshake T)) (host_start None :: ('rm, 'f) host)"
  shows "answered 3 (birth_id (portal2 T)) (run 6) \<and> listed 4 [birth_id (portal2 T)] (run 7)"
proof -
  note T = good_testD[OF assms(1)]
  let ?a = "birth_id (portal1 T)" and ?b = "birth_id (portal2 T)"
  have step: "run (Suc n) = host_step (test_garbage_handshake T ! n) (run n)" if "n < 8" for n
    unfolding run_def using that by (intro run_take) (simp add: test_garbage_handshake_def)
  note nth = step[of 2] step[of 3] step[of 4] step[of 5] step[of 6]
  obtain P and s t :: "('rm, 'f) portal_state" where 2: "before_open s" "before_open t" "stands (run 2) P [(?a, s), (?b, t)] []"
    and P: "map (\<lambda>(_, _, a). a) (hm_remove ?a P) = [?b]"
    using two_connections[OF assms(1)] T(1,2) by (fastforce simp: run_def test_garbage_handshake_def two_keys take_Cons')
  from stands_ends[OF 2(3), of "portal1 T" s "CmHandshake bad_json"] 2(1) T(8) obtain r where
    3: "stands (run 3) P [(?b, t)] [end_of ?a r]"
    using nth(1) T(1,2) by (auto simp: two_keys test_garbage_handshake_def)
  have "\<exists>t1. opened t1 \<and> stands (host_step (peer_sends T (portal2 T) (CmHandshake (to_text T (fake_intro 99999)))) (run 3)) P
      (hm_insert ?b t1 [(?b, t)]) [end_of ?a r]"
    by (rule stands_handshake[OF 3 _ 2(2) T(7)]) (simp add: two_keys)
  then obtain t1 where 4: "opened t1" "stands (run 4) P [(?b, t1)] [end_of ?a r]"
    using nth(2) by (auto simp: two_keys test_garbage_handshake_def)
  have 5: "stands (run 5) (hm_remove ?a P) [(?b, t1)] []"
    using stands_supervise[OF 4(2)] nth(3) by (simp add: test_garbage_handshake_def)
  from stands_wait[OF 5 _ 4(1) T(6), of "portal2 T" 3] obtain t2 where
    6: "Reply 3 RUnit \<in> set (outs t2)" "stands (run 6) (hm_remove ?a P) [(?b, t2)] []"
    using nth(4) T(1,2) by (auto simp: two_keys test_garbage_handshake_def)
  have "listed 4 [?b] (run 7)"
    using stands_listed[OF 6(2) T(5), of 4] nth(5) P by (simp add: test_garbage_handshake_def)
  moreover have "answered 3 ?b (run 6)" using 6 by (simp add: answered_def stands_def two_keys)
  ultimately show ?thesis by simp
qed

lemma one_connection:
  fixes T :: "'rm test_setup"
  assumes "good_test T"
  shows "\<exists>s :: ('rm, 'f) portal_state. before_open s \<and>
    stands (host_step (conn_of T (portal1 T) i p) (host_start None)) [(birth_id (portal1 T), (i, birth_id (portal1 T)))]
      [(birth_id (portal1 T), s)] []"
  using stands_conn[OF stands_start good_testD(3,5)[OF assms(1)], of i p] by (auto simp: two_keys)

lemma content_before_handshake_passes:
  fixes T :: "'rm test_setup"
  assumes "good_test T"
  defines "h \<equiv> host_run (test_content_before_handshake T) (host_start None :: ('rm, 'f) host)"
  shows "hm_get (the_portals h) (birth_id (portal1 T)) = None \<and> listed 2 [] h"
proof -
  note T = good_testD[OF assms(1)]
  let ?a = "birth_id (portal1 T)" and ?i = "str_lit ''violation-test: portal''"
  obtain s :: "('rm, 'f) portal_state" where s: "before_open s"
    "stands (host_step (conn_of T (portal1 T) ?i 1) (host_start None :: ('rm, 'f) host)) [(?a, (?i, ?a))] [(?a, s)] []"
    using one_connection[OF assms(1)] by blast
  from stands_ends[where T = T and B = "portal1 T" and st = s and m = "CmContent [1, 2, 3]", OF s(2)] s(1) obtain r where
    r: "stands (host_step (peer_sends T (portal1 T) (CmContent [1, 2, 3])) (host_step (conn_of T (portal1 T) ?i 1) (host_start None :: ('rm, 'f) host)))
      [(?a, (?i, ?a))] [] [end_of ?a r]"
    by (auto simp: two_keys)
  from stands_supervise[OF r] have n: "stands (host_step Supervise (host_step (peer_sends T (portal1 T) (CmContent [1, 2, 3]))
      (host_step (conn_of T (portal1 T) ?i 1) (host_start None :: ('rm, 'f) host)))) [] [] []" (is "stands ?h _ _ _")
    by (simp add: two_keys)
  have "h = host_step (all_portals T 2) ?h" by (simp add: h_def test_content_before_handshake_def)
  then show ?thesis
    using stands_listed[OF n T(5), of 2] n T(5) by (simp add: stands_def all_portals_step)
qed

lemma second_handshake_passes:
  fixes T :: "'rm test_setup"
  assumes "good_test T"
  defines "run \<equiv> \<lambda>n. host_run (take n (test_second_handshake T)) (host_start None :: ('rm, 'f) host)"
  shows "answered 2 (birth_id (portal1 T)) (run 3) \<and> hm_get (the_portals (run 6)) (birth_id (portal1 T)) = None \<and> listed 3 [] (run 6)"
proof -
  note T = good_testD[OF assms(1)]
  let ?a = "birth_id (portal1 T)" and ?i = "str_lit ''violation-test: portal''"
  have step: "run (Suc n) = host_step (test_second_handshake T ! n) (run n)" if "n < 6" for n
    unfolding run_def using that by (intro run_take) (simp add: test_second_handshake_def)
  note nth = step[of 1] step[of 2] step[of 3] step[of 4] step[of 5]
  obtain s :: "('rm, 'f) portal_state" where 1: "before_open s" "stands (run 1) [(?a, (?i, ?a))] [(?a, s)] []"
    using one_connection[OF assms(1), of ?i 1] by (auto simp: run_def test_second_handshake_def)
  from stands_handshake[OF 1(2) _ 1(1) T(7), of "portal1 T"] obtain s1 where
    2: "opened s1" "stands (run 2) [(?a, (?i, ?a))] [(?a, s1)] []"
    using nth(1) by (auto simp: two_keys test_second_handshake_def numeral_2_eq_2)
  from stands_wait[OF 2(2) _ 2(1) T(6), of "portal1 T" 2] obtain s2 where
    3: "opened s2" "Reply 2 RUnit \<in> set (outs s2)" "stands (run 3) [(?a, (?i, ?a))] [(?a, s2)] []"
    using nth(2) by (auto simp: two_keys test_second_handshake_def)
  from stands_ends[OF 3(3), of "portal1 T" s2 "CmHandshake (to_text T (fake_intro 424242))"] 3(1) obtain r where
    4: "stands (run 4) [(?a, (?i, ?a))] [] [end_of ?a r]"
    using nth(3) by (auto simp: two_keys test_second_handshake_def)
  have 5: "stands (run 5) [] [] []"
    using stands_supervise[OF 4] nth(4) by (simp add: test_second_handshake_def two_keys)
  have "listed 3 [] (run 6)" "hm_get (the_portals (run 6)) ?a = None"
    using stands_listed[OF 5 T(5), of 3] 5 T(5) nth(5) by (simp_all add: test_second_handshake_def stands_def all_portals_step)
  moreover have "answered 2 ?a (run 3)" using 3 by (simp add: answered_def stands_def two_keys)
  ultimately show ?thesis by simp
qed

text \<open>
  C39: The tests of isolation. With codecs that refuse the garbage and channels that take what is
  sent, every assertion of the four tests holds: the portals that are waited for answer, the one
  that got garbage, content too early or a second handshake is gone, and the nexus lists exactly the others.
\<close>

theorem isolation_tests_pass:
  assumes "good_test T"
  defines "run \<equiv> \<lambda>n evs. host_run (take n evs) (host_start None :: ('rm, 'f) host)"
  shows "answered 3 (birth_id (portal1 T)) (run 5 (test_garbage_data T ping rm)) \<and>
    answered 4 (birth_id (portal2 T)) (run 6 (test_garbage_data T ping rm)) \<and>
    listed 5 [birth_id (portal2 T)] (run 10 (test_garbage_data T ping rm)) \<and>
    answered 3 (birth_id (portal2 T)) (run 6 (test_garbage_handshake T)) \<and>
    listed 4 [birth_id (portal2 T)] (run 7 (test_garbage_handshake T)) \<and>
    hm_get (the_portals (run 4 (test_content_before_handshake T))) (birth_id (portal1 T)) = None \<and>
    listed 2 [] (run 4 (test_content_before_handshake T)) \<and>
    answered 2 (birth_id (portal1 T)) (run 3 (test_second_handshake T)) \<and>
    hm_get (the_portals (run 6 (test_second_handshake T))) (birth_id (portal1 T)) = None \<and>
    listed 3 [] (run 6 (test_second_handshake T))"
proof -
  have "take 4 (test_content_before_handshake T) = (test_content_before_handshake T :: ('rm, 'f) host_event list)"
    by (simp add: test_content_before_handshake_def)
  then show ?thesis
    unfolding run_def
    using garbage_data_passes[OF assms(1), where 'f = 'f, of ping rm] garbage_handshake_passes[OF assms(1), where 'f = 'f]
      content_before_handshake_passes[OF assms(1), where 'f = 'f] second_handshake_passes[OF assms(1), where 'f = 'f]
    by simp
qed

section \<open>Concrete runs\<close>

definition sample_birth :: "actor_id \<Rightarrow> nat birth" where
  "sample_birth a = \<lparr>birth_id = a, birth_env = sample_env 9, birth_json = sample_enc enc_intro, birth_uuid = replicate 16 5, birth_pick = 1\<rparr>"

definition sample_setup :: "nat test_setup" where
  "sample_setup = \<lparr>test_env = sample_env 9, test_nexus = sample_nexus_env (Ok 0), portal1 = sample_birth 31,
     portal2 = sample_birth 32, to_text = enc_intro\<rparr>"

lemma sample_good: "good_test sample_setup"
proof -
  have "dec_cpm garbage = None" by (simp add: dec_cpm_def garbage_def dec_rid_def dec_word_def)
  moreover have "dec_intro bad_json = None" by (simp add: dec_intro_def bad_json_def str_lit_def)
  moreover have "dec_intro (enc_intro i) = Some (i, [])" for i using parses_intro[of i "[]"] by simp
  ultimately show ?thesis
    by (simp add: good_test_def good_birth_def sample_setup_def sample_birth_def sample_nexus_env_def sample_enc_def
        sample_dec_def sample_json_dec_def)
qed

theorem isolation_tests_pass_witness:
  "listed 5 [32] (host_run (take 10 (test_garbage_data sample_setup 50 4)) (host_start None :: (nat, nat) host))"
  using isolation_tests_pass[OF sample_good, where 'f = nat, of 50 4] by (simp add: sample_setup_def sample_birth_def)

definition sample_host :: "(nat, nat) host" where
  "sample_host = host_step (conn_of sample_setup (sample_birth 32) (str_lit ''b'') 2)
     (host_step (conn_of sample_setup (sample_birth 31) (str_lit ''a'') 3) (host_start None))"

lemma sample_birth_good: "good_birth (sample_birth a)" "birth_id (sample_birth a) = a"
  by (simp_all add: good_birth_def sample_birth_def sample_enc_def)

lemma sample_host_eq:
  "the_portals sample_host = [(31, fresh (sample_birth 31) (portal_args_of (test_nexus sample_setup) (str_lit ''a''))),
     (32, fresh (sample_birth 32) (portal_args_of (test_nexus sample_setup) (str_lit ''b'')))]"
  "nexus_runs sample_host" "host_reach sample_host"
proof -
  have ports: "\<forall>p. nexus_port_open (test_nexus sample_setup) p" by (simp add: sample_setup_def sample_nexus_env_def)
  let ?h = "host_step (conn_of sample_setup (sample_birth 31) (str_lit ''a'') 3) (host_start None) :: (nat, nat) host"
  have 1: "the_portals ?h = [(31, fresh (sample_birth 31) (portal_args_of (test_nexus sample_setup) (str_lit ''a'')))]"
    "nexus_runs ?h" "on_client_connected (the_nexus ?h) = None" "spawned (nexus_outs (the_nexus ?h)) = {31}"
    using conn_step[where T = sample_setup and h = "host_start None :: (nat, nat) host", OF sample_birth_good(1) ports]
    by (simp_all add: host_start_def two_keys sample_birth_good(2))
  from conn_step[where T = sample_setup, OF sample_birth_good(1)[of 32] ports 1(2,3), of "str_lit ''b''" 2]
  show "the_portals sample_host = [(31, fresh (sample_birth 31) (portal_args_of (test_nexus sample_setup) (str_lit ''a''))),
      (32, fresh (sample_birth 32) (portal_args_of (test_nexus sample_setup) (str_lit ''b'')))]" "nexus_runs sample_host"
    by (simp_all add: sample_host_def 1 two_keys sample_birth_good(2))
  have "host_reach ?h"
    by (rule host_reach.step[OF host_reach.initial]) (simp add: event_ok_def conn_of_def host_start_def)
  then show "host_reach sample_host" unfolding sample_host_def
    by (rule host_reach.step) (simp add: event_ok_def conn_of_def 1(4)[unfolded conn_of_def] sample_birth_good(2))
qed

theorem host_isolation_witness:
  "\<exists>as n'. nexus_handle (test_nexus sample_setup) (GetAllPortals 7)
      (the_nexus (host_run [peer_sends sample_setup (sample_birth 31) (CmContent [1, 2, 3]), Supervise] sample_host)) = (Ok (), n') \<and>
    last (nexus_outs n') = ReplyAllPortals 7 as \<and> 32 \<in> set as"
proof -
  let ?evs = "[peer_sends sample_setup (sample_birth 31) (CmContent [1, 2, 3]), Supervise] :: (nat, nat) host_event list"
  let ?s = "fresh (sample_birth 31) (portal_args_of (test_nexus sample_setup) (str_lit ''a'')) :: (nat, nat) portal_state"
  have a: "hm_get (the_portals sample_host) 31 = Some ?s" by (simp add: sample_host_eq two_keys)
  obtain st where b: "hm_get (the_portals sample_host) 32 = Some st" by (simp add: sample_host_eq two_keys)
  have "run_ok ?evs sample_host"
    using a by (simp add: event_ok_def peer_sends_def sample_birth_good(2) uuid_new_def ids_left_def fresh_simps) (simp add: fresh_def)
  moreover have "nexus_runs (host_run ?evs sample_host)"
    using sample_host_eq(2) by (auto simp: peer_sends_def host_step_def portal_turn_def end_portal_def supervise_turn_def Let_def
        split: option.split prod.split list.split)
  moreover have "list_all (\<lambda>ev. \<not> meant_for 32 ev) ?evs"
    by (simp add: meant_for_def peer_sends_def sample_birth_good(2))
  ultimately show ?thesis
    using host_isolation[OF sample_host_eq(3) _ _ _ b, of ?evs "test_nexus sample_setup" 7]
    by (auto simp: sample_setup_def sample_nexus_env_def)
qed

end
