(* ===== verification/Bluetooth.thy ===== *)
theory Bluetooth
  imports Wire Utext Decimal
begin

text \<open>
  The WebAssembly test application, \<open>wasm_test_app/src/bluetooth_page.rs\<close>: the page, the actor
  that holds a Bluetooth device, the calls the buttons make, and the tasks that run between them.
  The browser's answers (Web Bluetooth, DOM) are arguments. The messages are written out, their
  icons as code points.
\<close>

section \<open>Values of the browser\<close>

text \<open>
  What the code looks at of a JavaScript value: the properties \<open>buffer\<close>, \<open>byteOffset\<close> and
  \<open>byteLength\<close>. \<open>JsPlain\<close>: a value without properties, with what \<open>Uint8Array::new\<close> makes of it.
\<close>

datatype js_buffer = NoBuffer | NullBuffer | Buffer bytes

datatype js_value = JsNull | JsUndefined | JsObject js_buffer "nat option" "nat option" | JsPlain bytes

definition bytes_of_buffer :: "js_buffer \<Rightarrow> bytes" where
  "bytes_of_buffer b = (case b of Buffer bs \<Rightarrow> bs | _ \<Rightarrow> [])"

text \<open>\<open>subarray\<close> clamps its bounds.\<close>

definition subarray :: "nat \<Rightarrow> nat \<Rightarrow> bytes \<Rightarrow> bytes" where
  "subarray a b bs = drop a (take b bs)"

definition or_zero :: "nat option \<Rightarrow> nat" where
  "or_zero v = (case v of Some n \<Rightarrow> n | None \<Rightarrow> 0)"

definition js_bytes :: "js_value \<Rightarrow> bytes" where
  "js_bytes v = (case v of JsPlain bs \<Rightarrow> bs | _ \<Rightarrow> [])"

text \<open>\<open>{:02x}\<close>\<close>

definition hex_digit :: "nat \<Rightarrow> byte" where
  "hex_digit n = (if n < 10 then of_nat (48 + n) else of_nat (87 + n))"

definition byte_hex :: "byte \<Rightarrow> rstring" where
  "byte_hex b = [hex_digit (unat b div 16), hex_digit (unat b mod 16)]"

definition bytes_to_hex :: "bytes \<Rightarrow> rstring" where
  "bytes_to_hex u8a = fold (\<lambda>b hex. (if hex = [] then hex else hex @ [32]) @ byte_hex b) u8a []"

text \<open>A characteristic's value, as \<open>read_value\<close> answers; the errors are texts.\<close>

definition try_read_characteristic :: "(js_value, rstring) rust_result \<Rightarrow> (rstring, rstring) rust_result" where
  "try_read_characteristic answer = (case answer of
     RErr e \<Rightarrow> RErr (str_lit ''Read failed: '' @ e)
   | ROk (JsObject buffer byte_offset byte_length) \<Rightarrow>
       (if or_zero byte_length = 0 then ROk (str_lit ''(empty)'')
        else ROk (bytes_to_hex (subarray (or_zero byte_offset) (or_zero byte_offset + or_zero byte_length) (bytes_of_buffer buffer))))
   | ROk v \<Rightarrow> (if js_bytes v = [] then ROk (str_lit ''(empty)'') else ROk (bytes_to_hex (js_bytes v))))"

datatype write_answer = Written | WriteSetupFailed rstring | WriteFailed rstring

definition try_write_characteristic :: "write_answer \<Rightarrow> (unit, rstring) rust_result" where
  "try_write_characteristic answer = (case answer of
     WriteSetupFailed e \<Rightarrow> RErr (str_lit ''Write setup failed: '' @ e)
   | WriteFailed e \<Rightarrow> RErr (str_lit ''Write failed: '' @ e)
   | Written \<Rightarrow> ROk ())"

text \<open>The event of a notification: the value of its target, and its own.\<close>

record js_event =
  target_value :: "js_value option"
  own_value :: "js_value option"

definition not_nullish :: "js_value option \<Rightarrow> js_value option" where
  "not_nullish v = (case v of Some JsNull \<Rightarrow> None | Some JsUndefined \<Rightarrow> None | _ \<Rightarrow> v)"

definition extract_value_from_event :: "js_event \<Rightarrow> rstring option" where
  "extract_value_from_event ev =
     (let v = (case not_nullish (target_value ev) of None \<Rightarrow> not_nullish (own_value ev) | w \<Rightarrow> w)
      in case v of
           None \<Rightarrow> None
         | Some (JsObject buffer byte_offset byte_length) \<Rightarrow>
             (if buffer \<noteq> NullBuffer then
                Some (bytes_to_hex (subarray (or_zero byte_offset) (or_zero byte_offset + or_zero byte_length) (bytes_of_buffer buffer)))
              else Some (bytes_to_hex []))
         | Some value \<Rightarrow> Some (bytes_to_hex (js_bytes value)))"

text \<open>\<open>hex.split(' ').count()\<close>\<close>

definition split_count :: "rstring \<Rightarrow> nat" where
  "split_count hex = length (filter (\<lambda>b. b = 32) hex) + 1"

section \<open>Devices and characteristics\<close>

record props =
  can_read :: bool
  can_write :: bool
  can_write_without_response :: bool
  can_notify :: bool
  can_indicate :: bool

record bt_char =
  char_uuid :: rstring
  char_props :: props

record char_info =
  info_uuid :: rstring
  properties :: "rstring list"

definition prop_list :: "props \<Rightarrow> rstring list" where
  "prop_list ps =
     (if can_read ps then [str_lit ''Read''] else []) @
     (if can_write ps then [str_lit ''Write''] else []) @
     (if can_write_without_response ps then [str_lit ''WriteNoResp''] else []) @
     (if can_notify ps then [str_lit ''Notify''] else []) @
     (if can_indicate ps then [str_lit ''Indicate''] else [])"

definition char_info_of :: "bt_char \<Rightarrow> char_info" where
  "char_info_of ch = \<lparr>info_uuid = char_uuid ch, properties = prop_list (char_props ch)\<rparr>"

record bt_device =
  device_name :: "rstring option"
  device_id :: rstring
  has_gatt :: bool

text \<open>A primary service: its id, and what \<open>get_characteristics\<close> answers.\<close>

type_synonym bt_service = "rstring \<times> (bt_char list, rstring) rust_result"

text \<open>The messages of the actor; a reply port is the number of its call.\<close>

datatype bt_msg =
    GetCharacteristics nat
  | ReadCharacteristic rstring nat
  | WriteCharacteristic rstring bytes nat
  | DisconnectDevice

datatype 'a call_result = Success 'a | CallTimeout | SenderError | CallError rstring

datatype call_answer =
    ConnectAnswer "(char_info list, rstring) rust_result call_result"
  | ReadAnswer "(rstring, rstring) rust_result call_result"
  | WriteAnswer "(unit, rstring) rust_result call_result"

section \<open>The page\<close>

text \<open>The children of a log with their class, and those of the list of characteristics.\<close>

datatype list_entry = LogEntry rstring string | ReadButton rstring | WriteButton rstring

record bt_page =
  device_info :: "(rstring \<times> string) list"
  characteristics_list :: "list_entry list"
  connection_status :: "rstring \<times> string"
  connect_disabled :: bool
  disconnect_disabled :: bool

text \<open>The body that \<open>index.html\<close> brings, with the log and the status of the tests.\<close>

record main_page =
  test_log :: "(rstring \<times> string) list"
  test_status :: "rstring \<times> string"

datatype page_body = MainBody main_page | BluetoothBody bt_page

definition bt_page_new :: bt_page where
  "bt_page_new = \<lparr>device_info = [(str_lit ''No device connected'', ''info'')],
     characteristics_list = [LogEntry (str_lit ''Connect to see characteristics'') ''info''],
     connection_status = (str_lit ''Not connected'', ''''), connect_disabled = False, disconnect_disabled = True\<rparr>"

section \<open>The application\<close>

text \<open>
  An actor: its device, whether its function has begun, the messages that wait, the
  characteristics it stores, the call it is discovering for, and whether its function is over.
\<close>

record bt_actor =
  actor_device :: bt_device
  begun :: bool
  bt_queue :: "bt_msg list"
  stored :: "bt_char list"
  discovering :: "nat option"
  over :: bool

text \<open>What a call of \<open>connect_to_bluetooth_device\<close> waits for, up to the actor.\<close>

datatype connect_stage = Requesting | ConnectingGatt bt_device | StartingActor bt_device

text \<open>
  \<open>bluetooth_actor\<close> is \<open>BLUETOOTH_ACTOR\<close>; \<open>connected_gatts\<close> the devices that are connected,
  by id. \<open>reads\<close>, \<open>writes\<close> and \<open>notify_starting\<close> are spawned tasks that wait for the browser,
  \<open>answers\<close> the replies under way, \<open>returned\<close> the calls that are over.
\<close>

record wasm_app =
  the_body :: page_body
  bluetooth_actor :: "actor_id option"
  connected_gatts :: "rstring list"
  connects :: "connect_stage list"
  bt_actors :: "(actor_id, bt_actor) hmap"
  reads :: "(bt_char \<times> nat) list"
  writes :: "(bt_char \<times> bytes \<times> nat) list"
  answers :: "(nat \<times> call_answer) list"
  returned :: "nat list"
  next_call :: nat
  notify_starting :: "bt_char list"
  notifying :: "bt_char list"

type_synonym 'a app_eff = "(wasm_app, 'a) eff"

definition modify :: "(wasm_app \<Rightarrow> wasm_app) \<Rightarrow> unit app_eff" where
  "modify f = (\<lambda>w. (Ok (), f w))"

fun each :: "('a \<Rightarrow> unit app_eff) \<Rightarrow> 'a list \<Rightarrow> unit app_eff" where
  "each f [] = ret ()"
| "each f (x # xs) = seq (f x) (\<lambda>_. each f xs)"

text \<open>\<open>icon cs t\<close>: the text \<open>t\<close> behind the characters \<open>cs\<close>.\<close>

definition icon :: "nat list \<Rightarrow> string \<Rightarrow> rstring" where
  "icon cs t = utf8_encode cs @ str_lit t"

section \<open>Writing to the page\<close>

text \<open>\<open>expect\<close> panics when the page has no such element, as on the main page.\<close>

definition on_bt_page :: "(bt_page \<Rightarrow> bt_page) \<Rightarrow> unit app_eff" where
  "on_bt_page f = (\<lambda>w. case the_body w of
     BluetoothBody p \<Rightarrow> (Ok (), w\<lparr>the_body := BluetoothBody (f p)\<rparr>)
   | MainBody _ \<Rightarrow> (Panic UnwrapNone, w))"

definition log_to_device_info :: "rstring \<Rightarrow> string \<Rightarrow> unit app_eff" where
  "log_to_device_info message cls = on_bt_page (\<lambda>p. p\<lparr>device_info := device_info p @ [(message, cls)]\<rparr>)"

definition add_to_characteristics :: "list_entry \<Rightarrow> unit app_eff" where
  "add_to_characteristics e = on_bt_page (\<lambda>p. p\<lparr>characteristics_list := characteristics_list p @ [e]\<rparr>)"

definition log_to_characteristics :: "rstring \<Rightarrow> string \<Rightarrow> unit app_eff" where
  "log_to_characteristics message cls = add_to_characteristics (LogEntry message cls)"

definition add_read_button :: "rstring \<Rightarrow> unit app_eff" where
  "add_read_button uuid = add_to_characteristics (ReadButton uuid)"

definition add_write_button :: "rstring \<Rightarrow> unit app_eff" where
  "add_write_button uuid = add_to_characteristics (WriteButton uuid)"

definition clear_characteristics_list :: "unit app_eff" where
  "clear_characteristics_list =
     on_bt_page (\<lambda>p. p\<lparr>characteristics_list := [LogEntry (str_lit ''Connect to see characteristics'') ''info'']\<rparr>)"

definition set_bluetooth_status :: "rstring \<Rightarrow> string \<Rightarrow> unit app_eff" where
  "set_bluetooth_status message cls = on_bt_page (\<lambda>p. p\<lparr>connection_status := (message, cls)\<rparr>)"

definition update_ui_connection_state :: "bool \<Rightarrow> unit app_eff" where
  "update_ui_connection_state connected = (\<lambda>w. case the_body w of
     BluetoothBody p \<Rightarrow>
       (Ok (), w\<lparr>the_body := BluetoothBody (p\<lparr>connect_disabled := connected, disconnect_disabled := \<not> connected\<rparr>)\<rparr>)
   | MainBody _ \<Rightarrow> (Ok (), w))"

fun join_with :: "rstring \<Rightarrow> rstring list \<Rightarrow> rstring" where
  "join_with sep [] = []"
| "join_with sep [x] = x"
| "join_with sep (x # y # ys) = x @ sep @ join_with sep (y # ys)"

definition char_line :: "string \<Rightarrow> rstring \<Rightarrow> rstring list \<Rightarrow> rstring" where
  "char_line indent uuid ps = str_lit indent @ icon [0x26A1] '' '' @ uuid @ str_lit '': ['' @ join_with (str_lit '', '') ps @ str_lit '']''"

definition display_characteristics :: "char_info list \<Rightarrow> unit app_eff" where
  "display_characteristics cs = seq clear_characteristics_list (\<lambda>_. each (\<lambda>c.
     seq (log_to_characteristics (char_line '''' (info_uuid c) (properties c)) ''success'') (\<lambda>_.
     seq (if str_lit ''Read'' \<in> set (properties c) then add_read_button (info_uuid c) else ret ()) (\<lambda>_.
     if str_lit ''Write'' \<in> set (properties c) \<or> str_lit ''WriteNoResp'' \<in> set (properties c)
     then add_write_button (info_uuid c) else ret ()))) cs)"

section \<open>Calls to the actor\<close>

text \<open>\<open>call\<close> without a timeout. Where the actor is over, sending fails; \<open>e\<close> is how the error is shown.\<close>

definition call_actor :: "actor_id \<Rightarrow> (nat \<Rightarrow> bt_msg) \<Rightarrow> call_answer \<Rightarrow> unit app_eff" where
  "call_actor a msg failed = modify (\<lambda>w.
     (let r = next_call w; w' = w\<lparr>next_call := r + 1\<rparr>
      in case hm_get (bt_actors w) a of
           Some act \<Rightarrow>
             (if over act then w'\<lparr>answers := answers w @ [(r, failed)]\<rparr>
              else w'\<lparr>bt_actors := hm_insert a (act\<lparr>bt_queue := bt_queue act @ [msg r]\<rparr>) (bt_actors w)\<rparr>)
         | None \<Rightarrow> w'\<lparr>answers := answers w @ [(r, failed)]\<rparr>))"

definition reply_to :: "nat \<Rightarrow> call_answer \<Rightarrow> unit app_eff" where
  "reply_to r answer = modify (\<lambda>w. w\<lparr>answers := answers w @ [(r, answer)]\<rparr>)"

definition connect_answered :: "(char_info list, rstring) rust_result call_result \<Rightarrow> unit app_eff" where
  "connect_answered result = (case result of
     Success (ROk cs) \<Rightarrow>
       seq (log_to_device_info (icon [0x1F4E1] '' Found '' @ dec_digits (length cs) @ str_lit '' characteristic(s)'') ''success'') (\<lambda>_.
       display_characteristics cs)
   | Success (RErr e) \<Rightarrow> log_to_device_info (icon [0x274C] '' Failed to get characteristics: '' @ e) ''error''
   | CallTimeout \<Rightarrow> log_to_device_info (icon [0x274C] '' Actor call timed out'') ''error''
   | SenderError \<Rightarrow> log_to_device_info (icon [0x274C] '' Actor sender error'') ''error''
   | CallError e \<Rightarrow> log_to_device_info (icon [0x274C] '' Actor call failed: '' @ e) ''error'')"

definition read_answered :: "(rstring, rstring) rust_result call_result \<Rightarrow> unit app_eff" where
  "read_answered result = (case result of
     Success (ROk hex) \<Rightarrow> log_to_device_info (icon [0x2705] '' Read value: '' @ hex) ''success''
   | Success (RErr e) \<Rightarrow> log_to_device_info (icon [0x274C] '' Read error: '' @ e) ''error''
   | CallTimeout \<Rightarrow> log_to_device_info (icon [0x274C] '' Read timed out'') ''error''
   | SenderError \<Rightarrow> log_to_device_info (icon [0x274C] '' Sender error'') ''error''
   | CallError e \<Rightarrow> log_to_device_info (icon [0x274C] '' Actor call failed: '' @ e) ''error'')"

definition write_answered :: "(unit, rstring) rust_result call_result \<Rightarrow> unit app_eff" where
  "write_answered result = (case result of
     Success (ROk u) \<Rightarrow> log_to_device_info (icon [0x2705] '' Write successful'') ''success''
   | Success (RErr e) \<Rightarrow> log_to_device_info (icon [0x274C] '' Write error: '' @ e) ''error''
   | CallTimeout \<Rightarrow> log_to_device_info (icon [0x274C] '' Write timed out'') ''error''
   | SenderError \<Rightarrow> log_to_device_info (icon [0x274C] '' Sender error'') ''error''
   | CallError e \<Rightarrow> log_to_device_info (icon [0x274C] '' Actor call failed: '' @ e) ''error'')"

text \<open>The buttons of a characteristic. The task they spawn logs and calls.\<close>

definition click_read :: "rstring \<Rightarrow> rstring \<Rightarrow> unit app_eff" where
  "click_read uuid e = (\<lambda>w. (case bluetooth_actor w of
     Some a \<Rightarrow>
       seq (log_to_device_info (icon [0x1F4D6] '' Reading '' @ uuid @ str_lit ''...'') ''info'') (\<lambda>_.
       call_actor a (ReadCharacteristic uuid) (ReadAnswer (CallError e)))
   | None \<Rightarrow> log_to_device_info (icon [0x274C] '' Bluetooth actor not available'') ''error'') w)"

definition click_write :: "rstring \<Rightarrow> rstring \<Rightarrow> unit app_eff" where
  "click_write uuid e = (\<lambda>w. (case bluetooth_actor w of
     Some a \<Rightarrow>
       (let test_data = [0x01, 0x02, 0x03, 0x04]
        in seq (log_to_device_info (icon [0x270D, 0xFE0F] '' Writing '' @ dec_digits (length test_data) @ str_lit '' bytes to '' @
               uuid @ str_lit ''...'') ''info'') (\<lambda>_.
           call_actor a (WriteCharacteristic uuid test_data) (WriteAnswer (CallError e))))
   | None \<Rightarrow> log_to_device_info (icon [0x274C] '' Bluetooth actor not available'') ''error'') w)"

section \<open>Connecting\<close>

definition connection_failed :: "rstring \<Rightarrow> unit app_eff" where
  "connection_failed e =
     seq (log_to_device_info (icon [0x274C] '' Connection failed: '' @ e) ''error'') (\<lambda>_.
     set_bluetooth_status (str_lit ''Connection failed'') ''error'')"

definition waits_for :: "connect_stage \<Rightarrow> unit app_eff" where
  "waits_for s = modify (\<lambda>w. w\<lparr>connects := connects w @ [s]\<rparr>)"

definition connect_requested :: "bool \<Rightarrow> unit app_eff" where
  "connect_requested bluetooth =
     seq (log_to_device_info (icon [0x1F50D] '' Requesting Bluetooth device...'') ''info'') (\<lambda>_.
     seq (set_bluetooth_status (str_lit ''Scanning...'') ''running'') (\<lambda>_.
     if bluetooth then waits_for Requesting
     else connection_failed (str_lit ''Bluetooth not available - try Chrome/Edge'')))"

definition name_or_unknown :: "bt_device \<Rightarrow> rstring" where
  "name_or_unknown device = (case device_name device of Some name \<Rightarrow> name | None \<Rightarrow> str_lit ''Unknown Device'')"

definition connect_device :: "(bt_device, rstring) rust_result \<Rightarrow> unit app_eff" where
  "connect_device answer = (case answer of
     RErr e \<Rightarrow> connection_failed (str_lit ''Failed to request device: '' @ e)
   | ROk device \<Rightarrow>
       seq (log_to_device_info (icon [0x2705] '' Selected device: '' @ name_or_unknown device) ''success'') (\<lambda>_.
       seq (log_to_device_info (icon [0x1F4F1] '' Device ID: '' @ device_id device) ''info'') (\<lambda>_.
       seq (set_bluetooth_status (str_lit ''Connecting to '' @ name_or_unknown device) ''running'') (\<lambda>_.
       seq (update_ui_connection_state False) (\<lambda>_.
       seq (log_to_device_info (icon [0x1F517] '' Connecting to GATT server...'') ''info'') (\<lambda>_.
       if has_gatt device then waits_for (ConnectingGatt device) else connection_failed (str_lit ''No GATT server'')))))))"

definition connect_gatt :: "bt_device \<Rightarrow> (unit, rstring) rust_result \<Rightarrow> unit app_eff" where
  "connect_gatt device answer = (case answer of
     RErr e \<Rightarrow> connection_failed (str_lit ''Failed to connect GATT: '' @ e)
   | ROk u \<Rightarrow>
       seq (modify (\<lambda>w. w\<lparr>connected_gatts := List.insert (device_id device) (connected_gatts w)\<rparr>)) (\<lambda>_.
       seq (log_to_device_info (icon [0x2705] '' GATT server connected'') ''success'') (\<lambda>_.
       seq (set_bluetooth_status (str_lit ''Connected to '' @ name_or_unknown device) ''success'') (\<lambda>_.
       seq (update_ui_connection_state True) (\<lambda>_.
       seq (log_to_device_info (icon [0x1F3AC] '' Starting Bluetooth actor...'') ''info'') (\<lambda>_.
       waits_for (StartingActor device)))))))"

definition new_actor :: "bt_device \<Rightarrow> bt_actor" where
  "new_actor device = \<lparr>actor_device = device, begun = False, bt_queue = [], stored = [], discovering = None, over = False\<rparr>"

definition connect_spawned :: "bt_device \<Rightarrow> rstring \<Rightarrow> (actor_id, rstring) rust_result \<Rightarrow> unit app_eff" where
  "connect_spawned device e answer = (case answer of
     RErr err \<Rightarrow> connection_failed (str_lit ''Failed to start actor: '' @ err)
   | ROk actor_ref \<Rightarrow>
       seq (modify (\<lambda>w. w\<lparr>bt_actors := hm_insert actor_ref (new_actor device) (bt_actors w)\<rparr>)) (\<lambda>_.
       seq (log_to_device_info (icon [0x1F389] '' Actor is managing the Bluetooth device!'') ''success'') (\<lambda>_.
       seq (modify (\<lambda>w. w\<lparr>bluetooth_actor := Some actor_ref\<rparr>)) (\<lambda>_.
       seq (log_to_device_info (icon [0x1F50D] '' Requesting characteristics from actor...'') ''info'') (\<lambda>_.
       call_actor actor_ref GetCharacteristics (ConnectAnswer (CallError e)))))))"

section \<open>The actor\<close>

definition update_actor :: "actor_id \<Rightarrow> (bt_actor \<Rightarrow> bt_actor) \<Rightarrow> unit app_eff" where
  "update_actor a f = modify (\<lambda>w. case hm_get (bt_actors w) a of
     Some act \<Rightarrow> w\<lparr>bt_actors := hm_insert a (f act) (bt_actors w)\<rparr> | None \<Rightarrow> w)"

definition actor_begins :: "actor_id \<Rightarrow> bt_device \<Rightarrow> unit app_eff" where
  "actor_begins a device =
     seq (update_actor a (\<lambda>act. act\<lparr>begun := True\<rparr>)) (\<lambda>_.
     seq (log_to_device_info (icon [0x2705] '' Bluetooth actor started!'') ''success'') (\<lambda>_.
     seq (log_to_device_info (icon [0x1F4A1] '' Actor managing device: '' @ (case device_name device of Some n \<Rightarrow> n | None \<Rightarrow> []) @
            str_lit '' (BluetoothDevice is !Send!)'') ''info'') (\<lambda>_.
     log_to_device_info (icon [0x1F4A1] '' This works because everything stays on the main thread!'') ''success'')))"

definition discover_characteristic :: "bt_char \<Rightarrow> unit app_eff" where
  "discover_characteristic ch =
     seq (log_to_characteristics (char_line ''  '' (char_uuid ch) (prop_list (char_props ch))) ''success'') (\<lambda>_.
     if can_notify (char_props ch) then modify (\<lambda>w. w\<lparr>notify_starting := notify_starting w @ [ch]\<rparr>) else ret ())"

fun discover_services :: "bt_service list \<Rightarrow> bt_char list app_eff" where
  "discover_services [] = ret []"
| "discover_services ((service_uuid, chars_result) # services) =
     seq (log_to_characteristics (icon [0x1F4E6] '' Service: '' @ service_uuid) ''info'') (\<lambda>_.
     let cs = (case chars_result of ROk cs \<Rightarrow> cs | RErr _ \<Rightarrow> [])
     in seq (each discover_characteristic cs) (\<lambda>_.
        seq (discover_services services) (\<lambda>result. ret (cs @ result))))"

definition discover_characteristics_internal ::
    "(bt_service list, rstring) rust_result \<Rightarrow> (bt_char list, rstring) rust_result app_eff" where
  "discover_characteristics_internal services_js = (case services_js of
     RErr e \<Rightarrow> ret (RErr (str_lit ''Failed to get services: '' @ e))
   | ROk services \<Rightarrow>
       seq (log_to_device_info (icon [0x1F4E1] '' Found '' @ dec_digits (length services) @ str_lit '' service(s)'') ''success'') (\<lambda>_.
       seq (discover_services services) (\<lambda>result. ret (ROk result))))"

text \<open>The arm of \<open>GetCharacteristics\<close> behind the wait for the browser.\<close>

definition discovery_done :: "actor_id \<Rightarrow> nat \<Rightarrow> (bt_char list, rstring) rust_result \<Rightarrow> unit app_eff" where
  "discovery_done a r result = (case result of
     ROk found \<Rightarrow>
       seq (update_actor a (\<lambda>act. act\<lparr>stored := found\<rparr>)) (\<lambda>_.
       let info_list = map char_info_of found
       in seq (log_to_device_info (icon [0x2705] '' Actor discovered '' @ dec_digits (length info_list) @ str_lit '' characteristics'') ''success'') (\<lambda>_.
          reply_to r (ConnectAnswer (Success (ROk info_list)))))
   | RErr e \<Rightarrow>
       seq (log_to_device_info (icon [0x274C] '' Discovery failed: '' @ e) ''error'') (\<lambda>_.
       reply_to r (ConnectAnswer (Success (RErr e)))))"

definition discovered :: "actor_id \<Rightarrow> nat \<Rightarrow> (bt_service list, rstring) rust_result \<Rightarrow> unit app_eff" where
  "discovered a r services_js =
     seq (update_actor a (\<lambda>act. act\<lparr>discovering := None\<rparr>)) (\<lambda>_.
     seq (discover_characteristics_internal services_js) (discovery_done a r))"

definition not_found :: "rstring \<Rightarrow> rstring" where
  "not_found uuid = str_lit ''Characteristic '' @ uuid @ str_lit '' not found''"

text \<open>The messages left when the function is over are dropped, and with them their ports.\<close>

definition dropped :: "bt_msg \<Rightarrow> (nat \<times> call_answer) list" where
  "dropped m = (case m of
     GetCharacteristics r \<Rightarrow> [(r, ConnectAnswer SenderError)]
   | ReadCharacteristic _ r \<Rightarrow> [(r, ReadAnswer SenderError)]
   | WriteCharacteristic _ _ r \<Rightarrow> [(r, WriteAnswer SenderError)]
   | DisconnectDevice \<Rightarrow> [])"

definition end_actor :: "actor_id \<Rightarrow> bt_actor \<Rightarrow> unit app_eff" where
  "end_actor a act =
     seq (log_to_device_info (str_lit ''Bluetooth actor stopped'') ''info'') (\<lambda>_.
     modify (\<lambda>w. w\<lparr>bt_actors := hm_insert a (act\<lparr>bt_queue := [], over := True\<rparr>) (bt_actors w),
                    answers := answers w @ concat (map dropped (bt_queue act))\<rparr>))"

text \<open>One turn of the loop: the actor \<open>act\<close>, whose queue the message has left.\<close>

definition bt_handle :: "actor_id \<Rightarrow> bt_actor \<Rightarrow> bt_msg \<Rightarrow> unit app_eff" where
  "bt_handle a act m = (case m of
     GetCharacteristics r \<Rightarrow>
       seq (modify (\<lambda>w. w\<lparr>bt_actors := hm_insert a (act\<lparr>discovering := Some r\<rparr>) (bt_actors w)\<rparr>)) (\<lambda>_.
       seq (log_to_device_info (icon [0xFFFD] '' Actor discovering services...'') ''info'') (\<lambda>_.
       log_to_device_info (icon [0x1F50D] '' Discovering services...'') ''info''))
   | ReadCharacteristic uuid r \<Rightarrow>
       seq (modify (\<lambda>w. w\<lparr>bt_actors := hm_insert a act (bt_actors w)\<rparr>)) (\<lambda>_.
       case find (\<lambda>ch. char_uuid ch = uuid) (stored act) of
         Some ch \<Rightarrow> modify (\<lambda>w. w\<lparr>reads := reads w @ [(ch, r)]\<rparr>)
       | None \<Rightarrow> reply_to r (ReadAnswer (Success (RErr (not_found uuid)))))
   | WriteCharacteristic uuid data r \<Rightarrow>
       seq (modify (\<lambda>w. w\<lparr>bt_actors := hm_insert a act (bt_actors w)\<rparr>)) (\<lambda>_.
       case find (\<lambda>ch. char_uuid ch = uuid) (stored act) of
         Some ch \<Rightarrow> modify (\<lambda>w. w\<lparr>writes := writes w @ [(ch, data, r)]\<rparr>)
       | None \<Rightarrow> reply_to r (WriteAnswer (Success (RErr (not_found uuid)))))
   | DisconnectDevice \<Rightarrow>
       seq (log_to_device_info (icon [0x1F50C] '' Disconnecting...'') ''info'') (\<lambda>_.
       seq (if has_gatt (actor_device act)
            then modify (\<lambda>w. w\<lparr>connected_gatts := removeAll (device_id (actor_device act)) (connected_gatts w)\<rparr>) else ret ()) (\<lambda>_.
       seq (modify (\<lambda>w. w\<lparr>bluetooth_actor := None\<rparr>)) (\<lambda>_.
       end_actor a act))))"

section \<open>Events\<close>

text \<open>The disconnect button. \<open>send_message\<close> may fail, which is ignored.\<close>

definition click_disconnect :: "unit app_eff" where
  "click_disconnect =
     seq (\<lambda>w. (case bluetooth_actor w of
            Some a \<Rightarrow> update_actor a (\<lambda>act. if over act then act else act\<lparr>bt_queue := bt_queue act @ [DisconnectDevice]\<rparr>)
          | None \<Rightarrow> ret ()) w) (\<lambda>_.
     seq (set_bluetooth_status (str_lit ''Disconnected'') '''') (\<lambda>_.
     seq (update_ui_connection_state False) (\<lambda>_.
     clear_characteristics_list)))"

text \<open>
  \<open>render_bluetooth_page\<close> replaces the body; the back button calls \<open>render_main_page\<close>, which looks
  for the elements of \<open>index.html\<close> and does not bring them.
\<close>

definition render_bluetooth_page :: "unit app_eff" where
  "render_bluetooth_page = modify (\<lambda>w. w\<lparr>the_body := BluetoothBody bt_page_new\<rparr>)"

definition render_main_page :: "unit app_eff" where
  "render_main_page = (\<lambda>w. case the_body w of MainBody _ \<Rightarrow> (Ok (), w) | BluetoothBody _ \<Rightarrow> (Panic UnwrapNone, w))"

definition notify_started :: "bt_char \<Rightarrow> bool \<Rightarrow> unit app_eff" where
  "notify_started ch started = (if started then
     seq (log_to_characteristics (str_lit ''    '' @ icon [0xFFFD] '' Notifications enabled for '' @ char_uuid ch) ''success'') (\<lambda>_.
     modify (\<lambda>w. w\<lparr>notifying := notifying w @ [ch]\<rparr>)) else ret ())"

definition notification :: "js_event \<Rightarrow> unit app_eff" where
  "notification ev = (case extract_value_from_event ev of
     Some hex \<Rightarrow> log_to_device_info (icon [0x1F4EC] '' Notification: '' @ dec_digits (split_count hex) @ str_lit '' bytes'') ''success''
   | None \<Rightarrow> ret ())"

datatype bt_event =
    ClickConnect bool
  | DeviceAnswer "(bt_device, rstring) rust_result"
  | GattAnswer bt_device "(unit, rstring) rust_result"
  | SpawnAnswer bt_device rstring "(actor_id, rstring) rust_result"
  | ClickDisconnect
  | ClickRead rstring rstring
  | ClickWrite rstring rstring
  | ActorBegins actor_id
  | ActorTakes actor_id
  | Discovered actor_id "(bt_service list, rstring) rust_result"
  | ReadDone nat "(js_value, rstring) rust_result"
  | WriteDone nat write_answer
  | CallReturns nat
  | NotifyStarted nat bool
  | Notification js_event
  | ClickBluetooth
  | ClickBack

definition remove_nth :: "nat \<Rightarrow> 'a list \<Rightarrow> 'a list" where
  "remove_nth i xs = take i xs @ drop (Suc i) xs"

text \<open>When an event can happen: a button is there and enabled, a task waits for the answer, an actor is ready.\<close>

definition bt_page_of :: "wasm_app \<Rightarrow> bt_page option" where
  "bt_page_of w = (case the_body w of BluetoothBody p \<Rightarrow> Some p | MainBody _ \<Rightarrow> None)"

definition ready :: "bt_actor \<Rightarrow> bool" where
  "ready act \<longleftrightarrow> begun act \<and> \<not> over act \<and> discovering act = None \<and> bt_queue act \<noteq> []"

definition bt_possible :: "bt_event \<Rightarrow> wasm_app \<Rightarrow> bool" where
  "bt_possible ev w = (case ev of
     ClickConnect _ \<Rightarrow> (case bt_page_of w of Some p \<Rightarrow> \<not> connect_disabled p | None \<Rightarrow> False)
   | DeviceAnswer _ \<Rightarrow> Requesting \<in> set (connects w)
   | GattAnswer device _ \<Rightarrow> ConnectingGatt device \<in> set (connects w)
   | SpawnAnswer device _ r \<Rightarrow> StartingActor device \<in> set (connects w) \<and> (case r of ROk a \<Rightarrow> hm_get (bt_actors w) a = None | RErr _ \<Rightarrow> True)
   | ClickDisconnect \<Rightarrow> (case bt_page_of w of Some p \<Rightarrow> \<not> disconnect_disabled p | None \<Rightarrow> False)
   | ClickRead uuid _ \<Rightarrow> (case bt_page_of w of Some p \<Rightarrow> ReadButton uuid \<in> set (characteristics_list p) | None \<Rightarrow> False)
   | ClickWrite uuid _ \<Rightarrow> (case bt_page_of w of Some p \<Rightarrow> WriteButton uuid \<in> set (characteristics_list p) | None \<Rightarrow> False)
   | ActorBegins a \<Rightarrow> (case hm_get (bt_actors w) a of Some act \<Rightarrow> \<not> begun act | None \<Rightarrow> False)
   | ActorTakes a \<Rightarrow> (case hm_get (bt_actors w) a of Some act \<Rightarrow> ready act | None \<Rightarrow> False)
   | Discovered a _ \<Rightarrow> (case hm_get (bt_actors w) a of Some act \<Rightarrow> discovering act \<noteq> None | None \<Rightarrow> False)
   | ReadDone i _ \<Rightarrow> i < length (reads w)
   | WriteDone i _ \<Rightarrow> i < length (writes w)
   | CallReturns i \<Rightarrow> i < length (answers w)
   | NotifyStarted i _ \<Rightarrow> i < length (notify_starting w)
   | Notification _ \<Rightarrow> notifying w \<noteq> []
   | ClickBluetooth \<Rightarrow> bt_page_of w = None
   | ClickBack \<Rightarrow> bt_page_of w \<noteq> None)"

definition bt_step :: "bt_event \<Rightarrow> unit app_eff" where
  "bt_step ev = (\<lambda>w. (case ev of
     ClickConnect bluetooth \<Rightarrow> connect_requested bluetooth
   | DeviceAnswer r \<Rightarrow> seq (modify (\<lambda>w. w\<lparr>connects := remove1 Requesting (connects w)\<rparr>)) (\<lambda>_. connect_device r)
   | GattAnswer device r \<Rightarrow>
       seq (modify (\<lambda>w. w\<lparr>connects := remove1 (ConnectingGatt device) (connects w)\<rparr>)) (\<lambda>_. connect_gatt device r)
   | SpawnAnswer device e r \<Rightarrow>
       seq (modify (\<lambda>w. w\<lparr>connects := remove1 (StartingActor device) (connects w)\<rparr>)) (\<lambda>_. connect_spawned device e r)
   | ClickDisconnect \<Rightarrow> click_disconnect
   | ClickRead uuid e \<Rightarrow> click_read uuid e
   | ClickWrite uuid e \<Rightarrow> click_write uuid e
   | ActorBegins a \<Rightarrow> (case hm_get (bt_actors w) a of Some act \<Rightarrow> actor_begins a (actor_device act) | None \<Rightarrow> ret ())
   | ActorTakes a \<Rightarrow> (case hm_get (bt_actors w) a of
       Some act \<Rightarrow> (case bt_queue act of m # ms \<Rightarrow> bt_handle a (act\<lparr>bt_queue := ms\<rparr>) m | [] \<Rightarrow> ret ())
     | None \<Rightarrow> ret ())
   | Discovered a services_js \<Rightarrow> (case hm_get (bt_actors w) a of
       Some act \<Rightarrow> (case discovering act of Some r \<Rightarrow> discovered a r services_js | None \<Rightarrow> ret ())
     | None \<Rightarrow> ret ())
   | ReadDone i v \<Rightarrow>
       seq (modify (\<lambda>w. w\<lparr>reads := remove_nth i (reads w)\<rparr>)) (\<lambda>_.
       reply_to (snd (reads w ! i)) (ReadAnswer (Success (try_read_characteristic v))))
   | WriteDone i v \<Rightarrow>
       seq (modify (\<lambda>w. w\<lparr>writes := remove_nth i (writes w)\<rparr>)) (\<lambda>_.
       reply_to (snd (snd (writes w ! i))) (WriteAnswer (Success (try_write_characteristic v))))
   | CallReturns i \<Rightarrow>
       seq (modify (\<lambda>w. w\<lparr>answers := remove_nth i (answers w), returned := returned w @ [fst (answers w ! i)]\<rparr>)) (\<lambda>_.
       case snd (answers w ! i) of
         ConnectAnswer r \<Rightarrow> connect_answered r | ReadAnswer r \<Rightarrow> read_answered r | WriteAnswer r \<Rightarrow> write_answered r)
   | NotifyStarted i started \<Rightarrow>
       seq (modify (\<lambda>w. w\<lparr>notify_starting := remove_nth i (notify_starting w)\<rparr>)) (\<lambda>_.
       notify_started (notify_starting w ! i) started)
   | Notification e \<Rightarrow> notification e
   | ClickBluetooth \<Rightarrow> render_bluetooth_page
   | ClickBack \<Rightarrow> render_main_page) w)"

definition app_start :: wasm_app where
  "app_start = \<lparr>the_body = MainBody \<lparr>test_log = [(str_lit ''Waiting for tests to run...'', ''info'')],
       test_status = (str_lit ''Ready to run tests'', '''')\<rparr>,
     bluetooth_actor = None, connected_gatts = [], connects = [], bt_actors = [], reads = [], writes = [], answers = [],
     returned = [], next_call = 0, notify_starting = [], notifying = []\<rparr>"

text \<open>The states it reaches, as long as nothing panics.\<close>

inductive bt_reach :: "wasm_app \<Rightarrow> bool" where
  Start: "bt_reach app_start"
| Step: "bt_reach w \<Longrightarrow> bt_possible ev w \<Longrightarrow> bt_step ev w = (Ok (), w') \<Longrightarrow> bt_reach w'"

fun bt_run :: "bt_event list \<Rightarrow> wasm_app \<Rightarrow> unit outcome \<times> wasm_app" where
  "bt_run [] w = (Ok (), w)"
| "bt_run (ev # evs) w = (case bt_step ev w of (Ok _, w') \<Rightarrow> bt_run evs w' | r \<Rightarrow> r)"

fun bt_run_possible :: "bt_event list \<Rightarrow> wasm_app \<Rightarrow> bool" where
  "bt_run_possible [] w \<longleftrightarrow> True"
| "bt_run_possible (ev # evs) w \<longleftrightarrow> bt_possible ev w \<and> bt_run_possible evs (snd (bt_step ev w))"

end
