(* ===== verification/Bluetooth_Props.thy ===== *)
theory Bluetooth_Props
  imports Bluetooth "HOL-Library.Multiset"
begin

text \<open>
  What holds of the Bluetooth page in every state it reaches: its buttons, the actor they
  call, and the calls, of which none is lost; a whole session; and the actors that get lost.
\<close>

section \<open>Partial correctness\<close>

text \<open>\<open>post m Q w\<close>: where \<open>m\<close> returns, \<open>Q\<close> holds.\<close>

definition post :: "'a app_eff \<Rightarrow> ('a \<Rightarrow> wasm_app \<Rightarrow> bool) \<Rightarrow> wasm_app \<Rightarrow> bool" where
  "post m Q w \<longleftrightarrow> (\<forall>x w'. m w = (Ok x, w') \<longrightarrow> Q x w')"

lemma post_simps [simp]:
  "post (ret x) Q = Q x"
  "post (modify f) Q = (\<lambda>w. Q () (f w))"
  "post (reply_to r a) Q = (\<lambda>w. Q () (w\<lparr>answers := answers w @ [(r, a)]\<rparr>))"
  "post (waits_for s) Q = (\<lambda>w. Q () (w\<lparr>connects := connects w @ [s]\<rparr>))"
  by (simp_all add: post_def modify_def reply_to_def waits_for_def fun_eq_iff)

lemma post_seq [simp]: "post (seq m f) Q = post m (\<lambda>x. post (f x) Q)"
  by (rule ext) (auto simp: post_def seq_def split: prod.splits outcome.splits)

named_theorems quiet

text \<open>What the invariants look at: the actors and the calls, and the two buttons of the page.\<close>

definition same_core :: "wasm_app \<Rightarrow> wasm_app \<Rightarrow> bool" where
  "same_core w w' \<longleftrightarrow> bluetooth_actor w' = bluetooth_actor w \<and> bt_actors w' = bt_actors w \<and> reads w' = reads w \<and>
     writes w' = writes w \<and> answers w' = answers w \<and> returned w' = returned w \<and> next_call w' = next_call w"

definition buttons_ok :: "wasm_app \<Rightarrow> bool" where
  "buttons_ok w \<longleftrightarrow> (\<forall>p. bt_page_of w = Some p \<longrightarrow> disconnect_disabled p = (\<not> connect_disabled p))"

abbreviation quiet :: "'a app_eff \<Rightarrow> bool" where
  "quiet \<equiv> keeps buttons_ok same_core"

lemma core_order [quiet]: "world_order same_core"
  by (auto simp: world_order_def same_core_def)

lemma quiet_post:
  assumes "quiet m" and "buttons_ok w" and "\<And>x w'. same_core w w' \<Longrightarrow> buttons_ok w' \<Longrightarrow> Q x w'"
  shows "post m Q w"
  using assms keepsD[of buttons_ok same_core m w] by (auto simp: post_def)

lemma quiet_basic [quiet]: "quiet (ret x)" "quiet m \<Longrightarrow> (\<And>x. quiet (f x)) \<Longrightarrow> quiet (seq m f)"
  "quiet m \<Longrightarrow> quiet m' \<Longrightarrow> quiet (if c then m else m')"
  using core_order by (auto intro: keeps_ret keeps_seq)

lemma quiet_page [quiet]:
  assumes "\<And>p. connect_disabled (f p) = connect_disabled p \<and> disconnect_disabled (f p) = disconnect_disabled p"
  shows "quiet (on_bt_page f)"
  using assms by (auto simp: keeps_def on_bt_page_def same_core_def buttons_ok_def bt_page_of_def split: page_body.splits)

lemma quiet_logs [quiet]: "quiet (log_to_device_info m c)" "quiet (log_to_characteristics m c)" "quiet (add_read_button u)"
  "quiet (add_write_button u)" "quiet clear_characteristics_list" "quiet (set_bluetooth_status m c)"
  by (simp_all add: log_to_device_info_def log_to_characteristics_def add_read_button_def add_write_button_def
      add_to_characteristics_def clear_characteristics_list_def set_bluetooth_status_def quiet_page)

lemma quiet_buttons [quiet]: "quiet (update_ui_connection_state c)"
  by (auto simp: keeps_def update_ui_connection_state_def same_core_def buttons_ok_def bt_page_of_def split: page_body.splits)

lemma quiet_modify [quiet]:
  "quiet (modify (\<lambda>w. w\<lparr>connects := f1 w\<rparr>))" "quiet (modify (\<lambda>w. w\<lparr>connected_gatts := f2 w\<rparr>))"
  "quiet (modify (\<lambda>w. w\<lparr>notify_starting := f3 w\<rparr>))" "quiet (modify (\<lambda>w. w\<lparr>notifying := f3 w\<rparr>))"
  by (simp_all add: keeps_def modify_def same_core_def buttons_ok_def bt_page_of_def)

lemma quiet_waits [quiet]: "quiet (waits_for s)"
  unfolding waits_for_def by (rule quiet)

lemma quiet_each [quiet]: "(\<And>x. quiet (f x)) \<Longrightarrow> quiet (each f xs)"
  by (induction xs) (simp_all add: quiet)

lemma quiet_display [quiet]: "quiet (display_characteristics cs)"
  unfolding display_characteristics_def by (intro quiet)

lemma quiet_answered [quiet]: "quiet (connect_answered r1)" "quiet (read_answered r2)" "quiet (write_answered r3)"
  unfolding connect_answered_def read_answered_def write_answered_def
  by (auto split: call_result.split rust_result.split intro: quiet)

lemma quiet_discover_one [quiet]: "quiet (discover_characteristic ch)"
  unfolding discover_characteristic_def by (intro quiet)

lemma quiet_discover_services [quiet]: "quiet (discover_services ss)"
proof (induction ss)
  case (Cons x ss)
  obtain u cr where "x = (u, cr)" by (cases x)
  then show ?case by (simp add: Let_def) (intro quiet Cons.IH)
qed (simp only: discover_services.simps quiet_basic)

lemma quiet_discover [quiet]: "quiet (discover_characteristics_internal s)"
  unfolding discover_characteristics_internal_def by (auto split: rust_result.split intro: quiet)

lemma quiet_failed [quiet]: "quiet (connection_failed e)"
  unfolding connection_failed_def by (intro quiet)

lemma quiet_connect [quiet]: "quiet (connect_requested b)" "quiet (connect_device r)" "quiet (connect_gatt d r')"
  unfolding connect_requested_def connect_device_def connect_gatt_def
  by (auto split: rust_result.split intro!: quiet)

lemma quiet_notify [quiet]: "quiet (notify_started ch b)" "quiet (notification ev)"
  unfolding notify_started_def notification_def by (auto split: option.split intro!: quiet)

section \<open>Where a call is\<close>

definition msg_calls :: "bt_msg \<Rightarrow> nat list" where
  "msg_calls m = map fst (dropped m)"

definition calls_of :: "bt_actor \<Rightarrow> nat list" where
  "calls_of act = (case discovering act of Some r \<Rightarrow> [r] | None \<Rightarrow> []) @ concat (map msg_calls (bt_queue act))"

definition actor_calls :: "(actor_id, bt_actor) hmap \<Rightarrow> nat list" where
  "actor_calls m = concat (map (\<lambda>(a, act). calls_of act) m)"

text \<open>With an actor, with a task that waits for the browser, on its way back, or over.\<close>

definition places :: "wasm_app \<Rightarrow> nat list" where
  "places w = actor_calls (bt_actors w) @ map snd (reads w) @ map (\<lambda>(_, _, r). r) (writes w) @ map fst (answers w) @ returned w"

lemma actor_calls_insert:
  "hm_get m a = Some act \<Longrightarrow> hm_ok m \<Longrightarrow>
   mset (actor_calls (hm_insert a act' m)) + mset (calls_of act) = mset (actor_calls m) + mset (calls_of act')"
proof (induction m)
  case (Cons x m)
  then show ?case
  proof (cases "fst x = a")
    case True
    with Cons.prems have "act = snd x" by (cases x) (simp add: hm_get_def)
    then show ?thesis using True by (cases x) (simp add: hm_insert_def actor_calls_def)
  next
    case False
    then have "hm_get m a = Some act" "hm_ok m" using Cons.prems by (cases x; simp add: hm_get_def hm_ok_def)+
    from Cons.IH[OF this] False show ?thesis by (cases x) (simp add: hm_insert_def actor_calls_def)
  qed
qed simp

lemma actor_calls_new: "hm_get m a = None \<Longrightarrow> mset (actor_calls (hm_insert a act m)) = mset (actor_calls m) + mset (calls_of act)"
  by (induction m) (auto simp: hm_get_def hm_insert_def actor_calls_def split: if_splits)

lemma mset_remove_nth: "i < length xs \<Longrightarrow> add_mset (xs ! i) (mset (remove_nth i xs)) = mset xs"
proof -
  assume "i < length xs"
  then have "mset xs = mset (take i xs @ xs ! i # drop (Suc i) xs)" by (simp add: id_take_nth_drop[symmetric])
  then show ?thesis by (simp add: remove_nth_def)
qed

lemma mset_map_remove_nth: "i < length xs \<Longrightarrow> mset (map f xs) = add_mset (f (xs ! i)) (mset (map f (remove_nth i xs)))"
  using mset_remove_nth[of i xs] by (metis image_mset_add_mset mset_map)

section \<open>The invariant\<close>

text \<open>\<open>inv R\<close>: the calls in \<open>R\<close> are just being moved from one place to another.\<close>

definition actors_ok :: "actor_id option \<Rightarrow> (actor_id, bt_actor) hmap \<Rightarrow> bool" where
  "actors_ok cur m \<longleftrightarrow> hm_ok m \<and>
     (\<forall>a. cur = Some a \<longrightarrow> (\<exists>act. hm_get m a = Some act \<and> \<not> over act)) \<and>
     (\<forall>a act. hm_get m a = Some act \<and> over act \<longrightarrow> bt_queue act = [] \<and> discovering act = None)"

definition calls_ok :: "nat multiset \<Rightarrow> wasm_app \<Rightarrow> bool" where
  "calls_ok R w \<longleftrightarrow> mset (places w) + R = mset [0..<next_call w]"

definition bt_inv :: "nat multiset \<Rightarrow> wasm_app \<Rightarrow> bool" where
  "bt_inv R w \<longleftrightarrow> buttons_ok w \<and> actors_ok (bluetooth_actor w) (bt_actors w) \<and> calls_ok R w"

lemma same_core_inv: "same_core w w' \<Longrightarrow> buttons_ok w' \<Longrightarrow> bt_inv R w \<Longrightarrow> bt_inv R w'"
  by (simp add: bt_inv_def calls_ok_def places_def same_core_def)

text \<open>A quiet part keeps the invariant, and what is known of one actor.\<close>

lemma quiet_inv:
  assumes "quiet m" and "bt_inv R w"
    and "\<And>x w'. bt_inv R w' \<Longrightarrow> same_core w w' \<Longrightarrow> Q x w'"
  shows "post m Q w"
  using assms same_core_inv by (intro quiet_post[OF assms(1)]) (auto simp: bt_inv_def)

lemma quiet_last: "quiet m \<Longrightarrow> bt_inv R w \<Longrightarrow> post m (\<lambda>_. bt_inv R) w"
  by (rule quiet_inv)

lemma inv_start: "bt_inv {#} app_start"
  by (simp add: bt_inv_def buttons_ok_def actors_ok_def calls_ok_def places_def app_start_def bt_page_of_def actor_calls_def)

lemma inv_answer: "bt_inv (add_mset r R) w \<Longrightarrow> bt_inv R (w\<lparr>answers := answers w @ [(r, x)]\<rparr>)"
  by (simp add: bt_inv_def buttons_ok_def calls_ok_def places_def bt_page_of_def)

lemma inv_answers: "bt_inv (R + mset (map fst xs)) w \<Longrightarrow> bt_inv R (w\<lparr>answers := answers w @ xs\<rparr>)"
  by (induction xs arbitrary: R) (simp_all add: bt_inv_def buttons_ok_def calls_ok_def places_def bt_page_of_def ac_simps)

lemma inv_actor:
  assumes "bt_inv R w" and "hm_get (bt_actors w) a = Some act" and "R' + mset (calls_of act') = R + mset (calls_of act)"
    and "over act' \<longrightarrow> bt_queue act' = [] \<and> discovering act' = None \<and> bluetooth_actor w \<noteq> Some a"
  shows "bt_inv R' (w\<lparr>bt_actors := hm_insert a act' (bt_actors w)\<rparr>)"
proof -
  have ok: "hm_ok (bt_actors w)" using assms(1) by (simp add: bt_inv_def actors_ok_def)
  note c = actor_calls_insert[OF assms(2) ok, of act']
  have "mset (actor_calls (hm_insert a act' (bt_actors w))) + R' + mset (calls_of act) = mset (actor_calls (bt_actors w)) + R + mset (calls_of act)"
    using c assms(3) by (metis add.assoc add.commute)
  then have "mset (actor_calls (hm_insert a act' (bt_actors w))) + R' = mset (actor_calls (bt_actors w)) + R" by simp
  moreover have "calls_ok R w" using assms(1) by (simp add: bt_inv_def)
  ultimately have "calls_ok R' (w\<lparr>bt_actors := hm_insert a act' (bt_actors w)\<rparr>)"
    by (simp add: calls_ok_def places_def) (metis (no_types, lifting) add.assoc add.commute)
  then show ?thesis using assms by (auto simp: bt_inv_def buttons_ok_def actors_ok_def bt_page_of_def hm_get_insert)
qed

lemma inv_new_actor:
  "bt_inv R w \<Longrightarrow> hm_get (bt_actors w) a = None \<Longrightarrow> bt_inv R (w\<lparr>bt_actors := hm_insert a (new_actor d) (bt_actors w)\<rparr>)"
  using actor_calls_new[of "bt_actors w" a "new_actor d"]
  by (auto simp: bt_inv_def buttons_ok_def actors_ok_def bt_page_of_def hm_get_insert calls_ok_def places_def new_actor_def calls_of_def)

lemma inv_pick:
  "bt_inv R w \<Longrightarrow> cur = None \<or> cur = Some a \<and> hm_get (bt_actors w) a = Some act \<and> \<not> over act \<Longrightarrow> bt_inv R (w\<lparr>bluetooth_actor := cur\<rparr>)"
  by (auto simp: bt_inv_def buttons_ok_def actors_ok_def bt_page_of_def calls_ok_def places_def)

lemma inv_next: "bt_inv R w \<Longrightarrow> bt_inv (add_mset (next_call w) R) (w\<lparr>next_call := next_call w + 1\<rparr>)"
  by (simp add: bt_inv_def buttons_ok_def calls_ok_def places_def bt_page_of_def)

lemma inv_reads: "bt_inv R w \<Longrightarrow> i < length (reads w) \<Longrightarrow> bt_inv (add_mset (snd (reads w ! i)) R) (w\<lparr>reads := remove_nth i (reads w)\<rparr>)"
  using mset_map_remove_nth[of i "reads w" snd]
  by (simp add: bt_inv_def buttons_ok_def calls_ok_def places_def bt_page_of_def)

lemma inv_writes:
  "bt_inv R w \<Longrightarrow> i < length (writes w) \<Longrightarrow> bt_inv (add_mset (snd (snd (writes w ! i))) R) (w\<lparr>writes := remove_nth i (writes w)\<rparr>)"
  using mset_map_remove_nth[of i "writes w" "\<lambda>(_, _, r). r"]
  by (simp add: bt_inv_def buttons_ok_def calls_ok_def places_def bt_page_of_def case_prod_beta)

lemma inv_returns:
  "bt_inv R w \<Longrightarrow> i < length (answers w) \<Longrightarrow>
   bt_inv R (w\<lparr>answers := remove_nth i (answers w), returned := returned w @ [fst (answers w ! i)]\<rparr>)"
  using mset_map_remove_nth[of i "answers w" fst]
  by (simp add: bt_inv_def buttons_ok_def calls_ok_def places_def bt_page_of_def)

lemma inv_adds:
  "bt_inv (add_mset r R) w \<Longrightarrow> bt_inv R (w\<lparr>reads := reads w @ [(ch, r)]\<rparr>)"
  "bt_inv (add_mset r R) w \<Longrightarrow> bt_inv R (w\<lparr>writes := writes w @ [(ch, data, r)]\<rparr>)"
  by (simp_all add: bt_inv_def buttons_ok_def calls_ok_def places_def bt_page_of_def)

section \<open>Every step keeps it\<close>

lemma call_inv:
  assumes "bt_inv R w" and "\<And>r. msg_calls (msg r) = [r]"
  shows "post (call_actor a msg failed) (\<lambda>_. bt_inv R) w"
proof -
  let ?w = "w\<lparr>next_call := next_call w + 1\<rparr>"
  have n: "bt_inv (add_mset (next_call w) R) ?w" by (rule inv_next[OF assms(1)])
  have f: "bt_inv R (?w\<lparr>answers := answers ?w @ [(next_call w, failed)]\<rparr>)" by (rule inv_answer[OF n])
  show ?thesis
  proof (cases "hm_get (bt_actors w) a")
    case None
    then show ?thesis using f by (simp add: call_actor_def Let_def)
  next
    case (Some act)
    have "bt_inv R (?w\<lparr>bt_actors := hm_insert a (act\<lparr>bt_queue := bt_queue act @ [msg (next_call w)]\<rparr>) (bt_actors ?w)\<rparr>)" if "\<not> over act"
      by (rule inv_actor[OF n, of a act]) (use Some that assms(2) in \<open>simp_all add: calls_of_def\<close>)
    then show ?thesis using f Some by (simp add: call_actor_def Let_def)
  qed
qed

lemma update_inv:
  assumes "bt_inv R w" and "hm_get (bt_actors w) a = Some act" and "R' + mset (calls_of (f act)) = R + mset (calls_of act)"
    and "over (f act) \<longrightarrow> bt_queue (f act) = [] \<and> discovering (f act) = None \<and> bluetooth_actor w \<noteq> Some a"
  shows "post (update_actor a f) (\<lambda>_ w'. bt_inv R' w' \<and> hm_get (bt_actors w') a = Some (f act) \<and> bluetooth_actor w' = bluetooth_actor w) w"
  using inv_actor[OF assms] assms(2) by (simp add: update_actor_def hm_get_insert)

lemma post_at: "post m Q w \<Longrightarrow> m w = n w \<Longrightarrow> post n Q w"
  by (simp add: post_def)

lemma post_cong: "post m Q w \<Longrightarrow> (\<And>x w'. Q x w' \<Longrightarrow> Q' x w') \<Longrightarrow> post m Q' w"
  by (auto simp: post_def)

lemma spawned_inv:
  assumes "bt_inv {#} w" and "case r of ROk a \<Rightarrow> hm_get (bt_actors w) a = None | RErr _ \<Rightarrow> True"
  shows "post (connect_spawned d e r) (\<lambda>_. bt_inv {#}) w"
proof (cases r)
  case (ROk a)
  let ?w = "w\<lparr>bt_actors := hm_insert a (new_actor d) (bt_actors w)\<rparr>"
  have i: "bt_inv {#} ?w" using inv_new_actor[OF assms(1)] assms(2) ROk by simp
  have g: "hm_get (bt_actors ?w) a = Some (new_actor d)" by (simp add: hm_get_insert)
  show ?thesis
    unfolding connect_spawned_def ROk rust_result.case post_seq post_simps
  proof (rule quiet_inv[OF quiet_logs(1) i])
    fix x w1 assume "bt_inv {#} w1" "same_core ?w w1"
    then have "bt_inv {#} (w1\<lparr>bluetooth_actor := Some a\<rparr>)"
      using g by (intro inv_pick[where a = a and act = "new_actor d"]) (simp_all add: same_core_def new_actor_def)
    then show "post (log_to_device_info (icon [0x1F50D] '' Requesting characteristics from actor...'') ''info'')
        (\<lambda>x. post (call_actor a GetCharacteristics (ConnectAnswer (CallError e))) (\<lambda>_. bt_inv {#})) (w1\<lparr>bluetooth_actor := Some a\<rparr>)"
      by (rule quiet_inv[OF quiet_logs(1)]) (rule call_inv, simp_all add: msg_calls_def dropped_def)
  qed
qed (simp add: connect_spawned_def quiet_last quiet_failed assms(1))

lemma discovery_done_inv:
  assumes "bt_inv {#r#} w" and "hm_get (bt_actors w) a = Some act" and "\<not> over act"
  shows "post (discovery_done a r result) (\<lambda>_. bt_inv {#}) w"
proof (cases result)
  case (ROk found)
  show ?thesis
    unfolding discovery_done_def ROk rust_result.case post_seq Let_def
    by (rule post_cong[OF update_inv[OF assms(1,2), of "{#r#}"]])
      (auto simp: calls_of_def assms(3) intro!: quiet_inv[OF quiet_logs(1)] inv_answer)
qed (auto simp: discovery_done_def intro!: quiet_inv[OF quiet_logs(1) assms(1)] inv_answer)

lemma discovered_inv:
  assumes "bt_inv {#} w" and "hm_get (bt_actors w) a = Some act" and "discovering act = Some r"
  shows "post (discovered a r s) (\<lambda>_. bt_inv {#}) w"
proof -
  have o: "\<not> over act" using assms by (auto simp: bt_inv_def actors_ok_def)
  have "post (update_actor a (\<lambda>act. act\<lparr>discovering := None\<rparr>))
      (\<lambda>_ w'. bt_inv {#r#} w' \<and> hm_get (bt_actors w') a = Some (act\<lparr>discovering := None\<rparr>)) w"
    by (rule post_cong[OF update_inv[OF assms(1,2), of "{#r#}"]]) (simp_all add: calls_of_def assms(3) o)
  then show ?thesis
    unfolding discovered_def post_seq
    by (rule post_cong) (auto simp: same_core_def o intro!: quiet_inv[OF quiet_discover] discovery_done_inv)
qed

lemma handle_inv:
  assumes "bt_inv {#} w" and "hm_get (bt_actors w) a = Some act" and "ready act" and "bt_queue act = m # ms"
  shows "post (bt_handle a (act\<lparr>bt_queue := ms\<rparr>) m) (\<lambda>_. bt_inv {#}) w"
proof -
  let ?act = "act\<lparr>bt_queue := ms\<rparr>"
  have a: "\<not> over act" "discovering act = None" using assms(3) by (simp_all add: ready_def)
  have taken: "bt_inv {#r#} (w\<lparr>bt_actors := hm_insert a ?act (bt_actors w)\<rparr>)" if "msg_calls m = [r]" for r
    by (rule inv_actor[OF assms(1,2)]) (use a that assms(4) in \<open>simp_all add: calls_of_def\<close>)
  show ?thesis
  proof (cases m)
    case (GetCharacteristics r)
    have "bt_inv {#} (w\<lparr>bt_actors := hm_insert a (?act\<lparr>discovering := Some r\<rparr>) (bt_actors w)\<rparr>)"
      by (rule inv_actor[OF assms(1,2)]) (use a assms(4) GetCharacteristics in \<open>simp_all add: calls_of_def msg_calls_def dropped_def\<close>)
    then show ?thesis
      by (auto simp: bt_handle_def GetCharacteristics intro!: quiet_inv[OF quiet_logs(1)])
  next
    case (ReadCharacteristic uuid r)
    then show ?thesis using taken[of r]
      by (auto simp: bt_handle_def msg_calls_def dropped_def split: option.split dest: inv_answer inv_adds)
  next
    case (WriteCharacteristic uuid data r)
    then show ?thesis using taken[of r]
      by (auto simp: bt_handle_def msg_calls_def dropped_def split: option.split dest: inv_answer inv_adds)
  next
    case DisconnectDevice
    let ?m = "seq (log_to_device_info (icon [0x1F50C] '' Disconnecting...'') ''info'') (\<lambda>_.
       if has_gatt (actor_device act)
       then modify (\<lambda>w. w\<lparr>connected_gatts := removeAll (device_id (actor_device act)) (connected_gatts w)\<rparr>) else ret ())"
    have ended: "bt_inv {#} (w2\<lparr>bt_actors := hm_insert a (?act\<lparr>bt_queue := [], over := True\<rparr>) (bt_actors w2),
        answers := answers w2 @ concat (map dropped (bt_queue ?act))\<rparr>)"
      if i: "bt_inv {#} w2" and g: "hm_get (bt_actors w2) a = Some act" and n: "bluetooth_actor w2 = None" for w2
    proof -
      let ?w = "w2\<lparr>bt_actors := hm_insert a (?act\<lparr>bt_queue := [], over := True\<rparr>) (bt_actors w2)\<rparr>"
      have "bt_inv (mset (concat (map msg_calls ms))) ?w"
        by (rule inv_actor[OF i g]) (use a assms(4) DisconnectDevice n in \<open>simp_all add: calls_of_def msg_calls_def dropped_def\<close>)
      moreover have "map fst (concat (map dropped ms)) = concat (map msg_calls ms)" by (simp add: map_concat msg_calls_def[abs_def] comp_def)
      ultimately show ?thesis using inv_answers[of "{#}" "concat (map dropped ms)" ?w] by simp
    qed
    have "post ?m (\<lambda>_. post (modify (\<lambda>w. w\<lparr>bluetooth_actor := None\<rparr>)) (\<lambda>_. post (end_actor a ?act) (\<lambda>_. bt_inv {#}))) w"
    proof (rule quiet_inv[OF _ assms(1)])
      show "quiet ?m" by (intro quiet)
      fix x w1 assume "bt_inv {#} w1" "same_core w w1"
      then have i: "bt_inv {#} (w1\<lparr>bluetooth_actor := None\<rparr>)" and g: "hm_get (bt_actors w1) a = Some act"
        using assms(2) inv_pick[of "{#}" w1 None] by (simp_all add: same_core_def)
      show "post (modify (\<lambda>w. w\<lparr>bluetooth_actor := None\<rparr>)) (\<lambda>_. post (end_actor a ?act) (\<lambda>_. bt_inv {#})) w1"
        unfolding end_actor_def post_seq post_simps
        by (rule quiet_inv[OF quiet_logs(1) i], rule ended) (use g in \<open>simp_all add: same_core_def\<close>)
    qed
    then show ?thesis unfolding bt_handle_def DisconnectDevice by (cases "has_gatt (actor_device act)") simp_all
  qed
qed

lemma disconnect_inv:
  assumes "bt_inv {#} w"
  shows "post click_disconnect (\<lambda>_. bt_inv {#}) w"
proof -
  let ?f = "\<lambda>act. if over act then act else act\<lparr>bt_queue := bt_queue act @ [DisconnectDevice]\<rparr>"
  have "post (\<lambda>w. (case bluetooth_actor w of Some a \<Rightarrow> update_actor a ?f | None \<Rightarrow> ret ()) w) (\<lambda>_. bt_inv {#}) w"
  proof (cases "bluetooth_actor w")
    case (Some a)
    then obtain act where a: "hm_get (bt_actors w) a = Some act" "\<not> over act"
      using assms by (auto simp: bt_inv_def actors_ok_def)
    have "post (update_actor a ?f) (\<lambda>_. bt_inv {#}) w"
      by (rule post_cong[OF update_inv[OF assms a(1), of "{#}" ?f]]) (simp_all add: a calls_of_def msg_calls_def dropped_def)
    then show ?thesis by (simp add: Some post_def)
  qed (use assms in \<open>simp add: post_def\<close>)
  then show ?thesis
    unfolding click_disconnect_def post_seq
    by (rule post_cong) (auto intro!: quiet_inv[OF quiet_logs(6)] quiet_inv[OF quiet_buttons] quiet_last[OF quiet_logs(5)])
qed

lemma clicks_inv:
  assumes "bt_inv {#} w"
  shows "post (click_read uuid e) (\<lambda>_. bt_inv {#}) w" "post (click_write uuid e) (\<lambda>_. bt_inv {#}) w"
proof -
  have c: "post (seq (log_to_device_info t c) (\<lambda>_. call_actor a msg f)) (\<lambda>_. bt_inv {#}) w"
    if "\<And>r. msg_calls (msg r) = [r]" for t c a msg f
    by (simp add: quiet_inv[OF quiet_logs(1) assms] call_inv that)
  show "post (click_read uuid e) (\<lambda>_. bt_inv {#}) w"
  proof (cases "bluetooth_actor w")
    case None
    then show ?thesis using quiet_last[OF quiet_logs(1) assms] by (simp add: click_read_def post_def)
  next
    case (Some a)
    then have "click_read uuid e w = seq (log_to_device_info (icon [0x1F4D6] '' Reading '' @ uuid @ str_lit ''...'') ''info'')
        (\<lambda>_. call_actor a (ReadCharacteristic uuid) (ReadAnswer (CallError e))) w" by (simp add: click_read_def)
    then show ?thesis by (intro post_at[OF c]) (simp_all add: msg_calls_def dropped_def)
  qed
  show "post (click_write uuid e) (\<lambda>_. bt_inv {#}) w"
  proof (cases "bluetooth_actor w")
    case None
    then show ?thesis using quiet_last[OF quiet_logs(1) assms] by (simp add: click_write_def post_def)
  next
    case (Some a)
    then have "click_write uuid e w = seq (log_to_device_info (icon [0x270D, 0xFE0F] '' Writing '' @ dec_digits (length [0x01 :: byte, 0x02, 0x03, 0x04]) @ str_lit '' bytes to '' @
        uuid @ str_lit ''...'') ''info'') (\<lambda>_. call_actor a (WriteCharacteristic uuid [1, 2, 3, 4]) (WriteAnswer (CallError e))) w"
      by (simp add: click_write_def)
    then show ?thesis by (intro post_at[OF c]) (simp_all add: msg_calls_def dropped_def)
  qed
qed

lemma begins_inv:
  assumes "bt_inv {#} w" and "hm_get (bt_actors w) a = Some act"
  shows "post (actor_begins a d) (\<lambda>_. bt_inv {#}) w"
proof -
  have o: "over act \<Longrightarrow> bt_queue act = [] \<and> discovering act = None \<and> bluetooth_actor w \<noteq> Some a"
    using assms by (auto simp: bt_inv_def actors_ok_def)
  show ?thesis
    unfolding actor_begins_def post_seq
    by (rule post_cong[OF update_inv[OF assms, of "{#}"]]) (use o in \<open>auto simp: calls_of_def intro!: quiet_inv[OF quiet_logs(1)]\<close>)
qed

lemma pages_inv:
  assumes "bt_inv {#} w"
  shows "post render_bluetooth_page (\<lambda>_. bt_inv {#}) w" "post render_main_page (\<lambda>_. bt_inv {#}) w"
proof -
  have "bt_inv {#} (w\<lparr>the_body := BluetoothBody bt_page_new\<rparr>)"
    using assms by (simp add: bt_inv_def buttons_ok_def calls_ok_def places_def bt_page_of_def bt_page_new_def)
  then show "post render_bluetooth_page (\<lambda>_. bt_inv {#}) w" by (simp add: render_bluetooth_page_def)
  show "post render_main_page (\<lambda>_. bt_inv {#}) w"
    using assms by (simp add: render_main_page_def post_def split: page_body.split)
qed

lemma answers_inv:
  assumes "bt_inv {#} w"
  shows "i < length (reads w) \<Longrightarrow> post (seq (modify (\<lambda>w. w\<lparr>reads := remove_nth i (reads w)\<rparr>)) (\<lambda>_. reply_to (snd (reads w ! i)) x)) (\<lambda>_. bt_inv {#}) w"
    and "i < length (writes w) \<Longrightarrow> post (seq (modify (\<lambda>w. w\<lparr>writes := remove_nth i (writes w)\<rparr>)) (\<lambda>_. reply_to (snd (snd (writes w ! i))) x)) (\<lambda>_. bt_inv {#}) w"
  using inv_answer[OF inv_reads[OF assms]] inv_answer[OF inv_writes[OF assms]] by simp_all

lemma returns_inv:
  assumes "bt_inv {#} w" and "i < length (answers w)" and "quiet m"
  shows "post (seq (modify (\<lambda>w. w\<lparr>answers := remove_nth i (answers w), returned := returned w @ [fst (answers w ! i)]\<rparr>)) (\<lambda>_. m)) (\<lambda>_. bt_inv {#}) w"
  using quiet_last[OF assms(3) inv_returns[OF assms(1,2)]] by simp

lemma bt_step_inv:
  assumes "bt_inv {#} w" and "bt_possible ev w"
  shows "post (bt_step ev) (\<lambda>_. bt_inv {#}) w"
proof (cases ev)
  case (SpawnAnswer d e r)
  let ?w = "w\<lparr>connects := remove1 (StartingActor d) (connects w)\<rparr>"
  have "bt_inv {#} ?w" using assms(1) by (simp add: bt_inv_def buttons_ok_def calls_ok_def places_def bt_page_of_def)
  moreover have "case r of ROk a \<Rightarrow> hm_get (bt_actors ?w) a = None | RErr _ \<Rightarrow> True"
    using assms(2) by (cases r) (simp_all add: SpawnAnswer bt_possible_def)
  ultimately have "post (connect_spawned d e r) (\<lambda>_. bt_inv {#}) ?w" by (rule spawned_inv)
  then show ?thesis by (simp add: bt_step_def SpawnAnswer post_def seq_def modify_def)
next
  case (ActorBegins a)
  then obtain act where a: "hm_get (bt_actors w) a = Some act" using assms(2) by (auto simp: bt_possible_def split: option.splits)
  show ?thesis by (rule post_at[OF begins_inv[OF assms(1) a, of "actor_device act"]]) (simp add: bt_step_def ActorBegins a)
next
  case (ActorTakes a)
  then obtain act where a: "hm_get (bt_actors w) a = Some act" "ready act" using assms(2) by (auto simp: bt_possible_def split: option.splits)
  then obtain m ms where q: "bt_queue act = m # ms" by (auto simp: ready_def neq_Nil_conv)
  show ?thesis by (rule post_at[OF handle_inv[OF assms(1) a q]]) (simp add: bt_step_def ActorTakes a q)
next
  case (Discovered a s)
  then obtain act r where a: "hm_get (bt_actors w) a = Some act" "discovering act = Some r"
    using assms(2) by (auto simp: bt_possible_def split: option.splits)
  show ?thesis by (rule post_at[OF discovered_inv[OF assms(1) a, of s]]) (simp add: bt_step_def Discovered a)
next
  case (ReadDone i v)
  show ?thesis by (rule post_at[OF answers_inv(1)[OF assms(1), of i]]) (use assms(2) in \<open>simp_all add: bt_step_def bt_possible_def ReadDone\<close>)
next
  case (WriteDone i v)
  show ?thesis by (rule post_at[OF answers_inv(2)[OF assms(1), of i]]) (use assms(2) in \<open>simp_all add: bt_step_def bt_possible_def WriteDone\<close>)
next
  case (CallReturns i)
  have q: "quiet (case snd (answers w ! i) of ConnectAnswer r \<Rightarrow> connect_answered r | ReadAnswer r \<Rightarrow> read_answered r | WriteAnswer r \<Rightarrow> write_answered r)"
    by (auto split: call_answer.split intro: quiet)
  show ?thesis by (rule post_at[OF returns_inv[OF assms(1) _ q]]) (use assms(2) in \<open>simp_all add: bt_step_def bt_possible_def CallReturns\<close>)
next
  case (DeviceAnswer r)
  have q: "quiet (seq (modify (\<lambda>w. w\<lparr>connects := remove1 Requesting (connects w)\<rparr>)) (\<lambda>_. connect_device r))" by (intro quiet)
  show ?thesis by (rule post_at[OF quiet_last[OF q assms(1)]]) (simp add: bt_step_def DeviceAnswer)
next
  case (GattAnswer d r)
  have q: "quiet (seq (modify (\<lambda>w. w\<lparr>connects := remove1 (ConnectingGatt d) (connects w)\<rparr>)) (\<lambda>_. connect_gatt d r))" by (intro quiet)
  show ?thesis by (rule post_at[OF quiet_last[OF q assms(1)]]) (simp add: bt_step_def GattAnswer)
next
  case (NotifyStarted i b)
  have q: "quiet (seq (modify (\<lambda>w. w\<lparr>notify_starting := remove_nth i (notify_starting w)\<rparr>)) (\<lambda>_. notify_started (notify_starting w ! i) b))"
    by (intro quiet)
  show ?thesis by (rule post_at[OF quiet_last[OF q assms(1)]]) (simp add: bt_step_def NotifyStarted)
next
  case (ClickConnect b)
  show ?thesis by (rule post_at[OF quiet_last[OF quiet_connect(1) assms(1)]]) (simp add: bt_step_def ClickConnect)
next
  case ClickDisconnect
  show ?thesis by (rule post_at[OF disconnect_inv[OF assms(1)]]) (simp add: bt_step_def ClickDisconnect)
next
  case (ClickRead u e)
  show ?thesis by (rule post_at[OF clicks_inv(1)[OF assms(1)]]) (simp add: bt_step_def ClickRead)
next
  case (ClickWrite u e)
  show ?thesis by (rule post_at[OF clicks_inv(2)[OF assms(1)]]) (simp add: bt_step_def ClickWrite)
next
  case (Notification e)
  show ?thesis by (rule post_at[OF quiet_last[OF quiet_notify(2) assms(1)]]) (simp add: bt_step_def Notification)
next
  case ClickBluetooth
  show ?thesis by (rule post_at[OF pages_inv(1)[OF assms(1)]]) (simp add: bt_step_def ClickBluetooth)
next
  case ClickBack
  show ?thesis by (rule post_at[OF pages_inv(2)[OF assms(1)]]) (simp add: bt_step_def ClickBack)
qed

lemma bt_reach_inv: "bt_reach w \<Longrightarrow> bt_inv {#} w"
proof (induction rule: bt_reach.induct)
  case (Step w ev w')
  then show ?case using bt_step_inv[of w ev] by (simp add: post_def)
qed (rule inv_start)

lemma run_reach: "bt_reach w \<Longrightarrow> bt_run_possible evs w \<Longrightarrow> bt_run evs w = (Ok (), w') \<Longrightarrow> bt_reach w'"
proof (induction evs arbitrary: w)
  case (Cons ev evs)
  then obtain w1 where "bt_step ev w = (Ok (), w1)" "bt_run evs w1 = (Ok (), w')" by (auto split: prod.splits outcome.splits)
  with Cons show ?case by (auto intro: bt_reach.Step)
qed simp

section \<open>No call is lost\<close>

text \<open>What happens without the user: the actors and the tasks go on, the browser answers, calls return.\<close>

definition background :: "bt_event \<Rightarrow> bool" where
  "background ev = (case ev of
     ActorBegins _ \<Rightarrow> True | ActorTakes _ \<Rightarrow> True | Discovered _ _ \<Rightarrow> True | ReadDone _ _ \<Rightarrow> True
   | WriteDone _ _ \<Rightarrow> True | CallReturns _ \<Rightarrow> True | _ \<Rightarrow> False)"

text \<open>The events that bring the call \<open>r\<close> on: those of the actor that has it, or of the task.\<close>

definition concerns :: "nat \<Rightarrow> bt_event \<Rightarrow> wasm_app \<Rightarrow> bool" where
  "concerns r ev w = (case ev of
     ActorBegins a \<Rightarrow> (case hm_get (bt_actors w) a of Some act \<Rightarrow> r \<in> set (calls_of act) | None \<Rightarrow> False)
   | ActorTakes a \<Rightarrow> (case hm_get (bt_actors w) a of Some act \<Rightarrow> r \<in> set (calls_of act) | None \<Rightarrow> False)
   | Discovered a _ \<Rightarrow> (case hm_get (bt_actors w) a of Some act \<Rightarrow> r \<in> set (calls_of act) | None \<Rightarrow> False)
   | ReadDone i _ \<Rightarrow> snd (reads w ! i) = r
   | WriteDone i _ \<Rightarrow> snd (snd (writes w ! i)) = r
   | CallReturns i \<Rightarrow> fst (answers w ! i) = r
   | _ \<Rightarrow> False)"

lemma concerns_background: "concerns r ev w \<Longrightarrow> background ev"
  by (cases ev) (simp_all add: concerns_def background_def)

lemma call_goes_on:
  assumes "bt_inv {#} w" and "r \<in> set (places w)" and "r \<notin> set (returned w)"
  shows "\<exists>ev. concerns r ev w \<and> bt_possible ev w"
proof -
  have ok: "actors_ok (bluetooth_actor w) (bt_actors w)" using assms(1) by (simp add: bt_inv_def)
  consider (actor) a act where "hm_get (bt_actors w) a = Some act" "r \<in> set (calls_of act)"
    | (read_task) i where "i < length (reads w)" "snd (reads w ! i) = r"
    | (write_task) i where "i < length (writes w)" "snd (snd (writes w ! i)) = r"
    | (on_way) i where "i < length (answers w)" "fst (answers w ! i) = r"
  proof -
    from assms(2,3) consider "r \<in> set (actor_calls (bt_actors w))" | "r \<in> snd ` set (reads w)" | "r \<in> (\<lambda>(_, _, r). r) ` set (writes w)"
      | "r \<in> fst ` set (answers w)" unfolding places_def by (simp only: set_append set_map Un_iff) blast
    then show thesis
    proof cases
      case 1
      then obtain a act where "(a, act) \<in> set (bt_actors w)" "r \<in> set (calls_of act)" by (auto simp: actor_calls_def)
      then show ?thesis using hm_in_get[of "bt_actors w" a act] ok that(1) by (simp add: actors_ok_def)
    next
      case 2
      then show ?thesis using that(2) by (auto simp: in_set_conv_nth)
    next
      case 3
      then show ?thesis using that(3) by (auto simp: in_set_conv_nth case_prod_beta)
    next
      case 4
      then show ?thesis using that(4) by (auto simp: in_set_conv_nth)
    qed
  qed
  then show ?thesis
  proof cases
    case actor
    then have o: "\<not> over act" using ok by (auto simp: actors_ok_def calls_of_def)
    consider "\<not> begun act" | "begun act" "discovering act \<noteq> None" | "begun act" "discovering act = None" by blast
    then show ?thesis
    proof cases
      case 1
      then show ?thesis using actor by (intro exI[of _ "ActorBegins a"]) (simp add: concerns_def bt_possible_def)
    next
      case 2
      then show ?thesis using actor by (intro exI[of _ "Discovered a s" for s]) (simp add: concerns_def bt_possible_def)
    next
      case 3
      then have "ready act" using actor o by (auto simp: ready_def calls_of_def)
      then show ?thesis using actor by (intro exI[of _ "ActorTakes a"]) (simp add: concerns_def bt_possible_def)
    qed
  next
    case read_task
    then show ?thesis by (intro exI[of _ "ReadDone i v" for v]) (simp add: concerns_def bt_possible_def)
  next
    case write_task
    then show ?thesis by (intro exI[of _ "WriteDone i v" for v]) (simp add: concerns_def bt_possible_def)
  next
    case on_way
    then show ?thesis by (intro exI[of _ "CallReturns i"]) (simp add: concerns_def bt_possible_def)
  qed
qed

text \<open>
  C35: The Bluetooth page, in every state it reaches: one of its two buttons is enabled, never both; the
  actor its buttons call runs; every call is in exactly one place, and as long as it
  has not returned, something that brings it on can happen without the user.
\<close>

theorem bluetooth_calls:
  assumes "bt_reach w"
  shows "(\<forall>p. bt_page_of w = Some p \<longrightarrow> disconnect_disabled p = (\<not> connect_disabled p)) \<and>
    (\<forall>a. bluetooth_actor w = Some a \<longrightarrow> (\<exists>act. hm_get (bt_actors w) a = Some act \<and> \<not> over act)) \<and>
    distinct (places w) \<and> set (places w) = {..<next_call w} \<and>
    (\<forall>r < next_call w. r \<notin> set (returned w) \<longrightarrow> (\<exists>ev. concerns r ev w \<and> background ev \<and> bt_possible ev w))"
proof -
  have inv: "bt_inv {#} w" by (rule bt_reach_inv[OF assms])
  then have m: "mset (places w) = mset [0..<next_call w]" by (simp add: bt_inv_def calls_ok_def)
  have d: "distinct (places w)" using mset_eq_imp_distinct_iff[OF m] by simp
  have s: "set (places w) = {..<next_call w}" using mset_eq_setD[OF m] by (simp add: atLeast0LessThan)
  have "\<exists>ev. concerns r ev w \<and> background ev \<and> bt_possible ev w" if "r < next_call w" "r \<notin> set (returned w)" for r
    using call_goes_on[OF inv, of r] that s concerns_background by blast
  then show ?thesis using inv d s by (simp add: bt_inv_def buttons_ok_def actors_ok_def)
qed

section \<open>Lost actors\<close>

text \<open>An actor that runs, that the buttons do not call, and that has not been told to disconnect.\<close>

definition lost :: "actor_id \<Rightarrow> wasm_app \<Rightarrow> bool" where
  "lost a w \<longleftrightarrow> bluetooth_actor w \<noteq> Some a \<and>
     (\<exists>act. hm_get (bt_actors w) a = Some act \<and> \<not> over act \<and> DisconnectDevice \<notin> set (bt_queue act))"

definition device_a :: bt_device where
  "device_a = \<lparr>device_name = Some (str_lit ''A''), device_id = str_lit ''1'', has_gatt = True\<rparr>"

definition device_b :: bt_device where
  "device_b = \<lparr>device_name = None, device_id = str_lit ''2'', has_gatt = True\<rparr>"

text \<open>Disconnecting before the actor is there, and while it is busy; each time a second device follows.\<close>

definition early_disconnect :: "bt_event list" where
  "early_disconnect = [ClickBluetooth, ClickConnect True, DeviceAnswer (ROk device_a), GattAnswer device_a (ROk ()), ClickDisconnect,
     SpawnAnswer device_a [] (ROk 1), ClickConnect True, DeviceAnswer (ROk device_b), GattAnswer device_b (ROk ()),
     SpawnAnswer device_b [] (ROk 2)]"

definition busy_disconnect :: "bt_event list" where
  "busy_disconnect = [ClickBluetooth, ClickConnect True, DeviceAnswer (ROk device_a), GattAnswer device_a (ROk ()),
     SpawnAnswer device_a [] (ROk 1), ActorBegins 1, ActorTakes 1, ClickDisconnect, ClickConnect True,
     DeviceAnswer (ROk device_b), GattAnswer device_b (ROk ()), SpawnAnswer device_b [] (ROk 2),
     Discovered 1 (ROk []), ActorTakes 1]"

lemmas app_defs = modify_def on_bt_page_def log_to_device_info_def add_to_characteristics_def log_to_characteristics_def
  add_read_button_def add_write_button_def clear_characteristics_list_def set_bluetooth_status_def update_ui_connection_state_def
  call_actor_def reply_to_def waits_for_def connection_failed_def connect_requested_def connect_device_def connect_gatt_def
  connect_spawned_def update_actor_def actor_begins_def discovered_def discovery_done_def end_actor_def bt_handle_def
  click_disconnect_def render_bluetooth_page_def discover_characteristics_internal_def

lemmas run_defs = bt_step_def bt_possible_def bt_page_of_def bt_page_new_def ready_def new_actor_def app_start_def
  hm_get_insert Let_def seq_def device_a_def device_b_def

text \<open>It stays so, whatever happens.\<close>

definition still_lost :: "actor_id \<Rightarrow> wasm_app \<Rightarrow> bool" where
  "still_lost a w \<longleftrightarrow> buttons_ok w \<and> lost a w"

lemma quiet_lost:
  assumes "quiet m" and "still_lost a w" and "\<And>x w'. still_lost a w' \<Longrightarrow> same_core w w' \<Longrightarrow> Q x w'"
  shows "post m Q w"
  using assms by (intro quiet_post[OF assms(1)]) (auto simp: still_lost_def lost_def same_core_def)

lemma quiet_still_lost: "quiet m \<Longrightarrow> still_lost a w \<Longrightarrow> post m (\<lambda>_. still_lost a) w"
  by (rule quiet_lost)

lemma lost_fields [simp]:
  "still_lost a (w\<lparr>answers := x1\<rparr>) = still_lost a w" "still_lost a (w\<lparr>returned := x2\<rparr>) = still_lost a w"
  "still_lost a (w\<lparr>reads := x3\<rparr>) = still_lost a w" "still_lost a (w\<lparr>writes := x4\<rparr>) = still_lost a w"
  "still_lost a (w\<lparr>next_call := n\<rparr>) = still_lost a w" "still_lost a (w\<lparr>connects := x5\<rparr>) = still_lost a w"
  by (simp_all add: still_lost_def lost_def buttons_ok_def bt_page_of_def)

lemma lost_actor_set:
  assumes "still_lost a w" and "b = a \<Longrightarrow> \<not> over act \<and> DisconnectDevice \<notin> set (bt_queue act)"
  shows "still_lost a (w\<lparr>bt_actors := hm_insert b act (bt_actors w)\<rparr>)"
  using assms by (auto simp: still_lost_def lost_def buttons_ok_def bt_page_of_def hm_get_insert)

lemma lost_call:
  assumes "still_lost a w" and "\<And>r. msg r \<noteq> DisconnectDevice"
  shows "post (call_actor b msg f) (\<lambda>_. still_lost a) w"
proof (cases "hm_get (bt_actors w) b")
  case (Some act)
  let ?w = "w\<lparr>next_call := next_call w + 1\<rparr>"
  have n: "DisconnectDevice \<noteq> msg (next_call w)" using assms(2)[of "next_call w"] by simp
  have "still_lost a (?w\<lparr>bt_actors := hm_insert b (act\<lparr>bt_queue := bt_queue act @ [msg (next_call w)]\<rparr>) (bt_actors ?w)\<rparr>)" if "\<not> over act"
    by (rule lost_actor_set) (use assms(1) Some that n in \<open>auto simp: still_lost_def lost_def buttons_ok_def bt_page_of_def\<close>)
  then show ?thesis using assms(1) by (simp add: call_actor_def Let_def Some)
qed (use assms(1) in \<open>simp add: call_actor_def Let_def\<close>)

lemma lost_update:
  assumes "still_lost a w"
    and "\<And>act. b = a \<Longrightarrow> \<not> over act \<Longrightarrow> DisconnectDevice \<notin> set (bt_queue act) \<Longrightarrow> \<not> over (f act) \<and> DisconnectDevice \<notin> set (bt_queue (f act))"
  shows "post (update_actor b f) (\<lambda>_. still_lost a) w"
proof (cases "hm_get (bt_actors w) b")
  case (Some act)
  have "still_lost a (w\<lparr>bt_actors := hm_insert b (f act) (bt_actors w)\<rparr>)"
    by (rule lost_actor_set[OF assms(1)]) (use assms Some in \<open>auto simp: still_lost_def lost_def\<close>)
  then show ?thesis by (simp add: update_actor_def Some)
qed (use assms(1) in \<open>simp add: update_actor_def\<close>)

lemma lost_pick: "still_lost a w \<Longrightarrow> cur \<noteq> Some a \<Longrightarrow> still_lost a (w\<lparr>bluetooth_actor := cur\<rparr>)"
  by (simp add: still_lost_def lost_def buttons_ok_def bt_page_of_def)

lemma lost_handle:
  assumes "still_lost a w" and "hm_get (bt_actors w) b = Some act" and "bt_queue act = m # ms"
  shows "post (bt_handle b (act\<lparr>bt_queue := ms\<rparr>) m) (\<lambda>_. still_lost a) w"
proof -
  have k: "b = a \<Longrightarrow> \<not> over act \<and> DisconnectDevice \<notin> set ms \<and> m \<noteq> DisconnectDevice"
    using assms by (auto simp: still_lost_def lost_def)
  then have set: "still_lost a (w\<lparr>bt_actors := hm_insert b (act\<lparr>bt_queue := ms, discovering := d\<rparr>) (bt_actors w)\<rparr>)"
    "still_lost a (w\<lparr>bt_actors := hm_insert b (act\<lparr>bt_queue := ms\<rparr>) (bt_actors w)\<rparr>)" for d
    by (intro lost_actor_set[OF assms(1)]; simp)+
  show ?thesis
  proof (cases m)
    case (GetCharacteristics r)
    then show ?thesis using set(1)[of "Some r"] by (auto simp: bt_handle_def intro!: quiet_lost[OF quiet_logs(1)])
  next
    case DisconnectDevice
    let ?m = "seq (log_to_device_info (icon [0x1F50C] '' Disconnecting...'') ''info'') (\<lambda>_.
       if has_gatt (actor_device act)
       then modify (\<lambda>w. w\<lparr>connected_gatts := removeAll (device_id (actor_device act)) (connected_gatts w)\<rparr>) else ret ())"
    have "b \<noteq> a" using k DisconnectDevice by blast
    have q: "quiet ?m" by (intro quiet)
    have "post ?m (\<lambda>_. post (modify (\<lambda>w. w\<lparr>bluetooth_actor := None\<rparr>)) (\<lambda>_. post (end_actor b (act\<lparr>bt_queue := ms\<rparr>)) (\<lambda>_. still_lost a))) w"
      by (rule quiet_lost[OF q assms(1)])
        (use \<open>b \<noteq> a\<close> in \<open>auto simp: end_actor_def intro!: quiet_lost[OF quiet_logs(1)] lost_pick lost_actor_set\<close>)
    then show ?thesis unfolding bt_handle_def DisconnectDevice by (cases "has_gatt (actor_device act)") simp_all
  qed (use set in \<open>auto simp: bt_handle_def split: option.split\<close>)
qed

lemma lost_spawned:
  assumes "still_lost a w" and "case r of ROk b \<Rightarrow> hm_get (bt_actors w) b = None | RErr _ \<Rightarrow> True"
  shows "post (connect_spawned d e r) (\<lambda>_. still_lost a) w"
proof (cases r)
  case (ROk b)
  then have "b \<noteq> a" using assms by (auto simp: still_lost_def lost_def)
  then have "still_lost a (w\<lparr>bt_actors := hm_insert b (new_actor d) (bt_actors w)\<rparr>)" by (intro lost_actor_set[OF assms(1)]) simp
  then show ?thesis
    using \<open>b \<noteq> a\<close> by (auto simp: connect_spawned_def ROk intro!: quiet_lost[OF quiet_logs(1)] lost_call lost_pick)
qed (simp add: connect_spawned_def quiet_still_lost quiet_failed assms(1))

lemma lost_discovered: "still_lost a w \<Longrightarrow> post (discovered b r s) (\<lambda>_. still_lost a) w"
  unfolding discovered_def post_seq
  by (rule post_cong[OF lost_update])
    (auto simp: discovery_done_def Let_def intro!: quiet_lost[OF quiet_discover] quiet_lost[OF quiet_logs(1)] post_cong[OF lost_update]
      split: rust_result.split)

lemma lost_clicks:
  assumes "still_lost a w"
  shows "post (click_read uuid e) (\<lambda>_. still_lost a) w" "post (click_write uuid e) (\<lambda>_. still_lost a) w"
proof -
  have c: "post (seq (log_to_device_info t c) (\<lambda>_. call_actor b msg f)) (\<lambda>_. still_lost a) w"
    if "\<And>r. msg r \<noteq> DisconnectDevice" for t c b msg f
    by (simp add: quiet_lost[OF quiet_logs(1) assms] lost_call that)
  note n = quiet_still_lost[OF quiet_logs(1) assms]
  show "post (click_read uuid e) (\<lambda>_. still_lost a) w"
    by (cases "bluetooth_actor w"; rule post_at[OF n] post_at[OF c]) (simp_all add: click_read_def)
  show "post (click_write uuid e) (\<lambda>_. still_lost a) w"
    by (cases "bluetooth_actor w"; rule post_at[OF n] post_at[OF c]) (simp_all add: click_write_def Let_def)
qed

lemma lost_disconnect:
  assumes "still_lost a w"
  shows "post click_disconnect (\<lambda>_. still_lost a) w"
proof -
  let ?f = "\<lambda>act. if over act then act else act\<lparr>bt_queue := bt_queue act @ [DisconnectDevice]\<rparr>"
  have "post (\<lambda>w. (case bluetooth_actor w of Some a \<Rightarrow> update_actor a ?f | None \<Rightarrow> ret ()) w) (\<lambda>_. still_lost a) w"
  proof (cases "bluetooth_actor w")
    case (Some b)
    then have "b \<noteq> a" using assms by (auto simp: still_lost_def lost_def)
    then have "post (update_actor b ?f) (\<lambda>_. still_lost a) w" by (intro lost_update[OF assms]) simp
    then show ?thesis by (simp add: Some post_def)
  qed (use assms in \<open>simp add: post_def\<close>)
  then show ?thesis
    unfolding click_disconnect_def post_seq
    by (rule post_cong) (auto intro!: quiet_lost[OF quiet_logs(6)] quiet_lost[OF quiet_buttons] quiet_still_lost[OF quiet_logs(5)])
qed

lemma lost_begins: "still_lost a w \<Longrightarrow> post (actor_begins b d) (\<lambda>_. still_lost a) w"
  unfolding actor_begins_def post_seq
  by (rule post_cong[OF lost_update]) (auto intro!: quiet_lost[OF quiet_logs(1)])

lemma lost_step:
  assumes "still_lost a w" and "bt_possible ev w"
  shows "post (bt_step ev) (\<lambda>_. still_lost a) w"
proof -
  note q = quiet_still_lost[OF _ assms(1)]
  show ?thesis
  proof (cases ev)
    case (SpawnAnswer d e r)
    let ?w = "w\<lparr>connects := remove1 (StartingActor d) (connects w)\<rparr>"
    have "case r of ROk b \<Rightarrow> hm_get (bt_actors ?w) b = None | RErr _ \<Rightarrow> True"
      using assms(2) by (cases r) (simp_all add: SpawnAnswer bt_possible_def)
    then have "post (connect_spawned d e r) (\<lambda>_. still_lost a) ?w" using assms(1) by (intro lost_spawned) simp_all
    then show ?thesis by (simp add: bt_step_def SpawnAnswer post_def seq_def modify_def)
  next
    case (ActorBegins b)
    then obtain act where b: "hm_get (bt_actors w) b = Some act" using assms(2) by (auto simp: bt_possible_def split: option.splits)
    show ?thesis by (rule post_at[OF lost_begins[OF assms(1), of b "actor_device act"]]) (simp add: bt_step_def ActorBegins b)
  next
    case (ActorTakes b)
    then obtain act where b: "hm_get (bt_actors w) b = Some act" "ready act" using assms(2) by (auto simp: bt_possible_def split: option.splits)
    then obtain m ms where m: "bt_queue act = m # ms" by (auto simp: ready_def neq_Nil_conv)
    show ?thesis by (rule post_at[OF lost_handle[OF assms(1) b(1) m]]) (simp add: bt_step_def ActorTakes b m)
  next
    case (Discovered b s)
    then obtain act r where b: "hm_get (bt_actors w) b = Some act" "discovering act = Some r"
      using assms(2) by (auto simp: bt_possible_def split: option.splits)
    show ?thesis by (rule post_at[OF lost_discovered[OF assms(1), of b r s]]) (simp add: bt_step_def Discovered b)
  next
    case (CallReturns i)
    have c: "quiet (case snd (answers w ! i) of ConnectAnswer r \<Rightarrow> connect_answered r | ReadAnswer r \<Rightarrow> read_answered r | WriteAnswer r \<Rightarrow> write_answered r)"
      by (auto split: call_answer.split intro: quiet)
    have "still_lost a (w\<lparr>answers := remove_nth i (answers w), returned := returned w @ [fst (answers w ! i)]\<rparr>)" using assms(1) by simp
    from quiet_still_lost[OF c this] show ?thesis by (simp add: bt_step_def CallReturns post_def seq_def modify_def)
  next
    case (DeviceAnswer r)
    have c: "quiet (seq (modify (\<lambda>w. w\<lparr>connects := remove1 Requesting (connects w)\<rparr>)) (\<lambda>_. connect_device r))" by (intro quiet)
    show ?thesis by (rule post_at[OF q[OF c]]) (simp add: bt_step_def DeviceAnswer)
  next
    case (GattAnswer d r)
    have c: "quiet (seq (modify (\<lambda>w. w\<lparr>connects := remove1 (ConnectingGatt d) (connects w)\<rparr>)) (\<lambda>_. connect_gatt d r))" by (intro quiet)
    show ?thesis by (rule post_at[OF q[OF c]]) (simp add: bt_step_def GattAnswer)
  next
    case (NotifyStarted i b)
    have c: "quiet (seq (modify (\<lambda>w. w\<lparr>notify_starting := remove_nth i (notify_starting w)\<rparr>)) (\<lambda>_. notify_started (notify_starting w ! i) b))"
      by (intro quiet)
    show ?thesis by (rule post_at[OF q[OF c]]) (simp add: bt_step_def NotifyStarted)
  next
    case ClickBluetooth
    have "still_lost a (w\<lparr>the_body := BluetoothBody bt_page_new\<rparr>)"
      using assms(1) by (simp add: still_lost_def lost_def buttons_ok_def bt_page_of_def bt_page_new_def)
    then show ?thesis by (simp add: bt_step_def ClickBluetooth render_bluetooth_page_def post_def modify_def)
  next
    case (ClickConnect b)
    show ?thesis by (rule post_at[OF q[OF quiet_connect(1)[of b]]]) (simp add: bt_step_def ClickConnect)
  next
    case ClickDisconnect
    show ?thesis by (rule post_at[OF lost_disconnect[OF assms(1)]]) (simp add: bt_step_def ClickDisconnect)
  next
    case (ClickRead u e)
    show ?thesis by (rule post_at[OF lost_clicks(1)[OF assms(1), of u e]]) (simp add: bt_step_def ClickRead)
  next
    case (ClickWrite u e)
    show ?thesis by (rule post_at[OF lost_clicks(2)[OF assms(1), of u e]]) (simp add: bt_step_def ClickWrite)
  next
    case (Notification e)
    show ?thesis by (rule post_at[OF q[OF quiet_notify(2)[of e]]]) (simp add: bt_step_def Notification)
  qed (use assms(1) in \<open>simp_all add: bt_step_def post_def render_main_page_def seq_def modify_def reply_to_def split: page_body.split\<close>)
qed


section \<open>Bytes as text\<close>

lemma hex_digits: "n < 16 \<Longrightarrow> hex_digit n \<noteq> 32" "n < 16 \<Longrightarrow> m < 16 \<Longrightarrow> hex_digit n = hex_digit m \<longleftrightarrow> n = m"
proof -
  have a: "list_all (\<lambda>n. hex_digit n \<noteq> 32) [0..<16]" by code_simp
  have b: "list_all (\<lambda>n. list_all (\<lambda>m. hex_digit n \<noteq> hex_digit m \<or> n = m) [0..<16]) [0..<16]" by code_simp
  show "n < 16 \<Longrightarrow> hex_digit n \<noteq> 32" using a by (simp add: list_all_iff)
  show "n < 16 \<Longrightarrow> m < 16 \<Longrightarrow> hex_digit n = hex_digit m \<longleftrightarrow> n = m"
    using b unfolding list_all_iff by fastforce
qed

lemma byte_halves: "unat (b :: byte) div 16 < 16" "unat b mod 16 < 16"
proof -
  have "unat b < 2 ^ LENGTH(8)" by (rule unsigned_less)
  then show "unat b div 16 < 16" by simp
qed simp

lemma byte_hex_inj: "byte_hex b = byte_hex c \<longleftrightarrow> b = c"
proof
  assume "byte_hex b = byte_hex c"
  then have "unat b div 16 = unat c div 16" "unat b mod 16 = unat c mod 16"
    using hex_digits(2) byte_halves by (auto simp: byte_hex_def)
  then have "unat b = unat c" by (metis div_mult_mod_eq)
  then show "b = c" using unsigned_word_eqI by blast
qed simp

lemma length_byte_hex [simp]: "length (byte_hex b) = 2"
  by (simp add: byte_hex_def)

lemma hex_Cons: "bytes_to_hex (b # bs) = byte_hex b @ concat (map (\<lambda>b. 32 # byte_hex b) bs)"
proof -
  have "fold (\<lambda>b hex. (if hex = [] then hex else hex @ [32]) @ byte_hex b) bs hex = hex @ concat (map (\<lambda>b. 32 # byte_hex b) bs)"
    if "hex \<noteq> []" for hex using that by (induction bs arbitrary: hex) auto
  then show ?thesis by (simp add: bytes_to_hex_def byte_hex_def)
qed

lemma hex_Nil: "bytes_to_hex [] = []"
  by (simp add: bytes_to_hex_def)

lemma spaced_inj: "concat (map (\<lambda>b. 32 # byte_hex b) bs) = concat (map (\<lambda>b. 32 # byte_hex b) cs) \<longleftrightarrow> bs = cs"
proof (induction bs arbitrary: cs)
  case Nil
  then show ?case by (cases cs) auto
next
  case (Cons b bs)
  then show ?case by (cases cs) (auto simp: byte_hex_inj)
qed

lemma hex_inj: "bytes_to_hex bs = bytes_to_hex cs \<longleftrightarrow> bs = cs"
  by (cases bs; cases cs) (auto simp: hex_Cons hex_Nil byte_hex_inj spaced_inj dest: arg_cong[where f = length])

lemma no_space: "filter (\<lambda>x. x = 32) (byte_hex b) = []"
  using hex_digits(1)[OF byte_halves(1)[of b]] hex_digits(1)[OF byte_halves(2)[of b]] by (auto simp: byte_hex_def)

text \<open>
  A characteristic's bytes as the page shows them: different bytes are shown differently, each as
  two digits, with a space between; and the number of bytes a notification is said to have is right for
  all but the empty value, which is said to have one.
\<close>

theorem bluetooth_hex:
  "(bytes_to_hex bs = bytes_to_hex cs \<longleftrightarrow> bs = cs) \<and> length (bytes_to_hex bs) = 3 * length bs - 1 \<and>
   split_count (bytes_to_hex bs) = (if bs = [] then 1 else length bs)"
proof -
  have "length (concat (map (\<lambda>b. 32 # byte_hex b) x)) = 3 * length x" for x by (induction x) simp_all
  moreover have "length (filter (\<lambda>b. b = 32) (concat (map (\<lambda>b. 32 # byte_hex b) x))) = length x" for x
    by (induction x) (simp_all add: no_space)
  ultimately have "length (bytes_to_hex bs) = 3 * length bs - 1 \<and> split_count (bytes_to_hex bs) = (if bs = [] then 1 else length bs)"
    by (cases bs) (simp_all add: hex_Nil hex_Cons split_count_def no_space del: length_concat)
  then show ?thesis using hex_inj[of bs cs] by blast
qed

section \<open>A session\<close>

definition chars_of :: "bt_service list \<Rightarrow> bt_char list" where
  "chars_of services = concat (map (\<lambda>(_, r). case r of ROk cs \<Rightarrow> cs | RErr _ \<Rightarrow> []) services)"

text \<open>From the first click to the list of characteristics.\<close>

definition session_start :: "bt_device \<Rightarrow> actor_id \<Rightarrow> bt_service list \<Rightarrow> bt_event list" where
  "session_start device a services = [ClickBluetooth, ClickConnect True, DeviceAnswer (ROk device), GattAnswer device (ROk ()),
     SpawnAnswer device [] (ROk a), ActorBegins a, ActorTakes a, Discovered a (ROk services), CallReturns 0]"

lemma each_discover:
  "the_body w = BluetoothBody p \<Longrightarrow>
   \<exists>l n. each discover_characteristic cs w = (Ok (), w\<lparr>the_body := BluetoothBody (p\<lparr>characteristics_list := l\<rparr>), notify_starting := n\<rparr>)"
proof (induction cs arbitrary: w p)
  case Nil
  then show ?case by (intro exI[of _ "characteristics_list p"] exI[of _ "notify_starting w"]) simp
next
  case (Cons c cs)
  let ?p = "p\<lparr>characteristics_list := characteristics_list p @ [LogEntry (char_line ''  '' (char_uuid c) (prop_list (char_props c))) ''success'']\<rparr>"
  let ?w = "w\<lparr>the_body := BluetoothBody ?p, notify_starting := (if can_notify (char_props c) then notify_starting w @ [c] else notify_starting w)\<rparr>"
  have "discover_characteristic c w = (Ok (), ?w)"
    using Cons.prems by (simp add: discover_characteristic_def log_to_characteristics_def add_to_characteristics_def on_bt_page_def seq_def modify_def)
  then have e: "each discover_characteristic (c # cs) w = each discover_characteristic cs ?w" by (simp add: seq_def)
  obtain l n where "each discover_characteristic cs ?w = (Ok (), ?w\<lparr>the_body := BluetoothBody (?p\<lparr>characteristics_list := l\<rparr>), notify_starting := n\<rparr>)"
    using Cons.IH[of ?w ?p] by auto
  then show ?case unfolding e by (intro exI[of _ l] exI[of _ n]) simp
qed

lemma discover_run:
  "the_body w = BluetoothBody p \<Longrightarrow>
   \<exists>l n. discover_services ss w = (Ok (chars_of ss), w\<lparr>the_body := BluetoothBody (p\<lparr>characteristics_list := l\<rparr>), notify_starting := n\<rparr>)"
proof (induction ss arbitrary: w p)
  case Nil
  then show ?case by (intro exI[of _ "characteristics_list p"] exI[of _ "notify_starting w"]) (simp add: chars_of_def)
next
  case (Cons x ss)
  obtain u r where x: "x = (u, r)" by (cases x)
  let ?cs = "case r of ROk cs \<Rightarrow> cs | RErr _ \<Rightarrow> []"
  let ?p = "p\<lparr>characteristics_list := characteristics_list p @ [LogEntry (icon [0x1F4E6] '' Service: '' @ u) ''info'']\<rparr>"
  define v where "v = w\<lparr>the_body := BluetoothBody ?p\<rparr>"
  have v: "the_body v = BluetoothBody ?p" by (simp add: v_def)
  have l: "log_to_characteristics (icon [0x1F4E6] '' Service: '' @ u) ''info'' w = (Ok (), v)"
    using Cons.prems by (simp add: v_def log_to_characteristics_def add_to_characteristics_def on_bt_page_def)
  obtain la na where d: "each discover_characteristic ?cs v = (Ok (), v\<lparr>the_body := BluetoothBody (?p\<lparr>characteristics_list := la\<rparr>), notify_starting := na\<rparr>)"
    using each_discover[OF v] by blast
  define va where "va = v\<lparr>the_body := BluetoothBody (?p\<lparr>characteristics_list := la\<rparr>), notify_starting := na\<rparr>"
  have va: "the_body va = BluetoothBody (?p\<lparr>characteristics_list := la\<rparr>)" by (simp add: va_def)
  obtain lb nb where e: "discover_services ss va = (Ok (chars_of ss),
      va\<lparr>the_body := BluetoothBody (?p\<lparr>characteristics_list := la\<rparr>\<lparr>characteristics_list := lb\<rparr>), notify_starting := nb\<rparr>)"
    using Cons.IH[OF va] by blast
  have "discover_services (x # ss) w = (Ok (?cs @ chars_of ss),
      va\<lparr>the_body := BluetoothBody (?p\<lparr>characteristics_list := la\<rparr>\<lparr>characteristics_list := lb\<rparr>), notify_starting := nb\<rparr>)"
    by (simp add: x Let_def seq_def l d[folded va_def] e)
  then show ?case by (intro exI[of _ lb] exI[of _ nb]) (simp add: x chars_of_def va_def v_def)
qed

definition char_entries :: "char_info \<Rightarrow> list_entry list" where
  "char_entries c = [LogEntry (char_line '''' (info_uuid c) (properties c)) ''success''] @
     (if str_lit ''Read'' \<in> set (properties c) then [ReadButton (info_uuid c)] else []) @
     (if str_lit ''Write'' \<in> set (properties c) \<or> str_lit ''WriteNoResp'' \<in> set (properties c) then [WriteButton (info_uuid c)] else [])"

lemma display_run:
  assumes "the_body w = BluetoothBody p"
  shows "display_characteristics cs w = (Ok (), w\<lparr>the_body := BluetoothBody (p\<lparr>characteristics_list :=
    LogEntry (str_lit ''Connect to see characteristics'') ''info'' # concat (map char_entries cs)\<rparr>)\<rparr>)"
proof -
  define f :: "char_info \<Rightarrow> unit app_eff" where "f = (\<lambda>c. seq (log_to_characteristics (char_line '''' (info_uuid c) (properties c)) ''success'') (\<lambda>_.
     seq (if str_lit ''Read'' \<in> set (properties c) then add_read_button (info_uuid c) else ret ()) (\<lambda>_.
     if str_lit ''Write'' \<in> set (properties c) \<or> str_lit ''WriteNoResp'' \<in> set (properties c)
     then add_write_button (info_uuid c) else ret ())))"
  have one: "f c v = (Ok (), v\<lparr>the_body := BluetoothBody (q\<lparr>characteristics_list := characteristics_list q @ char_entries c\<rparr>)\<rparr>)"
    if "the_body v = BluetoothBody q" for c :: char_info and v q
    using that by (simp add: f_def char_entries_def seq_def log_to_characteristics_def add_read_button_def add_write_button_def
        add_to_characteristics_def on_bt_page_def)
  have "each f cs v = (Ok (), v\<lparr>the_body := BluetoothBody (q\<lparr>characteristics_list := characteristics_list q @ concat (map char_entries cs)\<rparr>)\<rparr>)"
    if "the_body v = BluetoothBody q" for v q
    using that by (induction cs arbitrary: v q) (simp_all add: seq_def one)
  then show ?thesis
    using assms unfolding display_characteristics_def f_def[symmetric] by (simp add: clear_characteristics_list_def on_bt_page_def seq_def)
qed

lemma shown_properties:
  "str_lit ''Read'' \<in> set (prop_list ps) \<longleftrightarrow> can_read ps"
  "str_lit ''Write'' \<in> set (prop_list ps) \<longleftrightarrow> can_write ps"
  "str_lit ''WriteNoResp'' \<in> set (prop_list ps) \<longleftrightarrow> can_write_without_response ps"
  by (auto simp: prop_list_def str_lit_def)

lemma shown_buttons:
  "ReadButton u \<in> set (concat (map char_entries (map char_info_of cs))) \<longleftrightarrow> (\<exists>ch \<in> set cs. char_uuid ch = u \<and> can_read (char_props ch))"
  "WriteButton u \<in> set (concat (map char_entries (map char_info_of cs))) \<longleftrightarrow>
    (\<exists>ch \<in> set cs. char_uuid ch = u \<and> (can_write (char_props ch) \<or> can_write_without_response (char_props ch)))"
  by (auto simp: char_entries_def char_info_of_def shown_properties)

lemma run_append: "bt_run xs w = (Ok (), w') \<Longrightarrow> bt_run (xs @ ys) w = bt_run ys w'"
  by (induction xs arbitrary: w) (auto split: prod.splits outcome.splits)

lemma possible_append: "bt_run xs w = (Ok (), w') \<Longrightarrow> bt_run_possible (xs @ ys) w \<longleftrightarrow> bt_run_possible xs w \<and> bt_run_possible ys w'"
  by (induction xs arbitrary: w) (auto split: prod.splits outcome.splits)

lemma session_connects:
  fixes a :: actor_id
  assumes "has_gatt device"
  defines "evs \<equiv> [ClickBluetooth, ClickConnect True, DeviceAnswer (ROk device), GattAnswer device (ROk ()),
     SpawnAnswer device [] (ROk a), ActorBegins a, ActorTakes a]"
  shows "\<exists>w p. bt_run_possible evs app_start \<and> bt_run evs app_start = (Ok (), w) \<and> the_body w = BluetoothBody p \<and>
    connection_status p = (str_lit ''Connected to '' @ name_or_unknown device, ''success'') \<and> connect_disabled p \<and> \<not> disconnect_disabled p \<and>
    bluetooth_actor w = Some a \<and> connected_gatts w = [device_id device] \<and> reads w = [] \<and> answers w = [] \<and> next_call w = 1 \<and>
    bt_actors w = [(a, \<lparr>actor_device = device, begun = True, bt_queue = [], stored = [], discovering = Some 0, over = False\<rparr>)]"
  using assms(1) unfolding evs_def by (simp add: app_defs run_defs hm_insert_def hm_get_def)

text \<open>Then the characteristics are discovered and shown.\<close>

lemma session_shows:
  assumes "the_body w = BluetoothBody p" and "reads w = []" and "answers w = []"
    and "bt_actors w = [(a, \<lparr>actor_device = device, begun = True, bt_queue = [], stored = [], discovering = Some 0, over = False\<rparr>)]"
  shows "\<exists>w' info. bt_run_possible [Discovered a (ROk services), CallReturns 0] w \<and>
    bt_run [Discovered a (ROk services), CallReturns 0] w = (Ok (), w') \<and>
    the_body w' = BluetoothBody (p\<lparr>device_info := info, characteristics_list :=
      LogEntry (str_lit ''Connect to see characteristics'') ''info'' # concat (map char_entries (map char_info_of (chars_of services)))\<rparr>) \<and>
    bluetooth_actor w' = bluetooth_actor w \<and> connected_gatts w' = connected_gatts w \<and> reads w' = [] \<and> answers w' = [] \<and>
    bt_actors w' = [(a, \<lparr>actor_device = device, begun = True, bt_queue = [], stored = chars_of services, discovering = None, over = False\<rparr>)]"
proof -
  let ?act = "\<lparr>actor_device = device, begun = True, bt_queue = [], stored = [], discovering = None, over = False\<rparr>"
  define q where "q = p\<lparr>device_info := device_info p @ [(icon [0x1F4E1] '' Found '' @ dec_digits (length services) @ str_lit '' service(s)'', ''success'')]\<rparr>"
  define v where "v = w\<lparr>bt_actors := [(a, ?act)], the_body := BluetoothBody q\<rparr>"
  have "the_body v = BluetoothBody q" by (simp add: v_def)
  from discover_run[OF this] obtain l n where d: "discover_services services v =
      (Ok (chars_of services), v\<lparr>the_body := BluetoothBody (q\<lparr>characteristics_list := l\<rparr>), notify_starting := n\<rparr>)" by blast
  have e: "discover_characteristics_internal (ROk services) (w\<lparr>bt_actors := [(a, ?act)]\<rparr>) =
      (Ok (ROk (chars_of services)), v\<lparr>the_body := BluetoothBody (q\<lparr>characteristics_list := l\<rparr>), notify_starting := n\<rparr>)"
    using assms(1) d by (simp add: discover_characteristics_internal_def seq_def log_to_device_info_def on_bt_page_def v_def q_def)
  define q' where "q' = q\<lparr>characteristics_list := l, device_info := device_info q @
      [(icon [0x2705] '' Actor discovered '' @ dec_digits (length (chars_of services)) @ str_lit '' characteristics'', ''success'')]\<rparr>"
  define x where "x = v\<lparr>the_body := BluetoothBody q', notify_starting := n, bt_actors := [(a, ?act\<lparr>stored := chars_of services\<rparr>)],
      answers := [(0, ConnectAnswer (Success (ROk (map char_info_of (chars_of services)))))]\<rparr>"
  have step: "bt_step (Discovered a (ROk services)) w = (Ok (), x)"
    using assms e by (simp add: bt_step_def hm_get_def hm_insert_def discovered_def seq_def update_actor_def modify_def discovery_done_def
        Let_def log_to_device_info_def on_bt_page_def reply_to_def x_def q'_def v_def q_def)
  have "bt_step (CallReturns 0) x = (Ok (), x\<lparr>answers := [], returned := returned x @ [0], the_body := BluetoothBody (q'\<lparr>device_info := device_info q' @
      [(icon [0x1F4E1] '' Found '' @ dec_digits (length (chars_of services)) @ str_lit '' characteristic(s)'', ''success'')],
      characteristics_list := LogEntry (str_lit ''Connect to see characteristics'') ''info'' # concat (map char_entries (map char_info_of (chars_of services)))\<rparr>)\<rparr>)"
    by (simp add: bt_step_def seq_def modify_def x_def remove_nth_def connect_answered_def log_to_device_info_def on_bt_page_def display_run comp_def)
  then show ?thesis using step assms
    by (simp add: bt_possible_def hm_get_def x_def q'_def q_def v_def) (rule exI, rule refl)
qed

definition read_line :: "(rstring, rstring) rust_result \<Rightarrow> rstring \<times> string" where
  "read_line r = (case r of
     ROk hex \<Rightarrow> (icon [0x2705] '' Read value: '' @ hex, ''success'')
   | RErr e \<Rightarrow> (icon [0x274C] '' Read error: '' @ e, ''error''))"

text \<open>Afterwards a characteristic can be read.\<close>

lemma session_reads:
  assumes "the_body w = BluetoothBody p" and "bluetooth_actor w = Some a" and "reads w = []" and "answers w = []"
    and "bt_actors w = [(a, \<lparr>actor_device = device, begun = True, bt_queue = [], stored = cs, discovering = None, over = False\<rparr>)]"
    and "find (\<lambda>ch. char_uuid ch = uuid) cs = Some ch"
  shows "\<exists>w' p'. bt_run [ClickRead uuid e, ActorTakes a, ReadDone 0 v, CallReturns 0] w = (Ok (), w') \<and> bt_page_of w' = Some p' \<and>
    last (device_info p') = read_line (try_read_characteristic v)"
  using assms by (cases "try_read_characteristic v")
    (simp_all add: app_defs bt_step_def click_read_def hm_get_def hm_insert_def Let_def seq_def bt_page_of_def read_line_def
      read_answered_def remove_nth_def)

text \<open>
  A session with a Bluetooth device. From the first click to the list, the page says what is connected, its buttons call
  the actor of that device, and it has a button for exactly the characteristics that can be read or written;
  such a button then leads to the value the device answers with, or to its error.
\<close>

theorem bluetooth_session:
  assumes "has_gatt device"
  shows "\<exists>w p. bt_run_possible (session_start device a services) app_start \<and>
    bt_run (session_start device a services) app_start = (Ok (), w) \<and> bt_page_of w = Some p \<and>
    connection_status p = (str_lit ''Connected to '' @ name_or_unknown device, ''success'') \<and> connect_disabled p \<and> \<not> disconnect_disabled p \<and>
    bluetooth_actor w = Some a \<and> connected_gatts w = [device_id device] \<and>
    (\<forall>u. ReadButton u \<in> set (characteristics_list p) \<longleftrightarrow> (\<exists>ch \<in> set (chars_of services). char_uuid ch = u \<and> can_read (char_props ch))) \<and>
    (\<forall>u. WriteButton u \<in> set (characteristics_list p) \<longleftrightarrow> (\<exists>ch \<in> set (chars_of services). char_uuid ch = u \<and>
       (can_write (char_props ch) \<or> can_write_without_response (char_props ch)))) \<and>
    (\<forall>uuid e v ch. find (\<lambda>ch. char_uuid ch = uuid) (chars_of services) = Some ch \<longrightarrow>
       (\<exists>w' p'. bt_run [ClickRead uuid e, ActorTakes a, ReadDone 0 v, CallReturns 0] w = (Ok (), w') \<and> bt_page_of w' = Some p' \<and>
          last (device_info p') = read_line (try_read_characteristic v)))"
proof -
  let ?evs = "[ClickBluetooth, ClickConnect True, DeviceAnswer (ROk device), GattAnswer device (ROk ()),
     SpawnAnswer device [] (ROk a), ActorBegins a, ActorTakes a]"
  obtain w p where w: "bt_run_possible ?evs app_start" "bt_run ?evs app_start = (Ok (), w)" "the_body w = BluetoothBody p"
    "connection_status p = (str_lit ''Connected to '' @ name_or_unknown device, ''success'')" "connect_disabled p" "\<not> disconnect_disabled p"
    "bluetooth_actor w = Some a" "connected_gatts w = [device_id device]" "reads w = []" "answers w = []"
    "bt_actors w = [(a, \<lparr>actor_device = device, begun = True, bt_queue = [], stored = [], discovering = Some 0, over = False\<rparr>)]"
    using session_connects[OF assms, of a] by blast
  obtain w' info where w': "bt_run_possible [Discovered a (ROk services), CallReturns 0] w"
    "bt_run [Discovered a (ROk services), CallReturns 0] w = (Ok (), w')"
    "the_body w' = BluetoothBody (p\<lparr>device_info := info, characteristics_list :=
      LogEntry (str_lit ''Connect to see characteristics'') ''info'' # concat (map char_entries (map char_info_of (chars_of services)))\<rparr>)"
    "bluetooth_actor w' = bluetooth_actor w" "connected_gatts w' = connected_gatts w" "reads w' = []" "answers w' = []"
    "bt_actors w' = [(a, \<lparr>actor_device = device, begun = True, bt_queue = [], stored = chars_of services, discovering = None, over = False\<rparr>)]"
    using session_shows[OF w(3,9,10,11), of services] by blast
  have s: "session_start device a services = ?evs @ [Discovered a (ROk services), CallReturns 0]" by (simp add: session_start_def)
  have "bluetooth_actor w' = Some a" using w(7) w'(4) by simp
  note reads = session_reads[OF w'(3) this w'(6,7,8)]
  have "bt_run_possible (session_start device a services) app_start \<and> bt_run (session_start device a services) app_start = (Ok (), w')"
    unfolding s using run_append[OF w(2)] possible_append[OF w(2)] w(1) w'(1,2) by simp
  then show ?thesis
    using reads w w'(3-5) shown_buttons[of _ "chars_of services"]
    by (intro exI[of _ w'] exI[of _ "p\<lparr>device_info := info, characteristics_list :=
      LogEntry (str_lit ''Connect to see characteristics'') ''info'' # concat (map char_entries (map char_info_of (chars_of services)))\<rparr>"])
      (simp add: bt_page_of_def del: set_concat)
qed

section \<open>Concrete runs\<close>

lemma early_runs: "\<exists>w. bt_run_possible early_disconnect app_start \<and> bt_run early_disconnect app_start = (Ok (), w) \<and> lost 1 w \<and> str_lit ''1'' \<in> set (connected_gatts w)"
  by (simp add: early_disconnect_def app_defs run_defs lost_def)

lemma busy_runs: "\<exists>w. bt_run_possible busy_disconnect app_start \<and> bt_run busy_disconnect app_start = (Ok (), w) \<and> lost 2 w \<and> bluetooth_actor w = None"
  by (simp add: busy_disconnect_def app_defs run_defs lost_def)


theorem bluetooth_calls_witness:
  "\<exists>w ev. bt_reach w \<and> next_call w = 1 \<and> returned w = [] \<and> concerns 0 ev w \<and> bt_possible ev w"
proof -
  let ?evs = "[ClickBluetooth, ClickConnect True, DeviceAnswer (ROk device_a), GattAnswer device_a (ROk ()), SpawnAnswer device_a [] (ROk 1)]"
  obtain w where w: "bt_run_possible ?evs app_start" "bt_run ?evs app_start = (Ok (), w)" "next_call w = 1" "returned w = []"
    by (simp add: app_defs run_defs)
  have r: "bt_reach w" by (rule run_reach[OF bt_reach.Start w(1,2)])
  with bluetooth_calls[OF r] w(3,4) show ?thesis by (metis empty_iff list.set(1) zero_less_one)
qed

definition sample_service :: bt_service where
  "sample_service = (str_lit ''180f'', ROk [\<lparr>char_uuid = str_lit ''2a19'', char_props =
     \<lparr>can_read = True, can_write = False, can_write_without_response = False, can_notify = True, can_indicate = False\<rparr>\<rparr>])"

theorem bluetooth_session_witness:
  "\<exists>w p w' p'. bt_run (session_start device_a 7 [sample_service]) app_start = (Ok (), w) \<and> bt_page_of w = Some p \<and>
     ReadButton (str_lit ''2a19'') \<in> set (characteristics_list p) \<and>
     bt_run [ClickRead (str_lit ''2a19'') [], ActorTakes 7, ReadDone 0 (ROk (JsObject (Buffer [0x5F]) (Some 0) (Some 1))), CallReturns 0] w = (Ok (), w') \<and>
     bt_page_of w' = Some p' \<and> last (device_info p') = (icon [0x2705] '' Read value: '' @ str_lit ''5f'', ''success'')"
proof -
  have g: "has_gatt device_a" by (simp add: device_a_def)
  have f: "find (\<lambda>ch. char_uuid ch = str_lit ''2a19'') (chars_of [sample_service]) = Some (hd (chars_of [sample_service]))"
    "\<exists>ch \<in> set (chars_of [sample_service]). char_uuid ch = str_lit ''2a19'' \<and> can_read (char_props ch)"
    by (simp_all add: chars_of_def sample_service_def)
  have v: "try_read_characteristic (ROk (JsObject (Buffer [0x5F]) (Some 0) (Some 1))) = ROk (str_lit ''5f'')" by code_simp
  have r: "read_line (ROk (str_lit ''5f'')) = (icon [0x2705] '' Read value: '' @ str_lit ''5f'', ''success'')" by (simp add: read_line_def)
  obtain w p where w: "bt_run (session_start device_a 7 [sample_service]) app_start = (Ok (), w)" "bt_page_of w = Some p"
    "\<forall>u. ReadButton u \<in> set (characteristics_list p) \<longleftrightarrow> (\<exists>ch \<in> set (chars_of [sample_service]). char_uuid ch = u \<and> can_read (char_props ch))"
    "\<forall>uuid e v ch. find (\<lambda>ch. char_uuid ch = uuid) (chars_of [sample_service]) = Some ch \<longrightarrow>
       (\<exists>w' p'. bt_run [ClickRead uuid e, ActorTakes 7, ReadDone 0 v, CallReturns 0] w = (Ok (), w') \<and> bt_page_of w' = Some p' \<and>
          last (device_info p') = read_line (try_read_characteristic v))"
    using bluetooth_session[OF g, of 7 "[sample_service]"] by (elim exE conjE) (rule that)
  from w(4)[rule_format, OF f(1), of "[]" "ROk (JsObject (Buffer [0x5F]) (Some 0) (Some 1))"]
  obtain w' p' where "bt_run [ClickRead (str_lit ''2a19'') [], ActorTakes 7, ReadDone 0 (ROk (JsObject (Buffer [0x5F]) (Some 0) (Some 1))), CallReturns 0] w = (Ok (), w')"
    "bt_page_of w' = Some p'" "last (device_info p') = (icon [0x2705] '' Read value: '' @ str_lit ''5f'', ''success'')"
    unfolding v r by blast
  moreover have "ReadButton (str_lit ''2a19'') \<in> set (characteristics_list p)" using w(3) f(2) by blast
  ultimately show ?thesis using w(1,2) by blast
qed

end
