(* ===== verification/Wasm_Tests.thy ===== *)
theory Wasm_Tests
  imports Bluetooth Fn_Family
begin

text \<open>
  The other page of the WebAssembly test application, \<open>wasm_test_app/src/lib.rs\<close>: four tests
  of thread-local function actors, run in the browser one after the other, with the log they write.
\<close>

section \<open>The page\<close>

definition on_main_page :: "(main_page \<Rightarrow> main_page) \<Rightarrow> unit app_eff" where
  "on_main_page f = (\<lambda>w. case the_body w of
     MainBody p \<Rightarrow> (Ok (), w\<lparr>the_body := MainBody (f p)\<rparr>)
   | BluetoothBody _ \<Rightarrow> (Panic UnwrapNone, w))"

definition log_to_page :: "rstring \<Rightarrow> string \<Rightarrow> unit app_eff" where
  "log_to_page message cls = on_main_page (\<lambda>p. p\<lparr>test_log := test_log p @ [(message, cls)]\<rparr>)"

definition set_status :: "rstring \<Rightarrow> string \<Rightarrow> unit app_eff" where
  "set_status message cls = on_main_page (\<lambda>p. p\<lparr>test_status := (message, cls)\<rparr>)"

text \<open>The button that clears the log.\<close>

definition clear_logs :: "unit app_eff" where
  "clear_logs =
     seq (on_main_page (\<lambda>p. p\<lparr>test_log := [(str_lit ''Logs cleared. Ready for tests...'', ''info'')]\<rparr>)) (\<lambda>_.
     set_status (str_lit ''Ready to run tests'') '''')"

section \<open>Actors of a test\<close>

text \<open>
  What the actors and their tasks do while the test waits is a list of events; one that cannot
  happen is skipped. \<open>sends\<close> are calls of \<open>send_message\<close>, between which nothing runs.
\<close>

fun family_does :: "(actor_id \<times> 'm fn_event) list \<Rightarrow> 'm fn_family \<Rightarrow> 'm fn_family" where
  "family_does [] w = w"
| "family_does ((a, ev) # evs) w = family_does evs (case family_step a ev w of Some w' \<Rightarrow> w' | None \<Rightarrow> w)"

definition takes_messages :: "actor_id \<Rightarrow> 'm fn_family \<Rightarrow> bool" where
  "takes_messages a w = (case hm_get w a of Some c \<Rightarrow> fn_status (fn_state c) = Running | None \<Rightarrow> False)"

fun sends :: "actor_id \<Rightarrow> 'm list \<Rightarrow> 'm fn_family \<Rightarrow> 'm fn_family option" where
  "sends a [] w = Some w"
| "sends a (m # ms) w = (if takes_messages a w then sends a ms (family_does [(a, SendMsg m)] w) else None)"

text \<open>What the actor's function has put into the shared vector, or added up.\<close>

definition received :: "actor_id \<Rightarrow> 'm fn_family \<Rightarrow> 'm list" where
  "received a w = (case hm_get w a of Some c \<Rightarrow> taken (fn_state c) | None \<Rightarrow> [])"

text \<open>\<open>ThreadLocalFnActor::start_fn\<close>, in a family of one's own; the error with the text it is shown by.\<close>

definition start_one :: "string \<Rightarrow> (actor_id, rstring) rust_result \<Rightarrow> 'm fn_family \<Rightarrow> (actor_id \<times> 'm fn_family) outcome" where
  "start_one what started w = (case started of
     RErr e \<Rightarrow> Err (AnyhowMsg (str_lit what @ e))
   | ROk a \<Rightarrow> Ok (a, snd (local_start_fn (Ok a) w)))"

section \<open>The tests\<close>

definition expected_got :: "string \<Rightarrow> nat \<Rightarrow> werror" where
  "expected_got what n = AnyhowMsg (str_lit what @ dec_digits n)"

text \<open>\<open>shown\<close> is how the vector is shown in an error.\<close>

definition test_basic_message_passing ::
    "(32 word list \<Rightarrow> rstring) \<Rightarrow> (actor_id, rstring) rust_result \<Rightarrow> (actor_id \<times> 32 word fn_event) list \<Rightarrow> unit app_eff" where
  "test_basic_message_passing shown started schedule =
     seq (log_to_page (icon [0x1F9EA] '' Test 1: Basic message passing'') ''info'') (\<lambda>_.
     seq (lift (start_one ''Failed to start actor: '' started [])) (\<lambda>(actor_ref, w).
     case sends actor_ref [42, 100, 999] w of
       None \<Rightarrow> throw (AnyhowMsg (str_lit ''Failed to send''))
     | Some w \<Rightarrow>
         (let messages = received actor_ref (family_does schedule w)
          in if length messages \<noteq> 3 then throw (expected_got ''Expected 3 messages, got '' (length messages))
             else if messages ! 0 \<noteq> 42 \<or> messages ! 1 \<noteq> 100 \<or> messages ! 2 \<noteq> 999
             then throw (AnyhowMsg (str_lit ''Messages mismatch: '' @ shown messages))
             else log_to_page (icon [0x2705] '' Basic message passing works!'') ''success'')))"

definition test_multiple_actors ::
    "(actor_id, rstring) rust_result \<Rightarrow> (actor_id, rstring) rust_result \<Rightarrow> (actor_id \<times> 32 word fn_event) list \<Rightarrow> unit app_eff" where
  "test_multiple_actors started1 started2 schedule =
     seq (log_to_page (icon [0x1F9EA] '' Test 2: Multiple actors'') ''info'') (\<lambda>_.
     seq (lift (start_one ''Failed to start actor1: '' started1 [])) (\<lambda>(actor1, w).
     seq (lift (start_one ''Failed to start actor2: '' started2 w)) (\<lambda>(actor2, w).
     case Option.bind (sends actor1 [10, 20] w) (sends actor2 [5, 15]) of
       None \<Rightarrow> lift (Panic UnwrapErr)
     | Some w \<Rightarrow>
         (let w = family_does schedule w;
              c1_val = sum_list (received actor1 w);
              c2_val = sum_list (received actor2 w)
          in if c1_val \<noteq> 30 then throw (expected_got ''Actor1 counter expected 30, got '' (unat c1_val))
             else if c2_val \<noteq> 20 then throw (expected_got ''Actor2 counter expected 20, got '' (unat c2_val))
             else log_to_page (icon [0x2705] '' Multiple actors work independently!'') ''success''))))"

definition test_string_messages ::
    "(rstring list \<Rightarrow> rstring) \<Rightarrow> (actor_id, rstring) rust_result \<Rightarrow> (actor_id \<times> rstring fn_event) list \<Rightarrow> unit app_eff" where
  "test_string_messages shown started schedule =
     seq (log_to_page (icon [0x1F9EA] '' Test 3: String messages'') ''info'') (\<lambda>_.
     seq (lift (start_one ''Failed to start actor: '' started [])) (\<lambda>(actor_ref, w).
     case sends actor_ref [str_lit ''Hello'', str_lit ''WASM'', str_lit ''World''] w of
       None \<Rightarrow> lift (Panic UnwrapErr)
     | Some w \<Rightarrow>
         (let res = received actor_ref (family_does schedule w)
          in if length res \<noteq> 3 then throw (expected_got ''Expected 3 results, got '' (length res))
             else if res ! 0 \<noteq> str_lit ''Hello'' \<or> res ! 1 \<noteq> str_lit ''WASM'' \<or> res ! 2 \<noteq> str_lit ''World''
             then throw (AnyhowMsg (str_lit ''Results mismatch: '' @ shown res))
             else log_to_page (icon [0x2705] '' String messages work perfectly!'') ''success'')))"

definition test_high_throughput ::
    "(actor_id, rstring) rust_result \<Rightarrow> (actor_id \<times> 32 word fn_event) list \<Rightarrow> unit app_eff" where
  "test_high_throughput started schedule =
     seq (log_to_page (icon [0x1F9EA] '' Test 4: High message throughput (1000 messages)'') ''info'') (\<lambda>_.
     seq (lift (start_one ''Failed to start actor: '' started [])) (\<lambda>(actor_ref, w).
     case sends actor_ref (map word_of_nat [0..<1000]) w of
       None \<Rightarrow> lift (Panic UnwrapErr)
     | Some w \<Rightarrow>
         (let total = length (received actor_ref (family_does schedule w))
          in if total \<noteq> 1000 then throw (expected_got ''Expected 1000 messages, got '' total)
             else log_to_page (icon [0x2705] '' Successfully processed 1000 messages!'') ''success'')))"

text \<open>A test that fails is logged, and the next one runs.\<close>

definition error_text :: "werror \<Rightarrow> rstring" where
  "error_text e = (case e of AnyhowMsg m \<Rightarrow> m | _ \<Rightarrow> [])"

definition attempt :: "string \<Rightarrow> unit app_eff \<Rightarrow> bool app_eff" where
  "attempt what t = (\<lambda>w. case t w of
     (Ok _, w') \<Rightarrow> (Ok True, w')
   | (Err e, w') \<Rightarrow> seq (log_to_page (icon [0x274C] what @ error_text e) ''error'') (\<lambda>_. ret False) w'
   | (Panic p, w') \<Rightarrow> (Panic p, w'))"

definition run_all_tests :: "unit app_eff \<Rightarrow> unit app_eff \<Rightarrow> unit app_eff \<Rightarrow> unit app_eff \<Rightarrow> unit app_eff" where
  "run_all_tests test1 test2 test3 test4 =
     seq (log_to_page (str_lit ''========================================'') ''info'') (\<lambda>_.
     seq (log_to_page (icon [0x1F680] '' Starting WASM Thread-Local Actor Tests'') ''info'') (\<lambda>_.
     seq (log_to_page (str_lit ''========================================'') ''info'') (\<lambda>_.
     seq (set_status (icon [0x23F3] '' Running tests...'') ''running'') (\<lambda>_.
     seq (attempt '' Test 1 failed: '' test1) (\<lambda>r1.
     seq (attempt '' Test 2 failed: '' test2) (\<lambda>r2.
     seq (attempt '' Test 3 failed: '' test3) (\<lambda>r3.
     seq (attempt '' Test 4 failed: '' test4) (\<lambda>r4.
     seq (log_to_page (str_lit ''========================================'') ''info'') (\<lambda>_.
     seq (if r1 \<and> r2 \<and> r3 \<and> r4 then
            seq (log_to_page (icon [0x1F389] '' All tests passed!'') ''success'') (\<lambda>_.
            set_status (icon [0x2705] '' All tests passed!'') ''success'')
          else
            seq (log_to_page (icon [0x26A0, 0xFE0F] '' Some tests failed'') ''error'') (\<lambda>_.
            set_status (icon [0x274C] '' Some tests failed'') ''error'')) (\<lambda>_.
     log_to_page (str_lit ''========================================'') ''info''))))))))))"

section \<open>Actors that only work\<close>

definition working_event :: "'m fn_event \<Rightarrow> bool" where
  "working_event ev \<longleftrightarrow> ev \<in> {TakeMsg, SendOn, Recv}"

text \<open>An actor with a task that has been sent \<open>ms\<close>, before anything has gone wrong.\<close>

definition at_work :: "'m list \<Rightarrow> 'm fn_cell \<Rightarrow> bool" where
  "at_work ms c \<longleftrightarrow> fn_kind c = LocalFn \<and> has_task c \<and> (let st = fn_state c in
     fn_status st = Running \<and> \<not> fn_returned st \<and> \<not> stop_asked st \<and> taken st @ under_way st = ms)"

text \<open>Nothing of it can go on by itself.\<close>

definition settled :: "actor_id \<Rightarrow> 'm fn_family \<Rightarrow> bool" where
  "settled a w \<longleftrightarrow> (\<forall>ev. working_event ev \<longrightarrow> family_step a ev w = None)"

lemma at_work_step:
  assumes "at_work ms c" and "cell_step ev c = Some c'" and "working_event ev" and "length ms \<le> max_channel_size"
  shows "at_work ms c'"
proof -
  have "length (chan (fn_state c)) < max_channel_size + 1"
    using assms(1,4) by (auto simp: at_work_def Let_def under_way_def)
  then show ?thesis
    using assms
    by (auto simp: at_work_def Let_def under_way_def cell_step_def working_event_def fn_step_def fn_task_def send_on_def try_send_def
        thread_local_handle_def split: if_splits list.splits option.splits)
qed

lemma at_work_stuck:
  assumes "at_work ms c" and "\<And>ev. working_event ev \<Longrightarrow> cell_step ev c = None" and "length ms \<le> max_channel_size"
  shows "taken (fn_state c) = ms"
proof -
  let ?st = "fn_state c"
  have r: "length (chan ?st) < max_channel_size + 1" using assms(1,3) by (auto simp: at_work_def Let_def under_way_def)
  note d = at_work_def Let_def cell_step_def working_event_def fn_step_def fn_task_def send_on_def try_send_def
  have "chan ?st = []" using assms(1) assms(2)[of Recv] by (auto simp: d split: list.splits)
  moreover have "in_hand ?st = None"
    using assms(1) assms(2)[of SendOn] r by (auto simp: d thread_local_handle_def split: option.splits)
  moreover have "inbox ?st = []"
    using assms(1) assms(2)[of TakeMsg] calculation by (auto simp: d split: list.splits)
  ultimately show ?thesis using assms(1) by (simp add: at_work_def Let_def under_way_def)
qed

section \<open>A family of them\<close>

definition family_at_work :: "actor_id \<Rightarrow> 'm list \<Rightarrow> 'm fn_family \<Rightarrow> bool" where
  "family_at_work a ms w \<longleftrightarrow> (\<exists>c. hm_get w a = Some c \<and> at_work ms c)"

lemma settled_iff: "hm_get w a = Some c \<Longrightarrow> settled a w \<longleftrightarrow> (\<forall>ev. working_event ev \<longrightarrow> cell_step ev c = None)"
  by (simp add: settled_def family_step_def)

lemma does_at_work:
  assumes "family_at_work a ms w" and "list_all (\<lambda>(b, ev). working_event ev) evs" and "length ms \<le> max_channel_size"
  shows "family_at_work a ms (family_does evs w)"
  using assms(1,2)
proof (induction evs arbitrary: w)
  case (Cons e evs)
  obtain b ev where e: "e = (b, ev)" by (cases e)
  show ?case
  proof (cases "family_step b ev w")
    case None
    then show ?thesis using Cons by (simp add: e)
  next
    case (Some w')
    from family_step_get[OF Some] obtain c c' where c: "hm_get w b = Some c" "cell_step ev c = Some c'"
      "\<And>x. hm_get w' x = (if x = b then Some c' else hm_get w x)" by blast
    have "family_at_work a ms w'"
      using Cons.prems c at_work_step[OF _ c(2) _ assms(3)] by (auto simp: family_at_work_def e)
    then show ?thesis using Cons Some by (simp add: e)
  qed
qed simp

lemma received_prefix: "family_at_work a ms w \<Longrightarrow> prefix (received a w) ms"
  by (auto simp: family_at_work_def at_work_def received_def Let_def)

lemma settled_received:
  assumes "family_at_work a ms w" and "length ms \<le> max_channel_size"
  shows "settled a w \<longleftrightarrow> received a w = ms"
proof -
  obtain c where c: "hm_get w a = Some c" "at_work ms c" using assms(1) by (auto simp: family_at_work_def)
  have "cell_step ev c = None" if "taken (fn_state c) = ms" "working_event ev" for ev
  proof -
    have "under_way (fn_state c) = []" using c(2) that(1) by (simp add: at_work_def Let_def)
    then show ?thesis using c(2) that(2)
      by (auto simp: at_work_def Let_def under_way_def cell_step_def working_event_def fn_step_def fn_task_def send_on_def split: option.splits)
  qed
  then show ?thesis
    using at_work_stuck[OF c(2) _ assms(2)] by (auto simp: settled_iff[OF c(1)] received_def c(1))
qed

lemma short: "length ms \<le> 1000 \<Longrightarrow> length ms \<le> max_channel_size"
  by (simp add: max_channel_size_def)

lemma started_get: "hm_get (snd (local_start_fn (Ok a) w)) b = (if b = a then Some (new_cell LocalFn True None) else hm_get w b)"
  by (simp add: local_start_fn_def local_start_def spawn_cell_simps seq_def spawn_task_new hm_get_insert)

lemma new_at_work: "at_work [] (new_cell LocalFn True None)"
  by (simp add: at_work_def new_cell_def fn_start_def under_way_def)

lemma started: "family_at_work a [] (snd (local_start_fn (Ok a) w))"
  by (simp add: family_at_work_def started_get new_at_work)

lemma start_one_Ok: "start_one what (ROk a) w = Ok (a, snd (local_start_fn (Ok a) w))"
  by (simp add: start_one_def)

lemma send_at_work:
  assumes "family_at_work a ms w"
  shows "takes_messages a w" "family_at_work a (ms @ [m]) (family_does [(a, SendMsg m)] w)"
    "b \<noteq> a \<Longrightarrow> hm_get (family_does [(a, SendMsg m)] w) b = hm_get w b"
proof -
  obtain c where c: "hm_get w a = Some c" "at_work ms c" using assms by (auto simp: family_at_work_def)
  then show "takes_messages a w" by (simp add: takes_messages_def at_work_def Let_def)
  obtain c' where s: "cell_step (SendMsg m) c = Some c'" "at_work (ms @ [m]) c'"
    using c(2) by (auto simp: cell_step_def fn_step_def at_work_def Let_def under_way_def split: fn_kind.split option.splits)
  then obtain w' where w': "family_step a (SendMsg m) w = Some w'" using c(1) by (simp add: family_step_def)
  from family_step_get[OF w'] c(1) s(1) have g: "hm_get w' x = (if x = a then Some c' else hm_get w x)" for x by auto
  show "family_at_work a (ms @ [m]) (family_does [(a, SendMsg m)] w)" using s(2) g by (simp add: w' family_at_work_def)
  show "b \<noteq> a \<Longrightarrow> hm_get (family_does [(a, SendMsg m)] w) b = hm_get w b" using g by (simp add: w')
qed

lemma sends_at_work:
  "family_at_work a ms w \<Longrightarrow>
   \<exists>w'. sends a ns w = Some w' \<and> family_at_work a (ms @ ns) w' \<and> (\<forall>b. b \<noteq> a \<longrightarrow> hm_get w' b = hm_get w b)"
proof (induction ns arbitrary: ms w)
  case (Cons n ns)
  let ?w = "family_does [(a, SendMsg n)] w"
  note s = send_at_work[OF Cons.prems]
  from Cons.IH[OF s(2)[of n]] obtain w' where "sends a ns ?w = Some w'" "family_at_work a (ms @ n # ns) w'"
    "\<forall>b. b \<noteq> a \<longrightarrow> hm_get w' b = hm_get ?w b" by auto
  then show ?case using s(1) s(3)[of _ n] by auto
qed simp

text \<open>One actor that is sent \<open>ns\<close>, at the end of the wait.\<close>

definition outcome_of :: "actor_id \<Rightarrow> 'm list \<Rightarrow> (actor_id \<times> 'm fn_event) list \<Rightarrow> 'm fn_family" where
  "outcome_of a ns schedule = family_does schedule (the (sends a ns (snd (local_start_fn (Ok a) []))))"

lemma one_actor:
  assumes "list_all (\<lambda>(b, ev). working_event ev) schedule" and "length ns \<le> 1000"
  shows "\<exists>w. sends a ns (snd (local_start_fn (Ok a) [])) = Some w \<and> family_does schedule w = outcome_of a ns schedule"
    and "family_at_work a ns (outcome_of a ns schedule)"
proof -
  obtain w where w: "sends a ns (snd (local_start_fn (Ok a) [])) = Some w" "family_at_work a ns w"
    using sends_at_work[of a "[]" "snd (local_start_fn (Ok a) [])" ns] started[of a "[]"] by auto
  then show "\<exists>w. sends a ns (snd (local_start_fn (Ok a) [])) = Some w \<and> family_does schedule w = outcome_of a ns schedule"
    "family_at_work a ns (outcome_of a ns schedule)"
    using does_at_work[OF w(2) assms(1) short[OF assms(2)]] by (simp_all add: outcome_of_def)
qed

lemma prefix_whole: "prefix xs ys \<Longrightarrow> xs = ys \<longleftrightarrow> length xs = length ys"
  by (auto simp: prefix_def)

text \<open>The two of the second test.\<close>

definition outcome_two :: "actor_id \<Rightarrow> actor_id \<Rightarrow> (actor_id \<times> 32 word fn_event) list \<Rightarrow> 32 word fn_family" where
  "outcome_two a b schedule = (let w = snd (local_start_fn (Ok b) (snd (local_start_fn (Ok a) []))) in
     family_does schedule (the (Option.bind (sends a [10, 20] w) (sends b [5, 15]))))"

lemma two_actors:
  assumes "a \<noteq> b" and "list_all (\<lambda>(b, ev). working_event ev) schedule"
  defines "w0 \<equiv> snd (local_start_fn (Ok b) (snd (local_start_fn (Ok a) [])))"
  shows "\<exists>w. Option.bind (sends a [10, 20] w0) (sends b [5, 15]) = Some w \<and> family_does schedule w = outcome_two a b schedule"
    and "family_at_work a [10, 20] (outcome_two a b schedule)" and "family_at_work b [5, 15] (outcome_two a b schedule)"
proof -
  have "family_at_work a [] w0" "family_at_work b [] w0"
    using assms(1) by (simp_all add: w0_def family_at_work_def started_get new_at_work)
  from sends_at_work[OF this(1), of "[10, 20]"] this(2) assms(1) obtain w1 where w1: "sends a [10, 20] w0 = Some w1"
    "family_at_work a [10, 20] w1" "family_at_work b [] w1" by (auto simp: family_at_work_def)
  from sends_at_work[OF w1(3), of "[5, 15]"] w1(2) assms(1) obtain w2 where w2: "sends b [5, 15] w1 = Some w2"
    "family_at_work b [5, 15] w2" "family_at_work a [10, 20] w2" by (auto simp: family_at_work_def)
  have o: "outcome_two a b schedule = family_does schedule w2" using w1(1) w2(1) by (simp add: outcome_two_def w0_def[symmetric])
  show "\<exists>w. Option.bind (sends a [10, 20] w0) (sends b [5, 15]) = Some w \<and> family_does schedule w = outcome_two a b schedule"
    using w1(1) w2(1) o by simp
  show "family_at_work a [10, 20] (outcome_two a b schedule)" "family_at_work b [5, 15] (outcome_two a b schedule)"
    unfolding o by (rule does_at_work[OF _ assms(2) short]; simp add: w2)+
qed

end
