(* ===== verification/Wasm_Tests_Props.thy ===== *)
theory Wasm_Tests_Props
  imports Wasm_Tests
begin

text \<open>What the tests of the WebAssembly page come to, whatever order the actors work in.\<close>

section \<open>One test\<close>

text \<open>On the main page the test \<open>t\<close> ends with \<open>r\<close>, having written to the log only.\<close>

definition ends_with :: "unit app_eff \<Rightarrow> unit outcome \<Rightarrow> bool" where
  "ends_with t r \<longleftrightarrow> (\<forall>w p. the_body w = MainBody p \<longrightarrow> (\<exists>q. t w = (r, w\<lparr>the_body := MainBody q\<rparr>)))"

lemma log_page: "the_body w = MainBody p \<Longrightarrow> log_to_page m c w = (Ok (), w\<lparr>the_body := MainBody (p\<lparr>test_log := test_log p @ [(m, c)]\<rparr>)\<rparr>)"
  by (simp add: log_to_page_def on_main_page_def)

lemma status_page: "the_body w = MainBody p \<Longrightarrow> set_status m c w = (Ok (), w\<lparr>the_body := MainBody (p\<lparr>test_status := (m, c)\<rparr>)\<rparr>)"
  by (simp add: set_status_def on_main_page_def)

lemma ends_log: "ends_with (log_to_page m c) (Ok ())"
  by (auto simp: ends_with_def log_page)

lemma ends_throw: "ends_with (throw e) (Err e)"
  unfolding ends_with_def throw_apply by (metis wasm_app.surjective wasm_app.update_convs(1))

lemma ends_after_log: "ends_with t r \<Longrightarrow> ends_with (seq (log_to_page m c) (\<lambda>_. t)) r"
  unfolding ends_with_def
proof (intro allI impI)
  fix w :: wasm_app and p assume t: "\<forall>w p. the_body w = MainBody p \<longrightarrow> (\<exists>q. t w = (r, w\<lparr>the_body := MainBody q\<rparr>))" and w: "the_body w = MainBody p"
  let ?w = "w\<lparr>the_body := MainBody (p\<lparr>test_log := test_log p @ [(m, c)]\<rparr>)\<rparr>"
  have "the_body ?w = MainBody (p\<lparr>test_log := test_log p @ [(m, c)]\<rparr>)" by simp
  with t obtain q where "t ?w = (r, ?w\<lparr>the_body := MainBody q\<rparr>)" by blast
  then show "\<exists>q. seq (log_to_page m c) (\<lambda>_. t) w = (r, w\<lparr>the_body := MainBody q\<rparr>)" by (simp add: seq_def log_page[OF w]) (rule exI, rule refl)
qed

lemma sum_prefix:
  "prefix xs [10, 20 :: 32 word] \<Longrightarrow> sum_list xs = 30 \<longleftrightarrow> xs = [10, 20]"
  "prefix xs [5, 15 :: 32 word] \<Longrightarrow> sum_list xs = 20 \<longleftrightarrow> xs = [5, 15]"
  by (auto simp: prefix_Cons)

definition basic_messages :: "32 word list" where
  "basic_messages = [42, 100, 999]"

definition string_messages :: "rstring list" where
  "string_messages = [str_lit ''Hello'', str_lit ''WASM'', str_lit ''World'']"

definition many_messages :: "32 word list" where
  "many_messages = map word_of_nat [0..<1000]"

lemma message_counts: "length basic_messages = 3" "length string_messages = 3" "length many_messages = 1000"
  by (simp_all add: basic_messages_def string_messages_def many_messages_def)

text \<open>The verdict of a test with one actor: all messages, or how many have come so far.\<close>

definition verdict :: "string \<Rightarrow> actor_id \<Rightarrow> 'm fn_family \<Rightarrow> unit outcome" where
  "verdict what a w = (if settled a w then Ok () else Err (expected_got what (length (received a w))))"

lemma one_verdict:
  assumes "list_all (\<lambda>(b, ev). working_event ev) schedule" and "length ns \<le> 1000"
  shows "settled a (outcome_of a ns schedule) \<longleftrightarrow> received a (outcome_of a ns schedule) = ns"
    and "received a (outcome_of a ns schedule) = ns \<longleftrightarrow> length (received a (outcome_of a ns schedule)) = length ns"
  using settled_received[OF one_actor(2)[OF assms] short[OF assms(2)]]
    prefix_whole[OF received_prefix[OF one_actor(2)[OF assms]]] by auto

lemma basic_ends:
  assumes "list_all (\<lambda>(b, ev). working_event ev) schedule"
  shows "ends_with (test_basic_message_passing shown (ROk a) schedule)
    (verdict ''Expected 3 messages, got '' a (outcome_of a basic_messages schedule))"
proof -
  have l: "length basic_messages \<le> 1000" by (simp add: message_counts)
  obtain w where w: "sends a basic_messages (snd (local_start_fn (Ok a) [])) = Some w" "family_does schedule w = outcome_of a basic_messages schedule"
    using one_actor(1)[OF assms l] by blast
  note v = one_verdict[OF assms l, of a, unfolded message_counts]
  show ?thesis
    unfolding test_basic_message_passing_def start_one_Ok seq_lift_simps prod.case w(1)[unfolded basic_messages_def] option.case Let_def w(2)
    by (rule ends_after_log, cases "settled a (outcome_of a basic_messages schedule)")
      (use v in \<open>auto simp: verdict_def basic_messages_def ends_log ends_throw\<close>)
qed

lemma string_ends:
  assumes "list_all (\<lambda>(b, ev). working_event ev) schedule"
  shows "ends_with (test_string_messages shown (ROk a) schedule)
    (verdict ''Expected 3 results, got '' a (outcome_of a string_messages schedule))"
proof -
  have l: "length string_messages \<le> 1000" by (simp add: message_counts)
  obtain w where w: "sends a string_messages (snd (local_start_fn (Ok a) [])) = Some w" "family_does schedule w = outcome_of a string_messages schedule"
    using one_actor(1)[OF assms l] by blast
  note v = one_verdict[OF assms l, of a, unfolded message_counts]
  show ?thesis
    unfolding test_string_messages_def start_one_Ok seq_lift_simps prod.case w(1)[unfolded string_messages_def] option.case Let_def w(2)
    by (rule ends_after_log, cases "settled a (outcome_of a string_messages schedule)")
      (use v in \<open>auto simp: verdict_def string_messages_def ends_log ends_throw\<close>)
qed

lemma many_ends:
  assumes "list_all (\<lambda>(b, ev). working_event ev) schedule"
  shows "ends_with (test_high_throughput (ROk a) schedule)
    (verdict ''Expected 1000 messages, got '' a (outcome_of a many_messages schedule))"
proof -
  have l: "length many_messages \<le> 1000" by (simp add: message_counts)
  obtain w where w: "sends a many_messages (snd (local_start_fn (Ok a) [])) = Some w" "family_does schedule w = outcome_of a many_messages schedule"
    using one_actor(1)[OF assms l] by blast
  note v = one_verdict[OF assms l, of a, unfolded message_counts]
  show ?thesis
    unfolding test_high_throughput_def start_one_Ok seq_lift_simps prod.case w(1)[unfolded many_messages_def] option.case Let_def w(2)
    by (rule ends_after_log, cases "settled a (outcome_of a many_messages schedule)")
      (use v in \<open>auto simp: verdict_def ends_log ends_throw\<close>)
qed

definition verdict_two :: "actor_id \<Rightarrow> actor_id \<Rightarrow> 32 word fn_family \<Rightarrow> unit outcome" where
  "verdict_two a b w =
     (if \<not> settled a w then Err (expected_got ''Actor1 counter expected 30, got '' (unat (sum_list (received a w))))
      else if \<not> settled b w then Err (expected_got ''Actor2 counter expected 20, got '' (unat (sum_list (received b w))))
      else Ok ())"

lemma multiple_ends:
  assumes "list_all (\<lambda>(b, ev). working_event ev) schedule" and "a \<noteq> b"
  shows "ends_with (test_multiple_actors (ROk a) (ROk b) schedule) (verdict_two a b (outcome_two a b schedule))"
proof -
  note two = two_actors[OF assms(2,1)]
  obtain w where w: "Option.bind (sends a [10, 20] (snd (local_start_fn (Ok b) (snd (local_start_fn (Ok a) []))))) (sends b [5, 15]) = Some w"
    "family_does schedule w = outcome_two a b schedule" using two(1) by blast
  have "settled a (outcome_two a b schedule) \<longleftrightarrow> sum_list (received a (outcome_two a b schedule)) = 30"
    "settled b (outcome_two a b schedule) \<longleftrightarrow> sum_list (received b (outcome_two a b schedule)) = 20"
    using settled_received[OF two(2) short] settled_received[OF two(3) short] sum_prefix(1)[OF received_prefix[OF two(2)]]
      sum_prefix(2)[OF received_prefix[OF two(3)]] by simp_all
  then show ?thesis
    unfolding test_multiple_actors_def start_one_Ok seq_lift_simps prod.case w(1) option.case Let_def w(2)
    by (intro ends_after_log) (simp add: verdict_two_def ends_log ends_throw)
qed

section \<open>All of them\<close>

lemma attempt_ends:
  assumes "ends_with t r" and "\<And>p. r \<noteq> Panic p" and "the_body w = MainBody q"
  shows "\<exists>q. attempt what t w = (Ok (is_ok r), w\<lparr>the_body := MainBody q\<rparr>)"
proof -
  obtain q where q: "t w = (r, w\<lparr>the_body := MainBody q\<rparr>)" using assms(1,3) by (auto simp: ends_with_def)
  then show ?thesis using assms(2) by (cases r) (auto simp: attempt_def seq_def log_to_page_def on_main_page_def)
qed

lemma verdicts_no_panic: "verdict what a w \<noteq> Panic p" "verdict_two a b w' \<noteq> Panic p"
  by (simp_all add: verdict_def verdict_two_def)

lemma verdicts_ok: "is_ok (verdict what a w) \<longleftrightarrow> settled a w" "is_ok (verdict_two a b w') \<longleftrightarrow> settled a w' \<and> settled b w'"
  by (simp_all add: verdict_def verdict_two_def)

lemma run_all_ends:
  assumes "ends_with t1 r1" "ends_with t2 r2" "ends_with t3 r3" "ends_with t4 r4"
    and "\<And>p. r1 \<noteq> Panic p" "\<And>p. r2 \<noteq> Panic p" "\<And>p. r3 \<noteq> Panic p" "\<And>p. r4 \<noteq> Panic p"
    and "the_body w = MainBody p"
  shows "\<exists>q. run_all_tests t1 t2 t3 t4 w = (Ok (), w\<lparr>the_body := MainBody q\<rparr>) \<and>
    test_status q = (if is_ok r1 \<and> is_ok r2 \<and> is_ok r3 \<and> is_ok r4 then (icon [0x2705] '' All tests passed!'', ''success'')
      else (icon [0x274C] '' Some tests failed'', ''error''))"
proof -
  let ?line = "(str_lit ''========================================'', ''info'')"
  define p0 where "p0 = p\<lparr>test_log := test_log p @ [?line, (icon [0x1F680] '' Starting WASM Thread-Local Actor Tests'', ''info''), ?line],
    test_status := (icon [0x23F3] '' Running tests...'', ''running'')\<rparr>"
  define w0 where "w0 = w\<lparr>the_body := MainBody p0\<rparr>"
  have w0: "the_body w0 = MainBody p0" by (simp add: w0_def)
  obtain q1 where a1: "attempt '' Test 1 failed: '' t1 w0 = (Ok (is_ok r1), w0\<lparr>the_body := MainBody q1\<rparr>)"
    using attempt_ends[OF assms(1,5) w0] by blast
  have w1: "the_body (w0\<lparr>the_body := MainBody q1\<rparr>) = MainBody q1" by simp
  obtain q2 where a2: "attempt '' Test 2 failed: '' t2 (w0\<lparr>the_body := MainBody q1\<rparr>) = (Ok (is_ok r2), w0\<lparr>the_body := MainBody q2\<rparr>)"
    using attempt_ends[OF assms(2,6) w1] by auto
  have w2: "the_body (w0\<lparr>the_body := MainBody q2\<rparr>) = MainBody q2" by simp
  obtain q3 where a3: "attempt '' Test 3 failed: '' t3 (w0\<lparr>the_body := MainBody q2\<rparr>) = (Ok (is_ok r3), w0\<lparr>the_body := MainBody q3\<rparr>)"
    using attempt_ends[OF assms(3,7) w2] by auto
  have w3: "the_body (w0\<lparr>the_body := MainBody q3\<rparr>) = MainBody q3" by simp
  obtain q4 where a4: "attempt '' Test 4 failed: '' t4 (w0\<lparr>the_body := MainBody q3\<rparr>) = (Ok (is_ok r4), w0\<lparr>the_body := MainBody q4\<rparr>)"
    using attempt_ends[OF assms(4,8) w3] by auto
  have "run_all_tests t1 t2 t3 t4 w = seq (attempt '' Test 1 failed: '' t1) (\<lambda>r1.
     seq (attempt '' Test 2 failed: '' t2) (\<lambda>r2. seq (attempt '' Test 3 failed: '' t3) (\<lambda>r3. seq (attempt '' Test 4 failed: '' t4) (\<lambda>r4.
     seq (log_to_page (fst ?line) ''info'') (\<lambda>_.
     seq (if r1 \<and> r2 \<and> r3 \<and> r4 then
            seq (log_to_page (icon [0x1F389] '' All tests passed!'') ''success'') (\<lambda>_. set_status (icon [0x2705] '' All tests passed!'') ''success'')
          else seq (log_to_page (icon [0x26A0, 0xFE0F] '' Some tests failed'') ''error'') (\<lambda>_. set_status (icon [0x274C] '' Some tests failed'') ''error'')) (\<lambda>_.
     log_to_page (fst ?line) ''info'')))))) w0"
    using assms(9) by (simp add: run_all_tests_def seq_def log_page status_page p0_def w0_def)
  then show ?thesis by (simp add: seq_def a1 a2 a3 a4 log_page status_page) (auto simp: w0_def)
qed

text \<open>
  The tests of the WebAssembly page. However the actors, their channels and their functions take turns, each test
  passes exactly if its actors have nothing left to do when its wait is over; if not, it reports how much had
  come, never messages out of order; and the page shows that all tests passed exactly if they did.
\<close>

theorem wasm_tests_verdict:
  assumes "list_all (\<lambda>(b, ev). working_event ev) s1" and "list_all (\<lambda>(b, ev). working_event ev) s2"
    and "list_all (\<lambda>(b, ev). working_event ev) s3" and "list_all (\<lambda>(b, ev). working_event ev) s4"
    and "a \<noteq> b" and "the_body w = MainBody p"
  shows "fst (test_basic_message_passing shown (ROk a) s1 w) = verdict ''Expected 3 messages, got '' a (outcome_of a basic_messages s1) \<and>
    fst (test_multiple_actors (ROk a) (ROk b) s2 w) = verdict_two a b (outcome_two a b s2) \<and>
    fst (test_string_messages shown' (ROk a) s3 w) = verdict ''Expected 3 results, got '' a (outcome_of a string_messages s3) \<and>
    fst (test_high_throughput (ROk a) s4 w) = verdict ''Expected 1000 messages, got '' a (outcome_of a many_messages s4) \<and>
    (\<exists>q. run_all_tests (test_basic_message_passing shown (ROk a) s1) (test_multiple_actors (ROk a) (ROk b) s2)
        (test_string_messages shown' (ROk a) s3) (test_high_throughput (ROk a) s4) w = (Ok (), w\<lparr>the_body := MainBody q\<rparr>) \<and>
      test_status q = (if settled a (outcome_of a basic_messages s1) \<and> (settled a (outcome_two a b s2) \<and> settled b (outcome_two a b s2)) \<and>
          settled a (outcome_of a string_messages s3) \<and> settled a (outcome_of a many_messages s4)
        then (icon [0x2705] '' All tests passed!'', ''success'') else (icon [0x274C] '' Some tests failed'', ''error'')))"
proof -
  note e = basic_ends[OF assms(1), of shown a] multiple_ends[OF assms(2,5)] string_ends[OF assms(3), of shown' a] many_ends[OF assms(4), of a]
  have f: "fst (t w) = r" if "ends_with t r" for t r using that assms(6) by (auto simp: ends_with_def)
  from run_all_ends[OF e verdicts_no_panic(1) verdicts_no_panic(2) verdicts_no_panic(1) verdicts_no_panic(1) assms(6), unfolded verdicts_ok]
  show ?thesis using f[OF e(1)] f[OF e(2)] f[OF e(3)] f[OF e(4)] by blast
qed

text \<open>An actor that gets around to its three messages, and tests that are not given the time.\<close>

definition three_rounds :: "actor_id \<Rightarrow> (actor_id \<times> 'm fn_event) list" where
  "three_rounds a = [(a, TakeMsg), (a, SendOn), (a, TakeMsg), (a, SendOn), (a, Recv), (a, Recv), (a, TakeMsg), (a, SendOn), (a, Recv)]"

theorem wasm_tests_verdict_witness:
  "fst (test_basic_message_passing (\<lambda>_. []) (ROk 7) (three_rounds 7) app_start) = Ok () \<and>
   (\<exists>q. run_all_tests (test_basic_message_passing (\<lambda>_. []) (ROk 7) (three_rounds 7)) (test_multiple_actors (ROk 7) (ROk 8) [])
      (test_string_messages (\<lambda>_. []) (ROk 7) []) (test_high_throughput (ROk 7) []) app_start = (Ok (), app_start\<lparr>the_body := MainBody q\<rparr>) \<and>
    test_status q = (icon [0x274C] '' Some tests failed'', ''error''))"
proof -
  have e: "list_all (\<lambda>(b, ev). working_event ev) (three_rounds 7 :: (actor_id \<times> 32 word fn_event) list)"
    "list_all (\<lambda>(b, ev). working_event ev) ([] :: (actor_id \<times> 32 word fn_event) list)"
    "list_all (\<lambda>(b, ev). working_event ev) ([] :: (actor_id \<times> rstring fn_event) list)"
    by (simp_all add: three_rounds_def working_event_def)
  have l: "snd (local_start_fn (Ok 7) []) = hm_insert 7 (new_cell LocalFn True None) (hm_insert 7 (new_cell LocalFn False None) [])"
    by (simp add: local_start_fn_def local_start_def spawn_cell_simps seq_def spawn_task_new)
  note run = l new_cell_def fn_start_def takes_messages_def family_step_def notify_def cell_step_def fn_step_def fn_task_def
    hm_get_insert received_def outcome_of_def
  have "received 7 (outcome_of 7 basic_messages (three_rounds 7)) = basic_messages"
    by (simp add: run basic_messages_def three_rounds_def send_on_def try_send_def thread_local_handle_def max_channel_size_def)
  then have a: "settled 7 (outcome_of 7 basic_messages (three_rounds 7))"
    using one_verdict(1)[OF e(1), of basic_messages 7] by (simp add: message_counts)
  have "received 7 (outcome_of 7 string_messages []) = []" by (simp add: run string_messages_def)
  then have b: "\<not> settled 7 (outcome_of 7 string_messages [])"
    using one_verdict(1)[OF e(3), of string_messages 7] by (simp add: message_counts string_messages_def)
  have m: "\<exists>p. the_body app_start = MainBody p" by (simp add: app_start_def)
  then obtain p where p: "the_body app_start = MainBody p" by blast
  have n: "(7 :: actor_id) \<noteq> 8" by simp
  from wasm_tests_verdict[OF e(1) e(2) e(3) e(2) n p, of "\<lambda>_. []" "\<lambda>_. []"] show ?thesis
    using a b by (simp add: verdict_def)
qed

end
