(* ===== verification/Spec2Isabelle.thy ===== *)
theory Spec2Isabelle
  imports Nexus_Props Serial_Props Framing Util_Props Derive_Types Chat_Client_Props Chat_Join_Props
    Establish_Props Http_Props Ffi_Props Gen_Deps_Props Derive_Tests Sample_App_Props Host_Props
    Bluetooth_Props Wasm_Tests_Props
begin

text \<open>
  A model of ractor-wormhole, a library that lets the actors of one process hold references
  to actors of another one and send typed messages to them, of the chat application
  built on it, and of the bindings that offer it to foreign languages. Paths are relative to \<open>src/ractor_wormhole/src/\<close> where nothing else is said.

  \<^bold>\<open>The program.\<close> Every connection is a pair of byte streams, the conduit
  (\<open>conduit/\<close>), over a unix socket, an SSH channel or a WebSocket. At each end stands a
  portal actor (\<open>portal.rs\<close>): it exchanges a JSON handshake with its peer, from which
  both compute the id of the channel, and then cross-portal messages encoded by bincode. It
  publishes local actors under opaque ids, looks names up for its peer, delivers messages to
  published actors, and tells the peer when one exits. The nexus (\<open>nexus.rs\<close>) spawns the
  portals of a process and holds the names published to all of them. A message is turned into
  bytes by its type's implementation of \<open>ContextTransmaterializable\<close>
  (\<open>transmaterialization/\<close>, or the derive macro in \<open>ractor_wormhole_derive\<close>); an
  \<open>ActorRef\<close> or a reply port inside it is published on the sender's portal and becomes a
  proxy on the receiver's. The utilities (\<open>util/\<close>) are actors made of functions, the
  combinators that stand before an actor, and \<open>ask\<close>. In the chat the server publishes a hub on
  every portal its nexus announces; a client, at a terminal or in a browser, asks its portal
  for the hub and the hub for an alias and a server to post to, and the server sends every
  post to all clients. The bindings (\<open>uniffi_test/rust_project\<close>) wrap the runtime, connections
  over a transport of the foreign program, actors and reply ports.

  \<^bold>\<open>Theories and code.\<close>
  \<^item> \<open>Prelude\<close>: results, errors and panics (\<open>outcome\<close>), code that also acts on a world
    (\<open>eff\<close>, \<open>seq\<close>, \<open>wp\<close>, \<open>keeps\<close>), platforms with their pointer width and
    overflow checks, little-endian bytes, UTF-8, hash maps.
  \<^item> \<open>Transmat_Util\<close>, \<open>Transmat_Contract\<close>, \<open>Transmat_Default\<close>, \<open>Transmat_Tuple\<close>,
    \<open>Transmat_Default_Correct\<close>: \<open>transmaterialization/util.rs\<close>,
    \<open>default_implementations.rs\<close>, \<open>default_impl_tupl.rs\<close>. The locales \<open>transmat\<close>
    and \<open>layout\<close> are the contract of the trait.
  \<^item> \<open>Derive\<close>, \<open>Derive_Correct\<close>: \<open>derive_wormhole_serializable.rs\<close>; the locale
    \<open>derive_table\<close> is what the emitted code asks of the field types.
  \<^item> \<open>Derive_Example\<close>, \<open>Derive_Tests\<close>: the examples at the head of that file, against what the macro
    emits, and \<open>derive_tests.rs\<close> and \<open>derive_error_tests.rs\<close> of \<open>ractor_wormhole_tests/src\<close>.
  \<^item> \<open>Wire\<close>, \<open>Portal\<close>, \<open>Portal_Inv\<close>, \<open>Portal_Correct\<close>, \<open>Link\<close>: the messages
    between portals, the portal actor (one definition for each arm of \<open>handle\<close>), its
    invariant, what each arm does, and two portals joined by a conduit.
  \<^item> \<open>Conduit\<close>, \<open>Framing\<close>, \<open>Websocket\<close>: the receive loop, the frames of the unix
    socket and of SSH (locale \<open>framing\<close>), and the three WebSocket transports.
  \<^item> \<open>Context\<close>, \<open>Context_Correct\<close>: \<open>transmaterialization/mod.rs\<close>,
    \<open>rpc_proxy.rs\<close> and the interface \<open>Portal\<close>; references through a portal.
  \<^item> \<open>Nexus\<close>: \<open>nexus.rs\<close>. \<open>Host\<close>: a nexus together with its portals, and
    \<open>ractor_wormhole_tests/src/portal_isolation.rs\<close>.
  \<^item> \<open>Fn_Actor\<close>, \<open>Fn_Family\<close>, \<open>Combinators\<close>: \<open>util/function_actor.rs\<close>,
    \<open>util/thread_local_function_actor.rs\<close>, \<open>util/combinators/\<close>.
  \<^item> \<open>Establish\<close>: how the transports connect and accept (\<open>connect_to_server\<close>,
    \<open>start_server\<close>, \<open>connect_via_ssh_to_\<dots>\<close>), up to the portal the nexus answers with.
  \<^item> \<open>Alias_Gen\<close>, \<open>Chat\<close>, \<open>Chat_Room\<close>, \<open>Chat_Protocol\<close>, \<open>Derive_Types\<close>:
    \<open>chat_app/server\<close> and \<open>chat_app/shared\<close>; \<open>Chat_Room\<close> holds the abstract room that the server
    refines, \<open>Derive_Types\<close> what the derived readers make of any bytes.
  \<^item> \<open>Chat_Client\<close>, \<open>Chat_Join\<close>: the terminal's client (\<open>chat_app/client\<close>) and the browser's
    (\<open>chat_app/wasm_client\<close>), and how a client and the server's start-up
    (\<open>chat_app/server/src/lib.rs\<close>) meet.
  \<^item> \<open>Http\<close>: the request handlers of \<open>chat_app/server\<close>, \<open>wasm_server\<close> and \<open>wasmer_server\<close>.
  \<^item> \<open>Ffi\<close>: \<open>uniffi_test/rust_project\<close>.
  \<^item> \<open>Sample_App\<close>: \<open>sample_app/src\<close>.
  \<^item> \<open>Bluetooth\<close>, \<open>Wasm_Tests\<close>: \<open>wasm_test_app/src/bluetooth_page.rs\<close> and \<open>lib.rs\<close>, the two pages of the
    test application for the browser.
  \<^item> \<open>Utext\<close>, \<open>Decimal\<close>: texts as code points with their UTF-8, and numbers as text.
  \<^item> \<open>Gen_Deps\<close>: \<open>derive_generate_deps.rs\<close>.
  \<^item> \<open>Sample_Codec\<close>: a codec that meets the laws asked of bincode and serde_json.
  \<^item> \<open>Serial_Props\<close>, \<open>Portal_Props\<close>, \<open>Nexus_Props\<close>, \<open>Util_Props\<close>,
    \<open>Chat_Props\<close>, \<open>Chat_Client_Props\<close>, \<open>Chat_Join_Props\<close>, \<open>Establish_Props\<close>,
    \<open>Http_Props\<close>, \<open>Ffi_Props\<close>, \<open>Gen_Deps_Props\<close>, \<open>Host_Props\<close>, \<open>Sample_App_Props\<close>,
    \<open>Derive_Tests\<close>, \<open>Bluetooth_Props\<close>, \<open>Wasm_Tests_Props\<close>, the ends of \<open>Framing\<close> and
    \<open>Derive_Types\<close>, and this theory: the properties, each with a concrete instance where it
    has hypotheses.

  \<^bold>\<open>State and effects.\<close> An actor's state is a record with the fields of the source, and
  a handler a function from the state to a result and the new state. What an actor does to its
  surroundings (sending, replying, spawning, stopping) is recorded in order in a field of its
  state; what they answer (is the sink open, does the mailbox take a message) comes from an
  environment, so that every early return by an error is a branch of the model. Runs are
  inductive relations (\<open>portal_reach\<close>, \<open>nexus_reach\<close>, \<open>host_reach\<close>, \<open>bt_reach\<close>, \<open>chat_reach\<close>, \<open>rally_step\<close>) or lists of
  events (\<open>fn_run\<close>, \<open>family_run\<close>, \<open>host_run\<close>, \<open>terminal_run\<close>, \<open>browser_run\<close>, \<open>chat_run\<close>). What the network, an HTTP
  library or a foreign program answers is an argument; how an awaited reply comes out is a
  value of \<open>awaited\<close>.

  \<^bold>\<open>What is shown.\<close> Serialization: every implementation, containers, tuples and derived
  ones included, meets the contract, that is, what is read stands for what was written, in
  whatever worlds the two ends have got to; bounds and errors of the decoders on other bytes.
  Portals: the invariant of the tables, the order of what is sent, agreement of two ends on
  the channel, delivery by name and by reference, replies, exits. Transports: what one end
  writes is what the other end's portal is told. Nexus: its table of portals and the names
  found through it; a portal that fails leaves the others of its nexus as they are. Utilities: function actors keep order and end when their function does;
  the combinators do what the list functions do. Chat: aliases stay different, posts reach
  all clients, and its protocol meets the contract. Dependencies: the macro recovers a
  manifest from its text. Bluetooth page: no call is lost, but actors can get out of reach; its tests pass exactly if
  their actors were given the time.

  \<^bold>\<open>Bounds.\<close> \<open>items n source r\<close> reads at most \<open>n\<close> items of a byte stream; the
  theorems hold for every \<open>n\<close> from the number of messages sent on, as each item is one
  frame. A \<open>writer\<close> has a number of calls that succeed, and four for a frame are enough. The
  values of the UUID generator are a list of distinct new ones; when it is empty, publishing
  fails, so nothing is shown beyond it. The chat server's properties hold for up to 900
  connections, the number of its aliases.

  \<^bold>\<open>Not modelled.\<close> The crates tokio, futures, ractor, bincode, serde_json, rand, uuid,
  tungstenite, ewebsock, russh, hyper, uniffi and venial: where the code depends on what they
  return, they are arguments with their documented behaviour as a hypothesis. Logging,
  command lines, colours and layouts of the user interfaces (ratatui, egui, the DOM), starting
  the sample and the servers from their arguments, and the tests that only run the library end to end. In
  \<open>conduit/ssh/client.rs\<close> the code behind \<open>todo!()\<close> cannot run. The combinators in
  \<open>intermediate\<close> are commented out in the code.
\<close>

section \<open>Properties that span components\<close>

text \<open>
  What a portal says over a unix socket is what the portal at the other end is told. In
  every reachable state of a portal, whatever it has put into its sink, carried as frames
  over the socket and through the receive loop, reaches the other portal's mailbox as one
  handshake, the content messages in order, and one close when the socket ends.
\<close>

theorem portal_over_unix_socket:
  assumes "portal_reach st alive" and "wf_platform P" and "list_all (carried P) (sent (outs st))"
  shows "\<exists>text datas. (told unix_client_sink (unix_server_source P) (sent (outs st)) :: ('rm, 'f) portal_message list) =
      Handshake text # map Content datas @ [Close]"
proof -
  from sent_shape[OF assms(1)] obtain t datas where s: "sent (outs st) = CmHandshake t # map CmContent datas"
    by blast
  have "(told unix_client_sink (unix_server_source P) (sent (outs st)) :: ('rm, 'f) portal_message list) =
      map portal_message_of (sent (outs st)) @ [Close]"
    by (rule told_framing[OF framing_unix_up[OF assms(2)] assms(3)])
  also have "\<dots> = Handshake t # map Content datas @ [Close]" by (simp add: s)
  finally show ?thesis by blast
qed

theorem portal_over_unix_socket_witness:
  "\<exists>text datas. (told unix_client_sink (unix_server_source host64) (sent (outs (sample_start 5 [1]))) :: (nat, nat) portal_message list) =
      Handshake text # map Content datas @ [Close]"
proof -
  have u: "utf8_valid (enc_intro (introduction_of [1] 1 (sample_args 5)))"
    by code_simp
  have "length (enc_intro (introduction_of [1] 1 (sample_args 5))) < 100"
    by code_simp
  with u have "list_all (carried host64) (sent (outs (sample_start 5 [1])))"
    by (simp add: sample_start_def carried_def small_enough_def host64_def isize_max_def)
  from portal_over_unix_socket[where 'rm = nat and 'f = nat, OF sample_start_reach wf_host64 this]
  show ?thesis .
qed

text \<open>
  A typed message arrives as it was meant. When the message type's implementation meets
  the contract, the bytes a proxy's message was immaterialized to are turned, by the
  rematerializer stored with the published actor, into a message that stands for it, and
  that message is sent to exactly that actor; if the actor is gone, the error is returned.
\<close>

theorem typed_message_delivery:
  assumes "transmat P sinv sle tinv tle imm rem good rel" and "sinv s" and "tinv t" and "good m"
    and "imm m s = (Ok bs, s')" and "fits P bs"
  shows "\<exists>w t'. rel s' t' m w \<and>
    msg_rematerialize rem takes a bs t = ((if takes a then Ok (a, w) else Err SendError), t')"
proof -
  from transmat.delivers[OF assms(1,2,4,5,6,3)] obtain w t' where "rem bs t = (Ok w, t')" "rel s' t' m w"
    by (auto simp: wp_iff)
  then show ?thesis by (intro exI[of _ w] exI[of _ t']) (simp add: msg_rematerialize_def seq_def)
qed

theorem typed_message_delivery_witness:
  "\<exists>w t'. w = str_lit ''hi'' \<and>
    msg_rematerialize (rematerialize_string host64) (\<lambda>_. True) 7 (len_u64 (str_lit ''hi'') @ str_lit ''hi'') () = (Ok (7, w), t')"
proof -
  have i: "immaterialize_string (str_lit ''hi'') () = (Ok (len_u64 (str_lit ''hi'') @ str_lit ''hi''), ())"
    by (simp add: immaterialize_string_def)
  have f: "fits host64 (len_u64 (str_lit ''hi'') @ str_lit ''hi'')" by (rule fits_host64) (simp add: str_lit_def)
  have g: "utf8_valid (str_lit ''hi'')" by (simp add: str_lit_def)
  from typed_message_delivery[OF utf8_contract, OF TrueI, OF TrueI, OF g, OF i, OF f, of "\<lambda>_. True" 7 "()"]
  show ?thesis by auto
qed

text \<open>
  C18: The whole way of a message. An actor sends a typed message to the proxy of a remote actor.
  The proxy's portal spawns the task that immaterializes it, the task's bytes become one
  content frame, the frame crosses the unix socket, the other portal hands the bytes to the
  rematerializer stored with the published actor, and that actor receives a message that
  stands for the one sent; nothing else is sent on the way.
\<close>

theorem typed_message_over_socket:
  assumes "transmat P sinv sle tinv tle imm rem good rel" and "sinv s" and "tinv t" and "good m"
    and "imm m s = (Ok bs, s')" and "fits P bs"
    and "working EL" and "working ER" and codec: "cpm_enc ER = cpm_enc EL" "cpm_dec ER = cpm_dec EL"
    and "channel_state L = Open c" and "channel_state R = Open c"
    and "hm_get (published_actors R) k = Some (a, rm)" and "takes a"
    and stored: "run_rm ER rm a bs = and_then (fst (msg_rematerialize rem takes a bs t)) (\<lambda>_. Ok ())"
    and "carried P (CmContent (encoded EL (SendMessage (remote_id_of c R k) bs)))"
  shows "\<exists>L1 L2 R1 b w t'. (let rid = remote_id_of c R k in
    handle EL (ImmaterializeMessage rid f) L = (Ok (), L1) \<and> outs L1 = outs L @ [SpawnImmaterialize rid f] \<and>
    (immaterialize_task rid (fst (imm m s)) :: ('rm, 'f) portal_message list) = [TransmitMessage rid bs] \<and>
    handle EL (TransmitMessage rid bs) L1 = (Ok (), L2) \<and> outs L2 = outs L1 @ [SinkSend (CmContent b)] \<and>
    (told unix_client_sink (unix_server_source P) [CmContent b] :: ('rm, 'f) portal_message list) = [Content b, Close] \<and>
    handle ER (Content b) R = (Ok (), R1) \<and> outs R1 = outs R @ [Rematerialize rm a bs] \<and>
    msg_rematerialize rem takes a bs t = (Ok (a, w), t') \<and> rel s' t' m w)"
proof -
  let ?rid = "remote_id_of c R k"
  let ?b = "encoded EL (SendMessage ?rid bs)"
  from transmat.delivers[OF assms(1,2,4,5,6,3)] obtain w t' where w: "rem bs t = (Ok w, t')" "rel s' t' m w"
    by (auto simp: wp_iff)
  then have d: "msg_rematerialize rem takes a bs t = (Ok (a, w), t')"
    using \<open>takes a\<close> by (simp add: msg_rematerialize_def seq_def)
  define L1 where "L1 = L\<lparr>outs := outs L @ [SpawnImmaterialize ?rid f]\<rparr>"
  define L2 where "L2 = L1\<lparr>outs := outs L1 @ [SinkSend (CmContent ?b)]\<rparr>"
  define R1 where "R1 = R\<lparr>outs := outs R @ [Rematerialize rm a bs]\<rparr>"
  have l1: "handle EL (ImmaterializeMessage ?rid f) L = (Ok (), L1)"
    using assms(11) by (simp add: handle_def handle_immaterialize_message_def emit_def L1_def)
  have l2: "handle EL (TransmitMessage ?rid bs) L1 = (Ok (), L2)"
    using transmit_effect[OF assms(7), of L1 c] assms(11) by (simp add: L1_def L2_def)
  have "encoded ER x = encoded EL x" for x using codec by (simp add: encoded_def)
  then have r: "handle ER (Content ?b) R = (Ok (), R1)"
    using handle_content_working[OF assms(8,12), of "SendMessage ?rid bs"]
      send_message_effect[of R ?rid a rm ER c bs] assms(13) stored d by (simp add: remote_id_of_def R1_def)
  have "list_all (carried P) [CmContent ?b]" using assms(16) by simp
  then have "(told unix_client_sink (unix_server_source P) [CmContent ?b] :: ('rm, 'f) portal_message list) =
      map portal_message_of [CmContent ?b] @ [Close]"
    by (rule told_framing[OF framing_unix_up[OF transmat_world.platform_wf[OF transmat.axioms(1)[OF assms(1)]]]])
  then have s: "(told unix_client_sink (unix_server_source P) [CmContent ?b] :: ('rm, 'f) portal_message list) = [Content ?b, Close]"
    by simp
  show ?thesis
    unfolding Let_def
    by (rule exI[of _ L1], rule exI[of _ L2], rule exI[of _ R1], rule exI[of _ ?b], rule exI[of _ w], rule exI[of _ t'])
      (use l1 l2 r s d w(2) assms(5) in \<open>simp add: L1_def L2_def R1_def immaterialize_task_def\<close>)
qed

text \<open>A string for the actor 7, published on the portal 6; the other portal sends it.\<close>

definition sample_receiver :: "(nat, nat) portal_state" where
  "sample_receiver = (sample_open 6)\<lparr>published_actors := [(OpaqueActorId 21, 7, 0)]\<rparr>"

definition sample_typed_env :: "nat env" where
  "sample_typed_env = (sample_env 9)\<lparr>run_rm := (\<lambda>rm a bs.
     and_then (fst (msg_rematerialize (rematerialize_string host64) (\<lambda>_. True) a bs ())) (\<lambda>_. Ok ()))\<rparr>"

theorem typed_message_over_socket_witness:
  "\<exists>(L1 :: (nat, nat) portal_state) (L2 :: (nat, nat) portal_state) R1 b bs w t'. outs L1 = outs (sample_open 5) @
      [SpawnImmaterialize (remote_id_of (ConduitID 3) sample_receiver (OpaqueActorId 21)) (0 :: nat)] \<and>
    outs L2 = outs L1 @ [SinkSend (CmContent b)] \<and>
    (told unix_client_sink (unix_server_source host64) [CmContent b] :: (nat, nat) portal_message list) = [Content b, Close] \<and>
    handle sample_typed_env (Content b) sample_receiver = (Ok (), R1) \<and>
    msg_rematerialize (rematerialize_string host64) (\<lambda>_. True) 7 bs () = (Ok (7, w), t') \<and>
    rel_eq () t' (str_lit ''hi'') w"
proof -
  let ?bs = "len_u64 (str_lit ''hi'') @ str_lit ''hi''"
  have i: "immaterialize_string (str_lit ''hi'') () = (Ok ?bs, ())" by (simp add: immaterialize_string_def)
  have f: "fits host64 ?bs" by (rule fits_host64) (simp add: str_lit_def)
  have g: "utf8_valid (str_lit ''hi'')" by (simp add: str_lit_def)
  have w: "working (sample_env 8 :: nat env)" "working sample_typed_env"
    using sample_working by (simp_all add: sample_typed_env_def working_def)
  have e: "cpm_enc sample_typed_env = cpm_enc (sample_env 8 :: nat env)" "cpm_dec sample_typed_env = cpm_dec (sample_env 8 :: nat env)"
    by (simp_all add: sample_typed_env_def)
  have o: "channel_state (sample_open 5) = Open (ConduitID 3)" "channel_state sample_receiver = Open (ConduitID 3)"
    "hm_get (published_actors sample_receiver) (OpaqueActorId 21) = Some (7, 0)"
    by (simp_all add: sample_receiver_def sample_open_def sample_start_def hm_get_def)
  have r: "run_rm sample_typed_env 0 7 ?bs =
      and_then (fst (msg_rematerialize (rematerialize_string host64) (\<lambda>_. True) 7 ?bs ())) (\<lambda>_. Ok ())"
    by (simp add: sample_typed_env_def)
  have c: "carried host64 (CmContent (encoded (sample_env 8 :: nat env)
      (SendMessage (remote_id_of (ConduitID 3) sample_receiver (OpaqueActorId 21)) ?bs)))"
    by (simp add: carried_def small_enough_def host64_def isize_max_def encoded_def sample_enc_def enc_cpm_def enc_rid_def
        remote_id_of_def sample_receiver_def sample_open_def sample_start_def sample_args_def str_lit_def)
  note T = typed_message_over_socket[where 'rm = nat and 'f = nat, OF utf8_contract TrueI TrueI g i f w e o TrueI r c, of "0 :: nat"]
  then show ?thesis
    unfolding Let_def by (elim exE conjE) (intro exI conjI, assumption+)
qed

end
